(* ===== verification/Prelude.thy ===== *)
theory Prelude
  imports Main "HOL-Library.Word" "HOL-Library.AList" "HOL-Library.Monad_Syntax"
begin

text \<open>
  Shared vocabulary of the development: the machine integers of Go as words, results and
  panics as values, Go maps as association lists, the byte-order functions of
  \<^verbatim>\<open>encoding/binary\<close>, and two generic interfaces. The locale \<open>wire_codec\<close> is the
  contract of a fixed-width field of a packet (how \<^verbatim>\<open>binary.Write\<close> and \<^verbatim>\<open>binary.Read\<close>
  lay a value out), and the locale \<open>step_system\<close> is the contract of a component that
  handles one event after the other and keeps an invariant.
\<close>

unbundle bit_operations_syntax

named_theorems gmap_simps \<open>lookup and domain laws of Go maps\<close>
named_theorems wf_intros \<open>invariants kept by the operations of a component\<close>

section \<open>Types\<close>

type_synonym byte = "8 word"
type_synonym u16 = "16 word"
type_synonym u32 = "32 word"
type_synonym u64 = "64 word"
type_synonym bytes = "byte list"
type_synonym hwaddr = "byte list"

text \<open>A Go panic is a value: a slice or index out of range, a nil pointer that is read, or
  an integer division by zero.\<close>

datatype go_panic = IndexOutOfRange | SliceOutOfRange | NilDereference | DivideByZero

datatype 'e fault = Crash go_panic | Err 'e

type_synonym ('e, 'a) res = "'e fault + 'a"

abbreviation Ok :: "'a \<Rightarrow> ('e, 'a) res" where "Ok x \<equiv> Inr x"
abbreviation Fail :: "'e \<Rightarrow> ('e, 'a) res" where "Fail e \<equiv> Inl (Err e)"
abbreviation Panic :: "go_panic \<Rightarrow> ('e, 'a) res" where "Panic p \<equiv> Inl (Crash p)"

definition panics :: "('e, 'a) res \<Rightarrow> bool" where
  "panics r = (case r of Inl (Crash _) \<Rightarrow> True | _ \<Rightarrow> False)"

lemma panics_simps [simp]:
  "\<not> panics (Ok x)" "\<not> panics (Fail e)" "panics (Panic p)"
  by (simp_all add: panics_def)

lemma panics_Inl: "panics (Inl f) \<longleftrightarrow> (\<exists>p. f = Crash p)"
  by (cases f) simp_all

definition res_bind :: "('e, 'a) res \<Rightarrow> ('a \<Rightarrow> ('e, 'b) res) \<Rightarrow> ('e, 'b) res" where
  "res_bind r f = (case r of Inl e \<Rightarrow> Inl e | Inr x \<Rightarrow> f x)"

lemma res_bind_simps [simp]:
  "res_bind (Inl e) f = Inl e" "res_bind (Inr x) f = f x"
  by (simp_all add: res_bind_def)

lemma res_bind_eq_Inr: "res_bind r f = Inr y \<longleftrightarrow> (\<exists>x. r = Inr x \<and> f x = Inr y)"
  by (cases r) simp_all

section \<open>Stateful code\<close>

text \<open>An operation on a state \<open>'s\<close> takes it and gives it back changed, with its result. There are
  three ways to go on: with the value of a query, after a step that may fail, and after a call
  whose error the code drops (a panic is never dropped).\<close>

type_synonym ('s, 'e, 'a) op = "'s \<Rightarrow> ('e, 'a) res \<times> 's"

definition on_ok :: "('e, 'a) res \<Rightarrow> ('a \<Rightarrow> ('s, 'e, 'b) op) \<Rightarrow> ('s, 'e, 'b) op" where
  "on_ok r f s = (case r of Inl e \<Rightarrow> (Inl e, s) | Inr x \<Rightarrow> f x s)"

definition st_then :: "('s, 'e, 'a) op \<Rightarrow> ('a \<Rightarrow> ('s, 'e, 'b) op) \<Rightarrow> ('s, 'e, 'b) op" where
  "st_then m f s = (case m s of (r, s') \<Rightarrow> on_ok r f s')"

definition st_ignore :: "('s, 'e, 'a) op \<Rightarrow> ('s, 'e, unit) op" where
  "st_ignore m s = (case m s of (Inl (Crash p), s') \<Rightarrow> (Inl (Crash p), s') | (_, s') \<Rightarrow> (Ok (), s'))"

definition err_map :: "('e \<Rightarrow> 'f) \<Rightarrow> ('e, 'a) res \<Rightarrow> ('f, 'a) res" where
  "err_map f r = (case r of Inl (Crash p) \<Rightarrow> Panic p | Inl (Err e) \<Rightarrow> Fail (f e) | Inr x \<Rightarrow> Ok x)"

lemma on_ok_simps [simp]: "on_ok (Inl e) f s = (Inl e, s)" "on_ok (Inr x) f s = f x s"
  by (simp_all add: on_ok_def)

lemma on_ok_inv: "P s \<Longrightarrow> (\<And>x. r = Inr x \<Longrightarrow> P (snd (f x s))) \<Longrightarrow> P (snd (on_ok r f s))"
  by (cases r) simp_all

lemma st_then_inv:
  "P (snd (m s)) \<Longrightarrow> (\<And>x s'. m s = (Inr x, s') \<Longrightarrow> P (snd (f x s'))) \<Longrightarrow> P (snd (st_then m f s))"
  by (cases "m s"; cases "fst (m s)") (auto simp: st_then_def)

lemma st_then_Ok [simp]: "m s = (Inr x, s') \<Longrightarrow> st_then m f s = f x s'"
  by (simp add: st_then_def)

lemma st_then_Inl [simp]: "m s = (Inl e, s') \<Longrightarrow> st_then m f s = (Inl e, s')"
  by (simp add: st_then_def)

lemma snd_st_ignore [simp]: "snd (st_ignore m s) = snd (m s)"
  by (simp add: st_ignore_def split: prod.splits sum.splits fault.splits)

lemma panics_st_ignore [simp]: "panics (fst (st_ignore m s)) = panics (fst (m s))"
  by (simp add: st_ignore_def panics_def split: prod.splits sum.splits fault.splits)

lemma st_ignore_Ok: "m s = (Inr x, s') \<Longrightarrow> st_ignore m s = (Ok (), s')"
  by (simp add: st_ignore_def)

lemma err_map_eq_Ok [simp]: "err_map f r = Inr x \<longleftrightarrow> r = Inr x"
  by (simp add: err_map_def split: sum.splits fault.splits)

lemma err_map_Ok [simp]: "err_map f (Inr x) = Inr x"
  by (simp add: err_map_def)

lemma err_map_panics [simp]: "panics (err_map f r) = panics r"
  by (simp add: err_map_def panics_def split: sum.splits fault.splits)

section \<open>Go maps\<close>

text \<open>
  A Go map is an association list with distinct keys; the order of the list is the
  iteration order of the run at hand. Theorems quantify over the whole list, so they
  hold for every iteration order.
\<close>

type_synonym ('k, 'v) gomap = "('k \<times> 'v) list"

definition gget :: "('k, 'v) gomap \<Rightarrow> 'k \<Rightarrow> 'v option" where
  "gget m k = map_of m k"

definition gput :: "('k, 'v) gomap \<Rightarrow> 'k \<Rightarrow> 'v \<Rightarrow> ('k, 'v) gomap" where
  "gput m k v = AList.update k v m"

definition gdel :: "('k, 'v) gomap \<Rightarrow> 'k \<Rightarrow> ('k, 'v) gomap" where
  "gdel m k = AList.delete k m"

definition gkeys :: "('k, 'v) gomap \<Rightarrow> 'k set" where
  "gkeys m = set (map fst m)"

definition gwf :: "('k, 'v) gomap \<Rightarrow> bool" where
  "gwf m = distinct (map fst m)"

lemma gget_empty [simp]: "gget [] k = None"
  by (simp add: gget_def)

lemma gget_gput [gmap_simps, simp]: "gget (gput m k v) k' = (if k' = k then Some v else gget m k')"
  by (simp add: gget_def gput_def update_conv')

lemma gget_gdel [gmap_simps, simp]: "gget (gdel m k) k' = (if k' = k then None else gget m k')"
  by (simp add: gget_def gdel_def delete_conv')

lemma gkeys_empty [simp]: "gkeys [] = {}"
  by (simp add: gkeys_def)

lemma gkeys_iff [gmap_simps]: "k \<in> gkeys m \<longleftrightarrow> (\<exists>v. gget m k = Some v)"
  by (auto simp: gkeys_def gget_def dom_map_of_conv_image_fst [symmetric])

lemma gget_None_iff: "gget m k = None \<longleftrightarrow> k \<notin> gkeys m"
  by (auto simp: gkeys_iff)

lemma gkeys_gput [gmap_simps, simp]: "gkeys (gput m k v) = insert k (gkeys m)"
  by (auto simp: gkeys_iff split: if_splits)

lemma gkeys_gdel [gmap_simps, simp]: "gkeys (gdel m k) = gkeys m - {k}"
  by (auto simp: gkeys_iff split: if_splits)

lemma gwf_empty [simp, wf_intros]: "gwf []"
  by (simp add: gwf_def)

lemma gwf_gput [simp, wf_intros]: "gwf m \<Longrightarrow> gwf (gput m k v)"
  by (simp add: gwf_def gput_def distinct_update)

lemma gwf_gdel [simp, wf_intros]: "gwf m \<Longrightarrow> gwf (gdel m k)"
  by (simp add: gwf_def gdel_def distinct_delete)

lemma gget_in_set: "gwf m \<Longrightarrow> (k, v) \<in> set m \<longleftrightarrow> gget m k = Some v"
  by (simp add: gwf_def gget_def)

lemma gget_SomeD: "gget m k = Some v \<Longrightarrow> (k, v) \<in> set m"
  by (simp add: gget_def map_of_SomeD)

lemma finite_gkeys [simp]: "finite (gkeys m)"
  by (simp add: gkeys_def)

lemma length_gdel_le: "length (gdel m k) \<le> length m"
  by (simp add: gdel_def length_delete_le)

section \<open>Fixed-width fields\<close>

text \<open>
  What a fixed-width field of a packet promises: it is written as \<open>w\<close> bytes, reading
  takes the first \<open>w\<close> bytes, and the two are inverse to each other in both directions.
  Fields written one after the other are read back one after the other.
\<close>

locale wire_codec =
  fixes put :: "'a \<Rightarrow> bytes" and get :: "bytes \<Rightarrow> 'a" and w :: nat
  assumes length_put: "length (put x) = w"
    and get_put: "get (put x) = x"
    and put_get: "length bs = w \<Longrightarrow> put (get bs) = bs"
begin

lemma take_put: "take w (put x @ r) = put x"
  by (simp add: length_put)

lemma drop_put: "drop w (put x @ r) = r"
  by (simp add: length_put)

lemma get_take_put: "get (take w (put x @ r)) = x"
  unfolding take_put by (rule get_put)

lemma put_inject: "put x = put y \<longleftrightarrow> x = y"
  by (metis get_put)

lemma put_get_take: "w \<le> length bs \<Longrightarrow> put (get (take w bs)) @ drop w bs = bs"
  by (simp add: put_get)

end

definition put8 :: "byte \<Rightarrow> bytes" where
  "put8 x = [x]"

definition get8 :: "bytes \<Rightarrow> byte" where
  "get8 bs = bs ! 0"

text \<open>\<^verbatim>\<open>binary.BigEndian.PutUint16\<close> and \<^verbatim>\<open>Uint16\<close>, then the 32-bit forms and the
  little-endian 64-bit forms. The readers are used on lists of exactly the right length.\<close>

definition put16 :: "u16 \<Rightarrow> bytes" where
  "put16 x = [ucast (drop_bit 8 x), ucast x]"

definition get16 :: "bytes \<Rightarrow> u16" where
  "get16 bs = push_bit 8 (ucast (bs ! 0)) OR ucast (bs ! 1)"

definition put32 :: "u32 \<Rightarrow> bytes" where
  "put32 x = [ucast (drop_bit 24 x), ucast (drop_bit 16 x), ucast (drop_bit 8 x), ucast x]"

definition get32 :: "bytes \<Rightarrow> u32" where
  "get32 bs = push_bit 24 (ucast (bs ! 0)) OR push_bit 16 (ucast (bs ! 1)) OR
     push_bit 8 (ucast (bs ! 2)) OR ucast (bs ! 3)"

definition put64le :: "u64 \<Rightarrow> bytes" where
  "put64le x = map (\<lambda>i. ucast (drop_bit (8 * i) x)) [0..<8]"

definition get64le :: "bytes \<Rightarrow> u64" where
  "get64le bs = ucast (bs ! 0) OR push_bit 8 (ucast (bs ! 1)) OR push_bit 16 (ucast (bs ! 2)) OR
     push_bit 24 (ucast (bs ! 3)) OR push_bit 32 (ucast (bs ! 4)) OR push_bit 40 (ucast (bs ! 5)) OR
     push_bit 48 (ucast (bs ! 6)) OR push_bit 56 (ucast (bs ! 7))"

lemma length_2_obtain: "length bs = 2 \<Longrightarrow> \<exists>a b. bs = [a, b]"
  by (auto simp: numeral_2_eq_2 length_Suc_conv)

lemma length_4_obtain: "length bs = 4 \<Longrightarrow> \<exists>a b c d. bs = [a, b, c, d]"
  by (auto simp: numeral_eq_Suc length_Suc_conv)

lemma byte_high_bit [simp]: "8 \<le> n \<Longrightarrow> \<not> bit (a :: byte) n"
  using bit_imp_le_length [of a n] by auto

lemma get16_put16: "get16 (put16 x) = x"
  by (rule bit_word_eqI) (auto simp: get16_def put16_def bit_simps)

lemma put16_get16: "length bs = 2 \<Longrightarrow> put16 (get16 bs) = bs"
  by (auto dest!: length_2_obtain
      simp: get16_def put16_def bit_simps intro!: bit_word_eqI)

lemma get32_put32: "get32 (put32 x) = x"
proof (rule bit_word_eqI)
  fix n assume n: "n < LENGTH(32)"
  consider "n < 8" | "8 \<le> n" "n < 16" | "16 \<le> n" "n < 24" | "24 \<le> n" "n < 32"
    using n by fastforce
  then show "bit (get32 (put32 x)) n = bit x n"
    by cases (auto simp: get32_def put32_def bit_simps)
qed

lemma put32_get32: "length bs = 4 \<Longrightarrow> put32 (get32 bs) = bs"
  by (auto dest!: length_4_obtain
      simp: get32_def put32_def bit_simps intro!: bit_word_eqI)

interpretation f8: wire_codec put8 get8 1
  by unfold_locales (auto simp: put8_def get8_def length_Suc_conv)

interpretation f16: wire_codec put16 get16 2
  by unfold_locales (simp_all add: get16_put16 put16_get16, simp add: put16_def)

interpretation f32: wire_codec put32 get32 4
  by unfold_locales (simp_all add: get32_put32 put32_get32, simp add: put32_def)


lemma length_put64le [simp]: "length (put64le x) = 8"
  by (simp add: put64le_def)

section \<open>Slices\<close>

text \<open>Go's \<^verbatim>\<open>b[i:j]\<close>: it panics when the bounds are not \<open>i \<le> j \<le> cap\<close>; here the
  capacity is the length of the list.\<close>

definition slice :: "nat \<Rightarrow> nat \<Rightarrow> 'a list \<Rightarrow> 'a list" where
  "slice i j xs = take (j - i) (drop i xs)"

definition go_slice :: "nat \<Rightarrow> nat \<Rightarrow> 'a list \<Rightarrow> ('e, 'a list) res" where
  "go_slice i j xs = (if i \<le> j \<and> j \<le> length xs then Ok (slice i j xs) else Panic SliceOutOfRange)"

definition go_index :: "'a list \<Rightarrow> nat \<Rightarrow> ('e, 'a) res" where
  "go_index xs i = (if i < length xs then Ok (xs ! i) else Panic IndexOutOfRange)"

text \<open>Go's \<^verbatim>\<open>copy(dst, src)\<close>: the first \<open>min\<close> of both lengths is overwritten.\<close>

definition go_copy :: "'a list \<Rightarrow> 'a list \<Rightarrow> 'a list" where
  "go_copy dst src = take (length dst) src @ drop (length src) dst"

lemma length_go_copy [simp]: "length (go_copy dst src) = length dst"
  by (simp add: go_copy_def)

lemma go_copy_same [simp]: "length src = length dst \<Longrightarrow> go_copy dst src = src"
  by (simp add: go_copy_def)

lemma length_slice [simp]: "j \<le> length xs \<Longrightarrow> length (slice i j xs) = j - i"
  by (simp add: slice_def)

lemma slice_append_left: "j \<le> length xs \<Longrightarrow> slice i j (xs @ ys) = slice i j xs"
  by (simp add: slice_def)

lemma slice_append_right:
  "length xs \<le> i \<Longrightarrow> slice i j (xs @ ys) = slice (i - length xs) (j - length xs) ys"
  by (simp add: slice_def)

section \<open>Systems that take one step per event\<close>

text \<open>A component that handles one event at a time, and an invariant every step keeps:
  then every run from a good state stays good.\<close>

locale step_system =
  fixes step :: "'e \<Rightarrow> 's \<Rightarrow> 's" and inv :: "'s \<Rightarrow> bool"
  assumes inv_step: "inv s \<Longrightarrow> inv (step e s)"
begin

lemma inv_run: "inv s \<Longrightarrow> inv (fold step es s)"
  by (induction es arbitrary: s) (simp_all add: inv_step)

lemma inv_along: "inv s \<Longrightarrow> inv (fold step (take n es) s)"
  by (rule inv_run)

end

end
