(* ===== verification/Gostd.thy ===== *)
theory Gostd
  imports Prelude
begin

text \<open>
  The part of Go's standard library that the repository computes with: UTF-8 decoding
  (ranging over a string), \<^verbatim>\<open>strings.TrimSpace\<close> and \<^verbatim>\<open>strings.Fields\<close>,
  prefixes, substrings and the letter case of ASCII, decimal and
  hexadecimal printing, \<^verbatim>\<open>net.HardwareAddr\<close> and \<^verbatim>\<open>net.IP\<close> with their printers and
  parsers, host:port strings and UDP addresses. A Go string is a list of characters,
  one per byte. The lemmas give the round trips (a printed hardware address is parsed
  back), injectivity of the printer, and how decoding splits at ASCII characters.
\<close>

section \<open>Runes\<close>

definition cont_byte :: "nat \<Rightarrow> bool" where
  "cont_byte c = (128 \<le> c \<and> c \<le> 191)"

definition rune_error :: nat where
  "rune_error = 65533"

text \<open>\<^verbatim>\<open>utf8.DecodeRune\<close>: the first rune and the number of bytes it takes.\<close>

fun decode_rune :: "nat list \<Rightarrow> nat \<times> nat" where
  "decode_rune [] = (rune_error, 0)"
| "decode_rune (b0 # bs) =
     (if b0 < 128 then (b0, 1)
      else if 194 \<le> b0 \<and> b0 \<le> 223 then
        (case bs of
           b1 # _ \<Rightarrow> if cont_byte b1 then (b0 mod 32 * 64 + b1 mod 64, 2) else (rune_error, 1)
         | _ \<Rightarrow> (rune_error, 1))
      else if 224 \<le> b0 \<and> b0 \<le> 239 then
        (case bs of
           b1 # b2 # _ \<Rightarrow>
             if (if b0 = 224 then 160 else 128) \<le> b1 \<and> b1 \<le> (if b0 = 237 then 159 else 191)
                \<and> cont_byte b2
             then (b0 mod 16 * 4096 + b1 mod 64 * 64 + b2 mod 64, 3) else (rune_error, 1)
         | _ \<Rightarrow> (rune_error, 1))
      else if 240 \<le> b0 \<and> b0 \<le> 244 then
        (case bs of
           b1 # b2 # b3 # _ \<Rightarrow>
             if (if b0 = 240 then 144 else 128) \<le> b1 \<and> b1 \<le> (if b0 = 244 then 143 else 191)
                \<and> cont_byte b2 \<and> cont_byte b3
             then (b0 mod 8 * 262144 + b1 mod 64 * 4096 + b2 mod 64 * 64 + b3 mod 64, 4)
             else (rune_error, 1)
         | _ \<Rightarrow> (rune_error, 1))
      else (rune_error, 1))"

lemma decode_rune_size: "1 \<le> snd (decode_rune (b # bs))"
  by (auto split: list.splits)

text \<open>The runes of a string, each with the bytes it was decoded from.\<close>

function runes :: "string \<Rightarrow> (nat \<times> string) list" where
  "runes [] = []"
| "runes (c # s) =
     (let (r, n) = decode_rune (map of_char (c # s))
      in (r, take n (c # s)) # runes (drop n (c # s)))"
  by pat_completeness auto
termination
proof (relation "measure length")
  fix c :: char and s :: string and x r n
  assume "x = decode_rune (map of_char (c # s))" and "(r, n) = x"
  then have "1 \<le> n"
    using decode_rune_size [of "of_char c" "map of_char s"] by (metis list.simps(9) snd_conv)
  then show "(drop n (c # s), c # s) \<in> measure length" by simp
qed simp

definition ascii :: "string \<Rightarrow> bool" where
  "ascii s = (\<forall>c \<in> set s. (of_char c :: nat) < 128)"

lemma runes_ascii: "ascii s \<Longrightarrow> runes s = map (\<lambda>c. (of_char c, [c])) s"
  by (induction s) (auto simp: ascii_def)

lemma concat_runes: "concat (map snd (runes s)) = s"
proof (induction s rule: runes.induct)
  case (2 c s)
  obtain r n where rn: "decode_rune (map of_char (c # s)) = (r, n)" by fastforce
  then have "concat (map snd (runes (drop n (c # s)))) = drop n (c # s)" using 2 by metis
  moreover have "runes (c # s) = (r, take n (c # s)) # runes (drop n (c # s))"
    using rn by (simp del: decode_rune.simps)
  ultimately show ?case by (metis append_take_drop_id concat.simps(2) list.simps(9) snd_conv)
qed simp

text \<open>An ASCII character never belongs to a longer sequence, so decoding splits there.\<close>

lemma decode_rune_ascii_stop:
  "c < 128 \<Longrightarrow> a \<noteq> [] \<Longrightarrow> decode_rune (a @ c # b) = decode_rune a"
  by (cases a) (auto simp: cont_byte_def split: list.splits)

lemma decode_rune_le: "snd (decode_rune a) \<le> length a"
  by (cases a) (auto split: list.splits)

lemma runes_append_ascii:
  assumes c: "(of_char c :: nat) < 128"
  shows "runes (a @ c # b) = runes a @ runes (c # b)"
proof (induction a rule: runes.induct)
  case (2 x s)
  obtain r n where rn: "decode_rune (map of_char (x # s)) = (r, n)" by fastforce
  have "decode_rune (map of_char ((x # s) @ c # b)) = (r, n)"
    using decode_rune_ascii_stop [OF c, of "map of_char (x # s)" "map of_char b"] rn by simp
  then have l: "runes ((x # s) @ c # b) =
      (r, take n ((x # s) @ c # b)) # runes (drop n ((x # s) @ c # b))"
    by (simp del: decode_rune.simps)
  moreover have n: "n \<le> length (x # s)"
    using decode_rune_le [of "map of_char (x # s)"] rn by (simp del: decode_rune.simps)
  then have "take n ((x # s) @ c # b) = take n (x # s)"
      "drop n ((x # s) @ c # b) = drop n (x # s) @ c # b"
    by (metis append_Nil2 diff_is_0_eq take0 take_append, metis append_Nil diff_is_0_eq drop0 drop_append)
  moreover have "runes (drop n (x # s) @ c # b) = runes (drop n (x # s)) @ runes (c # b)"
    using 2 rn by metis
  moreover have "runes (x # s) = (r, take n (x # s)) # runes (drop n (x # s))"
    using rn by (simp del: decode_rune.simps)
  ultimately show ?case by (metis append_Cons)
qed simp

lemma runes_Cons_ascii [simp]:
  "(of_char c :: nat) < 128 \<Longrightarrow> runes (c # s) = (of_char c, [c]) # runes s"
  by simp

declare runes.simps(2) [simp del]

text \<open>\<^verbatim>\<open>unicode.IsSpace\<close>.\<close>

definition is_space :: "nat \<Rightarrow> bool" where
  "is_space r = ((9 \<le> r \<and> r \<le> 13) \<or> r = 32 \<or> r = 133 \<or> r = 160 \<or> r = 5760 \<or>
     (8192 \<le> r \<and> r \<le> 8202) \<or> r = 8232 \<or> r = 8233 \<or> r = 8239 \<or> r = 8287 \<or> r = 12288)"

definition trim_runes :: "(nat \<times> string) list \<Rightarrow> (nat \<times> string) list" where
  "trim_runes rs = rev (dropWhile (is_space \<circ> fst) (rev (dropWhile (is_space \<circ> fst) rs)))"

definition TrimSpace :: "string \<Rightarrow> string" where
  "TrimSpace s = concat (map snd (trim_runes (runes s)))"

fun fields_aux :: "(nat \<times> string) list \<Rightarrow> string \<Rightarrow> string list" where
  "fields_aux [] cur = (if cur = [] then [] else [cur])"
| "fields_aux ((r, c) # rs) cur =
     (if is_space r then (if cur = [] then fields_aux rs [] else cur # fields_aux rs [])
      else fields_aux rs (cur @ c))"

definition Fields :: "string \<Rightarrow> string list" where
  "Fields s = fields_aux (runes s) []"

definition nospace :: "string \<Rightarrow> bool" where
  "nospace s = (\<forall>(r, _) \<in> set (runes s). \<not> is_space r)"

lemma nospace_Nil [simp]: "nospace []"
  by (simp add: nospace_def)

lemma fields_aux_nospace:
  "\<forall>(r, _) \<in> set rs. \<not> is_space r \<Longrightarrow>
     fields_aux (rs @ rs') cur = fields_aux rs' (cur @ concat (map snd rs))"
  by (induction rs arbitrary: cur) auto

lemma fields_aux_word:
  "\<forall>(r, _) \<in> set rs. \<not> is_space r \<Longrightarrow> cur @ concat (map snd rs) \<noteq> [] \<Longrightarrow>
     fields_aux rs cur = [cur @ concat (map snd rs)]"
  using fields_aux_nospace [of rs "[]" cur] by auto

lemma Fields_word: "nospace w \<Longrightarrow> w \<noteq> [] \<Longrightarrow> Fields w = [w]"
  using fields_aux_word [of "runes w" "[]"] by (simp add: Fields_def nospace_def concat_runes)

lemma Fields_word_sep:
  assumes "nospace w" "w \<noteq> []" "(of_char c :: nat) < 128" "is_space (of_char c)"
  shows "Fields (w @ c # s) = w # Fields s"
proof -
  have "fields_aux (runes w @ runes (c # s)) [] = fields_aux (runes (c # s)) w"
    using fields_aux_nospace [of "runes w" "runes (c # s)" "[]"] assms(1)
    by (simp add: nospace_def concat_runes)
  then show ?thesis
    using assms by (simp add: Fields_def runes_append_ascii)
qed

lemma dropWhile_hd: "xs \<noteq> [] \<Longrightarrow> \<not> P (hd xs) \<Longrightarrow> dropWhile P xs = xs"
  by (cases xs) auto

lemma trim_runes_id:
  "rs \<noteq> [] \<Longrightarrow> \<not> is_space (fst (hd rs)) \<Longrightarrow> \<not> is_space (fst (last rs)) \<Longrightarrow> trim_runes rs = rs"
  by (simp add: trim_runes_def dropWhile_hd hd_rev)

lemma runes_eq_Nil [simp]: "runes s = [] \<longleftrightarrow> s = []"
  by (metis concat.simps(1) concat_runes list.simps(8) runes.simps(1))

lemma TrimSpace_nospace: "nospace s \<Longrightarrow> TrimSpace s = s"
proof (cases "s = []")
  case False
  assume "nospace s"
  then have "trim_runes (runes s) = runes s"
    using False by (intro trim_runes_id) (auto simp: nospace_def split_beta)
  then show ?thesis by (simp add: TrimSpace_def concat_runes)
qed (simp add: TrimSpace_def trim_runes_def)

text \<open>Trimming cuts at rune boundaries, so what it leaves is trimmed.\<close>

lemma snd_if_le: "snd (if c then (x, n) else (y, k)) \<le> m \<longleftrightarrow> ((c \<longrightarrow> n \<le> m) \<and> (\<not> c \<longrightarrow> k \<le> m))" for n k m :: nat
  by simp

lemma decode_rune_prefix:
  assumes "snd (decode_rune (b0 # a @ b)) \<le> Suc (length a)"
  shows "decode_rune (b0 # a) = decode_rune (b0 # a @ b)"
proof -
  consider "b0 < 128" | "194 \<le> b0 \<and> b0 \<le> 223" | "224 \<le> b0 \<and> b0 \<le> 239" | "240 \<le> b0 \<and> b0 \<le> 244"
    | "\<not> b0 < 128" "\<not> (194 \<le> b0 \<and> b0 \<le> 223)" "\<not> (224 \<le> b0 \<and> b0 \<le> 239)" "\<not> (240 \<le> b0 \<and> b0 \<le> 244)" by linarith
  then show ?thesis
  proof cases
    case 1
    then show ?thesis by (simp only: decode_rune.simps if_True)
  next
    case 2
    then have n: "(b0 < 128) = False" by simp
    show ?thesis
      using assms unfolding decode_rune.simps n if_False if_P [OF 2]
      by (cases a; cases b) (simp_all split del: if_split split: if_split_asm)
  next
    case 3
    then have n: "(b0 < 128) = False" "(194 \<le> b0 \<and> b0 \<le> 223) = False" by simp_all
    show ?thesis
      using assms unfolding decode_rune.simps n if_False if_P [OF 3]
      by (cases a; cases "tl a"; cases b; cases "tl b")
         (simp_all split del: if_split add: snd_if_le, auto)
  next
    case 4
    then have n: "(b0 < 128) = False" "(194 \<le> b0 \<and> b0 \<le> 223) = False" "(224 \<le> b0 \<and> b0 \<le> 239) = False" by simp_all
    show ?thesis
      using assms unfolding decode_rune.simps n if_False if_P [OF 4]
      by (cases a; cases "tl a"; cases "tl (tl a)"; cases b; cases "tl b"; cases "tl (tl b)")
         (simp_all split del: if_split add: snd_if_le, auto)
  next
    case 5
    then show ?thesis by (simp only: decode_rune.simps if_False)
  qed
qed
lemma runes_step: "s \<noteq> [] \<Longrightarrow> decode_rune (map of_char s) = (r, n) \<Longrightarrow> runes s = (r, take n s) # runes (drop n s)"
  by (cases s) (auto simp: runes.simps(2) simp del: decode_rune.simps)

lemma runes_bytes_not_Nil: "(r, c) \<in> set (runes s) \<Longrightarrow> c \<noteq> []"
proof (induction s rule: runes.induct)
  case (2 x s)
  obtain r' n where d: "decode_rune (map of_char (x # s)) = (r', n)" by fastforce
  then have "1 \<le> n" using decode_rune_size [of "of_char x" "map of_char s"] by (simp del: decode_rune.simps)
  then show ?case using 2 runes_step [OF _ d] d by (auto simp del: decode_rune.simps)
qed simp

text \<open>Decoding a run of whole runes of a string again gives these runes.\<close>

lemma runes_prefix: "runes s = q @ post \<Longrightarrow> runes (concat (map snd q)) = q"
proof (induction s arbitrary: q rule: runes.induct)
  case (2 x s)
  obtain r n where d: "decode_rune (map of_char (x # s)) = (r, n)" by fastforce
  have e: "runes (x # s) = (r, take n (x # s)) # runes (drop n (x # s))" using runes_step [OF _ d] by simp
  show ?case
  proof (cases q)
    case (Cons y q')
    then have q: "y = (r, take n (x # s))" "runes (drop n (x # s)) = q' @ post" using 2(2) e by simp_all
    have IH: "runes (concat (map snd q')) = q'" using 2(1) [OF _ refl q(2)] d by (simp del: decode_rune.simps)
    let ?t = "concat (map snd q')" let ?u = "take n (x # s) @ ?t"
    have n: "1 \<le> n" "n \<le> length (x # s)"
      using decode_rune_size [of "of_char x" "map of_char s"] decode_rune_le [of "map of_char (x # s)"] d
      by (simp_all del: decode_rune.simps)
    have "x # s = take n (x # s) @ ?t @ concat (map snd post)"
      using concat_runes [of "drop n (x # s)"] q(2) by simp
    then obtain b where b: "x # s = ?u @ b" by (metis append.assoc)
    have ne: "?u \<noteq> []" using n by auto
    have "decode_rune (map of_char ?u) = (r, n)"
    proof -
      have l: "n \<le> length ?u" using n by simp
      have "decode_rune (map of_char ?u @ map of_char b) = (r, n)" using d b by (metis map_append)
      then show ?thesis using decode_rune_prefix [of "hd (map of_char ?u)" "tl (map of_char ?u)" "map of_char b"] l ne
        by (cases ?u) (simp_all del: decode_rune.simps)
    qed
    from runes_step [OF ne this] have "runes ?u = (r, take n ?u) # runes (drop n ?u)" .
    moreover have "take n ?u = take n (x # s)" "drop n ?u = ?t" using n by simp_all
    ultimately show ?thesis using Cons q(1) IH by simp
  qed simp
qed simp

lemma runes_suffix: "runes s = pre @ q \<Longrightarrow> runes (concat (map snd q)) = q"
proof (induction pre arbitrary: s)
  case Nil
  then show ?case using concat_runes [of s] by simp
next
  case (Cons y pre)
  have ne: "s \<noteq> []" using Cons.prems by auto
  obtain r n where d: "decode_rune (map of_char s) = (r, n)" by fastforce
  then show ?case using Cons runes_step [OF ne d] by auto
qed

lemma runes_middle: "runes s = pre @ q @ post \<Longrightarrow> runes (concat (map snd q)) = q"
  using runes_suffix [of s pre "q @ post"] runes_prefix [of "concat (map snd (q @ post))" q post] by simp

lemma trim_runes_middle: "\<exists>pre post. rs = pre @ trim_runes rs @ post"
proof -
  let ?p = "is_space \<circ> fst" let ?m = "dropWhile ?p rs"
  have "rs = takeWhile ?p rs @ ?m" by simp
  moreover have "?m = rev (dropWhile ?p (rev ?m)) @ rev (takeWhile ?p (rev ?m))"
    by (metis rev_append rev_rev_ident takeWhile_dropWhile_id)
  ultimately show ?thesis unfolding trim_runes_def by metis
qed

lemma runes_TrimSpace: "runes (TrimSpace s) = trim_runes (runes s)"
  using trim_runes_middle [of "runes s"] runes_middle unfolding TrimSpace_def by metis

lemma trim_runes_ends:
  assumes "trim_runes rs \<noteq> []"
  shows "\<not> is_space (fst (hd (trim_runes rs)))" "\<not> is_space (fst (last (trim_runes rs)))"
proof -
  let ?p = "is_space \<circ> fst" let ?m = "dropWhile ?p rs" let ?d = "dropWhile ?p (rev ?m)"
  have t: "trim_runes rs = rev ?d" by (simp add: trim_runes_def)
  have d: "?d \<noteq> []" using assms t by simp
  then show "\<not> is_space (fst (last (trim_runes rs)))" using hd_dropWhile [OF d] t by (simp add: last_rev)
  have m: "?m \<noteq> []" using d by (metis dropWhile.simps(1) rev.simps(1))
  have "rev ?m = takeWhile ?p (rev ?m) @ ?d" by simp
  then have "last (rev ?m) = last ?d" using d by (metis last_appendR)
  then have "hd ?m = hd (trim_runes rs)" using t m d by (simp add: last_rev hd_rev)
  then show "\<not> is_space (fst (hd (trim_runes rs)))" using hd_dropWhile [OF m] by simp
qed

lemma TrimSpace_idem: "TrimSpace (TrimSpace s) = TrimSpace s"
proof (cases "trim_runes (runes s) = []")
  case False
  then have "trim_runes (trim_runes (runes s)) = trim_runes (runes s)" by (intro trim_runes_id trim_runes_ends)
  then show ?thesis using runes_TrimSpace [of s] by (simp add: TrimSpace_def)
next
  case True
  then have "TrimSpace s = []" by (simp add: TrimSpace_def)
  moreover have "TrimSpace [] = []" by (simp add: TrimSpace_def trim_runes_def)
  ultimately show ?thesis by simp
qed

lemma fields_aux_not_Nil: "cur \<noteq> [] \<Longrightarrow> fields_aux rs cur \<noteq> []"
  by (induction rs cur rule: fields_aux.induct) auto

lemma Fields_TrimSpace_not_Nil:
  assumes "TrimSpace s \<noteq> []"
  shows "Fields (TrimSpace s) \<noteq> []"
proof -
  have "trim_runes (runes s) \<noteq> []" using assms by (auto simp: TrimSpace_def)
  then obtain r c rs where t: "trim_runes (runes s) = (r, c) # rs" by (metis list.exhaust prod.exhaust)
  then have "\<not> is_space r" "c \<noteq> []"
    using trim_runes_ends(1) [of "runes s"] runes_bytes_not_Nil [of r c "TrimSpace s"] runes_TrimSpace [of s] by simp_all
  then show ?thesis using t runes_TrimSpace [of s] by (simp add: Fields_def fields_aux_not_Nil)
qed

text \<open>The functions of \<^verbatim>\<open>strings\<close> that look for a part of a string.\<close>

definition HasPrefix :: "string \<Rightarrow> string \<Rightarrow> bool" where
  "HasPrefix s p = (take (length p) s = p)"

definition TrimPrefix :: "string \<Rightarrow> string \<Rightarrow> string" where
  "TrimPrefix s p = (if HasPrefix s p then drop (length p) s else s)"

fun Contains :: "string \<Rightarrow> string \<Rightarrow> bool" where
  "Contains [] p = (p = [])"
| "Contains (c # s) p = (HasPrefix (c # s) p \<or> Contains s p)"

text \<open>The letter case of ASCII.\<close>

definition lower_ascii :: "char \<Rightarrow> char" where
  "lower_ascii c = (let n = (of_char c :: nat) in if 65 \<le> n \<and> n \<le> 90 then char_of (n + 32) else c)"

definition upper_ascii :: "char \<Rightarrow> char" where
  "upper_ascii c = (let n = (of_char c :: nat) in if 97 \<le> n \<and> n \<le> 122 then char_of (n - 32) else c)"

lemma unat_of_char [simp]: "unat (of_char c :: byte) = (of_char c :: nat)"
proof -
  have l: "(of_char c :: nat) < 2 ^ LENGTH(8)" using nat_of_char_less_256 [of c] by simp
  have "(of_char c :: byte) = of_nat (of_char c :: nat)" by (rule of_nat_of_char [symmetric])
  then have "unat (of_char c :: byte) = take_bit LENGTH(8) (of_char c :: nat)" by (simp only: unsigned_of_nat of_nat_id)
  then show ?thesis using l by (simp only: take_bit_nat_eq_self)
qed
section \<open>Printing numbers\<close>

fun nat_digits :: "nat \<Rightarrow> string" where
  "nat_digits n = (if n < 10 then [char_of (48 + n)] else nat_digits (n div 10) @ [char_of (48 + n mod 10)])"

declare nat_digits.simps [simp del]

definition itoa :: "int \<Rightarrow> string" where
  "itoa i = (if i < 0 then CHR ''-'' # nat_digits (nat (- i)) else nat_digits (nat i))"

definition is_digit :: "char \<Rightarrow> bool" where
  "is_digit c = (48 \<le> (of_char c :: nat) \<and> (of_char c :: nat) \<le> 57)"

definition digits_val :: "string \<Rightarrow> nat" where
  "digits_val s = foldl (\<lambda>v c. v * 10 + (of_char c - 48)) 0 s"

lemma nat_digits_is_digit: "\<forall>c \<in> set (nat_digits n). is_digit c"
proof (induction n rule: nat_digits.induct)
  case (1 n)
  show ?case
  proof (cases "n < 10")
    case True
    then show ?thesis by (simp add: nat_digits.simps [of n] is_digit_def)
  next
    case False
    with 1 show ?thesis by (auto simp: nat_digits.simps [of n] is_digit_def)
  qed
qed

lemma nat_digits_nonempty [simp]: "nat_digits n \<noteq> []"
  by (subst nat_digits.simps) simp

lemma digits_val_nat_digits [simp]: "digits_val (nat_digits n) = n"
proof (induction n rule: nat_digits.induct)
  case (1 n)
  then show ?case by (cases "n < 10") (simp_all add: nat_digits.simps [of n] digits_val_def)
qed

section \<open>Hardware addresses\<close>

definition hexdigit :: "nat \<Rightarrow> char" where
  "hexdigit n = (if n < 10 then char_of (48 + n) else char_of (87 + n))"

definition hexval :: "char \<Rightarrow> nat option" where
  "hexval c = (let n = of_char c in
     if 48 \<le> n \<and> n \<le> 57 then Some (n - 48)
     else if 97 \<le> n \<and> n \<le> 102 then Some (n - 87)
     else if 65 \<le> n \<and> n \<le> 70 then Some (n - 55)
     else None)"

lemma hexval_hexdigit [simp]: "n < 16 \<Longrightarrow> hexval (hexdigit n) = Some n"
  by (auto simp: hexval_def hexdigit_def Let_def)

definition hex2 :: "byte \<Rightarrow> string" where
  "hex2 b = [hexdigit (unat b div 16), hexdigit (unat b mod 16)]"

text \<open>\<^verbatim>\<open>net.HardwareAddr.String\<close>: lower-case hexadecimal, colon separated.\<close>

fun mac_string :: "hwaddr \<Rightarrow> string" where
  "mac_string [] = []"
| "mac_string [b] = hex2 b"
| "mac_string (b # bs) = hex2 b @ CHR '':'' # mac_string bs"

text \<open>\<^verbatim>\<open>xtoi2\<close>: two hexadecimal digits, followed by the separator or by the end.\<close>

definition hex_byte :: "char \<Rightarrow> char \<Rightarrow> byte option" where
  "hex_byte a b = (case (hexval a, hexval b) of
     (Some x, Some y) \<Rightarrow> Some (of_nat (16 * x + y)) | _ \<Rightarrow> None)"

fun xtoi2 :: "string \<Rightarrow> char \<Rightarrow> byte option" where
  "xtoi2 [a, b] e = hex_byte a b"
| "xtoi2 (a # b # c # _) e = (if c = e then hex_byte a b else None)"
| "xtoi2 _ e = None"

fun mac_groups2 :: "nat \<Rightarrow> char \<Rightarrow> string \<Rightarrow> hwaddr option" where
  "mac_groups2 0 e s = Some []"
| "mac_groups2 (Suc n) e s = (case xtoi2 s e of
     None \<Rightarrow> None
   | Some b \<Rightarrow> map_option ((#) b) (mac_groups2 n e (drop 3 s)))"

fun mac_groups4 :: "nat \<Rightarrow> string \<Rightarrow> hwaddr option" where
  "mac_groups4 0 s = Some []"
| "mac_groups4 (Suc n) s = (case (xtoi2 (take 2 s) (char_of (0 :: nat)), xtoi2 (drop 2 s) (CHR ''.'')) of
     (Some a, Some b) \<Rightarrow> map_option (\<lambda>r. a # b # r) (mac_groups4 n (drop 5 s))
   | _ \<Rightarrow> None)"

definition mac_size :: "nat \<Rightarrow> bool" where
  "mac_size n = (n = 6 \<or> n = 8 \<or> n = 20)"

definition ParseMAC :: "string \<Rightarrow> hwaddr option" where
  "ParseMAC s =
    (if length s < 14 then None
     else if s ! 2 = CHR '':'' \<or> s ! 2 = CHR ''-'' then
       (if (length s + 1) mod 3 \<noteq> 0 \<or> \<not> mac_size ((length s + 1) div 3) then None
        else mac_groups2 ((length s + 1) div 3) (s ! 2) s)
     else if s ! 4 = CHR ''.'' then
       (if (length s + 1) mod 5 \<noteq> 0 \<or> \<not> mac_size (2 * (length s + 1) div 5) then None
        else mac_groups4 ((length s + 1) div 5) s)
     else None)"

lemma unat_byte_lt [simp]: "unat (b :: byte) < 256"
  using unsigned_less [of b] by simp

lemma unat_byte_nibbles [simp]: "unat (b :: byte) div 16 < 16" "unat b mod 16 < 16"
  using unat_byte_lt [of b] by (simp_all add: less_mult_imp_div_less)

lemma hex_byte_hex2: "hex_byte (hexdigit (unat b div 16)) (hexdigit (unat b mod 16)) = Some b"
proof -
  have "16 * (unat b div 16) + unat b mod 16 = unat b" by simp
  then show ?thesis by (simp only: hex_byte_def hexval_hexdigit unat_byte_nibbles option.case prod.case) simp
qed

lemma length_mac_string: "bs \<noteq> [] \<Longrightarrow> Suc (length (mac_string bs)) = 3 * length bs"
  by (induction bs rule: mac_string.induct) (auto simp: hex2_def)

lemma xtoi2_hex2:
  "xtoi2 (hex2 b) e = Some b" "xtoi2 (hex2 b @ e # s) e = Some b" "drop 3 (hex2 b @ e # s) = s"
  by (simp_all add: hex2_def hex_byte_hex2)

lemma mac_groups2_mac_string: "mac_groups2 (length bs) (CHR '':'') (mac_string bs) = Some bs"
proof (induction bs rule: mac_string.induct)
  case (3 b b' bs)
  have "mac_groups2 (length (b # b' # bs)) (CHR '':'') (mac_string (b # b' # bs)) =
      map_option ((#) b) (mac_groups2 (length (b' # bs)) (CHR '':'') (mac_string (b' # bs)))"
    by (simp only: mac_string.simps(3) list.size(4) add_Suc_right add_0_right One_nat_def mac_groups2.simps(2) xtoi2_hex2 option.case)
  then show ?case by (simp only: 3 option.map)
qed (simp_all add: xtoi2_hex2)

lemma mac_string_nth2: "2 \<le> length bs \<Longrightarrow> mac_string bs ! 2 = CHR '':''"
  by (cases bs rule: mac_string.cases) (simp_all add: hex2_def)

lemma ParseMAC_mac_string:
  assumes "mac_size (length bs)"
  shows "ParseMAC (mac_string bs) = Some bs"
proof -
  have b: "6 \<le> length bs" using assms by (auto simp: mac_size_def)
  then have l: "Suc (length (mac_string bs)) = 3 * length bs"
    by (intro length_mac_string) auto
  then have "\<not> length (mac_string bs) < 14" "(length (mac_string bs) + 1) mod 3 = 0"
      "(length (mac_string bs) + 1) div 3 = length bs"
    using b by auto
  then show ?thesis
    using b assms by (simp add: ParseMAC_def mac_string_nth2 mac_groups2_mac_string)
qed

lemma mac_string_inject: "mac_string a = mac_string b \<longleftrightarrow> a = b"
proof
  assume eq: "mac_string a = mac_string b"
  have "length a = length b"
  proof (cases "a = [] \<or> b = []")
    case True
    then have "mac_string a = [] \<and> mac_string b = []" using eq by auto
    then show ?thesis using length_mac_string [of a] length_mac_string [of b]
      by (cases "a = []"; cases "b = []"; simp; arith)
  next
    case False
    then show ?thesis using eq length_mac_string [of a] length_mac_string [of b] by simp
  qed
  then show "a = b"
    using mac_groups2_mac_string [of a] mac_groups2_mac_string [of b] eq by (metis option.inject)
qed simp

end
