(* ===== verification/Netaddr.thy ===== *)
theory Netaddr
  imports Gostd
begin

text \<open>
  IP addresses and socket addresses of Go's \<^verbatim>\<open>net\<close> and \<^verbatim>\<open>net/netip\<close> packages, as the
  repository uses them: the 4 and 16 byte forms of \<^verbatim>\<open>net.IP\<close>, their printers and the
  parser \<^verbatim>\<open>net.ParseIP\<close>, and the host:port strings that serve as map keys. The lemmas show
  that a dotted quad is parsed back to the address that was printed and that the
  host and port of a printed IPv4 socket address are recovered.
\<close>

section \<open>IP addresses\<close>

type_synonym ip_addr = bytes

definition v4_prefix :: bytes where
  "v4_prefix = replicate 10 0 @ [0xff, 0xff]"

text \<open>\<^verbatim>\<open>IP.To4\<close>, with \<^verbatim>\<open>nil\<close> for an address that has no 4 byte form.\<close>

definition To4 :: "ip_addr \<Rightarrow> ip_addr option" where
  "To4 ip = (if length ip = 4 then Some ip
     else if length ip = 16 \<and> take 12 ip = v4_prefix then Some (drop 12 ip)
     else None)"

definition ip_equal :: "ip_addr \<Rightarrow> ip_addr \<Rightarrow> bool" where
  "ip_equal a b =
     (if length a = length b then a = b
      else if length a = 4 \<and> length b = 16 then take 12 b = v4_prefix \<and> a = drop 12 b
      else if length a = 16 \<and> length b = 4 then take 12 a = v4_prefix \<and> b = drop 12 a
      else False)"

fun join_with :: "char \<Rightarrow> string list \<Rightarrow> string" where
  "join_with e [] = []"
| "join_with e [x] = x"
| "join_with e (x # xs) = x @ e # join_with e xs"

definition dotted :: "ip_addr \<Rightarrow> string" where
  "dotted ip = join_with (CHR ''.'') (map (nat_digits \<circ> unat) ip)"

fun hex_nat :: "nat \<Rightarrow> string" where
  "hex_nat n = (if n < 16 then [hexdigit n] else hex_nat (n div 16) @ [hexdigit (n mod 16)])"

declare hex_nat.simps [simp del]

fun groups16 :: "ip_addr \<Rightarrow> nat list" where
  "groups16 (a # b # r) = (256 * unat a + unat b) # groups16 r"
| "groups16 _ = []"

text \<open>The first longest run of at least two zero groups, as its start and end.\<close>

definition zero_run :: "nat list \<Rightarrow> nat \<Rightarrow> nat" where
  "zero_run g i = length (takeWhile (\<lambda>x. x = 0) (drop i g))"

fun longest_run :: "nat list \<Rightarrow> nat list \<Rightarrow> nat \<times> nat \<Rightarrow> nat \<times> nat" where
  "longest_run g [] best = best"
| "longest_run g (i # is) (s, e) =
     (if 2 \<le> zero_run g i \<and> e - s < zero_run g i then longest_run g is (i, i + zero_run g i)
      else longest_run g is (s, e))"

definition v6_string :: "ip_addr \<Rightarrow> string" where
  "v6_string ip =
     (let g = groups16 ip; (s, e) = longest_run g [0..<8] (255, 255);
          hx = (\<lambda>l. join_with (CHR '':'') (map hex_nat l))
      in if s = 255 then hx g else hx (take s g) @ ''::'' @ hx (drop e g))"

definition ip_string :: "ip_addr \<Rightarrow> string" where
  "ip_string ip =
     (if ip = [] then ''<nil>''
      else if length ip \<noteq> 4 \<and> length ip \<noteq> 16 then CHR ''?'' # concat (map hex2 ip)
      else case To4 ip of Some v4 \<Rightarrow> dotted v4 | None \<Rightarrow> v6_string ip)"

section \<open>Parsing\<close>

fun split_at :: "char \<Rightarrow> string \<Rightarrow> string list" where
  "split_at e [] = [[]]"
| "split_at e (c # s) = (if c = e then [] # split_at e s
     else case split_at e s of x # xs \<Rightarrow> (c # x) # xs | [] \<Rightarrow> [[c]])"

definition parse_octet :: "string \<Rightarrow> byte option" where
  "parse_octet s =
     (if s \<noteq> [] \<and> (\<forall>c \<in> set s. is_digit c) \<and> (length s = 1 \<or> hd s \<noteq> CHR ''0'') \<and> digits_val s \<le> 255
      then Some (of_nat (digits_val s)) else None)"

definition parse_v4 :: "string \<Rightarrow> ip_addr option" where
  "parse_v4 s = (case map parse_octet (split_at (CHR ''.'') s) of
     [Some a, Some b, Some c, Some d] \<Rightarrow> Some [a, b, c, d] | _ \<Rightarrow> None)"

definition hex_prefix :: "string \<Rightarrow> string" where
  "hex_prefix s = takeWhile (\<lambda>c. hexval c \<noteq> None) s"

definition hex_num :: "string \<Rightarrow> nat" where
  "hex_num s = foldl (\<lambda>v c. v * 16 + the (hexval c)) 0 s"

text \<open>
  The loop of \<^verbatim>\<open>parseIPv6\<close>: at most \<open>k\<close> more groups, the bytes so far, the position of
  the ellipsis, the rest of the input. The result also says what was left unread.
\<close>

fun v6_loop :: "nat \<Rightarrow> bytes \<Rightarrow> nat option \<Rightarrow> string \<Rightarrow> (bytes \<times> nat option \<times> string) option" where
  "v6_loop 0 bs ell s = Some (bs, ell, s)"
| "v6_loop (Suc k) bs ell s =
     (let d = hex_prefix s; r = drop (length d) s; v = hex_num d
      in if d = [] \<or> 4 < length d then None
         else if r \<noteq> [] \<and> hd r = CHR ''.'' then
           (if ell = None \<and> length bs \<noteq> 12 then None
            else if 16 < length bs + 4 then None
            else case parse_v4 s of None \<Rightarrow> None | Some q \<Rightarrow> Some (bs @ q, ell, []))
         else
           (let bs' = bs @ [of_nat (v div 256), of_nat (v mod 256)]
            in case r of
                 [] \<Rightarrow> Some (bs', ell, [])
               | c # r' \<Rightarrow>
                   if c \<noteq> CHR '':'' \<or> r' = [] then None
                   else if hd r' = CHR '':'' then
                     (if ell \<noteq> None then None
                      else if tl r' = [] then Some (bs', Some (length bs'), [])
                      else v6_loop k bs' (Some (length bs')) (tl r'))
                   else v6_loop k bs' ell r'))"

definition parse_v6 :: "string \<Rightarrow> ip_addr option" where
  "parse_v6 s =
     (let lead = (take 2 s = ''::''); t = (if lead then drop 2 s else s)
      in if lead \<and> t = [] then Some (replicate 16 0)
         else case v6_loop 8 [] (if lead then Some 0 else None) t of
           None \<Rightarrow> None
         | Some (bs, ell, rest) \<Rightarrow>
             if rest \<noteq> [] then None
             else case ell of
               None \<Rightarrow> if length bs < 16 then None else Some bs
             | Some e \<Rightarrow> if length bs < 16
                 then Some (take e bs @ replicate (16 - length bs) 0 @ drop e bs) else None)"

text \<open>
  \<^verbatim>\<open>netip.ParseAddr\<close> on a string without a zone: the first of \<open>.\<close> and \<open>:\<close> decides the
  family. The two callers never get past a zone: \<^verbatim>\<open>net.ParseIP\<close> rejects it, and
  \<^verbatim>\<open>IP.String\<close> never prints one.
\<close>

definition ParseAddr :: "string \<Rightarrow> ip_addr option" where
  "ParseAddr s =
     (if CHR ''%'' \<in> set s then None
      else case dropWhile (\<lambda>c. c \<noteq> CHR ''.'' \<and> c \<noteq> CHR '':'') s of
        [] \<Rightarrow> None
      | c # _ \<Rightarrow> if c = CHR ''.'' then parse_v4 s else parse_v6 s)"

definition ParseIP :: "string \<Rightarrow> ip_addr option" where
  "ParseIP s = map_option (\<lambda>a. if length a = 4 then v4_prefix @ a else a) (ParseAddr s)"

text \<open>\<^verbatim>\<open>net.ParseCIDR\<close>: the address as 16 bytes, the length of the prefix and the mask, which has the size
  of the family that is written.\<close>

definition cidr_mask :: "nat \<Rightarrow> nat \<Rightarrow> bytes" where
  "cidr_mask n len = map (\<lambda>i. let k = min 8 (n - 8 * i) in push_bit (8 - k) (mask k)) [0..<len]"

definition ParseCIDR :: "string \<Rightarrow> (ip_addr \<times> nat \<times> bytes) option" where
  "ParseCIDR s =
     (let addr = takeWhile (\<lambda>c. c \<noteq> CHR ''/'') s; m = drop (Suc (length addr)) s in
      if addr = s then None
      else case ParseAddr addr of
        None \<Rightarrow> None
      | Some a \<Rightarrow>
          if m \<noteq> [] \<and> (\<forall>c \<in> set m. is_digit c) \<and> digits_val m \<le> 8 * length a
          then Some (if length a = 4 then v4_prefix @ a else a, digits_val m, cidr_mask (digits_val m) (length a))
          else None)"

lemma split_at_nonempty [simp]: "split_at e s \<noteq> []"
  by (induction s) (auto split: list.splits)

lemma split_at_append:
  "e \<notin> set x \<Longrightarrow> split_at e (x @ e # s) = x # split_at e s"
  by (induction x) auto

lemma split_at_word: "e \<notin> set x \<Longrightarrow> split_at e x = [x]"
  by (induction x) auto

lemma split_at_join:
  "xs \<noteq> [] \<Longrightarrow> \<forall>x \<in> set xs. e \<notin> set x \<Longrightarrow> split_at e (join_with e xs) = xs"
  by (induction e xs rule: join_with.induct) (simp_all add: split_at_word split_at_append)

lemma digit_neq: "is_digit c \<Longrightarrow> c \<noteq> CHR ''.'' \<and> c \<noteq> CHR '':'' \<and> c \<noteq> CHR ''%'' \<and> c \<noteq> CHR ''['' \<and> c \<noteq> CHR '']''"
  by (auto simp: is_digit_def)

lemma nat_digits_no_lead: "10 \<le> n \<Longrightarrow> hd (nat_digits n) \<noteq> CHR ''0''"
proof (induction n rule: nat_digits.induct)
  case (1 n)
  show ?case
  proof (cases "n div 10 < 10")
    case True
    have "of_char (char_of (48 + n div 10) :: char) = 48 + n div 10" using True by simp
    moreover have "of_char (CHR ''0'') = (48 :: nat)" by simp
    ultimately have "(char_of (48 + n div 10) :: char) \<noteq> CHR ''0''"
      using 1(2) by (metis add_cancel_left_right div_eq_0_iff not_less zero_neq_numeral)
    then show ?thesis
      using 1(2) True by (simp add: nat_digits.simps [of n] nat_digits.simps [of "n div 10"])
  next
    case False
    then show ?thesis using 1 by (simp add: nat_digits.simps [of n])
  qed
qed

lemma parse_octet_nat_digits: "parse_octet (nat_digits (unat b)) = Some b"
proof -
  have "length (nat_digits (unat b)) = 1 \<or> hd (nat_digits (unat b)) \<noteq> CHR ''0''"
    using nat_digits_no_lead [of "unat b"]
    by (cases "unat b < 10") (simp_all add: nat_digits.simps [of "unat b"])
  moreover have "unat b \<le> 255" using unat_byte_lt [of b] by linarith
  ultimately show ?thesis
    using nat_digits_is_digit [of "unat b"] by (simp add: parse_octet_def)
qed

lemma parse_v4_dotted: "length ip = 4 \<Longrightarrow> parse_v4 (dotted ip) = Some ip"
proof -
  assume l: "length ip = 4"
  then have "split_at (CHR ''.'') (dotted ip) = map (nat_digits \<circ> unat) ip"
    unfolding dotted_def using nat_digits_is_digit digit_neq by (intro split_at_join) fastforce+
  moreover obtain a b c d where "ip = [a, b, c, d]" using length_4_obtain [OF l] by blast
  ultimately show ?thesis by (simp add: parse_v4_def parse_octet_nat_digits)
qed

text \<open>A printed 4 byte address, alone or inside the mapped 16 byte form, is read back.\<close>

lemma set_join_with: "set (join_with e xs) \<subseteq> {e} \<union> (\<Union>x \<in> set xs. set x)"
  by (induction e xs rule: join_with.induct) auto

lemma set_dotted: "c \<in> set (dotted ip) \<Longrightarrow> c = CHR ''.'' \<or> is_digit c"
  using set_join_with [of "CHR ''.''" "map (nat_digits \<circ> unat) ip"] nat_digits_is_digit
  by (fastforce simp: dotted_def)

lemma dotted_has_dot: "2 \<le> length ip \<Longrightarrow> CHR ''.'' \<in> set (dotted ip)"
  by (cases ip rule: mac_string.cases) (simp_all add: dotted_def)

lemma dropWhile_first:
  "e \<in> set s \<Longrightarrow> (\<forall>c \<in> set s. P c \<or> c = e) \<Longrightarrow> \<not> P e \<Longrightarrow> \<exists>r. dropWhile P s = e # r"
  by (induction s) auto

lemma ParseAddr_dotted: "length ip = 4 \<Longrightarrow> ParseAddr (dotted ip) = Some ip"
proof -
  assume l: "length ip = 4"
  have "\<exists>r. dropWhile (\<lambda>c. c \<noteq> CHR ''.'' \<and> c \<noteq> CHR '':'') (dotted ip) = CHR ''.'' # r"
    using dotted_has_dot [of ip] l set_dotted [of _ ip] digit_neq
    by (intro dropWhile_first) fastforce+
  moreover have "CHR ''%'' \<notin> set (dotted ip)"
    using set_dotted [of "CHR ''%''" ip] digit_neq by auto
  ultimately show ?thesis using parse_v4_dotted [OF l] by (auto simp: ParseAddr_def)
qed

lemma ParseIP_dotted: "length ip = 4 \<Longrightarrow> ParseIP (dotted ip) = Some (v4_prefix @ ip)"
  by (simp add: ParseIP_def ParseAddr_dotted)

lemma To4_mapped: "length ip = 4 \<Longrightarrow> To4 (v4_prefix @ ip) = Some ip"
  by (simp add: To4_def v4_prefix_def)

lemma ip_string_v4: "length ip = 4 \<Longrightarrow> ip_string ip = dotted ip"
  by (auto simp: ip_string_def To4_def)

lemma ip_equal_mapped: "length ip = 4 \<Longrightarrow> ip_equal (v4_prefix @ ip) ip"
  by (simp add: ip_equal_def v4_prefix_def)

lemma ip_equal_refl [simp]: "ip_equal a a"
  by (simp add: ip_equal_def)

lemma length_parse_v4: "parse_v4 s = Some ip \<Longrightarrow> length ip = 4"
  by (auto simp: parse_v4_def split: list.splits option.splits)

text \<open>A parsed address has four bytes or sixteen.\<close>

lemma length_v6_loop:
  "v6_loop k bs ell s = Some (bs', ell', r) \<Longrightarrow> length bs + 2 * k \<le> 16 \<Longrightarrow> length bs' \<le> 16"
proof (induction k bs ell s rule: v6_loop.induct)
  case (2 k bs ell s)
  show ?case
    using 2(3,4) 2(1) [OF refl refl refl] 2(2) [OF refl refl refl]
    by (auto simp: Let_def split: if_splits list.splits option.splits dest: length_parse_v4)
qed auto

lemma length_parse_v6: "parse_v6 s = Some a \<Longrightarrow> length a = 16"
  by (auto simp: parse_v6_def Let_def min_def split: if_splits option.splits dest!: length_v6_loop)

lemma length_ParseAddr: "ParseAddr s = Some a \<Longrightarrow> length a = 4 \<or> length a = 16"
  by (auto simp: ParseAddr_def split: if_splits list.splits dest: length_parse_v4 length_parse_v6)

lemma length_ParseCIDR: "ParseCIDR s = Some (ip, n, m) \<Longrightarrow> length ip = 16"
  by (auto simp: ParseCIDR_def Let_def v4_prefix_def split: if_splits option.splits dest!: length_ParseAddr)

section \<open>Socket addresses\<close>

text \<open>\<^verbatim>\<open>net.JoinHostPort\<close>, and \<^verbatim>\<open>net.SplitHostPort\<close> with its errors as \<^term>\<open>None\<close>.\<close>

definition JoinHostPort :: "string \<Rightarrow> string \<Rightarrow> string" where
  "JoinHostPort host port =
     (if CHR '':'' \<in> set host then CHR ''['' # host @ '']:'' @ port else host @ CHR '':'' # port)"

text \<open>The part before and the part after the last colon.\<close>

definition last_colon :: "string \<Rightarrow> (string \<times> string) option" where
  "last_colon s =
     (if CHR '':'' \<notin> set s then None
      else Some (rev (tl (dropWhile (\<lambda>c. c \<noteq> CHR '':'') (rev s))),
                 rev (takeWhile (\<lambda>c. c \<noteq> CHR '':'') (rev s))))"

definition SplitHostPort :: "string \<Rightarrow> (string \<times> string) option" where
  "SplitHostPort s =
     (case last_colon s of
        None \<Rightarrow> None
      | Some (before, port) \<Rightarrow>
          if hd s = CHR ''['' then
            (let host = takeWhile (\<lambda>c. c \<noteq> CHR '']'') (tl s)
             in if CHR '']'' \<in> set (tl s) \<and> before = CHR ''['' # host @ '']''
                   \<and> CHR ''['' \<notin> set (tl s) \<and> CHR '']'' \<notin> set port
                then Some (host, port) else None)
          else if CHR '':'' \<in> set before \<or> CHR ''['' \<in> set s \<or> CHR '']'' \<in> set s then None
          else Some (before, port))"

record udp_addr =
  uIP :: ip_addr
  uPort :: int

text \<open>\<^verbatim>\<open>UDPAddr.String\<close>; \<open>None\<close> is the nil pointer.\<close>

definition udp_string :: "udp_addr option \<Rightarrow> string" where
  "udp_string a = (case a of
     None \<Rightarrow> ''<nil>''
   | Some u \<Rightarrow> JoinHostPort (if uIP u = [] then [] else ip_string (uIP u)) (itoa (uPort u)))"

text \<open>
  \<^verbatim>\<open>net.LookupPort\<close> for the network \<^verbatim>\<open>udp\<close>. A decimal number stands for itself; the port
  of a service name comes from the host's services table, which is a parameter.
\<close>

definition parse_port :: "string \<Rightarrow> int option" where
  "parse_port s =
     (let neg = (s \<noteq> [] \<and> hd s = CHR ''-''); t = (if s \<noteq> [] \<and> (hd s = CHR ''-'' \<or> hd s = CHR ''+'') then tl s else s)
      in if (\<forall>c \<in> set t. is_digit c)
         then Some (if neg then - int (digits_val t) else int (digits_val t)) else None)"

definition LookupPort :: "(string \<Rightarrow> int option) \<Rightarrow> string \<Rightarrow> int option" where
  "LookupPort services s =
     (case (case parse_port s of None \<Rightarrow> services s | Some n \<Rightarrow> Some n) of
        None \<Rightarrow> None
      | Some n \<Rightarrow> if 0 \<le> n \<and> n \<le> 65535 then Some n else None)"

lemma span_at:
  "e \<notin> set a \<Longrightarrow> takeWhile (\<lambda>c. c \<noteq> e) (a @ e # b) = a \<and> dropWhile (\<lambda>c. c \<noteq> e) (a @ e # b) = e # b"
  by (induction a) auto

lemma last_colon_append:
  "CHR '':'' \<notin> set p \<Longrightarrow> last_colon (h @ CHR '':'' # p) = Some (h, p)"
  using span_at [of "CHR '':''" "rev p" "rev h"] by (simp add: last_colon_def)

lemma SplitHostPort_v4:
  assumes "length ip = 4" "0 \<le> n"
  shows "SplitHostPort (udp_string (Some \<lparr>uIP = ip, uPort = n\<rparr>)) = Some (dotted ip, nat_digits (nat n))"
proof -
  have d: "c \<in> set (dotted ip) \<Longrightarrow> c \<noteq> CHR '':'' \<and> c \<noteq> CHR ''['' \<and> c \<noteq> CHR '']''" for c
    using set_dotted [of c ip] digit_neq by auto
  have p: "c \<in> set (nat_digits m) \<Longrightarrow> c \<noteq> CHR '':'' \<and> c \<noteq> CHR ''['' \<and> c \<noteq> CHR '']''" for c m
    using nat_digits_is_digit [of m] digit_neq by auto
  have ne: "dotted ip \<noteq> []" using dotted_has_dot [of ip] assms(1) by auto
  have "udp_string (Some \<lparr>uIP = ip, uPort = n\<rparr>) = dotted ip @ CHR '':'' # nat_digits (nat n)"
    using assms d by (auto simp: udp_string_def JoinHostPort_def ip_string_v4 itoa_def)
  moreover have "last_colon (dotted ip @ CHR '':'' # nat_digits (nat n)) = Some (dotted ip, nat_digits (nat n))"
    using p by (intro last_colon_append) auto
  moreover have "hd (dotted ip @ CHR '':'' # nat_digits (nat n)) \<noteq> CHR ''[''"
    using d ne by (metis hd_append2 hd_in_set)
  ultimately show ?thesis using d p by (auto simp: SplitHostPort_def)
qed

lemma parse_port_nat_digits [simp]: "parse_port (nat_digits n) = Some (int n)"
  using nat_digits_is_digit [of n] digits_val_nat_digits [of n]
  by (cases "nat_digits n") (auto simp: parse_port_def is_digit_def)

lemma udp_string_v4_inject:
  assumes "length (uIP a) = 4" "length (uIP b) = 4" "0 \<le> uPort a" "0 \<le> uPort b"
    and eq: "udp_string (Some a) = udp_string (Some b)"
  shows "uIP a = uIP b \<and> uPort a = uPort b"
proof -
  have "\<lparr>uIP = uIP a, uPort = uPort a\<rparr> = a" "\<lparr>uIP = uIP b, uPort = uPort b\<rparr> = b" by simp_all
  then have "(dotted (uIP a), nat_digits (nat (uPort a))) = (dotted (uIP b), nat_digits (nat (uPort b)))"
    using SplitHostPort_v4 [of "uIP a" "uPort a"] SplitHostPort_v4 [of "uIP b" "uPort b"] assms
    by (metis option.inject)
  then show ?thesis
    using parse_v4_dotted [OF assms(1)] parse_v4_dotted [OF assms(2)] assms(3,4)
      digits_val_nat_digits [of "nat (uPort a)"] digits_val_nat_digits [of "nat (uPort b)"]
    by (metis Pair_inject eq_nat_nat_iff option.inject)
qed

text \<open>
  The implementations of \<^verbatim>\<open>net.Addr\<close> that reach the repository's code: the UDP and TCP
  addresses of the library, and the supernode's own \<^verbatim>\<open>wssAddr\<close>, a connection name.
\<close>

datatype net_addr = UDPAddr udp_addr | TCPAddr udp_addr | WSSAddr string

fun addr_string :: "net_addr \<Rightarrow> string" where
  "addr_string (UDPAddr u) = udp_string (Some u)"
| "addr_string (TCPAddr u) = udp_string (Some u)"
| "addr_string (WSSAddr c) = c"

end
