(* ===== verification/Sha256.thy ===== *)
theory Sha256
  imports Prelude
begin

text \<open>
  \<^verbatim>\<open>sha256.Sum256\<close> of Go's standard library, which the network allocator and the key
  derivation of the payload encryption call: FIPS 180-4 on byte lists. The library lemma
  is that a digest has 32 bytes.
\<close>

text \<open>The constants, from their meaning in the standard: the first 32 bits of the fractional
  parts of the cube roots of the first 64 primes and of the square roots of the first
  eight. \<open>int_root k n b r\<close> sets the bits below \<open>b\<close> of the integer root \<open>r\<close> one by one.\<close>

fun int_root :: "nat \<Rightarrow> int \<Rightarrow> nat \<Rightarrow> int \<Rightarrow> int" where
  "int_root k n 0 r = r"
| "int_root k n (Suc b) r = int_root k n b (if (r + 2 ^ b) ^ k \<le> n then r + 2 ^ b else r)"

definition root_fraction :: "nat \<Rightarrow> int \<Rightarrow> u32" where
  "root_fraction k p = of_int (int_root k (p * 2 ^ (32 * k)) 37 0)"

definition first_primes :: "nat \<Rightarrow> int list" where
  "first_primes n = take n (filter (\<lambda>p. \<forall>d \<in> set [2..p - 1]. p mod d \<noteq> 0) [2..311])"

definition sha_k :: "u32 list" where
  "sha_k = map (root_fraction 3) (first_primes 64)"

definition sha_init :: "u32 list" where
  "sha_init = map (root_fraction 2) [2, 3, 5, 7, 11, 13, 17, 19]"

definition rotr :: "nat \<Rightarrow> u32 \<Rightarrow> u32" where
  "rotr n x = drop_bit n x OR push_bit (32 - n) x"

definition small0 :: "u32 \<Rightarrow> u32" where
  "small0 x = rotr 7 x XOR rotr 18 x XOR drop_bit 3 x"

definition small1 :: "u32 \<Rightarrow> u32" where
  "small1 x = rotr 17 x XOR rotr 19 x XOR drop_bit 10 x"

definition big0 :: "u32 \<Rightarrow> u32" where
  "big0 x = rotr 2 x XOR rotr 13 x XOR rotr 22 x"

definition big1 :: "u32 \<Rightarrow> u32" where
  "big1 x = rotr 6 x XOR rotr 11 x XOR rotr 25 x"

definition sha_pad :: "bytes \<Rightarrow> bytes" where
  "sha_pad m = (let n = length m; bits = (of_nat (8 * n) :: u64) in
     m @ [0x80] @ replicate ((119 - n mod 64) mod 64) 0 @ rev (put64le bits))"

fun words_be :: "bytes \<Rightarrow> u32 list" where
  "words_be (a # b # c # d # r) = get32 [a, b, c, d] # words_be r"
| "words_be _ = []"

text \<open>The message schedule, one word per call, on the list of the words so far.\<close>

definition schedule_word :: "u32 list \<Rightarrow> u32 list" where
  "schedule_word w = (let t = length w in
     w @ [small1 (w ! (t - 2)) + w ! (t - 7) + small0 (w ! (t - 15)) + w ! (t - 16)])"

definition schedule :: "u32 list \<Rightarrow> u32 list" where
  "schedule block = (schedule_word ^^ 48) block"

fun sha_round :: "u32 list \<Rightarrow> u32 \<times> u32 \<Rightarrow> u32 list" where
  "sha_round [a, b, c, d, e, f, g, h] (k, w) =
     (let t1 = h + big1 e + ((e AND f) XOR (NOT e AND g)) + k + w;
          t2 = big0 a + ((a AND b) XOR (a AND c) XOR (b AND c))
      in [t1 + t2, a, b, c, d + t1, e, f, g])"
| "sha_round s _ = s"

definition sha_block :: "u32 list \<Rightarrow> u32 list \<Rightarrow> u32 list" where
  "sha_block s block = map2 (+) s (foldl sha_round s (zip sha_k (schedule block)))"

fun sha_blocks :: "nat \<Rightarrow> u32 list \<Rightarrow> u32 list \<Rightarrow> u32 list" where
  "sha_blocks 0 s w = s"
| "sha_blocks (Suc n) s w = sha_blocks n (sha_block s (take 16 w)) (drop 16 w)"

definition Sum256 :: "bytes \<Rightarrow> bytes" where
  "Sum256 m = (let p = sha_pad m in concat (map put32 (sha_blocks (length p div 64) sha_init (words_be p))))"

lemma length_sha_round [simp]: "length (sha_round s kw) = length s"
  by (cases "(s, kw)" rule: sha_round.cases) (simp_all add: Let_def)

lemma length_sha_rounds: "length (foldl sha_round s kws) = length s"
  by (induction kws arbitrary: s) simp_all

lemma length_sha_blocks: "length (sha_blocks n s w) = length s"
  by (induction n s w rule: sha_blocks.induct) (simp_all add: sha_block_def length_sha_rounds)

lemma length_concat_put32: "length (concat (map put32 ws)) = 4 * length ws"
  by (induction ws) (simp_all add: f32.length_put)

lemma length_Sum256 [simp]: "length (Sum256 m) = 32"
  by (simp add: Sum256_def Let_def length_concat_put32 length_sha_blocks sha_init_def)

end
