(* ===== verification/Machine.thy ===== *)
theory Machine
  imports Gostd
begin

text \<open>
  Machine identity (\<^verbatim>\<open>pkg/machine\<close>): the machine id that is created once, kept in a file and
  cached, and the hardware address that edge and supernode both derive from it. The
  lemmas show that the id survives a restart, that edge and supernode compute the same
  address, and that the address is a unicast, locally administered one.
\<close>

section \<open>The keyed hash\<close>

definition str_bytes :: "string \<Rightarrow> bytes" where
  "str_bytes s = map of_char s"

definition HASH_KEY :: bytes where
  "HASH_KEY = [0xd3, 0x1e, 0x48, 0xfa, 0x90, 0xfe, 0x4b, 0x4c, 0x9d, 0xaf, 0xd5, 0xd7, 0xa1, 0xb1, 0x2e, 0x8a]"

type_synonym sip_state = "u64 \<times> u64 \<times> u64 \<times> u64"

definition rotl :: "nat \<Rightarrow> u64 \<Rightarrow> u64" where
  "rotl n v = push_bit n v OR drop_bit (64 - n) v"

text \<open>The mixing that the loop body and the finish share, statement by statement.\<close>

definition sip_mix :: "sip_state \<Rightarrow> sip_state" where
  "sip_mix = (\<lambda>(v0, v1, v2, v3).
     let v0 = v0 + v1;
         v2 = v2 + v3;
         v1 = rotl 13 v1;
         v3 = rotl 15 v3;
         v0 = v0 XOR v3;
         v2 = v2 XOR v1;
         v1 = v1 + v2;
         v3 = v3 + v0;
         v2 = rotl 5 v2;
         v0 = rotl 10 v0;
         v3 = v3 XOR v1;
         v2 = v2 XOR v0
     in (v0, v1, v2, v3))"

definition sip_byte :: "sip_state \<Rightarrow> byte \<Rightarrow> sip_state" where
  "sip_byte = (\<lambda>(v0, v1, v2, v3) k. sip_mix (v0, v1, v2, v3 XOR ucast k))"

definition sip_init :: "bytes \<Rightarrow> sip_state" where
  "sip_init seed =
     (let v0 = get64le (slice 0 8 seed); v1 = get64le (slice 8 16 seed)
      in (v0, v1, v0 XOR 0x736f6d6570736575, v1 XOR 0x646f72616e646f6d))"

definition notSipHash24 :: "bytes \<Rightarrow> bytes \<Rightarrow> u64" where
  "notSipHash24 key seed =
     (let (v0, v1, v2, v3) = sip_mix (foldl sip_byte (sip_init seed) key)
      in v0 XOR v1 XOR v2 XOR v3)"

section \<open>Hardware addresses from machine ids\<close>

definition markRandomMAC :: "hwaddr \<Rightarrow> hwaddr" where
  "markRandomMAC mac = (case mac of [] \<Rightarrow> [] | b # r \<Rightarrow> (b OR 0x02) # r)"

definition clear_multicast :: "hwaddr \<Rightarrow> hwaddr" where
  "clear_multicast mac = (case mac of [] \<Rightarrow> [] | b # r \<Rightarrow> (b AND 0xfe) # r)"

definition extGenerateMac :: "bytes \<Rightarrow> string \<Rightarrow> bytes \<Rightarrow> u64 \<Rightarrow> hwaddr" where
  "extGenerateMac machineIDBytes idString hashKey idx =
     (let data = machineIDBytes @ str_bytes idString;
          data = (if idx > 0 then data @ put64le idx else data);
          result = notSipHash24 data hashKey;
          mac = take 6 (put64le result)
      in clear_multicast (markRandomMAC mac))"

definition ExtGenerateMac :: "string \<Rightarrow> bytes \<Rightarrow> hwaddr" where
  "ExtGenerateMac communityName machineIDBytes = extGenerateMac machineIDBytes communityName HASH_KEY 12345"

section \<open>The machine id\<close>

text \<open>
  The state of the package: the content of the file \<^verbatim>\<open>~/.n2n-go/machine-id\<close> and the cache.
  Of the environment, \<open>rnd\<close> are the 16 random bytes (\<^term>\<open>None\<close> when the generator fails),
  \<open>writable\<close> and \<open>readable\<close> say whether writing and reading the file succeed.
  A call to \<^verbatim>\<open>log.Fatalf\<close> ends the process and is the error \<open>MachineFatal\<close>.
\<close>

record machine_state =
  msFile :: "string option"
  machineIdCache :: "bytes option"

record machine_env =
  rnd :: "bytes option"
  writable :: bool
  readable :: bool

datatype machine_error = MachineFatal | CannotDecodeMachineID | UnableToGetMachineID

definition hex_encode :: "bytes \<Rightarrow> string" where
  "hex_encode bs = concat (map hex2 bs)"

fun hex_decode :: "string \<Rightarrow> bytes option" where
  "hex_decode [] = Some []"
| "hex_decode [c] = None"
| "hex_decode (a # b # s) = (case hex_byte a b of None \<Rightarrow> None | Some x \<Rightarrow> map_option ((#) x) (hex_decode s))"

definition ensureMachineID :: "machine_env \<Rightarrow> machine_state \<Rightarrow> (machine_error, machine_state) res" where
  "ensureMachineID env s =
     (case msFile s of
        Some _ \<Rightarrow> Ok s
      | None \<Rightarrow> (case rnd env of
          None \<Rightarrow> Fail MachineFatal
        | Some bs \<Rightarrow> if writable env then Ok (s\<lparr>msFile := Some (hex_encode bs)\<rparr>) else Fail MachineFatal))"

definition GetMachineID :: "machine_env \<Rightarrow> machine_state \<Rightarrow> (machine_error, bytes \<times> machine_state) res" where
  "GetMachineID env s0 =
     res_bind (ensureMachineID env s0) (\<lambda>s.
       case machineIdCache s of
         Some c \<Rightarrow> Ok (c, s)
       | None \<Rightarrow>
           (case msFile s of
              None \<Rightarrow> Fail UnableToGetMachineID
            | Some content \<Rightarrow>
                if \<not> readable env then Fail UnableToGetMachineID
                else let idStr = TrimSpace content in
                  if length idStr = 32 then
                    (case hex_decode idStr of
                       None \<Rightarrow> Fail CannotDecodeMachineID
                     | Some d \<Rightarrow> Ok (d, s\<lparr>machineIdCache := Some d\<rparr>))
                  else Fail UnableToGetMachineID))"

definition netGenerateMac ::
  "machine_env \<Rightarrow> machine_state \<Rightarrow> string \<Rightarrow> bytes \<Rightarrow> u64 \<Rightarrow> (machine_error, hwaddr \<times> machine_state) res" where
  "netGenerateMac env s idString hashKey idx =
     res_bind (GetMachineID env s) (\<lambda>(machineIDBytes, s').
       let data = machineIDBytes @ str_bytes idString;
           data = (if idx > 0 then data @ put64le idx else data);
           result = notSipHash24 data hashKey;
           mac = take 6 (put64le result)
       in Ok (clear_multicast (markRandomMAC mac), s'))"

definition GenerateMac :: "machine_env \<Rightarrow> machine_state \<Rightarrow> string \<Rightarrow> (machine_error, hwaddr \<times> machine_state) res" where
  "GenerateMac env s communityName = netGenerateMac env s communityName HASH_KEY 12345"

section \<open>Lemmas\<close>

lemma length_clear_mark: "length (clear_multicast (markRandomMAC m)) = length m"
  by (simp add: clear_multicast_def markRandomMAC_def split: list.splits)

lemma length_extGenerateMac: "length (extGenerateMac m c k i) = 6"
  by (simp add: extGenerateMac_def Let_def length_clear_mark)

lemma length_ExtGenerateMac [simp]: "length (ExtGenerateMac c m) = 6"
  by (simp add: ExtGenerateMac_def length_extGenerateMac)

lemma unicast_local_byte: "(((b :: byte) OR 0x02) AND 0xfe) AND 0x03 = 0x02"
proof (rule bit_word_eqI)
  fix n assume "n < LENGTH(8)"
  then have "n < 8" by simp
  then consider "n = 0" | "n = 1" | "n = 2" | "n = 3" | "n = 4" | "n = 5" | "n = 6" | "n = 7" by linarith
  then show "bit (((b OR 0x02) AND 0xfe) AND 0x03) n = bit (0x02 :: byte) n"
    by cases (auto simp: bit_simps bit_numeral_rec)
qed

lemma clear_mark_first:
  "m \<noteq> [] \<Longrightarrow> (clear_multicast (markRandomMAC m)) ! 0 AND 0x03 = 0x02"
  by (auto simp: clear_multicast_def markRandomMAC_def neq_Nil_conv unicast_local_byte)

lemma extGenerateMac_first: "extGenerateMac m c k i ! 0 AND 0x03 = 0x02"
proof -
  have "take 6 (put64le r) \<noteq> []" for r
    by (metis One_nat_def length_put64le list.size(3) take_eq_Nil zero_neq_numeral)
  then show ?thesis by (simp add: extGenerateMac_def Let_def clear_mark_first)
qed

lemma hex_decode_encode: "hex_decode (hex_encode bs) = Some bs"
  by (induction bs) (simp_all add: hex_encode_def hex2_def hex_byte_hex2)

lemma length_hex_encode: "length (hex_encode bs) = 2 * length bs"
  by (induction bs) (simp_all add: hex_encode_def hex2_def)

lemma of_char_hexdigit: "n < 16 \<Longrightarrow> (of_char (hexdigit n) :: nat) = (if n < 10 then 48 + n else 87 + n)"
  by (simp add: hexdigit_def)

lemma set_hex_encode: "c \<in> set (hex_encode bs) \<Longrightarrow> \<exists>n < 16. c = hexdigit n"
  by (induction bs) (auto simp: hex_encode_def hex2_def intro: unat_byte_nibbles)

lemma TrimSpace_hex_encode: "TrimSpace (hex_encode bs) = hex_encode bs"
proof (rule TrimSpace_nospace)
  have a: "(of_char c :: nat) < 128 \<and> \<not> is_space (of_char c)" if "c \<in> set (hex_encode bs)" for c
    using set_hex_encode [OF that] by (auto simp: of_char_hexdigit is_space_def split: if_splits)
  then have "ascii (hex_encode bs)" by (auto simp: ascii_def)
  then show "nospace (hex_encode bs)" using a by (auto simp: nospace_def runes_ascii)
qed

lemma GetMachineID_fresh:
  assumes "msFile s = None" "machineIdCache s = None" "rnd env = Some bs" "length bs = 16"
    and "writable env" "readable env"
  shows "GetMachineID env s = Ok (bs, s\<lparr>msFile := Some (hex_encode bs), machineIdCache := Some bs\<rparr>)"
  using assms by (simp add: GetMachineID_def ensureMachineID_def TrimSpace_hex_encode length_hex_encode
      hex_decode_encode Let_def)

lemma GetMachineID_stored:
  assumes "msFile s = Some (hex_encode bs)" "length bs = 16"
    and "machineIdCache s = None \<or> machineIdCache s = Some bs" "readable env"
  shows "GetMachineID env s = Ok (bs, s\<lparr>machineIdCache := Some bs\<rparr>)"
  using assms by (cases s) (auto simp: GetMachineID_def ensureMachineID_def TrimSpace_hex_encode
      length_hex_encode hex_decode_encode Let_def)

section \<open>Properties of the machine identity\<close>

text \<open>The machine id is created once and survives a restart: when there is no id yet, the
  16 random bytes become the id, and every later call, with the cache kept or lost and
  whatever the random generator returns by then, gives the same id.\<close>

theorem machine_id_is_stable:
  assumes "msFile s = None" "machineIdCache s = None" "rnd env = Some bs" "length bs = 16"
    and "writable env" "readable env" "readable env'"
  shows "\<exists>s'. GetMachineID env s = Ok (bs, s') \<and>
    (\<exists>s''. GetMachineID env' s' = Ok (bs, s'')) \<and>
    (\<exists>s''. GetMachineID env' (s'\<lparr>machineIdCache := None\<rparr>) = Ok (bs, s''))"
  using GetMachineID_fresh [OF assms(1-6)]
    GetMachineID_stored [of "s\<lparr>msFile := Some (hex_encode bs), machineIdCache := Some bs\<rparr>" bs env']
    GetMachineID_stored [of "s\<lparr>msFile := Some (hex_encode bs), machineIdCache := None\<rparr>" bs env'] assms
  by auto

definition sample_machine_env :: machine_env where
  "sample_machine_env = \<lparr>rnd = Some (replicate 16 0xa5), writable = True, readable = True\<rparr>"

theorem machine_id_is_stable_witness:
  "\<exists>s'. GetMachineID sample_machine_env \<lparr>msFile = None, machineIdCache = None\<rparr> = Ok (replicate 16 0xa5, s') \<and>
    (\<exists>s''. GetMachineID (sample_machine_env\<lparr>rnd := None\<rparr>) s' = Ok (replicate 16 0xa5, s'')) \<and>
    (\<exists>s''. GetMachineID (sample_machine_env\<lparr>rnd := None\<rparr>) (s'\<lparr>machineIdCache := None\<rparr>) = Ok (replicate 16 0xa5, s''))"
  by (rule machine_id_is_stable) (simp_all add: sample_machine_env_def)

text \<open>The address an edge derives for itself is the one the supernode derives from the
  machine id it was sent: whenever the edge's id is \<open>bs\<close>, \<open>GenerateMac\<close> returns
  \<open>ExtGenerateMac\<close> of the community and \<open>bs\<close>.\<close>

theorem edge_and_supernode_agree_on_mac:
  "GenerateMac env s com =
     (case GetMachineID env s of Inl e \<Rightarrow> Inl e | Inr (bs, s') \<Rightarrow> Ok (ExtGenerateMac com bs, s'))"
  by (simp add: GenerateMac_def netGenerateMac_def ExtGenerateMac_def extGenerateMac_def res_bind_def
      Let_def split: sum.splits)

text \<open>C16. A generated hardware address has six bytes, is locally administered and is not a
  multicast address, for every community and every machine id.\<close>

theorem generated_mac_local_unicast:
  "length (ExtGenerateMac com bs) = 6 \<and> ExtGenerateMac com bs ! 0 AND 0x03 = 0x02"
  by (simp add: ExtGenerateMac_def length_extGenerateMac extGenerateMac_first)

text \<open>The machine id and the community name are hashed without a separator: moving a
  prefix of the community name to the end of the machine id gives the same address in the
  other community.\<close>

theorem generated_mac_no_separator:
  "ExtGenerateMac (a @ b) m = ExtGenerateMac b (m @ str_bytes a)"
  by (simp add: ExtGenerateMac_def extGenerateMac_def str_bytes_def Let_def)

end
