(* ===== verification/Network.thy ===== *)
theory Network
  imports Netaddr Sha256 Machine
begin

text \<open>
  The network allocator of the supernode (\<^verbatim>\<open>pkg/supernode/network.go\<close>): the virtual network
  proposed for a community. The property is what the allocator really computes: the
  base network itself, for every community.
\<close>

section \<open>Masks and prefixes\<close>

text \<open>\<^verbatim>\<open>net.CIDRMask(ones, 32)\<close>, with the empty list for nil.\<close>

definition mask_byte :: "nat \<Rightarrow> byte" where
  "mask_byte n = (if 8 \<le> n then 0xff else NOT (drop_bit n 0xff))"

definition CIDRMask :: "int \<Rightarrow> bytes" where
  "CIDRMask ones =
     (if ones < 0 \<or> 32 < ones then []
      else let n = nat ones in [mask_byte n, mask_byte (n - 8), mask_byte (n - 16), mask_byte (n - 24)])"

text \<open>\<^verbatim>\<open>IPMask.Size\<close>: the number of leading ones of a canonical mask, and 0 otherwise.\<close>

definition mask_bits :: "bytes \<Rightarrow> bool list" where
  "mask_bits m = concat (map (\<lambda>b. map (\<lambda>i. bit b (7 - i)) [0..<8]) m)"

definition mask_ones :: "bytes \<Rightarrow> nat" where
  "mask_ones m = (let bs = mask_bits m; n = length (takeWhile id bs)
     in if list_all Not (drop n bs) then n else 0)"

record prefix =
  pfAddr :: ip_addr
  pfBits :: nat

text \<open>\<^verbatim>\<open>netip.Addr.Prefix\<close> of a 4 byte address: it keeps the first \<open>n\<close> bits of the address.\<close>

definition addr_Prefix :: "ip_addr \<Rightarrow> nat \<Rightarrow> prefix option" where
  "addr_Prefix ip n =
     (if 32 < n then None else Some \<lparr>pfAddr = put32 (get32 ip AND NOT (mask (32 - n))), pfBits = n\<rparr>)"

section \<open>The allocator\<close>

record NetworkAllocator =
  baseNetwork :: ip_addr
  naMask :: bytes

definition NewNetworkAllocator :: "ip_addr \<Rightarrow> bytes \<Rightarrow> NetworkAllocator" where
  "NewNetworkAllocator base m =
     \<lparr>baseNetwork = (case To4 base of Some v4 \<Rightarrow> v4 | None \<Rightarrow> []), naMask = m\<rparr>"

datatype network_error = PrefixError

definition go_uint32 :: "bytes \<Rightarrow> ('e, u32) res" where
  "go_uint32 b = (if length b < 4 then Panic IndexOutOfRange else Ok (get32 b))"

definition ProposeVirtualNetwork :: "NetworkAllocator \<Rightarrow> string \<Rightarrow> (network_error, prefix) res" where
  "ProposeVirtualNetwork m community =
     (let h = Sum256 (str_bytes community);
          offset = get32 (take 4 h) AND 0x00FFFFFF
      in res_bind (go_uint32 (baseNetwork m)) (\<lambda>base.
         res_bind (go_uint32 (naMask m)) (\<lambda>maskUint.
           let hostPart = offset AND NOT maskUint;
               vipUint = (base AND maskUint) OR hostPart;
               vip = put32 vipUint
           in (case addr_Prefix vip (mask_ones (naMask m)) of
                 None \<Rightarrow> Fail PrefixError | Some p \<Rightarrow> Ok p))))"

section \<open>Lemmas\<close>

lemma CIDRMask_cases:
  "list_all (\<lambda>n. length (CIDRMask (int n)) = 4 \<and> mask_ones (CIDRMask (int n)) = n \<and>
     get32 (CIDRMask (int n)) = NOT (mask (32 - n))) [0..<33]"
  by code_simp

lemma CIDRMask_spec:
  assumes "0 \<le> n" "n \<le> 32"
  shows "length (CIDRMask n) = 4" "mask_ones (CIDRMask n) = nat n"
    "get32 (CIDRMask n) = NOT (mask (32 - nat n))"
  using CIDRMask_cases assms by (auto simp: list_all_iff dest!: bspec [of _ _ "nat n"])

lemma host_part_masked: "((base AND NOT m) OR (x AND m)) AND NOT m = base AND NOT (m :: u32)"
  by (rule bit_word_eqI) (auto simp: bit_simps)

lemma ProposeVirtualNetwork_value:
  assumes "length base = 4" "0 \<le> n" "n \<le> 32"
  shows "ProposeVirtualNetwork (NewNetworkAllocator base (CIDRMask n)) c =
    Ok \<lparr>pfAddr = put32 (get32 base AND get32 (CIDRMask n)), pfBits = nat n\<rparr>"
proof -
  have "\<not> 32 < nat n" using assms by simp
  then show ?thesis
    using assms
    by (simp add: ProposeVirtualNetwork_def NewNetworkAllocator_def To4_def go_uint32_def addr_Prefix_def
        CIDRMask_spec f32.get_put host_part_masked Let_def)
qed

text \<open>C18. For a 4 byte base address and a prefix length of at most 32 the allocator never fails
  and always proposes the base network itself: the community's hash only reaches host bits,
  and the prefix clears them, so every community is given the same virtual network.\<close>

theorem every_community_gets_the_same_network:
  assumes "length base = 4" "0 \<le> n" "n \<le> 32"
  shows "ProposeVirtualNetwork (NewNetworkAllocator base (CIDRMask n)) c =
    Ok \<lparr>pfAddr = put32 (get32 base AND get32 (CIDRMask n)), pfBits = nat n\<rparr>"
  by (rule ProposeVirtualNetwork_value [OF assms])

theorem every_community_gets_the_same_network_witness:
  "ProposeVirtualNetwork (NewNetworkAllocator [10, 128, 0, 0] (CIDRMask 24)) ''a'' =
     Ok \<lparr>pfAddr = put32 (get32 [10, 128, 0, 0] AND get32 (CIDRMask 24)), pfBits = nat 24\<rparr>"
  by (rule every_community_gets_the_same_network) simp_all

end
