(* ===== verification/Protocol.thy ===== *)
theory Protocol
  imports Netaddr
begin

text \<open>
  The wire protocol (\<^verbatim>\<open>pkg/protocol\<close>): packet types, the 30 byte ProtoV header with its
  flags, packing and unpacking of datagrams, community hashes, the 7 byte VFuze header
  of the fast data path, and the raw messages that the handlers receive. The lemmas show
  that the header is a faithful fixed-width encoding (locale \<open>wire_codec\<close>, interpreted
  on every field and on the whole header), that unpacking rejects exactly the
  datagrams it should, and what each helper changes.
\<close>

section \<open>Packet types\<close>

type_synonym PacketType = byte

definition TypeRegisterRequest :: PacketType where "TypeRegisterRequest = 1"
definition TypeUnregisterRequest :: PacketType where "TypeUnregisterRequest = 2"
definition TypeHeartbeat :: PacketType where "TypeHeartbeat = 3"
definition TypeData :: PacketType where "TypeData = 4"
definition TypeAck :: PacketType where "TypeAck = 5"
definition TypePeerListRequest :: PacketType where "TypePeerListRequest = 6"
definition TypePeerInfo :: PacketType where "TypePeerInfo = 7"
definition TypePing :: PacketType where "TypePing = 8"
definition TypeP2PStateInfo :: PacketType where "TypeP2PStateInfo = 9"
definition TypeP2PFullState :: PacketType where "TypeP2PFullState = 10"
definition TypeLeasesInfos :: PacketType where "TypeLeasesInfos = 11"
definition TypeOnlineCheck :: PacketType where "TypeOnlineCheck = 12"
definition TypeSNPublicSecret :: PacketType where "TypeSNPublicSecret = 251"
definition TypeRegisterResponse :: PacketType where "TypeRegisterResponse = 252"
definition TypeRetryRegisterRequest :: PacketType where "TypeRetryRegisterRequest = 253"
definition TypeICECandidate :: PacketType where "TypeICECandidate = 14"
definition TypeTURNCredentials :: PacketType where "TypeTURNCredentials = 15"

lemmas packet_type_defs =
  TypeRegisterRequest_def TypeUnregisterRequest_def TypeHeartbeat_def TypeData_def TypeAck_def
  TypePeerListRequest_def TypePeerInfo_def TypePing_def TypeP2PStateInfo_def TypeP2PFullState_def
  TypeLeasesInfos_def TypeOnlineCheck_def TypeSNPublicSecret_def TypeRegisterResponse_def
  TypeRetryRegisterRequest_def TypeICECandidate_def TypeTURNCredentials_def

definition PacketType_String :: "PacketType \<Rightarrow> string" where
  "PacketType_String pt =
     (if pt = TypeRegisterRequest then ''RegisterRequest''
      else if pt = TypeUnregisterRequest then ''UnregisterRequest''
      else if pt = TypeHeartbeat then ''Heartbeat''
      else if pt = TypeData then ''Data''
      else if pt = TypeAck then ''Ack''
      else if pt = TypePeerListRequest then ''PeerListRequest''
      else if pt = TypePeerInfo then ''PeerInfo''
      else if pt = TypePing then ''Ping''
      else if pt = TypeP2PStateInfo then ''P2PStateInfo''
      else if pt = TypeLeasesInfos then ''LeasesInfos''
      else if pt = TypeRegisterResponse then ''RegisterResponse''
      else if pt = TypeRetryRegisterRequest then ''RetryRegisterRequest''
      else if pt = TypeSNPublicSecret then ''SNPublicSecret''
      else if pt = TypeICECandidate then ''ICECandidate''
      else if pt = TypeTURNCredentials then ''TURNCredentials''
      else ''Unknown'')"

section \<open>Flags and hashes\<close>

type_synonym PacketFlag = byte

definition FlagExtendedAddressing :: PacketFlag where "FlagExtendedAddressing = 0x01"
definition FlagFromSuperNode :: PacketFlag where "FlagFromSuperNode = 0x02"

definition DefaultTimestampDrift :: int where
  "DefaultTimestampDrift = 16 * 1000000000"

text \<open>
  \<^verbatim>\<open>HashCommunity\<close> ranges over the string, so it folds one step per rune, not per byte.
\<close>

definition fnv_prime :: u32 where "fnv_prime = 16777619"
definition fnv_basis :: u32 where "fnv_basis = 2166136261"

definition fnv_step :: "u32 \<Rightarrow> nat \<Rightarrow> u32" where
  "fnv_step h c = (h XOR of_nat c) * fnv_prime"

definition HashCommunity :: "string \<Rightarrow> u32" where
  "HashCommunity community =
     (if community = [] then 0 else foldl fnv_step fnv_basis (map fst (runes community)))"

definition VerifyCommunityHash :: "string \<Rightarrow> u32 \<Rightarrow> bool" where
  "VerifyCommunityHash community expectedHash = (HashCommunity community = expectedHash)"

text \<open>
  \<^verbatim>\<open>HashString\<close>. The loop variable \<open>i\<close> is the byte offset of the rune; the remainder by
  a zero length panics, and a negative length panics in \<^verbatim>\<open>make\<close>, so lengths are naturals.
\<close>

fun hash_string_loop :: "nat \<Rightarrow> nat \<Rightarrow> (nat \<times> string) list \<Rightarrow> bytes \<Rightarrow> bytes" where
  "hash_string_loop n i [] h = h"
| "hash_string_loop n i ((c, b) # rs) h =
     hash_string_loop n (i + length b) rs
       (h[i mod n := (h ! (i mod n)) XOR (of_nat c XOR of_nat i)])"

definition HashString :: "string \<Rightarrow> nat \<Rightarrow> (unit, bytes) res" where
  "HashString s n =
     (if s = [] then Ok (replicate n 0)
      else if n = 0 then Panic DivideByZero
      else Ok (hash_string_loop n 0 (runes s) (replicate n 0)))"

section \<open>The ProtoV header\<close>

text \<open>The Go array type \<^verbatim>\<open>[6]byte\<close>.\<close>

datatype arr6 = Arr6 byte byte byte byte byte byte

primrec arr6_bytes :: "arr6 \<Rightarrow> bytes" where
  "arr6_bytes (Arr6 a b c d e f) = [a, b, c, d, e, f]"

text \<open>The array filled by \<^verbatim>\<open>copy(arr[:], src[:6])\<close>, for a source of at least six bytes.\<close>

definition arr6_of :: "bytes \<Rightarrow> arr6" where
  "arr6_of s = Arr6 (s ! 0) (s ! 1) (s ! 2) (s ! 3) (s ! 4) (s ! 5)"

definition arr6_zero :: arr6 where
  "arr6_zero = Arr6 0 0 0 0 0 0"

lemma arr6_of_bytes [simp]: "arr6_of (arr6_bytes a) = a"
  by (cases a) (simp add: arr6_of_def)

lemma length_6_obtain: "length bs = 6 \<Longrightarrow> \<exists>a b c d e f. bs = [a, b, c, d, e, f]"
  by (auto simp: numeral_eq_Suc length_Suc_conv)

lemma length_arr6_bytes [simp]: "length (arr6_bytes a) = 6"
  by (cases a) simp

lemma arr6_bytes_of: "length bs = 6 \<Longrightarrow> arr6_bytes (arr6_of bs) = bs"
  by (auto dest!: length_6_obtain simp: arr6_of_def)

interpretation mac6: wire_codec arr6_bytes arr6_of 6
  by unfold_locales (simp_all add: arr6_bytes_of)

definition ProtoVHeaderSize :: nat where "ProtoVHeaderSize = 30"
definition VersionV :: byte where "VersionV = 5"

record ProtoVHeader =
  Version :: byte
  TTL :: byte
  PacketType :: PacketType
  Flags :: PacketFlag
  Sequence :: u16
  CommunityID :: u32
  SourceID :: arr6
  DestID :: arr6
  Timestamp :: u32
  Checksum :: u32

definition bytesToMAC :: "arr6 \<Rightarrow> hwaddr option" where
  "bytesToMAC arr = (if \<forall>b \<in> set (arr6_bytes arr). b = 0 then None else Some (arr6_bytes arr))"

definition GetSrcMACAddr :: "ProtoVHeader \<Rightarrow> hwaddr option" where
  "GetSrcMACAddr h = bytesToMAC (SourceID h)"

definition GetDstMACAddr :: "ProtoVHeader \<Rightarrow> hwaddr option" where
  "GetDstMACAddr h = bytesToMAC (DestID h)"

text \<open>
  \<^verbatim>\<open>NewProtoVHeader\<close>. \<open>now\<close> is the clock in nanoseconds since the Unix epoch; an address
  that is not nil but shorter than six bytes makes \<^verbatim>\<open>src[:6]\<close> panic.
\<close>

datatype proto_error =
    ErrSourceNil | ErrPacketTooShort | ErrNotVersionV
  | ErrNotType PacketType | ErrDecode | ErrNotData
  | ErrShortVFuze | ErrNotVFuze
  | ErrNoHandler PacketType

definition unix_seconds :: "int \<Rightarrow> u32" where
  "unix_seconds now = of_int (now div 1000000000)"

definition copy6 :: "hwaddr \<Rightarrow> (proto_error, arr6) res" where
  "copy6 src = (if length src < 6 then Panic SliceOutOfRange else Ok (arr6_of (take 6 src)))"

definition NewProtoVHeader ::
  "int \<Rightarrow> byte \<Rightarrow> PacketType \<Rightarrow> u16 \<Rightarrow> string \<Rightarrow> hwaddr option \<Rightarrow> hwaddr option
    \<Rightarrow> (proto_error, ProtoVHeader) res" where
  "NewProtoVHeader now ttl pType seq community src dst =
     (case src of
        None \<Rightarrow> Fail ErrSourceNil
      | Some s \<Rightarrow> res_bind (copy6 s) (\<lambda>sid.
          res_bind (case dst of None \<Rightarrow> Ok arr6_zero | Some d \<Rightarrow> copy6 d) (\<lambda>did.
            Ok \<lparr>Version = VersionV, TTL = ttl, PacketType = pType, Flags = 0, Sequence = seq,
                 CommunityID = HashCommunity community, SourceID = sid, DestID = did,
                 Timestamp = unix_seconds now, Checksum = 0\<rparr>)))"

text \<open>
  \<^verbatim>\<open>time.Sub\<close> saturates at the ends of \<^verbatim>\<open>int64\<close>, and negating the least \<^verbatim>\<open>int64\<close> gives it
  back; times are nanoseconds since the Unix epoch.
\<close>

definition min_duration :: int where "min_duration = - (2 ^ 63)"
definition max_duration :: int where "max_duration = 2 ^ 63 - 1"

definition time_sub :: "int \<Rightarrow> int \<Rightarrow> int" where
  "time_sub t u = max min_duration (min max_duration (t - u))"

definition VerifyTimestamp :: "ProtoVHeader \<Rightarrow> int \<Rightarrow> int \<Rightarrow> bool" where
  "VerifyTimestamp h ref allowedDrift =
     (let diff = time_sub (uint (Timestamp h) * 1000000000) ref;
          diff' = (if diff < 0 then (if diff = min_duration then diff else - diff) else diff)
      in diff' \<le> allowedDrift)"

definition SetFlag :: "PacketFlag \<Rightarrow> bool \<Rightarrow> ProtoVHeader \<Rightarrow> ProtoVHeader" where
  "SetFlag flag v h = (if v then h\<lparr>Flags := Flags h OR flag\<rparr> else h\<lparr>Flags := Flags h AND NOT flag\<rparr>)"

definition HasFlag :: "PacketFlag \<Rightarrow> ProtoVHeader \<Rightarrow> bool" where
  "HasFlag flag h = (Flags h AND flag \<noteq> 0)"

definition SetFromSupernode :: "bool \<Rightarrow> ProtoVHeader \<Rightarrow> ProtoVHeader" where
  "SetFromSupernode v h = SetFlag FlagFromSuperNode v h"

definition IsFromSupernode :: "ProtoVHeader \<Rightarrow> bool" where
  "IsFromSupernode h = HasFlag FlagFromSuperNode h"

section \<open>Datagrams\<close>

text \<open>\<^verbatim>\<open>binary.Write\<close> and \<^verbatim>\<open>binary.Read\<close> of the header: field after field, big endian.\<close>

definition header_bytes :: "ProtoVHeader \<Rightarrow> bytes" where
  "header_bytes h =
     put8 (Version h) @ put8 (TTL h) @ put8 (PacketType h) @ put8 (Flags h) @
     put16 (Sequence h) @ put32 (CommunityID h) @ arr6_bytes (SourceID h) @
     arr6_bytes (DestID h) @ put32 (Timestamp h) @ put32 (Checksum h)"

definition header_of :: "bytes \<Rightarrow> ProtoVHeader" where
  "header_of bs =
     \<lparr>Version = get8 (take 1 bs), TTL = get8 (take 1 (drop 1 bs)),
      PacketType = get8 (take 1 (drop 2 bs)), Flags = get8 (take 1 (drop 3 bs)),
      Sequence = get16 (take 2 (drop 4 bs)), CommunityID = get32 (take 4 (drop 6 bs)),
      SourceID = arr6_of (take 6 (drop 10 bs)), DestID = arr6_of (take 6 (drop 16 bs)),
      Timestamp = get32 (take 4 (drop 22 bs)), Checksum = get32 (take 4 (drop 26 bs))\<rparr>"

definition PackProtoVDatagram :: "ProtoVHeader \<Rightarrow> bytes \<Rightarrow> bytes" where
  "PackProtoVDatagram header payload = header_bytes header @ payload"

definition UnpackProtoVDatagram :: "bytes \<Rightarrow> (proto_error, ProtoVHeader \<times> bytes) res" where
  "UnpackProtoVDatagram packet =
     (if length packet < ProtoVHeaderSize then Fail ErrPacketTooShort
      else if packet ! 0 \<noteq> VersionV then Fail ErrNotVersionV
      else Ok (header_of (take ProtoVHeaderSize packet), drop ProtoVHeaderSize packet))"

definition FlagPacketFromSupernode :: "bytes \<Rightarrow> (proto_error, bytes) res" where
  "FlagPacketFromSupernode packet =
     res_bind (UnpackProtoVDatagram packet)
       (\<lambda>(header, payload). Ok (PackProtoVDatagram (SetFromSupernode True header) payload))"

record RawMessage =
  rHeader :: ProtoVHeader
  rPayload :: bytes
  rFromAddr :: net_addr
  rRawPacket :: bytes

definition NewRawMessage :: "bytes \<Rightarrow> net_addr \<Rightarrow> (proto_error, RawMessage) res" where
  "NewRawMessage packet addr =
     res_bind (UnpackProtoVDatagram packet)
       (\<lambda>(header, payload). Ok \<lparr>rHeader = header, rPayload = payload, rFromAddr = addr, rRawPacket = packet\<rparr>)"

definition DestMACAddr :: "RawMessage \<Rightarrow> string" where
  "DestMACAddr r = (case GetDstMACAddr (rHeader r) of Some m \<Rightarrow> mac_string m | None \<Rightarrow> [])"

definition EdgeMACAddr :: "RawMessage \<Rightarrow> string" where
  "EdgeMACAddr r = (case GetSrcMACAddr (rHeader r) of Some m \<Rightarrow> mac_string m | None \<Rightarrow> [])"

definition CommunityHash :: "RawMessage \<Rightarrow> u32" where
  "CommunityHash r = CommunityID (rHeader r)"

text \<open>
  \<^verbatim>\<open>ToMessage\<close>: the packet type has to be the one of the message type, then the payload is
  decoded. The protobuf decoder of the type is the parameter \<open>unmarshal\<close>.
\<close>

definition ToMessage :: "PacketType \<Rightarrow> (bytes \<Rightarrow> 'm option) \<Rightarrow> RawMessage \<Rightarrow> (proto_error, 'm) res" where
  "ToMessage pt unmarshal r =
     (if PacketType (rHeader r) \<noteq> pt then Fail (ErrNotType pt)
      else case unmarshal (rPayload r) of None \<Rightarrow> Fail ErrDecode | Some m \<Rightarrow> Ok m)"

definition MessageFromPacket ::
  "PacketType \<Rightarrow> (bytes \<Rightarrow> 'm option) \<Rightarrow> bytes \<Rightarrow> net_addr \<Rightarrow> (proto_error, RawMessage \<times> 'm) res" where
  "MessageFromPacket pt unmarshal packet addr =
     res_bind (NewRawMessage packet addr) (\<lambda>r. res_bind (ToMessage pt unmarshal r) (\<lambda>m. Ok (r, m)))"

record DataMessage =
  dmRawMsg :: RawMessage
  dmEdgeMACAddr :: string
  dmCommunityHash :: u32
  dmDestMACAddr :: string

text \<open>The nil hardware address prints as the empty string.\<close>

definition ToDataMessage :: "RawMessage \<Rightarrow> (proto_error, DataMessage) res" where
  "ToDataMessage r =
     (if PacketType (rHeader r) \<noteq> TypeData then Fail ErrNotData
      else Ok \<lparr>dmRawMsg = r,
               dmEdgeMACAddr = (case GetSrcMACAddr (rHeader r) of Some m \<Rightarrow> mac_string m | None \<Rightarrow> []),
               dmCommunityHash = CommunityID (rHeader r),
               dmDestMACAddr = (case GetDstMACAddr (rHeader r) of Some m \<Rightarrow> mac_string m | None \<Rightarrow> [])\<rparr>)"

text \<open>\<^verbatim>\<open>MessageHandlerMap.Handle\<close>, for handlers that return a value of any type.\<close>

definition Handle :: "(PacketType, RawMessage \<Rightarrow> 'r) gomap \<Rightarrow> (PacketType \<Rightarrow> 'r) \<Rightarrow> RawMessage \<Rightarrow> 'r" where
  "Handle mh no_handler r =
     (case gget mh (PacketType (rHeader r)) of
        None \<Rightarrow> no_handler (PacketType (rHeader r)) | Some fn \<Rightarrow> fn r)"

section \<open>The VFuze header and the supernode's address\<close>

definition ProtoVFuzeSize :: nat where "ProtoVFuzeSize = 7"
definition VersionVFuze :: byte where "VersionVFuze = 0x51"

definition VFuzeHeaderBytes :: "hwaddr \<Rightarrow> (proto_error, bytes) res" where
  "VFuzeHeaderBytes dst =
     (if length dst < 6 then Panic SliceOutOfRange else Ok (VersionVFuze # take 6 dst))"

definition VFuzePacketDestMACAddr :: "bytes \<Rightarrow> (proto_error, hwaddr) res" where
  "VFuzePacketDestMACAddr packet =
     (if length packet < ProtoVFuzeSize then Fail ErrShortVFuze
      else if packet ! 0 \<noteq> VersionVFuze then Fail ErrNotVFuze
      else Ok (slice 1 7 packet))"

definition SNMacAddrString :: string where
  "SNMacAddrString = ''CA:FE:C0:FF:EE:00''"

definition SupernodeMACAddr :: hwaddr where
  "SupernodeMACAddr = (case ParseMAC SNMacAddrString of Some m \<Rightarrow> m | None \<Rightarrow> [])"

definition IsSNMacAddr :: "hwaddr \<Rightarrow> bool" where
  "IsSNMacAddr mac = (mac_string mac = mac_string SupernodeMACAddr)"

definition IsSNMacAddrString :: "string \<Rightarrow> bool" where
  "IsSNMacAddrString macStr = (macStr = mac_string SupernodeMACAddr)"

section \<open>The header is a fixed-width encoding\<close>

lemma length_header_bytes [simp]: "length (header_bytes h) = 30"
  by (simp add: header_bytes_def f8.length_put f16.length_put f32.length_put)

lemmas field_reads =
  f8.get_put f16.get_put f32.get_put mac6.get_put f8.length_put f16.length_put f32.length_put

lemma header_of_bytes: "header_of (header_bytes h) = h"
  by (simp add: header_of_def header_bytes_def field_reads take_append drop_append)

lemma header_bytes_of: "length bs = 30 \<Longrightarrow> header_bytes (header_of bs) = bs"
proof -
  assume l: "length bs = 30"
  have "header_bytes (header_of bs) =
      take 1 bs @ take 1 (drop 1 bs) @ take 1 (drop 2 bs) @ take 1 (drop 3 bs) @ take 2 (drop 4 bs) @
      take 4 (drop 6 bs) @ take 6 (drop 10 bs) @ take 6 (drop 16 bs) @ take 4 (drop 22 bs) @ take 4 (drop 26 bs)"
    using l by (simp add: header_of_def header_bytes_def f8.put_get f16.put_get f32.put_get mac6.put_get)
  also have "\<dots> = bs"
  proof -
    have s: "m = k + n \<Longrightarrow> take k (drop n bs) @ drop m bs = drop n bs" for k m n
      by (metis append_take_drop_id drop_drop)
    show ?thesis
      using s [of 2 1 1] s [of 3 1 2] s [of 4 1 3] s [of 6 2 4] s [of 10 4 6] s [of 16 6 10] s [of 22 6 16]
        s [of 26 4 22] s [of 30 4 26] append_take_drop_id [of 1 bs] l
      by simp
  qed
  finally show ?thesis .
qed

interpretation hdr: wire_codec header_bytes header_of 30
  by unfold_locales (simp_all add: header_of_bytes header_bytes_of)

lemma header_bytes_nth0: "(header_bytes h @ p) ! 0 = Version h"
  by (simp add: header_bytes_def put8_def)

lemma header_of_Version: "30 \<le> length bs \<Longrightarrow> Version (header_of (take 30 bs)) = bs ! 0"
  by (simp add: header_of_def get8_def)

lemma UnpackProtoVDatagram_eq_Ok:
  "UnpackProtoVDatagram packet = Ok (h, p) \<longleftrightarrow> Version h = VersionV \<and> packet = PackProtoVDatagram h p"
proof
  assume "UnpackProtoVDatagram packet = Ok (h, p)"
  then have "30 \<le> length packet" "packet ! 0 = VersionV" "h = header_of (take 30 packet)" "p = drop 30 packet"
    by (simp_all add: UnpackProtoVDatagram_def ProtoVHeaderSize_def split: if_splits)
  then show "Version h = VersionV \<and> packet = PackProtoVDatagram h p"
    using hdr.put_get_take [of packet] by (simp add: PackProtoVDatagram_def header_of_Version)
next
  assume "Version h = VersionV \<and> packet = PackProtoVDatagram h p"
  then show "UnpackProtoVDatagram packet = Ok (h, p)"
    by (simp add: UnpackProtoVDatagram_def PackProtoVDatagram_def ProtoVHeaderSize_def
        header_bytes_nth0 hdr.get_put)
qed

lemma UnpackProtoVDatagram_no_panic [simp]: "\<not> panics (UnpackProtoVDatagram packet)"
  by (simp add: UnpackProtoVDatagram_def)

lemma NewRawMessage_Ok:
  "NewRawMessage packet addr = Ok r \<longleftrightarrow>
     Version (rHeader r) = VersionV \<and> packet = PackProtoVDatagram (rHeader r) (rPayload r) \<and>
     rFromAddr r = addr \<and> rRawPacket r = packet"
  by (cases r)
     (auto simp: NewRawMessage_def res_bind_eq_Inr UnpackProtoVDatagram_eq_Ok)

lemma NewRawMessage_no_panic [simp]: "\<not> panics (NewRawMessage packet addr)"
  by (simp add: NewRawMessage_def UnpackProtoVDatagram_def)

lemma header_bytes_Flags: "header_bytes (h\<lparr>Flags := f\<rparr>) = (header_bytes h)[3 := f]"
  by (simp add: header_bytes_def put8_def numeral_3_eq_3)

lemma header_bytes_nth3: "(header_bytes h) ! 3 = Flags h"
  by (simp add: header_bytes_def put8_def numeral_3_eq_3)

section \<open>Properties of the wire protocol\<close>

text \<open>C15. Unpacking a datagram gives a header and a payload exactly when the header is of
  version \<open>VersionV\<close> and the datagram is what packing that header and payload produces:
  packing and unpacking are inverse to each other in both directions.\<close>

theorem unpack_iff_pack:
  "UnpackProtoVDatagram packet = Ok (h, p) \<longleftrightarrow> Version h = VersionV \<and> packet = PackProtoVDatagram h p"
  by (rule UnpackProtoVDatagram_eq_Ok)

lemma FlagPacketFromSupernode_bytes:
  "FlagPacketFromSupernode packet =
     (if length packet < 30 then Fail ErrPacketTooShort
      else if packet ! 0 \<noteq> 5 then Fail ErrNotVersionV
      else Ok (packet[3 := packet ! 3 OR 2]))"
proof (cases "length packet < 30 \<or> packet ! 0 \<noteq> 5")
  case False
  then obtain h p where u: "UnpackProtoVDatagram packet = Ok (h, p)"
    by (simp add: UnpackProtoVDatagram_def ProtoVHeaderSize_def VersionV_def)
  then have pk: "packet = header_bytes h @ p"
    by (simp add: UnpackProtoVDatagram_eq_Ok PackProtoVDatagram_def)
  have "packet ! 3 = Flags h" unfolding pk by (simp add: nth_append header_bytes_nth3)
  moreover have "packet[3 := f] = header_bytes (h\<lparr>Flags := f\<rparr>) @ p" for f
    unfolding pk by (simp add: list_update_append1 header_bytes_Flags)
  ultimately show ?thesis
    using False u by (simp add: FlagPacketFromSupernode_def PackProtoVDatagram_def SetFromSupernode_def
        SetFlag_def FlagFromSuperNode_def)
qed (auto simp: FlagPacketFromSupernode_def UnpackProtoVDatagram_def ProtoVHeaderSize_def VersionV_def)

text \<open>Marking a datagram as coming from the supernode changes one byte: the flags byte
  at offset 3 gets the supernode bit, and every other byte, the payload included, stays as
  it was. Datagrams that are too short or of another version are refused.\<close>

theorem flag_packet_one_byte:
  "FlagPacketFromSupernode packet =
     (if length packet < 30 then Fail ErrPacketTooShort
      else if packet ! 0 \<noteq> 5 then Fail ErrNotVersionV
      else Ok (packet[3 := packet ! 3 OR 2]))"
  by (rule FlagPacketFromSupernode_bytes)

text \<open>The reference FNV-1a, one step per byte.\<close>

definition fnv1a :: "string \<Rightarrow> u32" where
  "fnv1a s = foldl (\<lambda>h c. (h XOR of_nat (of_char c)) * 16777619) 2166136261 s"

text \<open>On a non-empty ASCII name \<open>HashCommunity\<close> is the 32-bit FNV-1a hash of its
  bytes.\<close>

theorem HashCommunity_ascii:
  assumes "ascii s" "s \<noteq> []"
  shows "HashCommunity s = fnv1a s"
proof -
  have "map fst (runes s) = map of_char s" by (simp add: runes_ascii [OF assms(1)] comp_def)
  then show ?thesis
    using assms(2) by (simp add: HashCommunity_def fnv1a_def fnv_step_def [abs_def] fnv_prime_def fnv_basis_def foldl_map)
qed

theorem HashCommunity_ascii_witness:
  "ascii ''n2n'' \<and> HashCommunity ''n2n'' = fnv1a ''n2n''"
  using HashCommunity_ascii [of "''n2n''"] by (simp add: ascii_def)

text \<open>On other names it is not: the rune of a two byte character is folded in one step.\<close>

lemma HashCommunity_not_bytewise:
  "HashCommunity [char_of (0xc3 :: nat), char_of (0xa9 :: nat)] \<noteq> fnv1a [char_of (0xc3 :: nat), char_of (0xa9 :: nat)]"
  by code_simp

text \<open>As long as the two clocks are less than 2^63 nanoseconds apart, the timestamp check
  accepts a header exactly when its timestamp lies within the allowed drift of the
  reference, in either direction.\<close>

theorem VerifyTimestamp_iff:
  assumes "\<bar>uint (Timestamp h) * 1000000000 - ref\<bar> < 2 ^ 63"
  shows "VerifyTimestamp h ref d \<longleftrightarrow> \<bar>uint (Timestamp h) * 1000000000 - ref\<bar> \<le> d"
  using assms by (auto simp: VerifyTimestamp_def time_sub_def min_duration_def max_duration_def Let_def)

definition sample_header :: ProtoVHeader where
  "sample_header =
     \<lparr>Version = 5, TTL = 64, PacketType = 4, Flags = 0, Sequence = 7, CommunityID = 99,
      SourceID = Arr6 2 0 0 0 0 1, DestID = Arr6 2 0 0 0 0 2, Timestamp = 1000, Checksum = 0\<rparr>"

theorem VerifyTimestamp_iff_witness:
  "\<bar>uint (Timestamp sample_header) * 1000000000 - 1010000000000\<bar> < 2 ^ 63 \<and>
   VerifyTimestamp sample_header 1010000000000 DefaultTimestampDrift"
  using VerifyTimestamp_iff [of sample_header 1010000000000 DefaultTimestampDrift]
  by (simp add: sample_header_def DefaultTimestampDrift_def)

lemma bytesToMAC_arr6_of:
  "length m = 6 \<Longrightarrow> bytesToMAC (arr6_of m) = (if \<forall>b \<in> set m. b = 0 then None else Some m)"
  by (simp add: bytesToMAC_def mac6.put_get)

lemma bytesToMAC_zero [simp]: "bytesToMAC arr6_zero = None"
  by (simp add: bytesToMAC_def arr6_zero_def)

lemma NewProtoVHeader_Ok:
  assumes "length src = 6" "length dst = 6"
  shows "NewProtoVHeader now ttl pt seq com (Some src) (Some dst) =
    Ok \<lparr>Version = VersionV, TTL = ttl, PacketType = pt, Flags = 0, Sequence = seq,
        CommunityID = HashCommunity com, SourceID = arr6_of src, DestID = arr6_of dst,
        Timestamp = unix_seconds now, Checksum = 0\<rparr>"
  using assms by (simp add: NewProtoVHeader_def copy6_def)

text \<open>A packet built with \<open>NewProtoVHeader\<close> and packed is received as a raw message that
  names the sender's and the destination's hardware addresses as they print, carries the
  hash of the community, the packet type, the sequence number and the payload that were
  sent, and does not claim to come from the supernode.\<close>

theorem packet_sent_is_received:
  assumes "length src = 6" "length dst = 6" "\<exists>b \<in> set src. b \<noteq> 0" "\<exists>b \<in> set dst. b \<noteq> 0"
  shows "\<exists>h r. NewProtoVHeader now ttl pt seq com (Some src) (Some dst) = Ok h \<and>
    NewRawMessage (PackProtoVDatagram h payload) from = Ok r \<and>
    EdgeMACAddr r = mac_string src \<and> DestMACAddr r = mac_string dst \<and>
    CommunityHash r = HashCommunity com \<and> PacketType (rHeader r) = pt \<and>
    Sequence (rHeader r) = seq \<and> rPayload r = payload \<and> rFromAddr r = from \<and>
    \<not> IsFromSupernode (rHeader r)"
proof -
  define h where "h = \<lparr>Version = VersionV, TTL = ttl, PacketType = pt, Flags = 0, Sequence = seq,
        CommunityID = HashCommunity com, SourceID = arr6_of src, DestID = arr6_of dst,
        Timestamp = unix_seconds now, Checksum = 0\<rparr>"
  let ?r = "\<lparr>rHeader = h, rPayload = payload, rFromAddr = from, rRawPacket = PackProtoVDatagram h payload\<rparr>"
  have "NewRawMessage (PackProtoVDatagram h payload) from = Ok ?r"
    by (simp add: NewRawMessage_Ok h_def)
  moreover have "NewProtoVHeader now ttl pt seq com (Some src) (Some dst) = Ok h"
    unfolding h_def by (rule NewProtoVHeader_Ok [OF assms(1,2)])
  moreover have "EdgeMACAddr ?r = mac_string src" "DestMACAddr ?r = mac_string dst"
    using assms(3,4) by (auto simp: EdgeMACAddr_def DestMACAddr_def GetSrcMACAddr_def GetDstMACAddr_def
        h_def bytesToMAC_arr6_of assms(1,2))
  ultimately show ?thesis
    by (auto simp: CommunityHash_def h_def IsFromSupernode_def HasFlag_def)
qed

theorem packet_sent_is_received_witness:
  "\<exists>h r. NewProtoVHeader 0 64 TypeData 1 ''n2n'' (Some [2, 0, 0, 0, 0, 1]) (Some [2, 0, 0, 0, 0, 2]) = Ok h \<and>
    NewRawMessage (PackProtoVDatagram h [1, 2, 3]) (WSSAddr ''c'') = Ok r \<and>
    EdgeMACAddr r = mac_string [2, 0, 0, 0, 0, 1] \<and> DestMACAddr r = mac_string [2, 0, 0, 0, 0, 2] \<and>
    CommunityHash r = HashCommunity ''n2n'' \<and> PacketType (rHeader r) = TypeData \<and>
    Sequence (rHeader r) = 1 \<and> rPayload r = [1, 2, 3] \<and> rFromAddr r = WSSAddr ''c'' \<and>
    \<not> IsFromSupernode (rHeader r)"
  by (rule packet_sent_is_received) simp_all

text \<open>A VFuze header for a destination is read back as that destination whatever follows
  it, and a VFuze packet is never taken for a ProtoV datagram: the two wire formats are
  disjoint.\<close>

theorem vfuze_roundtrip:
  assumes "6 \<le> length dst"
  shows "\<exists>hb. VFuzeHeaderBytes dst = Ok hb \<and> length hb = ProtoVFuzeSize \<and>
    VFuzePacketDestMACAddr (hb @ payload) = Ok (take 6 dst) \<and>
    (\<forall>h p. UnpackProtoVDatagram (hb @ payload) \<noteq> Ok (h, p))"
  using assms
  by (simp add: VFuzeHeaderBytes_def VFuzePacketDestMACAddr_def ProtoVFuzeSize_def slice_def
      UnpackProtoVDatagram_def VersionVFuze_def VersionV_def)

theorem vfuze_roundtrip_witness:
  "\<exists>hb. VFuzeHeaderBytes [2, 0, 0, 0, 0, 1] = Ok hb \<and> length hb = ProtoVFuzeSize \<and>
    VFuzePacketDestMACAddr (hb @ [7]) = Ok (take 6 [2, 0, 0, 0, 0, 1]) \<and>
    (\<forall>h p. UnpackProtoVDatagram (hb @ [7]) \<noteq> Ok (h, p))"
  by (rule vfuze_roundtrip) simp

lemma SupernodeMACAddr_bytes: "SupernodeMACAddr = [0xca, 0xfe, 0xc0, 0xff, 0xee, 0x00]"
  by code_simp

lemma IsSNMacAddr_iff: "IsSNMacAddr mac \<longleftrightarrow> mac = SupernodeMACAddr"
  by (simp add: IsSNMacAddr_def mac_string_inject)

lemma length_SupernodeMACAddr [simp]: "length SupernodeMACAddr = 6"
  by (simp add: SupernodeMACAddr_bytes)

lemma length_hash_string_loop [simp]: "length (hash_string_loop n i rs h) = length h"
  by (induction n i rs h rule: hash_string_loop.induct) simp_all

lemma HashString_length: "HashString s n = Ok h \<Longrightarrow> length h = n"
  by (auto simp: HashString_def split: if_splits)

end
