(* ===== verification/Messages.thy ===== *)
theory Messages
  imports Protocol
begin

text \<open>
  The message structs that travel as protobuf payloads (\<^verbatim>\<open>pkg/protocol/netstruct\<close> and the
  messages of \<^verbatim>\<open>pkg/p2p\<close>), one record per message, and the packet type each is sent
  under. Serialisation is the protobuf library's; its two directions are parameters of the
  definitions that send and receive, and \<open>pb_faithful\<close> is what they rely on.
\<close>

section \<open>Peer messages\<close>

record PeerInfo =
  piVirtualIp :: string
  piMacAddr :: bytes
  piPubSocket :: string
  piCommunity :: string
  piDesc :: string

record PeerInfoList =
  plHasOrigin :: bool
  plOrigin :: "PeerInfo option"
  plPeerInfos :: "PeerInfo list"
  plEventType :: u32

record PeerP2PInfos =
  ppFrom :: "PeerInfo option"
  ppTo :: "PeerInfo list"

record PeerCachedInfo =
  pcDesc :: string
  pcMacAddr :: string
  pcVirtualIp :: string
  pcCommunity :: string
  pcLastUpdateNs :: int

text \<open>The two maps of the full state can be nil.\<close>

record P2PFullState =
  fsCommunityName :: string
  fsIsRequest :: bool
  fsReachables :: "(string, PeerP2PInfos) gomap option"
  fsUnreachables :: "(string, PeerCachedInfo) gomap option"

definition TypeList :: byte where "TypeList = 1"
definition TypeRegister :: byte where "TypeRegister = 2"
definition TypeUnregister :: byte where "TypeUnregister = 3"

section \<open>Control messages\<close>

record RegisterRequest =
  rqEdgeMacAddr :: string
  rqEdgeDesc :: string
  rqCommunityName :: string
  rqEncryptedMachineId :: bytes
  rqClearMachineId :: bytes

record RegisterResponse =
  rpIsRegisterOk :: bool
  rpVirtualIp :: string
  rpMasklen :: int

record HeartbeatPulse =
  hbEdgeMacAddr :: string
  hbCommunityName :: string
  hbEncryptedMachineId :: bytes
  hbClearMachineId :: bytes

record UnregisterRequest =
  urEdgeMacAddr :: string
  urCommunityName :: string
  urEncryptedMachineId :: bytes

record SnPublicSecret =
  spIsRequest :: bool
  spPemData :: bytes

record PeerToPing =
  pgCheckId :: string
  pgIsPong :: bool

record IppoolLease =
  leIp :: bytes
  leMac :: string
  leExpiryNs :: int
  leSticky :: bool
  leLastRenewNs :: int

record LeaseEdgeInfos =
  liEdgeId :: string
  liIsRegistered :: bool
  liTimeSinceLastUpdateNs :: int
  liVirtualIp :: bytes

record LeasesInfos =
  lsIsRequest :: bool
  lsCommunityName :: string
  lsLeases :: "(string, IppoolLease \<times> LeaseEdgeInfos) gomap"

record ICECandidate =
  icTargetMac :: string
  icCandidate :: string
  icSdpMid :: string
  icSdpMlineIndex :: u32

record TURNCredentials =
  tcUsername :: string
  tcPassword :: string
  tcTtl :: u32
  tcUris :: "string list"

record OnlineCheck =
  ocIsReply :: bool
  ocCookie :: string

datatype pb_msg =
    MRegisterRequest RegisterRequest
  | MRegisterResponse RegisterResponse
  | MRetryRegisterRequest
  | MHeartbeatPulse HeartbeatPulse
  | MUnregisterRequest UnregisterRequest
  | MSnPublicSecret SnPublicSecret
  | MPeerListRequest string
  | MPeerToPing PeerToPing
  | MLeasesInfos LeasesInfos
  | MOnlineCheck OnlineCheck
  | MICECandidate ICECandidate
  | MTURNCredentials TURNCredentials
  | MAck
  | MPeerInfoList PeerInfoList
  | MPeerP2PInfos PeerP2PInfos
  | MP2PFullState P2PFullState

text \<open>The \<^verbatim>\<open>PacketType\<close> methods.\<close>

fun pb_type :: "pb_msg \<Rightarrow> PacketType" where
  "pb_type (MRegisterRequest _) = TypeRegisterRequest"
| "pb_type (MRegisterResponse _) = TypeRegisterResponse"
| "pb_type MRetryRegisterRequest = TypeRetryRegisterRequest"
| "pb_type (MHeartbeatPulse _) = TypeHeartbeat"
| "pb_type (MUnregisterRequest _) = TypeUnregisterRequest"
| "pb_type (MSnPublicSecret _) = TypeSNPublicSecret"
| "pb_type (MPeerListRequest _) = TypePeerListRequest"
| "pb_type (MPeerToPing _) = TypePing"
| "pb_type (MLeasesInfos _) = TypeLeasesInfos"
| "pb_type (MOnlineCheck _) = TypeOnlineCheck"
| "pb_type (MICECandidate _) = TypeICECandidate"
| "pb_type (MTURNCredentials _) = TypeTURNCredentials"
| "pb_type MAck = TypeAck"
| "pb_type (MPeerInfoList _) = TypePeerInfo"
| "pb_type (MPeerP2PInfos _) = TypeP2PStateInfo"
| "pb_type (MP2PFullState _) = TypeP2PFullState"

text \<open>What callers rely on: a marshalled message is decoded, as its own type, to itself.\<close>

definition pb_faithful :: "(pb_msg \<Rightarrow> bytes option) \<Rightarrow> (PacketType \<Rightarrow> bytes \<Rightarrow> pb_msg option) \<Rightarrow> bool" where
  "pb_faithful marshal unmarshal \<longleftrightarrow>
     (\<forall>m b. marshal m = Some b \<longrightarrow> unmarshal (pb_type m) b = Some m)"

section \<open>Decoding one message type\<close>

fun as_RegisterRequest where
  "as_RegisterRequest (MRegisterRequest m) = Some m" | "as_RegisterRequest _ = None"

fun as_RegisterResponse where
  "as_RegisterResponse (MRegisterResponse m) = Some m" | "as_RegisterResponse _ = None"

fun as_HeartbeatPulse where
  "as_HeartbeatPulse (MHeartbeatPulse m) = Some m" | "as_HeartbeatPulse _ = None"

fun as_UnregisterRequest where
  "as_UnregisterRequest (MUnregisterRequest m) = Some m" | "as_UnregisterRequest _ = None"

fun as_SnPublicSecret where
  "as_SnPublicSecret (MSnPublicSecret m) = Some m" | "as_SnPublicSecret _ = None"

fun as_PeerListRequest where
  "as_PeerListRequest (MPeerListRequest m) = Some m" | "as_PeerListRequest _ = None"

fun as_PeerToPing where
  "as_PeerToPing (MPeerToPing m) = Some m" | "as_PeerToPing _ = None"

fun as_LeasesInfos where
  "as_LeasesInfos (MLeasesInfos m) = Some m" | "as_LeasesInfos _ = None"

fun as_OnlineCheck where
  "as_OnlineCheck (MOnlineCheck m) = Some m" | "as_OnlineCheck _ = None"

fun as_ICECandidate where
  "as_ICECandidate (MICECandidate m) = Some m" | "as_ICECandidate _ = None"

fun as_TURNCredentials where
  "as_TURNCredentials (MTURNCredentials m) = Some m" | "as_TURNCredentials _ = None"

fun as_PeerInfoList where
  "as_PeerInfoList (MPeerInfoList m) = Some m" | "as_PeerInfoList _ = None"

fun as_PeerP2PInfos where
  "as_PeerP2PInfos (MPeerP2PInfos m) = Some m" | "as_PeerP2PInfos _ = None"

fun as_P2PFullState where
  "as_P2PFullState (MP2PFullState m) = Some m" | "as_P2PFullState _ = None"

definition decode_msg ::
  "(PacketType \<Rightarrow> bytes \<Rightarrow> pb_msg option) \<Rightarrow> PacketType \<Rightarrow> (pb_msg \<Rightarrow> 'm option) \<Rightarrow> RawMessage \<Rightarrow> (proto_error, 'm) res" where
  "decode_msg unmarshal pt as r = ToMessage pt (\<lambda>b. Option.bind (unmarshal pt b) as) r"

lemma decode_msg_Ok:
  "decode_msg unmarshal pt as r = Ok m \<longleftrightarrow>
     PacketType (rHeader r) = pt \<and> (\<exists>x. unmarshal pt (rPayload r) = Some x \<and> as x = Some m)"
  by (auto simp: decode_msg_def ToMessage_def bind_eq_Some_conv split: option.splits)

lemma decode_msg_no_panic [simp]: "\<not> panics (decode_msg unmarshal pt as r)"
  by (simp add: decode_msg_def ToMessage_def split: option.splits)

text \<open>A message that is marshalled and framed is decoded again by its receiver.\<close>

lemma decode_msg_framed:
  assumes "pb_faithful marshal unmarshal" "marshal m = Some b" "as m = Some x"
    and "PacketType (rHeader r) = pb_type m" "rPayload r = b"
  shows "decode_msg unmarshal (pb_type m) as r = Ok x"
  using assms by (auto simp: decode_msg_Ok pb_faithful_def)

end
