(* ===== verification/P2P.thy ===== *)
theory P2P
  imports Messages
begin

text \<open>
  The peer registry of an edge (\<^verbatim>\<open>pkg/p2p/p2p.go\<close>). The two maps of the registry hold
  pointers to shared peer objects, so the model has a heap: a list of peers whose index is
  the address. The invariant \<open>reg_wf\<close> ties both maps to the heap; every operation keeps it
  (the interpretation of \<open>step_system\<close>), and the properties say what a list event does to
  the registry and how the hole-punching counter of a peer runs out.
\<close>

section \<open>Peers\<close>

datatype UDPWriteStrategy = UDPEnforceSupernode | UDPBestEffort | UDPEnforceP2P

datatype P2PCapacity = P2PUnknown | P2PPending | P2PAvailable | P2PFullDuplex | P2PUnavailable

fun P2PCapacity_String :: "P2PCapacity \<Rightarrow> string" where
  "P2PCapacity_String P2PUnknown = ''Unknown''"
| "P2PCapacity_String P2PPending = ''Pending''"
| "P2PCapacity_String P2PAvailable = ''Available''"
| "P2PCapacity_String P2PUnavailable = ''Unavailable''"
| "P2PCapacity_String P2PFullDuplex = ''FullDuplex''"

record Peer =
  pInfos :: PeerInfo
  pStatus :: P2PCapacity
  pIsFullDuplex :: bool
  pCheckID :: string
  pendingTTL :: int
  pUpdatedAt :: int

definition resetPendingTTL :: "Peer \<Rightarrow> Peer" where
  "resetPendingTTL p = p\<lparr>pendingTTL := 30\<rparr>"

definition SetFullDuplex :: "bool \<Rightarrow> Peer \<Rightarrow> bool option \<times> Peer" where
  "SetFullDuplex v p =
     (if v \<and> pStatus p \<noteq> P2PAvailable then (None, p)
      else (Some (v \<noteq> pIsFullDuplex p), p\<lparr>pIsFullDuplex := v\<rparr>))"

definition UpdateP2PStatus :: "int \<Rightarrow> P2PCapacity \<Rightarrow> string \<Rightarrow> Peer \<Rightarrow> bool \<times> Peer" where
  "UpdateP2PStatus now status checkid p =
     (let p1 = (if pStatus p = status
                then (if status = P2PPending then p\<lparr>pendingTTL := pendingTTL p - 1\<rparr> else p)
                else (if pStatus p = P2PUnknown \<and> status = P2PPending then resetPendingTTL p else p));
          p2 = (if pendingTTL p1 < 1 then p1\<lparr>pCheckID := [], pStatus := P2PUnavailable\<rparr>
                else p1\<lparr>pCheckID := checkid, pStatus := status\<rparr>)
      in (pStatus p \<noteq> status, p2\<lparr>pUpdatedAt := now\<rparr>))"

text \<open>\<^verbatim>\<open>parseUDPAddr\<close>; an error of \<^verbatim>\<open>LookupPort\<close> is dropped and leaves port 0. The services
  table of the host is the parameter \<open>services\<close>.\<close>

definition parseUDPAddr :: "(string \<Rightarrow> int option) \<Rightarrow> string \<Rightarrow> udp_addr option" where
  "parseUDPAddr services socket =
     (case SplitHostPort socket of
        None \<Rightarrow> None
      | Some (host, portStr) \<Rightarrow>
          (case ParseIP host of
             None \<Rightarrow> None
           | Some ip \<Rightarrow> Some \<lparr>uIP = ip, uPort = (case LookupPort services portStr of Some n \<Rightarrow> n | None \<Rightarrow> 0)\<rparr>))"

definition peer_UDPAddr :: "(string \<Rightarrow> int option) \<Rightarrow> Peer \<Rightarrow> udp_addr option" where
  "peer_UDPAddr services p = parseUDPAddr services (piPubSocket (pInfos p))"

abbreviation sock_key :: "(string \<Rightarrow> int option) \<Rightarrow> Peer \<Rightarrow> string" where
  "sock_key services p \<equiv> udp_string (peer_UDPAddr services p)"

abbreviation mac_key :: "PeerInfo \<Rightarrow> string" where
  "mac_key i \<equiv> mac_string (piMacAddr i)"

section \<open>The registry\<close>

record PeerRegistry =
  rgCommunityName :: string
  rgMe :: "Peer option"
  rgPeers :: "(string, nat) gomap"
  peerBySocket :: "(string, nat) gomap"
  rgHeap :: "Peer list"
  rgReachables :: "(string, PeerP2PInfos) gomap option"
  rgUnReachables :: "(string, PeerCachedInfo) gomap option"
  IsWaitingCommunityDatas :: bool
  hasPendingChanges :: bool

datatype p2p_error =
    PeerNotFound string | PeerExists string | NilSocket | NilReachables | UnknownEventType

definition NewPeerRegistry :: "string \<Rightarrow> PeerRegistry" where
  "NewPeerRegistry communityName =
     \<lparr>rgCommunityName = communityName, rgMe = None, rgPeers = [], peerBySocket = [], rgHeap = [],
      rgReachables = None, rgUnReachables = None, IsWaitingCommunityDatas = False, hasPendingChanges = False\<rparr>"

definition UpdateP2PCommunityDatas ::
  "(string, PeerP2PInfos) gomap option \<Rightarrow> (string, PeerCachedInfo) gomap option
    \<Rightarrow> PeerRegistry \<Rightarrow> (p2p_error, PeerRegistry) res" where
  "UpdateP2PCommunityDatas reachables unreachables reg =
     (case reachables of
        None \<Rightarrow> Fail NilReachables
      | Some r \<Rightarrow> Ok (reg\<lparr>rgReachables := Some r,
          rgUnReachables := (case unreachables of Some u \<Rightarrow> Some u | None \<Rightarrow> Some []),
          IsWaitingCommunityDatas := False\<rparr>))"

definition GetPeerP2PInfos :: "PeerRegistry \<Rightarrow> PeerP2PInfos" where
  "GetPeerP2PInfos reg =
     (case rgMe reg of
        None \<Rightarrow> \<lparr>ppFrom = None, ppTo = []\<rparr>
      | Some me \<Rightarrow> \<lparr>ppFrom = Some (pInfos me), ppTo = map (\<lambda>(_, a). pInfos (rgHeap reg ! a)) (rgPeers reg)\<rparr>)"

definition GetPeer :: "string \<Rightarrow> PeerRegistry \<Rightarrow> (p2p_error, nat) res" where
  "GetPeer mac reg = (case gget (rgPeers reg) mac of Some a \<Rightarrow> Ok a | None \<Rightarrow> Fail (PeerNotFound mac))"

definition GetPeerBySocket :: "udp_addr option \<Rightarrow> PeerRegistry \<Rightarrow> (p2p_error, nat) res" where
  "GetPeerBySocket addr reg =
     (case addr of
        None \<Rightarrow> Fail NilSocket
      | Some u \<Rightarrow> (case gget (peerBySocket reg) (udp_string (Some u)) of
          Some a \<Rightarrow> Ok a | None \<Rightarrow> Fail (PeerNotFound (udp_string (Some u)))))"

definition SetPendingChanges :: "PeerRegistry \<Rightarrow> PeerRegistry" where
  "SetPendingChanges reg = reg\<lparr>hasPendingChanges := True\<rparr>"

definition ClearPendingChanges :: "PeerRegistry \<Rightarrow> PeerRegistry" where
  "ClearPendingChanges reg = reg\<lparr>hasPendingChanges := False\<rparr>"

definition AddPeer ::
  "(string \<Rightarrow> int option) \<Rightarrow> int \<Rightarrow> PeerInfo \<Rightarrow> bool \<Rightarrow> PeerRegistry \<Rightarrow> (p2p_error, nat) res \<times> PeerRegistry" where
  "AddPeer services now infos overwrite reg =
     (case gget (rgPeers reg) (mac_key infos) of
        Some a \<Rightarrow>
          if \<not> overwrite then (Fail (PeerExists (mac_key infos)), reg)
          else
            let orig = rgHeap reg ! a;
                p1 = (if piVirtualIp (pInfos orig) \<noteq> piVirtualIp infos \<or> piPubSocket (pInfos orig) \<noteq> piPubSocket infos
                      then orig\<lparr>pStatus := P2PUnknown, pCheckID := []\<rparr> else orig);
                p2 = p1\<lparr>pInfos := infos, pUpdatedAt := now\<rparr>
            in (Ok a, SetPendingChanges (reg\<lparr>rgHeap := (rgHeap reg)[a := p2],
                  peerBySocket := gput (gdel (peerBySocket reg) (sock_key services orig)) (sock_key services p2) a\<rparr>))
      | None \<Rightarrow>
          let a = length (rgHeap reg);
              peer = \<lparr>pInfos = infos, pStatus = P2PUnknown, pIsFullDuplex = False, pCheckID = [],
                      pendingTTL = 0, pUpdatedAt = now\<rparr>
          in (Ok a, SetPendingChanges (reg\<lparr>rgHeap := rgHeap reg @ [peer],
                rgPeers := gput (rgPeers reg) (mac_key infos) a,
                peerBySocket := gput (peerBySocket reg) (sock_key services peer) a\<rparr>)))"

definition RemovePeer :: "(string \<Rightarrow> int option) \<Rightarrow> string \<Rightarrow> PeerRegistry \<Rightarrow> PeerRegistry" where
  "RemovePeer services mac reg =
     (case gget (rgPeers reg) mac of
        None \<Rightarrow> reg
      | Some a \<Rightarrow> SetPendingChanges (reg\<lparr>rgPeers := gdel (rgPeers reg) mac,
          peerBySocket := gdel (peerBySocket reg) (sock_key services (rgHeap reg ! a))\<rparr>))"

definition peers_with :: "P2PCapacity \<Rightarrow> PeerRegistry \<Rightarrow> nat list" where
  "peers_with c reg = filter (\<lambda>a. pStatus (rgHeap reg ! a) = c) (map snd (rgPeers reg))"

definition GetP2PUnknownPeers :: "PeerRegistry \<Rightarrow> nat list" where
  "GetP2PUnknownPeers reg = peers_with P2PUnknown reg"

definition GetP2PAvailablePeers :: "PeerRegistry \<Rightarrow> nat list" where
  "GetP2PAvailablePeers reg = peers_with P2PAvailable reg"

text \<open>\<^verbatim>\<open>GetP2PendingPeers\<close> also demotes the pending peers whose counter has run out.\<close>

fun pending_loop :: "int \<Rightarrow> nat list \<Rightarrow> Peer list \<Rightarrow> nat list \<times> Peer list" where
  "pending_loop now [] h = ([], h)"
| "pending_loop now (a # as) h =
     (if pStatus (h ! a) = P2PPending then
        (if pendingTTL (h ! a) > 0
         then (let (l, h') = pending_loop now as h in (a # l, h'))
         else pending_loop now as (h[a := snd (UpdateP2PStatus now P2PUnavailable [] (h ! a))]))
      else pending_loop now as h)"

definition GetP2PendingPeers :: "int \<Rightarrow> PeerRegistry \<Rightarrow> nat list \<times> PeerRegistry" where
  "GetP2PendingPeers now reg =
     (let (l, h) = pending_loop now (map snd (rgPeers reg)) (rgHeap reg) in (l, reg\<lparr>rgHeap := h\<rparr>))"

text \<open>\<^verbatim>\<open>HandlePeerInfoList\<close>. A list that announces an origin but carries none makes the
  dereference of \<^verbatim>\<open>GetOrigin\<close> panic; the event type is cut to 8 bits before the switch.\<close>

fun add_peers ::
  "(string \<Rightarrow> int option) \<Rightarrow> int \<Rightarrow> PeerInfo list \<Rightarrow> bool \<Rightarrow> PeerRegistry \<Rightarrow> (p2p_error, unit) res \<times> PeerRegistry" where
  "add_peers services now [] overwrite reg = (Ok (), reg)"
| "add_peers services now (i # is) overwrite reg =
     (case AddPeer services now i overwrite reg of
        (Inl e, reg') \<Rightarrow> (Inl e, reg')
      | (Inr _, reg') \<Rightarrow> add_peers services now is overwrite reg')"

definition remove_peers :: "(string \<Rightarrow> int option) \<Rightarrow> string list \<Rightarrow> PeerRegistry \<Rightarrow> PeerRegistry" where
  "remove_peers services ms reg = fold (RemovePeer services) ms reg"

definition reset_peers :: "bool \<Rightarrow> PeerRegistry \<Rightarrow> PeerRegistry" where
  "reset_peers reset reg = (if reset then reg\<lparr>rgPeers := [], peerBySocket := []\<rparr> else reg)"

definition set_origin :: "int \<Rightarrow> PeerInfo \<Rightarrow> PeerRegistry \<Rightarrow> PeerRegistry" where
  "set_origin now info reg =
     reg\<lparr>rgMe := Some \<lparr>pInfos = info, pStatus = P2PUnknown, pIsFullDuplex = False, pCheckID = [],
                        pendingTTL = 0, pUpdatedAt = now\<rparr>\<rparr>"

definition handle_list_event ::
  "(string \<Rightarrow> int option) \<Rightarrow> int \<Rightarrow> PeerInfo list \<Rightarrow> bool \<Rightarrow> bool \<Rightarrow> PeerRegistry \<Rightarrow> (p2p_error, unit) res \<times> PeerRegistry" where
  "handle_list_event services now infos reset overwrite reg =
     (case add_peers services now infos overwrite reg of
        (Inl e, r) \<Rightarrow> (Inl e, r)
      | (Inr _, r) \<Rightarrow>
          (Ok (), if reset then r
                  else remove_peers services
                    (filter (\<lambda>m. m \<notin> set (map mac_key infos)) (map fst (rgPeers r))) r))"

definition HandlePeerInfoList ::
  "(string \<Rightarrow> int option) \<Rightarrow> int \<Rightarrow> PeerInfoList \<Rightarrow> bool \<Rightarrow> bool \<Rightarrow> PeerRegistry \<Rightarrow> (p2p_error, unit) res \<times> PeerRegistry" where
  "HandlePeerInfoList services now pil reset overwrite reg =
     (let ev = ucast (plEventType pil) in
      if ev = TypeList then
        let r1 = reset_peers reset reg in
        if plHasOrigin pil then
          (case plOrigin pil of
             None \<Rightarrow> (Panic NilDereference, r1)
           | Some me \<Rightarrow> handle_list_event services now (plPeerInfos pil) reset overwrite (set_origin now me r1))
        else handle_list_event services now (plPeerInfos pil) reset overwrite r1
      else if ev = TypeRegister then add_peers services now (plPeerInfos pil) overwrite reg
      else if ev = TypeUnregister then (Ok (), remove_peers services (map mac_key (plPeerInfos pil)) reg)
      else (Fail UnknownEventType, reg))"

section \<open>The invariant\<close>

text \<open>
  Both maps hold addresses of the heap. A peer is registered under the address it carries,
  an entry of the socket map is filed under the socket of its peer, and it never outlives
  the peer's registration.
\<close>

definition reg_wf :: "(string \<Rightarrow> int option) \<Rightarrow> PeerRegistry \<Rightarrow> bool" where
  "reg_wf services reg \<longleftrightarrow>
     gwf (rgPeers reg) \<and> gwf (peerBySocket reg) \<and>
     (\<forall>m a. gget (rgPeers reg) m = Some a \<longrightarrow>
        a < length (rgHeap reg) \<and> mac_key (pInfos (rgHeap reg ! a)) = m) \<and>
     (\<forall>k a. gget (peerBySocket reg) k = Some a \<longrightarrow>
        k = sock_key services (rgHeap reg ! a) \<and>
        gget (rgPeers reg) (mac_key (pInfos (rgHeap reg ! a))) = Some a)"

lemma reg_wfI:
  assumes "gwf (rgPeers reg)" "gwf (peerBySocket reg)"
    and "\<And>m a. gget (rgPeers reg) m = Some a \<Longrightarrow>
        a < length (rgHeap reg) \<and> mac_key (pInfos (rgHeap reg ! a)) = m"
    and "\<And>k a. gget (peerBySocket reg) k = Some a \<Longrightarrow>
        k = sock_key services (rgHeap reg ! a) \<and>
        gget (rgPeers reg) (mac_key (pInfos (rgHeap reg ! a))) = Some a"
  shows "reg_wf services reg"
  using assms by (simp add: reg_wf_def)

lemma reg_wf_peer:
  "reg_wf services reg \<Longrightarrow> gget (rgPeers reg) m = Some a \<Longrightarrow>
     a < length (rgHeap reg) \<and> mac_key (pInfos (rgHeap reg ! a)) = m"
  by (simp add: reg_wf_def)

lemma reg_wf_socket:
  "reg_wf services reg \<Longrightarrow> gget (peerBySocket reg) k = Some a \<Longrightarrow>
     k = sock_key services (rgHeap reg ! a) \<and> gget (rgPeers reg) (mac_key (pInfos (rgHeap reg ! a))) = Some a"
  by (simp add: reg_wf_def)

lemma reg_wf_maps: "reg_wf services reg \<Longrightarrow> gwf (rgPeers reg) \<and> gwf (peerBySocket reg)"
  by (simp add: reg_wf_def)

lemma reg_wf_cong:
  "rgPeers reg' = rgPeers reg \<Longrightarrow> peerBySocket reg' = peerBySocket reg \<Longrightarrow> rgHeap reg' = rgHeap reg \<Longrightarrow>
     reg_wf services reg' = reg_wf services reg"
  by (simp add: reg_wf_def)

lemma reg_wf_NewPeerRegistry: "reg_wf services (NewPeerRegistry c)"
  by (simp add: reg_wf_def NewPeerRegistry_def)

lemma reg_wf_RemovePeer:
  assumes "reg_wf services reg"
  shows "reg_wf services (RemovePeer services mac reg)"
proof (cases "gget (rgPeers reg) mac")
  case (Some a)
  then have a: "mac_key (pInfos (rgHeap reg ! a)) = mac" using reg_wf_peer [OF assms] by simp
  show ?thesis
  proof (rule reg_wfI)
    fix k b assume "gget (peerBySocket (RemovePeer services mac reg)) k = Some b"
    then have "gget (peerBySocket reg) k = Some b" and k: "k \<noteq> sock_key services (rgHeap reg ! a)"
      using Some by (simp_all add: RemovePeer_def SetPendingChanges_def split: if_splits)
    then have b: "k = sock_key services (rgHeap reg ! b)"
        "gget (rgPeers reg) (mac_key (pInfos (rgHeap reg ! b))) = Some b"
      using reg_wf_socket [OF assms] by simp_all
    with k have "b \<noteq> a" by auto
    then have "mac_key (pInfos (rgHeap reg ! b)) \<noteq> mac" using b Some by auto
    then show "k = sock_key services (rgHeap (RemovePeer services mac reg) ! b) \<and>
        gget (rgPeers (RemovePeer services mac reg)) (mac_key (pInfos (rgHeap (RemovePeer services mac reg) ! b))) = Some b"
      using b Some by (simp add: RemovePeer_def SetPendingChanges_def)
  qed (use Some reg_wf_maps [OF assms] reg_wf_peer [OF assms] in
      \<open>auto simp: RemovePeer_def SetPendingChanges_def split: if_splits\<close>)
qed (simp add: RemovePeer_def assms)

text \<open>Replacing a peer in place: its address stays, its old socket key goes, the new one comes.\<close>

lemma reg_wf_replace:
  assumes wf: "reg_wf services reg" and a: "gget (rgPeers reg) m = Some a"
    and m: "mac_key (pInfos p) = m"
  shows "reg_wf services (reg\<lparr>rgHeap := (rgHeap reg)[a := p],
    peerBySocket := gput (gdel (peerBySocket reg) (sock_key services (rgHeap reg ! a))) (sock_key services p) a\<rparr>)"
    (is "reg_wf services ?r")
proof (rule reg_wfI)
  fix n b assume "gget (rgPeers ?r) n = Some b"
  then show "b < length (rgHeap ?r) \<and> mac_key (pInfos (rgHeap ?r ! b)) = n"
    using reg_wf_peer [OF wf, of n b] reg_wf_peer [OF wf a] m by (cases "b = a") auto
next
  fix k b assume k: "gget (peerBySocket ?r) k = Some b"
  have la: "a < length (rgHeap reg)" "mac_key (pInfos (rgHeap reg ! a)) = m" using reg_wf_peer [OF wf a] by auto
  show "k = sock_key services (rgHeap ?r ! b) \<and> gget (rgPeers ?r) (mac_key (pInfos (rgHeap ?r ! b))) = Some b"
  proof (cases "b = a")
    case True
    then have "k = sock_key services p"
      using k reg_wf_socket [OF wf, of k a] by (auto split: if_splits)
    then show ?thesis using True la a m by simp
  next
    case False
    then show ?thesis
      using k reg_wf_socket [OF wf, of k b] by (auto split: if_splits)
  qed
qed (use reg_wf_maps [OF wf] in auto)

lemma reg_wf_insert:
  assumes wf: "reg_wf services reg" and m: "gget (rgPeers reg) (mac_key (pInfos p)) = None"
  shows "reg_wf services (reg\<lparr>rgHeap := rgHeap reg @ [p],
    rgPeers := gput (rgPeers reg) (mac_key (pInfos p)) (length (rgHeap reg)),
    peerBySocket := gput (peerBySocket reg) (sock_key services p) (length (rgHeap reg))\<rparr>)"
    (is "reg_wf services ?r")
proof (rule reg_wfI)
  fix n b assume n: "gget (rgPeers ?r) n = Some b"
  show "b < length (rgHeap ?r) \<and> mac_key (pInfos (rgHeap ?r ! b)) = n"
  proof (cases "n = mac_key (pInfos p)")
    case True
    then show ?thesis using n by (auto simp: nth_append)
  next
    case False
    then show ?thesis using n reg_wf_peer [OF wf, of n b] by (simp add: nth_append)
  qed
next
  fix k b assume k: "gget (peerBySocket ?r) k = Some b"
  show "k = sock_key services (rgHeap ?r ! b) \<and> gget (rgPeers ?r) (mac_key (pInfos (rgHeap ?r ! b))) = Some b"
  proof (cases "k = sock_key services p")
    case True
    then show ?thesis using k by (auto simp: nth_append)
  next
    case False
    then have b: "k = sock_key services (rgHeap reg ! b)"
        "gget (rgPeers reg) (mac_key (pInfos (rgHeap reg ! b))) = Some b"
      using k reg_wf_socket [OF wf, of k b] by simp_all
    have "b < length (rgHeap reg)" using reg_wf_peer [OF wf b(2)] by simp
    moreover have "mac_key (pInfos (rgHeap reg ! b)) \<noteq> mac_key (pInfos p)" using b(2) m by auto
    ultimately show ?thesis using b by (simp add: nth_append)
  qed
qed (use reg_wf_maps [OF wf] in auto)

lemma reg_wf_AddPeer:
  assumes wf: "reg_wf services reg"
  shows "reg_wf services (snd (AddPeer services now i ow reg))"
proof (cases "gget (rgPeers reg) (mac_key i)")
  case None
  let ?p = "\<lparr>pInfos = i, pStatus = P2PUnknown, pIsFullDuplex = False, pCheckID = [], pendingTTL = 0, pUpdatedAt = now\<rparr>"
  show ?thesis
    using reg_wf_insert [OF wf, of ?p] None
    by (simp add: AddPeer_def SetPendingChanges_def Let_def reg_wf_def)
next
  case (Some a)
  show ?thesis
    using reg_wf_replace [OF wf Some] Some wf
    by (simp add: AddPeer_def SetPendingChanges_def Let_def reg_wf_def)
qed

lemma reg_wf_add_peers:
  "reg_wf services reg \<Longrightarrow> reg_wf services (snd (add_peers services now is ow reg))"
proof (induction "is" arbitrary: reg)
  case (Cons i "is")
  obtain r reg' where ap: "AddPeer services now i ow reg = (r, reg')" by fastforce
  then have "reg_wf services reg'" using reg_wf_AddPeer [OF Cons.prems, of now i ow] by simp
  then show ?case using Cons.IH ap by (cases r) simp_all
qed simp

lemma reg_wf_remove_peers: "reg_wf services reg \<Longrightarrow> reg_wf services (remove_peers services ms reg)"
  by (induction ms arbitrary: reg) (simp_all add: remove_peers_def reg_wf_RemovePeer)

lemma reg_wf_reset_peers: "reg_wf services reg \<Longrightarrow> reg_wf services (reset_peers reset reg)"
  by (simp add: reset_peers_def reg_wf_def)

lemma reg_wf_set_origin: "reg_wf services (set_origin now i reg) = reg_wf services reg"
  by (simp add: set_origin_def reg_wf_def)

lemma reg_wf_handle_list_event:
  "reg_wf services reg \<Longrightarrow> reg_wf services (snd (handle_list_event services now is reset ow reg))"
  using reg_wf_add_peers [of services reg now "is" ow]
  by (auto simp: handle_list_event_def reg_wf_remove_peers split: prod.splits sum.splits)

lemma reg_wf_HandlePeerInfoList:
  "reg_wf services reg \<Longrightarrow> reg_wf services (snd (HandlePeerInfoList services now pil reset ow reg))"
  by (simp add: HandlePeerInfoList_def Let_def reg_wf_handle_list_event reg_wf_set_origin
      reg_wf_reset_peers reg_wf_add_peers reg_wf_remove_peers split: option.splits)

lemma UpdateP2PStatus_pInfos [simp]: "pInfos (snd (UpdateP2PStatus now st c p)) = pInfos p"
  by (simp add: UpdateP2PStatus_def Let_def resetPendingTTL_def)

lemma reg_wf_same_infos:
  assumes "reg_wf services reg" "length h = length (rgHeap reg)"
    and "\<And>a. pInfos (h ! a) = pInfos (rgHeap reg ! a)"
  shows "reg_wf services (reg\<lparr>rgHeap := h\<rparr>)"
  using assms by (simp add: reg_wf_def peer_UDPAddr_def)

lemma pending_loop_infos:
  "length (snd (pending_loop now as h)) = length h \<and> pInfos (snd (pending_loop now as h) ! b) = pInfos (h ! b)"
proof (induction now as h rule: pending_loop.induct)
  case (2 now a as h)
  then show ?case by (cases "b = a"; cases "a < length h") (auto split: prod.splits simp: nth_list_update list_update_beyond)
qed simp

lemma reg_wf_GetP2PendingPeers: "reg_wf services reg \<Longrightarrow> reg_wf services (snd (GetP2PendingPeers now reg))"
  using reg_wf_same_infos [of services reg "snd (pending_loop now (map snd (rgPeers reg)) (rgHeap reg))"]
    pending_loop_infos [of now "map snd (rgPeers reg)" "rgHeap reg"]
  by (simp add: GetP2PendingPeers_def split_beta)

section \<open>The registry as a system of events\<close>

text \<open>What an edge does with its registry: peer lists arrive, the status or the duplex flag of a
  peer changes, pending peers are collected, and the community data are replaced.\<close>

datatype reg_event =
    EvPeerInfoList int PeerInfoList bool bool
  | EvStatus int string P2PCapacity string
  | EvFullDuplex string bool
  | EvPending int
  | EvCommunityDatas "(string, PeerP2PInfos) gomap option" "(string, PeerCachedInfo) gomap option"
  | EvClear

definition on_peer :: "string \<Rightarrow> (Peer \<Rightarrow> Peer) \<Rightarrow> PeerRegistry \<Rightarrow> PeerRegistry" where
  "on_peer mac f reg =
     (case GetPeer mac reg of Inl _ \<Rightarrow> reg | Inr a \<Rightarrow> reg\<lparr>rgHeap := (rgHeap reg)[a := f (rgHeap reg ! a)]\<rparr>)"

fun reg_step :: "(string \<Rightarrow> int option) \<Rightarrow> reg_event \<Rightarrow> PeerRegistry \<Rightarrow> PeerRegistry" where
  "reg_step services (EvPeerInfoList now pil reset ow) reg = snd (HandlePeerInfoList services now pil reset ow reg)"
| "reg_step services (EvStatus now mac st c) reg = on_peer mac (\<lambda>p. snd (UpdateP2PStatus now st c p)) reg"
| "reg_step services (EvFullDuplex mac v) reg = on_peer mac (\<lambda>p. snd (SetFullDuplex v p)) reg"
| "reg_step services (EvPending now) reg = snd (GetP2PendingPeers now reg)"
| "reg_step services (EvCommunityDatas r u) reg =
     (case UpdateP2PCommunityDatas r u reg of Inl _ \<Rightarrow> reg | Inr reg' \<Rightarrow> reg')"
| "reg_step services EvClear reg = ClearPendingChanges reg"

lemma reg_wf_on_peer:
  assumes "reg_wf services reg" "\<And>p. pInfos (f p) = pInfos p"
  shows "reg_wf services (on_peer mac f reg)"
proof (cases "GetPeer mac reg")
  case (Inr a)
  have "pInfos ((rgHeap reg)[a := f (rgHeap reg ! a)] ! b) = pInfos (rgHeap reg ! b)" for b
    using assms(2) by (cases "b = a"; cases "a < length (rgHeap reg)") (simp_all add: list_update_beyond)
  then show ?thesis using reg_wf_same_infos [OF assms(1)] Inr by (simp add: on_peer_def)
qed (simp add: on_peer_def assms(1))

lemma reg_wf_UpdateP2PCommunityDatas:
  "reg_wf services reg \<Longrightarrow> UpdateP2PCommunityDatas r u reg = Inr reg' \<Longrightarrow> reg_wf services reg'"
  by (auto simp: UpdateP2PCommunityDatas_def reg_wf_def split: option.splits)

lemma reg_wf_ClearPendingChanges: "reg_wf services reg \<Longrightarrow> reg_wf services (ClearPendingChanges reg)"
  by (simp add: ClearPendingChanges_def reg_wf_def)

lemma SetFullDuplex_pInfos [simp]: "pInfos (snd (SetFullDuplex v p)) = pInfos p"
  by (simp add: SetFullDuplex_def)

lemmas reg_wf_kept = reg_wf_HandlePeerInfoList reg_wf_GetP2PendingPeers reg_wf_on_peer
  reg_wf_UpdateP2PCommunityDatas reg_wf_ClearPendingChanges

interpretation reg: step_system "reg_step services" "reg_wf services" for services
proof unfold_locales
  fix s e assume "reg_wf services s"
  then show "reg_wf services (reg_step services e s)"
    by (cases e) (simp_all add: reg_wf_kept split: sum.splits)
qed

lemma AddPeer_overwrite:
  assumes wf: "reg_wf services reg"
  shows "\<exists>a reg'. AddPeer services now i True reg = (Ok a, reg') \<and>
    gget (rgPeers reg') (mac_key i) = Some a \<and> pInfos (rgHeap reg' ! a) = i \<and>
    gkeys (rgPeers reg') = insert (mac_key i) (gkeys (rgPeers reg)) \<and>
    (\<forall>m b. m \<noteq> mac_key i \<longrightarrow> gget (rgPeers reg) m = Some b \<longrightarrow>
       gget (rgPeers reg') m = Some b \<and> pInfos (rgHeap reg' ! b) = pInfos (rgHeap reg ! b))"
proof (cases "gget (rgPeers reg) (mac_key i)")
  case None
  have "b < length (rgHeap reg)" if "gget (rgPeers reg) m = Some b" for m b
    using reg_wf_peer [OF wf that] by simp
  then show ?thesis
    using None by (auto simp: AddPeer_def SetPendingChanges_def Let_def nth_append)
next
  case (Some a)
  have a: "a < length (rgHeap reg)" "mac_key (pInfos (rgHeap reg ! a)) = mac_key i"
    using reg_wf_peer [OF wf Some] by simp_all
  have "(rgHeap reg)[a := p] ! b = rgHeap reg ! b" if "gget (rgPeers reg) m = Some b" "m \<noteq> mac_key i" for m b p
    using reg_wf_peer [OF wf that(1)] that(2) a by (cases "b = a") auto
  then show ?thesis
    using Some a by (auto simp: AddPeer_def SetPendingChanges_def Let_def gkeys_iff)
qed

lemma add_peers_overwrite:
  assumes "reg_wf services reg"
  shows "\<exists>reg'. add_peers services now is True reg = (Ok (), reg') \<and>
    gkeys (rgPeers reg') = gkeys (rgPeers reg) \<union> set (map mac_key is) \<and>
    (distinct (map mac_key is) \<longrightarrow> (\<forall>i \<in> set is. \<exists>a. gget (rgPeers reg') (mac_key i) = Some a \<and> pInfos (rgHeap reg' ! a) = i)) \<and>
    (\<forall>m b. m \<notin> set (map mac_key is) \<longrightarrow> gget (rgPeers reg) m = Some b \<longrightarrow>
       gget (rgPeers reg') m = Some b \<and> pInfos (rgHeap reg' ! b) = pInfos (rgHeap reg ! b))"
  using assms
proof (induction "is" arbitrary: reg)
  case (Cons i "is")
  obtain a r where ap: "AddPeer services now i True reg = (Ok a, r)"
    and i: "gget (rgPeers r) (mac_key i) = Some a" "pInfos (rgHeap r ! a) = i"
    and k: "gkeys (rgPeers r) = insert (mac_key i) (gkeys (rgPeers reg))"
    and o1: "\<And>m b. m \<noteq> mac_key i \<Longrightarrow> gget (rgPeers reg) m = Some b \<Longrightarrow>
       gget (rgPeers r) m = Some b \<and> pInfos (rgHeap r ! b) = pInfos (rgHeap reg ! b)"
    using AddPeer_overwrite [OF Cons.prems, of now i] by blast
  have "reg_wf services r" using reg_wf_AddPeer [OF Cons.prems, of now i True] ap by simp
  from Cons.IH [OF this] obtain reg' where ih: "add_peers services now is True r = (Ok (), reg')"
    "gkeys (rgPeers reg') = gkeys (rgPeers r) \<union> set (map mac_key is)"
    and d: "distinct (map mac_key is) \<Longrightarrow> \<forall>j \<in> set is. \<exists>b. gget (rgPeers reg') (mac_key j) = Some b \<and> pInfos (rgHeap reg' ! b) = j"
    and o2: "\<And>m b. m \<notin> set (map mac_key is) \<Longrightarrow> gget (rgPeers r) m = Some b \<Longrightarrow>
       gget (rgPeers reg') m = Some b \<and> pInfos (rgHeap reg' ! b) = pInfos (rgHeap r ! b)"
    by blast
  have "\<exists>b. gget (rgPeers reg') (mac_key i) = Some b \<and> pInfos (rgHeap reg' ! b) = i"
    if "mac_key i \<notin> set (map mac_key is)"
    using o2 [OF that i(1)] i(2) by auto
  then show ?case
    using ap ih k d o1 o2 by auto
qed simp

lemma rgPeers_RemovePeer: "rgPeers (RemovePeer services m reg) = (if m \<in> gkeys (rgPeers reg) then gdel (rgPeers reg) m else rgPeers reg)"
  by (auto simp: RemovePeer_def SetPendingChanges_def gkeys_iff split: option.splits)

lemma rgHeap_RemovePeer [simp]: "rgHeap (RemovePeer services m reg) = rgHeap reg"
  by (simp add: RemovePeer_def SetPendingChanges_def split: option.splits)

lemma remove_peers_heap [simp]: "rgHeap (remove_peers services ms reg) = rgHeap reg"
  by (induction ms arbitrary: reg) (simp_all add: remove_peers_def)

lemma gget_remove_peers:
  "gget (rgPeers (remove_peers services ms reg)) m = (if m \<in> set ms then None else gget (rgPeers reg) m)"
proof (induction ms arbitrary: reg)
  case (Cons x xs)
  then show ?case
    by (auto simp: remove_peers_def rgPeers_RemovePeer gget_None_iff)
qed (simp add: remove_peers_def)

lemma gkeys_remove_peers: "gkeys (rgPeers (remove_peers services ms reg)) = gkeys (rgPeers reg) - set ms"
  by (auto simp: gkeys_iff gget_remove_peers split: if_splits)

lemma handle_list_event_overwrite:
  assumes "reg_wf services r" "distinct (map mac_key is)" "reset \<Longrightarrow> rgPeers r = []"
  shows "\<exists>reg'. handle_list_event services now is reset True r = (Ok (), reg') \<and>
    gkeys (rgPeers reg') = set (map mac_key is) \<and>
    (\<forall>i \<in> set is. \<exists>a. GetPeer (mac_key i) reg' = Ok a \<and> pInfos (rgHeap reg' ! a) = i)"
proof -
  obtain r' where ap: "add_peers services now is True r = (Ok (), r')"
    and k: "gkeys (rgPeers r') = gkeys (rgPeers r) \<union> set (map mac_key is)"
    and d: "\<forall>i \<in> set is. \<exists>a. gget (rgPeers r') (mac_key i) = Some a \<and> pInfos (rgHeap r' ! a) = i"
    using add_peers_overwrite [OF assms(1), of now "is"] assms(2) by blast
  define ms where "ms = filter (\<lambda>m. m \<notin> set (map mac_key is)) (map fst (rgPeers r'))"
  have ms: "set ms = gkeys (rgPeers r') - set (map mac_key is)" by (auto simp: ms_def gkeys_def)
  show ?thesis
  proof (cases reset)
    case True
    then show ?thesis using ap k d assms(3) by (auto simp: handle_list_event_def GetPeer_def)
  next
    case False
    have "gkeys (rgPeers (remove_peers services ms r')) = set (map mac_key is)"
      using k unfolding gkeys_remove_peers ms by blast
    moreover have "\<forall>i \<in> set is. \<exists>a. GetPeer (mac_key i) (remove_peers services ms r') = Ok a \<and> pInfos (rgHeap r' ! a) = i"
    proof
      fix i assume "i \<in> set is"
      then have "mac_key i \<notin> set ms" using ms by auto
      then show "\<exists>a. GetPeer (mac_key i) (remove_peers services ms r') = Ok a \<and> pInfos (rgHeap r' ! a) = i"
        using d \<open>i \<in> set is\<close> by (fastforce simp: GetPeer_def gget_remove_peers)
    qed
    moreover have "handle_list_event services now is reset True r = (Ok (), remove_peers services ms r')"
      using ap False by (simp add: handle_list_event_def ms_def)
    ultimately show ?thesis by simp
  qed
qed

section \<open>Properties of the registry\<close>

text \<open>In every registry that a sequence of events can produce, a peer found by a socket
  address is a peer whose own public socket prints as that address, and it is the peer
  registered under its hardware address: the socket index never dangles.\<close>

theorem socket_lookup_sound:
  assumes "reg = fold (reg_step services) es (NewPeerRegistry c)"
    and "GetPeerBySocket (Some u) reg = Ok a"
  shows "a < length (rgHeap reg) \<and> udp_string (peer_UDPAddr services (rgHeap reg ! a)) = udp_string (Some u) \<and>
    GetPeer (mac_key (pInfos (rgHeap reg ! a))) reg = Ok a"
proof -
  have wf: "reg_wf services reg"
    unfolding assms(1) by (rule reg.inv_run) (rule reg_wf_NewPeerRegistry)
  have "gget (peerBySocket reg) (udp_string (Some u)) = Some a"
    using assms(2) by (simp add: GetPeerBySocket_def split: option.splits)
  from reg_wf_socket [OF wf this] show ?thesis
    using reg_wf_peer [OF wf] by (auto simp: GetPeer_def)
qed

definition sample_peer :: PeerInfo where
  "sample_peer = \<lparr>piVirtualIp = ''10.128.0.2'', piMacAddr = [2, 0, 0, 0, 0, 1], piPubSocket = ''1.2.3.4:5'',
     piCommunity = ''c'', piDesc = ''d''\<rparr>"

definition sample_list :: PeerInfoList where
  "sample_list = \<lparr>plHasOrigin = False, plOrigin = None, plPeerInfos = [sample_peer], plEventType = 1\<rparr>"

definition sample_registry :: PeerRegistry where
  "sample_registry = fold (reg_step (\<lambda>_. None)) [EvPeerInfoList 7 sample_list False True] (NewPeerRegistry ''c'')"

theorem socket_lookup_sound_witness:
  "GetPeerBySocket (Some \<lparr>uIP = [1, 2, 3, 4], uPort = 5\<rparr>) sample_registry = Ok 0 \<and>
   0 < length (rgHeap sample_registry) \<and>
   udp_string (peer_UDPAddr (\<lambda>_. None) (rgHeap sample_registry ! 0)) = udp_string (Some \<lparr>uIP = [1, 2, 3, 4], uPort = 5\<rparr>) \<and>
   GetPeer (mac_key (pInfos (rgHeap sample_registry ! 0))) sample_registry = Ok 0"
proof -
  have "GetPeerBySocket (Some \<lparr>uIP = [1, 2, 3, 4], uPort = 5\<rparr>) sample_registry = Ok 0" by code_simp
  with socket_lookup_sound [OF sample_registry_def this] show ?thesis by blast
qed

text \<open>After a list event with overwriting the registry holds exactly the peers of the list,
  whether or not it was reset first and whatever it held before, and every listed peer is
  registered with the information of the list.\<close>

theorem list_event_sets_registry:
  assumes "reg_wf services reg" "ucast (plEventType pil) = TypeList"
    and "plHasOrigin pil \<Longrightarrow> plOrigin pil \<noteq> None" "distinct (map mac_key (plPeerInfos pil))"
  shows "\<exists>reg'. HandlePeerInfoList services now pil reset True reg = (Ok (), reg') \<and>
    gkeys (rgPeers reg') = set (map mac_key (plPeerInfos pil)) \<and>
    (\<forall>i \<in> set (plPeerInfos pil). \<exists>a. GetPeer (mac_key i) reg' = Ok a \<and> pInfos (rgHeap reg' ! a) = i)"
proof -
  let ?r = "reset_peers reset reg"
  have r: "reg_wf services ?r" "reset \<Longrightarrow> rgPeers ?r = []"
    using assms(1) by (simp_all add: reg_wf_reset_peers) (simp add: reset_peers_def)
  have me: "reg_wf services (set_origin now me ?r)" "rgPeers (set_origin now me ?r) = rgPeers ?r" for me
    using r(1) by (simp_all add: reg_wf_set_origin) (simp add: set_origin_def)
  have e: "reset \<Longrightarrow> rgPeers (set_origin now me ?r) = []" for me using r(2) me(2) by simp
  show ?thesis
  proof (cases "plHasOrigin pil")
    case True
    then obtain me where "plOrigin pil = Some me" using assms(3) by auto
    then show ?thesis
      using handle_list_event_overwrite [where reset = reset and now = now, OF me(1) assms(4) e] True assms(2)
      by (simp add: HandlePeerInfoList_def)
  next
    case False
    then show ?thesis
      using handle_list_event_overwrite [where reset = reset and now = now, OF r(1) assms(4) r(2)] assms(2)
      by (simp add: HandlePeerInfoList_def)
  qed
qed

theorem list_event_sets_registry_witness:
  "\<exists>reg'. HandlePeerInfoList (\<lambda>_. None) 9 sample_list False True sample_registry = (Ok (), reg') \<and>
    gkeys (rgPeers reg') = set (map mac_key (plPeerInfos sample_list)) \<and>
    (\<forall>i \<in> set (plPeerInfos sample_list). \<exists>a. GetPeer (mac_key i) reg' = Ok a \<and> pInfos (rgHeap reg' ! a) = i)"
proof (rule list_event_sets_registry)
  show "reg_wf (\<lambda>_. None) sample_registry"
    unfolding sample_registry_def by (rule reg.inv_run) (rule reg_wf_NewPeerRegistry)
qed (simp_all add: sample_list_def TypeList_def)

text \<open>\<^verbatim>\<open>HandlePeerInfoList\<close> panics on one input only: a list that announces an origin it does not
  carry.\<close>

lemma AddPeer_no_panic [simp]: "\<not> panics (fst (AddPeer services now i ow reg))"
  by (simp add: AddPeer_def Let_def split: option.splits)

lemma add_peers_no_panic [simp]: "\<not> panics (fst (add_peers services now is ow reg))"
proof (induction "is" arbitrary: reg)
  case (Cons i "is")
  obtain r reg' where ap: "AddPeer services now i ow reg = (r, reg')" by fastforce
  then show ?case
    using Cons AddPeer_no_panic [of services now i ow reg] by (cases r) (auto simp: panics_def)
qed simp

lemma handle_list_event_no_panic [simp]: "\<not> panics (fst (handle_list_event services now is reset ow reg))"
  using add_peers_no_panic [of services now "is" ow reg]
  by (auto simp: handle_list_event_def panics_def split: prod.splits sum.splits fault.splits)

text \<open>C17. Handling a peer list panics exactly when it is a list event that announces an origin
  and carries none; every other list, well formed or not, is handled or refused with an
  error.\<close>

theorem peer_list_panics_iff:
  "panics (fst (HandlePeerInfoList services now pil reset ow reg)) \<longleftrightarrow>
     ucast (plEventType pil) = TypeList \<and> plHasOrigin pil \<and> plOrigin pil = None"
  by (simp add: HandlePeerInfoList_def Let_def split: option.splits)

section \<open>The hole-punching counter\<close>

abbreviation ping_status :: "int \<Rightarrow> string \<Rightarrow> Peer \<Rightarrow> Peer" where
  "ping_status now c p \<equiv> snd (UpdateP2PStatus now P2PPending c p)"

lemma ping_status_run:
  assumes "pStatus p = P2PUnknown"
  shows "pStatus ((ping_status now c ^^ Suc k) p) = (if k < 30 then P2PPending else P2PUnavailable) \<and>
    pendingTTL ((ping_status now c ^^ Suc k) p) = (if k < 30 then 30 - int k else 0)"
proof (induction k)
  case 0
  then show ?case using assms by (simp add: UpdateP2PStatus_def Let_def resetPendingTTL_def)
next
  case (Suc k)
  define q where "q = (ping_status now c ^^ Suc k) p"
  have "(ping_status now c ^^ Suc (Suc k)) p = ping_status now c q" by (simp add: q_def)
  moreover have "pStatus q = (if k < 30 then P2PPending else P2PUnavailable)"
      "pendingTTL q = (if k < 30 then 30 - int k else 0)"
    using Suc by (simp_all add: q_def)
  ultimately show ?case
    by (cases "k < 30") (auto simp: UpdateP2PStatus_def Let_def)
qed

text \<open>Hole punching gives up: a peer of unknown status that is pinged again and again without
  ever answering is pending for the first 30 pings and unavailable from the 31st on.\<close>

theorem unanswered_peer_becomes_unavailable:
  assumes "pStatus p = P2PUnknown"
  shows "pStatus (((\<lambda>q. snd (UpdateP2PStatus now P2PPending c q)) ^^ Suc k) p) =
    (if k < 30 then P2PPending else P2PUnavailable)"
  using ping_status_run [OF assms] by blast

definition sample_fresh_peer :: Peer where
  "sample_fresh_peer = \<lparr>pInfos = sample_peer, pStatus = P2PUnknown, pIsFullDuplex = False, pCheckID = [],
     pendingTTL = 0, pUpdatedAt = 0\<rparr>"

theorem unanswered_peer_becomes_unavailable_witness:
  "pStatus sample_fresh_peer = P2PUnknown \<and>
   pStatus (((\<lambda>q. snd (UpdateP2PStatus 5 P2PPending ''id'' q)) ^^ Suc 30) sample_fresh_peer) = P2PUnavailable"
  using unanswered_peer_becomes_unavailable [of sample_fresh_peer 30 5 "''id''"]
  by (simp add: sample_fresh_peer_def)

lemma unavailable_step:
  "pendingTTL p < 1 \<Longrightarrow> pStatus p = P2PUnavailable \<Longrightarrow>
     pendingTTL (snd (UpdateP2PStatus now st c p)) < 1 \<and> pStatus (snd (UpdateP2PStatus now st c p)) = P2PUnavailable"
  by (simp add: UpdateP2PStatus_def Let_def)

text \<open>A peer that has become unavailable stays unavailable under every further status
  update, answers included; only a new registration with another address or socket makes
  its status unknown again.\<close>

theorem unavailable_is_final:
  assumes "pendingTTL p < 1" "pStatus p = P2PUnavailable"
  shows "pStatus (fold (\<lambda>(now, st, c) q. snd (UpdateP2PStatus now st c q)) us p) = P2PUnavailable"
proof -
  have "pendingTTL (fold (\<lambda>(now, st, c) q. snd (UpdateP2PStatus now st c q)) us p) < 1 \<and>
      pStatus (fold (\<lambda>(now, st, c) q. snd (UpdateP2PStatus now st c q)) us p) = P2PUnavailable"
    using assms by (induction us arbitrary: p) (auto simp: unavailable_step)
  then show ?thesis by simp
qed

theorem unavailable_is_final_witness:
  "pStatus (fold (\<lambda>(now, st, c) q. snd (UpdateP2PStatus now st c q)) [(1, P2PAvailable, ''a''), (2, P2PPending, ''b'')]
     (sample_fresh_peer\<lparr>pStatus := P2PUnavailable\<rparr>)) = P2PUnavailable"
  by (rule unavailable_is_final) (simp_all add: sample_fresh_peer_def)

text \<open>The counter of a new peer is 0, so a status update other than to pending makes it
  unavailable at once, and the update reports a change to the status it was asked for.\<close>

lemma fresh_peer_available_is_unavailable:
  "pStatus (snd (UpdateP2PStatus now P2PAvailable c sample_fresh_peer)) = P2PUnavailable \<and>
   fst (UpdateP2PStatus now P2PAvailable c sample_fresh_peer)"
  by (simp add: UpdateP2PStatus_def sample_fresh_peer_def)

end
