(* ===== verification/Supernode.thy ===== *)
theory Supernode
  imports Network P2P
begin

text \<open>
  The supernode (\<^verbatim>\<open>pkg/supernode\<close>): communities and their edges, registration and
  authentication, heartbeats, forwarding and broadcasting, the packet handlers and the
  cleanup of stale edges. Edges are shared between the maps \<^verbatim>\<open>edges\<close> of a community,
  \<^verbatim>\<open>edgesByMAC\<close> and \<^verbatim>\<open>edgesBySocket\<close>, so they live in a heap, a list whose index is the
  address; a community is referred to by its key in \<^verbatim>\<open>communities\<close>, since only that map
  holds it. Every handler maps a state to a result and a state, and a panic is a result.

  What lies outside is the record \<open>sn_env\<close>, one per event: the clock, the decryption with
  the supernode's private key, the protobuf library, the IP pool library, and whether a
  write to a socket succeeds. Datagrams that are written are appended to \<open>snOut\<close>.
\<close>

section \<open>State\<close>

record Edge =
  eDesc :: string
  ePublicIP :: ip_addr
  ePublicPort :: int
  eCommunity :: string
  eVirtualIP :: ip_addr
  eVNetMaskLen :: nat
  eLastHeartbeat :: int
  eLastSequence :: u16
  eMACAddr :: string
  eMachineID :: bytes
  eWSSConnID :: string

record EdgeCachedInfos =
  ciMACAddr :: string
  ciDesc :: string
  ciCommunity :: string
  ciIsRegistered :: bool
  ciUpdatedAt :: int
  ciVirtualIP :: ip_addr

record Community =
  cName :: string
  cSubnet :: prefix
  cMaskLen :: nat
  cEdges :: "(string, nat) gomap"
  cP2PInfos :: "(string, PeerP2PInfos) gomap"

record Config =
  cfDebug :: bool
  cfCommunitySubnet :: string
  cfCommunitySubnetCIDR :: int
  cfExpiryDuration :: int
  cfCleanupInterval :: int
  cfUDPBufferSize :: int
  cfStrictHashChecking :: bool
  cfEnableVFuze :: bool
  cfListenAddr :: string
  cfWSEnabled :: bool
  cfWSListenAddr :: string
  cfWSSEnabled :: bool
  cfWSSCert :: string
  cfWSSKey :: string
  cfWSSListenAddr :: string
  cfConfigFile :: string

text \<open>Durations are in nanoseconds.\<close>

definition DefaultConfig :: Config where
  "DefaultConfig =
     \<lparr>cfDebug = True, cfCommunitySubnet = ''10.128.0.0'', cfCommunitySubnetCIDR = 24,
      cfExpiryDuration = 10 * 60 * 1000000000, cfCleanupInterval = 5 * 60 * 1000000000,
      cfUDPBufferSize = 2048 * 2048, cfStrictHashChecking = True, cfEnableVFuze = True,
      cfListenAddr = '':7777'', cfWSEnabled = False, cfWSListenAddr = '':8080'',
      cfWSSEnabled = False, cfWSSCert = [], cfWSSKey = [], cfWSSListenAddr = '':443'',
      cfConfigFile = ''supernode.yaml''\<rparr>"

text \<open>The counters that the code updates; they are 64 bits wide and wrap.\<close>

record SupernodeStats =
  stPacketsProcessed :: u64
  stPacketsForwarded :: u64
  stPacketsDropped :: u64
  stEdgesRegistered :: u64
  stEdgesUnregistered :: u64
  stHeartbeatsReceived :: u64
  stLastCleanupTime :: int
  stLastCleanupEdges :: nat

datatype sn_out = OutUDP udp_addr bytes | OutWSS string bytes

record Supernode =
  netAllocator :: NetworkAllocator
  communities :: "(u32, Community) gomap"
  edgesByMAC :: "(string, nat) gomap"
  edgesBySocket :: "(string, nat) gomap"
  edgeCachedInfos :: "(string, EdgeCachedInfos) gomap"
  snConfig :: Config
  snStats :: SupernodeStats
  snPem :: bytes
  wssConnections :: "string list"
  snHeap :: "Edge list"
  snOut :: "sn_out list"

record sn_env =
  enNow :: int
  enDecrypt :: "bytes \<Rightarrow> bytes option"
  enMarshal :: "pb_msg \<Rightarrow> bytes option"
  enUnmarshal :: "PacketType \<Rightarrow> bytes \<Rightarrow> pb_msg option"
  enPoolOk :: "string \<Rightarrow> bool"
  enRequestIP :: "string \<Rightarrow> string \<Rightarrow> ip_addr option"
  enLeases :: "string \<Rightarrow> (string, IppoolLease) gomap"
  enUDPWrite :: "udp_addr \<Rightarrow> bytes \<Rightarrow> bool"
  enWSSWrite :: "string \<Rightarrow> bytes \<Rightarrow> bool"

datatype sn_error =
    SnProto proto_error
  | ErrCommunityNotFound | ErrCommunityUnknownEdge | ErrUnicastForwardFail
  | WrongCommunityHash | CommunityNameClash | NetworkAllocFailed | PoolFailed
  | DecryptFailed | MacMismatch | CommunityMismatch | IPAllocationFailed | VIPParseFailed
  | UnknownEdge | WrongMachineID | NotARequest
  | WSSConnNotFound | WriteFailed | NonUDPAddress | ForwardFailed | EncodeFailed
  | WrongPacketType | NoHandler PacketType

type_synonym 'a snm = "(Supernode, sn_error, 'a) op"

section \<open>Edges and addresses\<close>

definition edge_UDPAddr :: "Edge \<Rightarrow> udp_addr" where
  "edge_UDPAddr e = \<lparr>uIP = ePublicIP e, uPort = ePublicPort e\<rparr>"

definition edge_PeerInfo :: "Edge \<Rightarrow> PeerInfo" where
  "edge_PeerInfo e =
     \<lparr>piVirtualIp = ip_string (eVirtualIP e),
      piMacAddr = (case ParseMAC (eMACAddr e) of Some m \<Rightarrow> m | None \<Rightarrow> []),
      piPubSocket = ip_string (ePublicIP e) @ CHR '':'' # itoa (ePublicPort e),
      piCommunity = eCommunity e, piDesc = eDesc e\<rparr>"

definition newPeerInfoEvent :: "byte \<Rightarrow> Edge \<Rightarrow> PeerInfoList" where
  "newPeerInfoEvent eventType e =
     \<lparr>plHasOrigin = False, plOrigin = None, plPeerInfos = [edge_PeerInfo e], plEventType = ucast eventType\<rparr>"

fun addrToIP :: "net_addr \<Rightarrow> ip_addr option" where
  "addrToIP (UDPAddr u) = Some (uIP u)"
| "addrToIP (TCPAddr u) = Some (uIP u)"
| "addrToIP (WSSAddr _) = None"

fun addrToPort :: "net_addr \<Rightarrow> int option" where
  "addrToPort (UDPAddr u) = Some (uPort u)"
| "addrToPort (TCPAddr u) = Some (uPort u)"
| "addrToPort (WSSAddr _) = None"

definition ip_or_nil :: "ip_addr option \<Rightarrow> ip_addr" where
  "ip_or_nil o' = (case o' of Some ip \<Rightarrow> ip | None \<Rightarrow> [])"

section \<open>Communities\<close>

definition pool_cidr :: "prefix \<Rightarrow> string" where
  "pool_cidr p = ip_string (pfAddr p) @ CHR ''/'' # nat_digits (pfBits p)"

definition NewCommunity :: "sn_env \<Rightarrow> string \<Rightarrow> prefix \<Rightarrow> (sn_error, Community) res" where
  "NewCommunity env name subnet =
     (if enPoolOk env (pool_cidr subnet)
      then Ok \<lparr>cName = name, cSubnet = subnet, cMaskLen = pfBits subnet, cEdges = [], cP2PInfos = []\<rparr>
      else Fail PoolFailed)"

definition edge_of :: "Supernode \<Rightarrow> nat \<Rightarrow> Edge" where
  "edge_of s a = snHeap s ! a"

definition put_community :: "u32 \<Rightarrow> Community \<Rightarrow> Supernode \<Rightarrow> Supernode" where
  "put_community h c s = s\<lparr>communities := gput (communities s) h c\<rparr>"

definition SetEdgeCachedInfo :: "sn_env \<Rightarrow> string \<Rightarrow> string \<Rightarrow> string \<Rightarrow> bool \<Rightarrow> ip_addr \<Rightarrow> Supernode \<Rightarrow> Supernode" where
  "SetEdgeCachedInfo env mac desc community isRegistered vip s =
     s\<lparr>edgeCachedInfos := gput (edgeCachedInfos s) mac
        \<lparr>ciMACAddr = mac, ciDesc = desc, ciCommunity = community, ciIsRegistered = isRegistered,
         ciUpdatedAt = enNow env, ciVirtualIP = vip\<rparr>\<rparr>"

definition GetEdgeCachedInfo :: "string \<Rightarrow> Supernode \<Rightarrow> EdgeCachedInfos option" where
  "GetEdgeCachedInfo mac s = gget (edgeCachedInfos s) mac"

text \<open>\<^verbatim>\<open>GetEdge\<close> and \<^verbatim>\<open>GetAllEdges\<close> return copies, so they are values here.\<close>

definition GetEdge :: "Community \<Rightarrow> string \<Rightarrow> Supernode \<Rightarrow> Edge option" where
  "GetEdge c mac s = map_option (edge_of s) (gget (cEdges c) mac)"

definition GetAllEdges :: "Community \<Rightarrow> Supernode \<Rightarrow> Edge list" where
  "GetAllEdges c s = map (\<lambda>(_, a). edge_of s a) (cEdges c)"

definition GetEdgeUDPAddr :: "Community \<Rightarrow> string \<Rightarrow> Supernode \<Rightarrow> (sn_error, udp_addr) res" where
  "GetEdgeUDPAddr c mac s =
     (case gget (cEdges c) mac of None \<Rightarrow> Fail UnknownEdge | Some a \<Rightarrow> Ok (edge_UDPAddr (edge_of s a)))"

definition GetStaleEdgeIDs :: "sn_env \<Rightarrow> int \<Rightarrow> Community \<Rightarrow> Supernode \<Rightarrow> string list" where
  "GetStaleEdgeIDs env expiry c s =
     map eMACAddr (filter (\<lambda>e. time_sub (enNow env) (eLastHeartbeat e) > expiry) (GetAllEdges c s))"

definition GetPeerInfoList :: "Community \<Rightarrow> string \<Rightarrow> bool \<Rightarrow> Supernode \<Rightarrow> PeerInfoList" where
  "GetPeerInfoList c reqMACAddr full s =
     (let es = GetAllEdges c s;
          own = filter (\<lambda>e. eMACAddr e = reqMACAddr) es;
          rest = filter (\<lambda>e. eMACAddr e \<noteq> reqMACAddr) es;
          hasOrigin = (full \<and> own \<noteq> [])
      in \<lparr>plHasOrigin = hasOrigin, plOrigin = (if hasOrigin then Some (edge_PeerInfo (last own)) else None),
          plPeerInfos = map edge_PeerInfo rest, plEventType = ucast TypeList\<rparr>)"

definition ResetP2PInfos :: "u32 \<Rightarrow> Supernode \<Rightarrow> Supernode" where
  "ResetP2PInfos h s = (case gget (communities s) h of
     None \<Rightarrow> s | Some c \<Rightarrow> put_community h (c\<lparr>cP2PInfos := []\<rparr>) s)"

definition SetP2PInfosFor :: "u32 \<Rightarrow> Community \<Rightarrow> string \<Rightarrow> PeerP2PInfos \<Rightarrow> unit snm" where
  "SetP2PInfosFor h c mac infos s =
     (if gget (cEdges c) mac = None then (Fail UnknownEdge, s)
      else (Ok (), put_community h (c\<lparr>cP2PInfos := gput (cP2PInfos c) mac infos\<rparr>) s))"

definition GetOfflineCachedEdges :: "sn_env \<Rightarrow> Community \<Rightarrow> Supernode \<Rightarrow> (string, PeerCachedInfo) gomap" where
  "GetOfflineCachedEdges env c s =
     fold (\<lambda>(_, v) m. if ciCommunity v \<noteq> cName c \<or> ciIsRegistered v then m
        else gput m (ciMACAddr v)
          \<lparr>pcDesc = ciDesc v, pcMacAddr = ciMACAddr v, pcVirtualIp = ip_string (ciVirtualIP v),
           pcCommunity = cName c, pcLastUpdateNs = time_sub (enNow env) (ciUpdatedAt v)\<rparr>)
       (edgeCachedInfos s) []"

definition GetCommunityPeerP2PInfosDatas :: "sn_env \<Rightarrow> Community \<Rightarrow> string \<Rightarrow> Supernode \<Rightarrow> (sn_error, P2PFullState) res" where
  "GetCommunityPeerP2PInfosDatas env c mac s =
     (if gget (cEdges c) mac = None then Fail UnknownEdge
      else Ok \<lparr>fsCommunityName = cName c, fsIsRequest = False, fsReachables = Some (cP2PInfos c),
               fsUnreachables = Some (GetOfflineCachedEdges env c s)\<rparr>)"

definition GetLeasesWithEdgesInfos :: "sn_env \<Rightarrow> Community \<Rightarrow> Supernode \<Rightarrow> (string, IppoolLease \<times> LeaseEdgeInfos) gomap" where
  "GetLeasesWithEdgesInfos env c s =
     map (\<lambda>(k, v). (k, v,
        case GetEdgeCachedInfo k s of
          Some ci \<Rightarrow> \<lparr>liEdgeId = ciDesc ci, liIsRegistered = ciIsRegistered ci,
                      liTimeSinceLastUpdateNs = time_sub (enNow env) (ciUpdatedAt ci), liVirtualIp = ciVirtualIP ci\<rparr>
        | None \<Rightarrow> \<lparr>liEdgeId = ''unknown'', liIsRegistered = False, liTimeSinceLastUpdateNs = - 1000000000, liVirtualIp = []\<rparr>))
      (enLeases env (pool_cidr (cSubnet c)))"

text \<open>\<^verbatim>\<open>Unregister\<close>; the result says whether the edge was known.\<close>

definition Unregister :: "sn_env \<Rightarrow> u32 \<Rightarrow> string \<Rightarrow> Supernode \<Rightarrow> bool \<times> Supernode" where
  "Unregister env h mac s =
     (case gget (communities s) h of
        None \<Rightarrow> (False, s)
      | Some c \<Rightarrow>
          (case gget (cEdges c) mac of
             None \<Rightarrow> (False, s)
           | Some a \<Rightarrow>
               (True, put_community h (c\<lparr>cEdges := gdel (cEdges c) mac, cP2PInfos := gdel (cP2PInfos c) mac\<rparr>)
                  (SetEdgeCachedInfo env mac (eDesc (edge_of s a)) (cName c) False (eVirtualIP (edge_of s a)) s))))"

definition RefreshEdge :: "sn_env \<Rightarrow> Community \<Rightarrow> RawMessage \<Rightarrow> bytes \<Rightarrow> bool snm" where
  "RefreshEdge env c r clearMachineId s =
     (case gget (cEdges c) (EdgeMACAddr r) of
        None \<Rightarrow> (Fail UnknownEdge, s)
      | Some a \<Rightarrow>
          let e = edge_of s a in
          if clearMachineId \<noteq> eMachineID e then (Fail WrongMachineID, s)
          else
            let addr = rFromAddr r;
                ip = (case addrToIP addr of Some ip \<Rightarrow> ip | None \<Rightarrow> ip_or_nil (ParseIP (addr_string addr)));
                port = (case addrToPort addr of Some p \<Rightarrow> p | None \<Rightarrow> 0);
                e' = e\<lparr>ePublicIP := ip, ePublicPort := port, eLastHeartbeat := enNow env,
                       eLastSequence := Sequence (rHeader r)\<rparr>;
                newIP = (case addrToIP addr of
                           Some i \<Rightarrow> if i = [] then ip_or_nil (ParseIP (addr_string addr)) else i
                         | None \<Rightarrow> ip_or_nil (ParseIP (addr_string addr)))
            in (Ok (ePublicPort e \<noteq> port \<or> \<not> ip_equal (ePublicIP e) newIP),
                s\<lparr>snHeap := (snHeap s)[a := e']\<rparr>))"

definition new_edge :: "sn_env \<Rightarrow> Community \<Rightarrow> RawMessage \<Rightarrow> RegisterRequest \<Rightarrow> ip_addr \<Rightarrow> Edge" where
  "new_edge env c r msg vip =
     \<lparr>eDesc = rqEdgeDesc msg, ePublicIP = ip_or_nil (addrToIP (rFromAddr r)),
      ePublicPort = (case addrToPort (rFromAddr r) of Some p \<Rightarrow> p | None \<Rightarrow> 0),
      eCommunity = cName c, eVirtualIP = vip, eVNetMaskLen = cMaskLen c,
      eLastHeartbeat = enNow env, eLastSequence = Sequence (rHeader r),
      eMACAddr = EdgeMACAddr r, eMachineID = rqClearMachineId msg, eWSSConnID = []\<rparr>"

definition touch_edge :: "sn_env \<Rightarrow> RawMessage \<Rightarrow> Edge \<Rightarrow> Edge" where
  "touch_edge env r e =
     (let e1 = (case addrToIP (rFromAddr r) of Some ip \<Rightarrow> e\<lparr>ePublicIP := ip\<rparr> | None \<Rightarrow> e);
          e2 = (case addrToPort (rFromAddr r) of Some p \<Rightarrow> e1\<lparr>ePublicPort := p\<rparr> | None \<Rightarrow> e1)
      in e2\<lparr>eLastHeartbeat := enNow env, eLastSequence := Sequence (rHeader r)\<rparr>)"

definition EdgeUpdate :: "sn_env \<Rightarrow> u32 \<Rightarrow> Community \<Rightarrow> RawMessage \<Rightarrow> RegisterRequest \<Rightarrow> nat snm" where
  "EdgeUpdate env h c r msg s =
     (let mac = EdgeMACAddr r in
      case gget (cEdges c) mac of
        None \<Rightarrow>
          (case enRequestIP env (pool_cidr (cSubnet c)) mac of
             None \<Rightarrow> (Fail IPAllocationFailed, s)
           | Some nvip \<Rightarrow>
               (case ParseAddr (ip_string nvip) of
                  None \<Rightarrow> (Fail VIPParseFailed, s)
                | Some vip \<Rightarrow>
                    let a = length (snHeap s);
                        e = new_edge env c r msg vip;
                        s1 = s\<lparr>snHeap := snHeap s @ [e]\<rparr>;
                        s2 = put_community h (c\<lparr>cEdges := gput (cEdges c) mac a\<rparr>) s1
                    in (Ok a, SetEdgeCachedInfo env mac (eDesc e) (cName c) True (eVirtualIP e) s2)))
      | Some a \<Rightarrow>
          let e = edge_of s a in
          if cName c \<noteq> eCommunity e then (Fail CommunityMismatch, s)
          else (Ok a, s\<lparr>snHeap := (snHeap s)[a := touch_edge env r e]\<rparr>))"

section \<open>Sending\<close>

definition count_dropped :: "Supernode \<Rightarrow> Supernode" where
  "count_dropped s = s\<lparr>snStats := (snStats s)\<lparr>stPacketsDropped := stPacketsDropped (snStats s) + 1\<rparr>\<rparr>"

definition count_forwarded :: "nat \<Rightarrow> Supernode \<Rightarrow> Supernode" where
  "count_forwarded n s = s\<lparr>snStats := (snStats s)\<lparr>stPacketsForwarded := stPacketsForwarded (snStats s) + of_nat n\<rparr>\<rparr>"

definition write_udp :: "sn_env \<Rightarrow> bytes \<Rightarrow> udp_addr \<Rightarrow> unit snm" where
  "write_udp env packet u s =
     (if enUDPWrite env u packet then (Ok (), s\<lparr>snOut := snOut s @ [OutUDP u packet]\<rparr>) else (Fail WriteFailed, s))"

definition write_wss :: "sn_env \<Rightarrow> bytes \<Rightarrow> string \<Rightarrow> unit snm" where
  "write_wss env packet conn s =
     (if enWSSWrite env conn packet then (Ok (), s\<lparr>snOut := snOut s @ [OutWSS conn packet]\<rparr>) else (Fail WriteFailed, s))"

definition forwardPacket :: "sn_env \<Rightarrow> bytes \<Rightarrow> Edge \<Rightarrow> unit snm" where
  "forwardPacket env packet target =
     on_ok (go_index packet 0) (\<lambda>v.
     on_ok (if v = VersionV then err_map SnProto (FlagPacketFromSupernode packet) else Ok packet) (\<lambda>packet s.
       if eWSSConnID target \<noteq> [] then
         (if eWSSConnID target \<notin> set (wssConnections s) then (Fail WSSConnNotFound, s)
          else write_wss env packet (eWSSConnID target) s)
       else write_udp env packet (edge_UDPAddr target) s))"

text \<open>The loop of \<^verbatim>\<open>broadcast\<close>: it counts what it could send and drops what it could not.\<close>

fun broadcast_loop :: "sn_env \<Rightarrow> bytes \<Rightarrow> string \<Rightarrow> Edge list \<Rightarrow> nat \<Rightarrow> nat snm" where
  "broadcast_loop env packet senderID [] sent s = (Ok sent, s)"
| "broadcast_loop env packet senderID (t # ts) sent s =
     (if eMACAddr t = senderID then broadcast_loop env packet senderID ts sent s
      else case forwardPacket env packet t s of
        (Inl (Crash p), s') \<Rightarrow> (Inl (Crash p), s')
      | (Inl (Err _), s') \<Rightarrow> broadcast_loop env packet senderID ts sent (count_dropped s')
      | (Inr _, s') \<Rightarrow> broadcast_loop env packet senderID ts (sent + 1) s')"

definition broadcast :: "sn_env \<Rightarrow> bytes \<Rightarrow> Community \<Rightarrow> string \<Rightarrow> unit snm" where
  "broadcast env packet c senderID s =
     st_then (broadcast_loop env packet senderID (GetAllEdges c s) 0)
       (\<lambda>sent s. (Ok (), if sent > 0 then count_forwarded sent s else s)) s"

definition SNHeader :: "sn_env \<Rightarrow> PacketType \<Rightarrow> string \<Rightarrow> hwaddr option \<Rightarrow> (sn_error, ProtoVHeader) res" where
  "SNHeader env pt community dst =
     res_bind (err_map SnProto (copy6 SupernodeMACAddr)) (\<lambda>sid.
     res_bind (case dst of None \<Rightarrow> Ok arr6_zero | Some d \<Rightarrow> err_map SnProto (copy6 d)) (\<lambda>did.
       Ok \<lparr>Version = VersionV, TTL = 64, PacketType = pt, Flags = FlagFromSuperNode, Sequence = 0,
           CommunityID = HashCommunity community, SourceID = sid, DestID = did,
           Timestamp = unix_seconds (enNow env), Checksum = 0\<rparr>))"

text \<open>The edge of a live WebSocket connection whose name is the address string.\<close>

definition wss_target :: "net_addr \<Rightarrow> Supernode \<Rightarrow> Edge option" where
  "wss_target addr s =
     find (\<lambda>e. eWSSConnID e \<noteq> [] \<and> eWSSConnID e \<in> set (wssConnections s) \<and> eWSSConnID e = addr_string addr)
       (map (\<lambda>(_, a). edge_of s a) (edgesByMAC s))"

definition WritePacket :: "sn_env \<Rightarrow> PacketType \<Rightarrow> string \<Rightarrow> hwaddr option \<Rightarrow> bytes \<Rightarrow> net_addr \<Rightarrow> unit snm" where
  "WritePacket env pt community dst payload addr =
     on_ok (SNHeader env pt community dst) (\<lambda>header s.
       case wss_target addr s of
         Some t \<Rightarrow> forwardPacket env (PackProtoVDatagram header payload) t s
       | None \<Rightarrow> (case addr of
           UDPAddr u \<Rightarrow> write_udp env (PackProtoVDatagram header payload) u s
         | _ \<Rightarrow> (Fail NonUDPAddress, s)))"

definition encode_msg :: "sn_env \<Rightarrow> pb_msg \<Rightarrow> (sn_error, bytes) res" where
  "encode_msg env p = (case enMarshal env p of None \<Rightarrow> Fail EncodeFailed | Some b \<Rightarrow> Ok b)"

definition SendStruct :: "sn_env \<Rightarrow> pb_msg \<Rightarrow> string \<Rightarrow> hwaddr option \<Rightarrow> net_addr \<Rightarrow> unit snm" where
  "SendStruct env p community dst addr =
     on_ok (SNHeader env (pb_type p) community dst) (\<lambda>header.
     on_ok (encode_msg env p) (\<lambda>payload s.
       let packet = PackProtoVDatagram header payload in
       case wss_target addr s of
         Some t \<Rightarrow> forwardPacket env packet t s
       | None \<Rightarrow> (case addr of
           WSSAddr conn \<Rightarrow> if conn \<in> set (wssConnections s) then write_wss env packet conn s
                           else (Fail NonUDPAddress, s)
         | UDPAddr u \<Rightarrow> write_udp env packet u s
         | TCPAddr _ \<Rightarrow> (Fail NonUDPAddress, s))))"

definition BroadcastStruct :: "sn_env \<Rightarrow> pb_msg \<Rightarrow> Community \<Rightarrow> hwaddr option \<Rightarrow> string \<Rightarrow> unit snm" where
  "BroadcastStruct env p c dst senderMac =
     on_ok (SNHeader env (pb_type p) (cName c) dst) (\<lambda>header.
     on_ok (encode_msg env p) (\<lambda>payload.
       broadcast env (PackProtoVDatagram header payload) c senderMac))"

section \<open>Registration\<close>

definition GetCommunityForEdge :: "string \<Rightarrow> u32 \<Rightarrow> Supernode \<Rightarrow> (sn_error, Community) res" where
  "GetCommunityForEdge mac h s =
     (case gget (communities s) h of
        None \<Rightarrow> Fail ErrCommunityNotFound
      | Some c \<Rightarrow> if GetEdge c mac s = None then Fail ErrCommunityUnknownEdge else Ok c)"

definition GetCommunity :: "RawMessage \<Rightarrow> Supernode \<Rightarrow> (sn_error, Community) res" where
  "GetCommunity r s = GetCommunityForEdge (EdgeMACAddr r) (CommunityHash r) s"

text \<open>\<^verbatim>\<open>RegisterCommunity\<close>. One call at a time, so the second look at \<^verbatim>\<open>exists\<close> repeats the first.\<close>

definition RegisterCommunity :: "sn_env \<Rightarrow> string \<Rightarrow> u32 \<Rightarrow> Community snm" where
  "RegisterCommunity env communityName communityHash s =
     (if communityHash \<noteq> HashCommunity communityName then (Fail WrongCommunityHash, s)
      else case gget (communities s) communityHash of
        Some c \<Rightarrow> if cName c = communityName then (Ok c, s) else (Fail CommunityNameClash, s)
      | None \<Rightarrow>
          on_ok (err_map (\<lambda>_. NetworkAllocFailed) (ProposeVirtualNetwork (netAllocator s) communityName)) (\<lambda>prefix.
          on_ok (NewCommunity env communityName prefix) (\<lambda>c s.
            (Ok c, put_community communityHash c s))) s)"

definition DecryptMachineID :: "sn_env \<Rightarrow> bytes \<Rightarrow> (sn_error, bytes) res" where
  "DecryptMachineID env enc = (case enDecrypt env enc of None \<Rightarrow> Fail DecryptFailed | Some m \<Rightarrow> Ok m)"

definition ValidateEdgeClaimedMACAddr :: "sn_env \<Rightarrow> string \<Rightarrow> bytes \<Rightarrow> string \<Rightarrow> (sn_error, bytes) res" where
  "ValidateEdgeClaimedMACAddr env claimedMAC encryptedID communityName =
     res_bind (DecryptMachineID env encryptedID) (\<lambda>machineID.
       if mac_string (ExtGenerateMac communityName machineID) \<noteq> claimedMAC then Fail MacMismatch
       else Ok machineID)"

definition RegisterEdge :: "sn_env \<Rightarrow> RawMessage \<Rightarrow> RegisterRequest \<Rightarrow> (nat \<times> string) snm" where
  "RegisterEdge env r msg =
     on_ok (ValidateEdgeClaimedMACAddr env (EdgeMACAddr r) (rqEncryptedMachineId msg) (rqCommunityName msg)) (\<lambda>machineID.
     st_then (RegisterCommunity env (rqCommunityName msg) (CommunityHash r)) (\<lambda>c.
     st_then (EdgeUpdate env (CommunityHash r) c r (msg\<lparr>rqClearMachineId := machineID\<rparr>)) (\<lambda>a s.
       (Ok (a, cName c),
        s\<lparr>snStats := (snStats s)\<lparr>stEdgesRegistered := stEdgesRegistered (snStats s) + 1\<rparr>\<rparr>))))"

text \<open>\<^verbatim>\<open>onEdgeUnregistered\<close>: a hardware address that is missing from \<^verbatim>\<open>edgesByMAC\<close> is a nil
  pointer, which \<^verbatim>\<open>newPeerInfoEvent\<close> dereferences.\<close>

definition onEdgeUnregistered :: "sn_env \<Rightarrow> u32 \<Rightarrow> string \<Rightarrow> unit snm" where
  "onEdgeUnregistered env h mac s =
     (case gget (edgesByMAC s) mac of
        None \<Rightarrow> (Panic NilDereference, s)
      | Some a \<Rightarrow>
          let e = edge_of s a;
              pil = newPeerInfoEvent TypeUnregister e;
              s1 = s\<lparr>edgesBySocket := gdel (edgesBySocket s) (udp_string (Some (edge_UDPAddr e))),
                     edgesByMAC := gdel (edgesByMAC s) mac,
                     snStats := (snStats s)\<lparr>stEdgesUnregistered := stEdgesUnregistered (snStats s) + 1\<rparr>\<rparr>
          in (case gget (communities s1) h of
                None \<Rightarrow> (Ok (), s1)
              | Some c \<Rightarrow> st_ignore (BroadcastStruct env (MPeerInfoList pil) c None mac) s1))"

definition UnregisterEdge :: "sn_env \<Rightarrow> RawMessage \<Rightarrow> unit snm" where
  "UnregisterEdge env r s =
     on_ok (GetCommunity r s) (\<lambda>c s.
       case Unregister env (CommunityHash r) (EdgeMACAddr r) s of
         (True, s') \<Rightarrow> onEdgeUnregistered env (CommunityHash r) (EdgeMACAddr r) s'
       | (False, s') \<Rightarrow> (Ok (), s')) s"

section \<open>Forwarding\<close>

definition ForwardUnicast :: "sn_env \<Rightarrow> RawMessage \<Rightarrow> unit snm" where
  "ForwardUnicast env r s =
     on_ok (GetCommunity r s) (\<lambda>c s.
       case GetEdge c (DestMACAddr r) s of
         None \<Rightarrow> (Fail ErrUnicastForwardFail, s)
       | Some t \<Rightarrow> (case forwardPacket env (rRawPacket r) t s of
           (Inl (Crash p), s') \<Rightarrow> (Inl (Crash p), s')
         | (Inl (Err _), s') \<Rightarrow> (Fail ForwardFailed, count_dropped s')
         | (Inr _, s') \<Rightarrow> (Ok (), count_forwarded 1 s'))) s"

definition ForwardWithFallBack :: "sn_env \<Rightarrow> RawMessage \<Rightarrow> unit snm" where
  "ForwardWithFallBack env r s =
     on_ok (GetCommunity r s) (\<lambda>c s.
       case GetEdge c (DestMACAddr r) s of
         None \<Rightarrow> broadcast env (rRawPacket r) c (EdgeMACAddr r) s
       | Some t \<Rightarrow> (case forwardPacket env (rRawPacket r) t s of
           (Inl (Crash p), s') \<Rightarrow> (Inl (Crash p), s')
         | (Inl (Err _), s') \<Rightarrow> broadcast env (rRawPacket r) c (EdgeMACAddr r) (count_dropped s')
         | (Inr _, s') \<Rightarrow> (Ok (), count_forwarded 1 s'))) s"

section \<open>Handlers\<close>

abbreviation sn_decode :: "sn_env \<Rightarrow> PacketType \<Rightarrow> (pb_msg \<Rightarrow> 'm option) \<Rightarrow> RawMessage \<Rightarrow> (sn_error, 'm) res" where
  "sn_decode env pt as r \<equiv> err_map SnProto (decode_msg (enUnmarshal env) pt as r)"

text \<open>Replying to a registered edge: over its WebSocket connection if it has one, otherwise to
  its public UDP address.\<close>

definition reply_to_edge :: "sn_env \<Rightarrow> pb_msg \<Rightarrow> string \<Rightarrow> Community \<Rightarrow> string \<Rightarrow> unit snm" where
  "reply_to_edge env p community c mac s =
     (case gget (cEdges c) mac of
        Some a \<Rightarrow>
          if eWSSConnID (edge_of s a) \<noteq> []
          then SendStruct env p community None (WSSAddr (eWSSConnID (edge_of s a))) s
          else SendStruct env p community None (UDPAddr (edge_UDPAddr (edge_of s a))) s
      | None \<Rightarrow> (Fail UnknownEdge, s))"

definition handleP2PStateInfoMessage :: "sn_env \<Rightarrow> RawMessage \<Rightarrow> unit snm" where
  "handleP2PStateInfoMessage env r =
     on_ok (sn_decode env TypeP2PStateInfo as_PeerP2PInfos r) (\<lambda>msg s.
     on_ok (GetCommunity r s) (\<lambda>c. SetP2PInfosFor (CommunityHash r) c (EdgeMACAddr r) msg) s)"

definition handlePeerRequestMessage :: "sn_env \<Rightarrow> RawMessage \<Rightarrow> unit snm" where
  "handlePeerRequestMessage env r =
     on_ok (sn_decode env TypePeerListRequest as_PeerListRequest r) (\<lambda>com s.
     on_ok (GetCommunity r s) (\<lambda>c s.
       reply_to_edge env (MPeerInfoList (GetPeerInfoList c (EdgeMACAddr r) True s)) com c (EdgeMACAddr r) s) s)"

definition handleLeasesInfosMessage :: "sn_env \<Rightarrow> RawMessage \<Rightarrow> unit snm" where
  "handleLeasesInfosMessage env r =
     on_ok (sn_decode env TypeLeasesInfos as_LeasesInfos r) (\<lambda>msg s.
       if \<not> lsIsRequest msg then (Fail NotARequest, s)
       else on_ok (GetCommunity r s) (\<lambda>c s.
         reply_to_edge env
           (MLeasesInfos \<lparr>lsIsRequest = False, lsCommunityName = cName c, lsLeases = GetLeasesWithEdgesInfos env c s\<rparr>)
           (cName c) c (EdgeMACAddr r) s) s)"

definition handleUnregisterMessage :: "sn_env \<Rightarrow> RawMessage \<Rightarrow> unit snm" where
  "handleUnregisterMessage env r =
     on_ok (sn_decode env TypeUnregisterRequest as_UnregisterRequest r) (\<lambda>msg.
     on_ok (ValidateEdgeClaimedMACAddr env (EdgeMACAddr r) (urEncryptedMachineId msg) (urCommunityName msg)) (\<lambda>_.
       UnregisterEdge env r))"

definition index_edge :: "nat \<Rightarrow> Supernode \<Rightarrow> Supernode" where
  "index_edge a s =
     (let e = edge_of s a;
          s1 = s\<lparr>edgesByMAC := gput (edgesByMAC s) (eMACAddr e) a,
                 edgesBySocket := gput (edgesBySocket s) (udp_string (Some (edge_UDPAddr e))) a\<rparr>
      in if eWSSConnID e \<noteq> [] then s1\<lparr>edgesBySocket := gput (edgesBySocket s1) (eWSSConnID e) a\<rparr> else s1)"

definition set_wss_conn :: "net_addr \<Rightarrow> nat \<Rightarrow> Supernode \<Rightarrow> Supernode" where
  "set_wss_conn addr a s =
     (case addr of
        WSSAddr conn \<Rightarrow> s\<lparr>snHeap := (snHeap s)[a := (edge_of s a)\<lparr>eWSSConnID := conn\<rparr>]\<rparr>
      | _ \<Rightarrow> s)"

definition handleRegisterMessage :: "sn_env \<Rightarrow> RawMessage \<Rightarrow> unit snm" where
  "handleRegisterMessage env r =
     on_ok (sn_decode env TypeRegisterRequest as_RegisterRequest r) (\<lambda>msg s.
       case RegisterEdge env r msg s of
         (Inl (Crash p), s1) \<Rightarrow> (Inl (Crash p), s1)
       | (Inl (Err e), s1) \<Rightarrow>
           st_then (st_ignore (SendStruct env
               (MRegisterResponse \<lparr>rpIsRegisterOk = False, rpVirtualIp = [], rpMasklen = 0\<rparr>)
               (rqCommunityName msg) None (rFromAddr r)))
             (\<lambda>_ s2. (Fail e, count_dropped s2)) s1
       | (Inr (a, _), s1) \<Rightarrow>
           let s2 = index_edge a (set_wss_conn (rFromAddr r) a s1);
               e = edge_of s2 a
           in st_then (st_ignore (SendStruct env
                  (MRegisterResponse \<lparr>rpIsRegisterOk = True, rpVirtualIp = ip_string (eVirtualIP e),
                     rpMasklen = int (eVNetMaskLen e)\<rparr>)
                  (rqCommunityName msg) None (rFromAddr r)))
                (\<lambda>_ s3. case gget (communities s3) (CommunityHash r) of
                   None \<Rightarrow> (Ok (), s3)
                 | Some c \<Rightarrow> BroadcastStruct env (MPeerInfoList (newPeerInfoEvent TypeRegister (edge_of s3 a))) c None (EdgeMACAddr r) s3) s2)"

definition count_heartbeat :: "Supernode \<Rightarrow> Supernode" where
  "count_heartbeat s = s\<lparr>snStats := (snStats s)\<lparr>stHeartbeatsReceived := stHeartbeatsReceived (snStats s) + 1\<rparr>\<rparr>"

definition handleHeartbeatMessage :: "sn_env \<Rightarrow> RawMessage \<Rightarrow> unit snm" where
  "handleHeartbeatMessage env r =
     on_ok (sn_decode env TypeHeartbeat as_HeartbeatPulse r) (\<lambda>msg s.
     on_ok (GetCommunity r s) (\<lambda>c s.
       on_ok (DecryptMachineID env (hbEncryptedMachineId msg)) (\<lambda>decmacid.
       st_then (RefreshEdge env c r decmacid) (\<lambda>changed s.
         case GetEdge c (EdgeMACAddr r) s of
           None \<Rightarrow> (Ok (), s)
         | Some e \<Rightarrow>
             if changed
             then st_ignore (BroadcastStruct env (MPeerInfoList (newPeerInfoEvent TypeRegister e)) c None (EdgeMACAddr r)) s
             else (Ok (), s))) (count_heartbeat s)) s)"

definition handleP2PFullStateMessage :: "sn_env \<Rightarrow> RawMessage \<Rightarrow> unit snm" where
  "handleP2PFullStateMessage env r =
     on_ok (sn_decode env TypeP2PFullState as_P2PFullState r) (\<lambda>msg s.
       if \<not> fsIsRequest msg then (Fail NotARequest, s)
       else on_ok (GetCommunity r s) (\<lambda>c s.
         on_ok (GetCommunityPeerP2PInfosDatas env c (EdgeMACAddr r) s) (\<lambda>st.
           reply_to_edge env (MP2PFullState st) (cName c) c (EdgeMACAddr r)) s) s)"

definition handlePingMessage :: "sn_env \<Rightarrow> RawMessage \<Rightarrow> unit snm" where
  "handlePingMessage env r s =
     (if PacketType (rHeader r) \<noteq> TypePing then (Fail WrongPacketType, s) else ForwardUnicast env r s)"

definition handleSNPublicSecretMessage :: "sn_env \<Rightarrow> RawMessage \<Rightarrow> unit snm" where
  "handleSNPublicSecretMessage env r =
     on_ok (sn_decode env TypeSNPublicSecret as_SnPublicSecret r) (\<lambda>msg s.
       if \<not> spIsRequest msg then (Fail NotARequest, s)
       else SendStruct env (MSnPublicSecret \<lparr>spIsRequest = False, spPemData = snPem s\<rparr>) [] None (rFromAddr r) s)"

definition handleDataMessage :: "sn_env \<Rightarrow> RawMessage \<Rightarrow> unit snm" where
  "handleDataMessage env r s =
     (if PacketType (rHeader r) \<noteq> TypeData then (Fail WrongPacketType, s) else ForwardWithFallBack env r s)"

definition handleVFuze :: "sn_env \<Rightarrow> bytes \<Rightarrow> net_addr \<Rightarrow> unit snm" where
  "handleVFuze env packet addr s =
     (case VFuzePacketDestMACAddr packet of
        Inl (Crash p) \<Rightarrow> (Panic p, s)
      | Inl (Err _) \<Rightarrow> (Ok (), s)
      | Inr dst \<Rightarrow>
          if \<not> cfEnableVFuze (snConfig s) then (Ok (), s)
          else case (gget (edgesByMAC s) (mac_string dst), gget (edgesBySocket s) (addr_string addr)) of
            (Some d, Some src) \<Rightarrow>
              if eCommunity (edge_of s d) \<noteq> eCommunity (edge_of s src) then (Ok (), s)
              else st_ignore (forwardPacket env packet (edge_of s d)) s
          | _ \<Rightarrow> (Ok (), s))"

definition SnMessageHandlers :: "sn_env \<Rightarrow> (PacketType, RawMessage \<Rightarrow> unit snm) gomap" where
  "SnMessageHandlers env =
    [(TypeRegisterRequest, handleRegisterMessage env),
     (TypeUnregisterRequest, handleUnregisterMessage env),
     (TypeHeartbeat, handleHeartbeatMessage env),
     (TypeData, handleDataMessage env),
     (TypePeerListRequest, handlePeerRequestMessage env),
     (TypePing, handlePingMessage env),
     (TypeP2PStateInfo, handleP2PStateInfoMessage env),
     (TypeP2PFullState, handleP2PFullStateMessage env),
     (TypeLeasesInfos, handleLeasesInfosMessage env),
     (TypeSNPublicSecret, handleSNPublicSecretMessage env)]"

section \<open>The packet loop and the cleanup\<close>

definition NewSupernodeWithConfig :: "Config \<Rightarrow> bytes \<Rightarrow> Supernode" where
  "NewSupernodeWithConfig config pem =
     \<lparr>netAllocator = NewNetworkAllocator (ip_or_nil (ParseIP (cfCommunitySubnet config)))
        (CIDRMask (cfCommunitySubnetCIDR config)),
      communities = [], edgesByMAC = [], edgesBySocket = [], edgeCachedInfos = [],
      snConfig = config,
      snStats = \<lparr>stPacketsProcessed = 0, stPacketsForwarded = 0, stPacketsDropped = 0,
        stEdgesRegistered = 0, stEdgesUnregistered = 0, stHeartbeatsReceived = 0,
        stLastCleanupTime = 0, stLastCleanupEdges = 0\<rparr>,
      snPem = pem, wssConnections = [], snHeap = [], snOut = []\<rparr>"

definition count_processed :: "Supernode \<Rightarrow> Supernode" where
  "count_processed s = s\<lparr>snStats := (snStats s)\<lparr>stPacketsProcessed := stPacketsProcessed (snStats s) + 1\<rparr>\<rparr>"

definition retry_register :: "sn_env \<Rightarrow> net_addr \<Rightarrow> sn_error \<Rightarrow> unit snm" where
  "retry_register env addr e s =
     (if e = ErrCommunityUnknownEdge \<or> e = ErrCommunityNotFound then
        (case addr of
           UDPAddr _ \<Rightarrow> st_ignore (WritePacket env TypeRetryRegisterRequest [] None [] addr) s
         | _ \<Rightarrow> (Ok (), s))
      else (Ok (), s))"

definition ProcessPacket :: "sn_env \<Rightarrow> bytes \<Rightarrow> net_addr \<Rightarrow> unit snm" where
  "ProcessPacket env packet addr s0 =
     (let s = count_processed s0 in
      on_ok (go_index packet 0) (\<lambda>v s.
        if v = VersionVFuze then handleVFuze env packet addr s
        else case NewRawMessage packet addr of
          Inl (Crash p) \<Rightarrow> (Panic p, s)
        | Inl (Err _) \<Rightarrow> (Ok (), s)
        | Inr rawMsg \<Rightarrow>
            (case Handle (SnMessageHandlers env) (\<lambda>pt s. (Fail (NoHandler pt), s)) rawMsg s of
               (Inl (Err e), s') \<Rightarrow> retry_register env addr e s'
             | (r, s') \<Rightarrow> (r, s'))) s)"

fun cleanup_loop :: "sn_env \<Rightarrow> (u32 \<times> string) list \<Rightarrow> unit snm" where
  "cleanup_loop env [] s = (Ok (), s)"
| "cleanup_loop env ((h, mac) # ids) s =
     (case Unregister env h mac s of
        (False, s1) \<Rightarrow> cleanup_loop env ids s1
      | (True, s1) \<Rightarrow>
          st_then (onEdgeUnregistered env h mac) (\<lambda>_. cleanup_loop env ids)
            (s1\<lparr>snStats := (snStats s1)\<lparr>stEdgesUnregistered := stEdgesUnregistered (snStats s1) + 1\<rparr>\<rparr>))"

definition stale_ids :: "sn_env \<Rightarrow> int \<Rightarrow> Supernode \<Rightarrow> (u32 \<times> string) list" where
  "stale_ids env expiry s =
     concat (map (\<lambda>(h, c). map (Pair h) (GetStaleEdgeIDs env expiry c s)) (communities s))"

definition CleanupStaleEdges :: "sn_env \<Rightarrow> int \<Rightarrow> unit snm" where
  "CleanupStaleEdges env expiry s =
     (let ids = stale_ids env expiry s in
      st_then (cleanup_loop env ids) (\<lambda>_ s'.
        (Ok (), s'\<lparr>snStats := (snStats s')\<lparr>stLastCleanupTime := enNow env, stLastCleanupEdges := length ids\<rparr>\<rparr>)) s)"

text \<open>A WebSocket connection is filed under its name when it is upgraded and removed when its
  read loop ends.\<close>

definition wss_open :: "string \<Rightarrow> Supernode \<Rightarrow> Supernode" where
  "wss_open conn s = s\<lparr>wssConnections := List.insert conn (wssConnections s)\<rparr>"

definition wss_close :: "string \<Rightarrow> Supernode \<Rightarrow> Supernode" where
  "wss_close conn s = s\<lparr>wssConnections := removeAll conn (wssConnections s)\<rparr>"

text \<open>\<^verbatim>\<open>GetStats\<close> as it is written: every counter is a fresh zero.\<close>

definition GetStats :: "Supernode \<Rightarrow> SupernodeStats" where
  "GetStats s = \<lparr>stPacketsProcessed = 0, stPacketsForwarded = 0, stPacketsDropped = 0,
     stEdgesRegistered = 0, stEdgesUnregistered = 0, stHeartbeatsReceived = 0,
     stLastCleanupTime = stLastCleanupTime (snStats s), stLastCleanupEdges = stLastCleanupEdges (snStats s)\<rparr>"

datatype sn_event =
    EvPacket sn_env bytes net_addr
  | EvCleanup sn_env
  | EvWSSOpen string
  | EvWSSClose string

fun sn_run :: "sn_event \<Rightarrow> unit snm" where
  "sn_run (EvPacket env packet addr) s = ProcessPacket env packet addr s"
| "sn_run (EvCleanup env) s = CleanupStaleEdges env (cfExpiryDuration (snConfig s)) s"
| "sn_run (EvWSSOpen conn) s = (Ok (), wss_open conn s)"
| "sn_run (EvWSSClose conn) s = (Ok (), wss_close conn s)"

definition sn_step :: "sn_event \<Rightarrow> Supernode \<Rightarrow> Supernode" where
  "sn_step ev s = snd (sn_run ev s)"

end
