(* ===== verification/Supernode_Lib.thy ===== *)
theory Supernode_Lib
  imports Supernode
begin

text \<open>
  Library of the supernode: the frame of the
  sending functions (they touch only the outbox and the counters) with an exact account
  of what they send, and the invariant \<open>sn_wf\<close> with its preservation by every
  operation and so by every event (interpretation \<open>sn\<close> of \<open>step_system\<close>).
\<close>

section \<open>The frame of sending\<close>

text \<open>Everything but the outbox and the counters.\<close>

definition sn_core where
  "sn_core s = (netAllocator s, communities s, edgesByMAC s, edgesBySocket s, edgeCachedInfos s, snConfig s,
     snPem s, wssConnections s, snHeap s)"

lemma sn_core_eq:
  "sn_core s' = sn_core s \<longleftrightarrow>
     netAllocator s' = netAllocator s \<and> communities s' = communities s \<and> edgesByMAC s' = edgesByMAC s \<and>
     edgesBySocket s' = edgesBySocket s \<and> edgeCachedInfos s' = edgeCachedInfos s \<and> snConfig s' = snConfig s \<and>
     snPem s' = snPem s \<and> wssConnections s' = wssConnections s \<and> snHeap s' = snHeap s"
  by (simp add: sn_core_def)

lemma sn_core_counts [simp]:
  "sn_core (count_dropped s) = sn_core s" "sn_core (count_forwarded n s) = sn_core s"
  "sn_core (count_processed s) = sn_core s" "sn_core (count_heartbeat s) = sn_core s"
  "sn_core (s\<lparr>snOut := x\<rparr>) = sn_core s" "sn_core (s\<lparr>snStats := st\<rparr>) = sn_core s"
  by (simp_all add: sn_core_def count_dropped_def count_forwarded_def count_processed_def count_heartbeat_def)

lemma snOut_counts [simp]:
  "snOut (count_dropped s) = snOut s" "snOut (count_forwarded n s) = snOut s"
  "snOut (count_processed s) = snOut s" "snOut (count_heartbeat s) = snOut s"
  by (simp_all add: count_dropped_def count_forwarded_def count_processed_def count_heartbeat_def)

text \<open>What a packet becomes on its way out, where it goes for an edge, and whether the
  transport takes it.\<close>

definition relayed :: "bytes \<Rightarrow> (sn_error, bytes) res" where
  "relayed packet = (if packet ! 0 = VersionV then err_map SnProto (FlagPacketFromSupernode packet) else Ok packet)"

definition out_to :: "Edge \<Rightarrow> bytes \<Rightarrow> sn_out" where
  "out_to e b = (if eWSSConnID e \<noteq> [] then OutWSS (eWSSConnID e) b else OutUDP (edge_UDPAddr e) b)"

definition deliverable :: "sn_env \<Rightarrow> Supernode \<Rightarrow> bytes \<Rightarrow> Edge \<Rightarrow> bool" where
  "deliverable env s b e =
     (if eWSSConnID e \<noteq> [] then eWSSConnID e \<in> set (wssConnections s) \<and> enWSSWrite env (eWSSConnID e) b
      else enUDPWrite env (edge_UDPAddr e) b)"

lemma deliverable_core: "sn_core s' = sn_core s \<Longrightarrow> deliverable env s' b e = deliverable env s b e"
  by (simp add: sn_core_eq deliverable_def)

lemma forwardPacket_Ok:
  assumes "packet \<noteq> []" "relayed packet = Ok b" "deliverable env s b t"
  shows "forwardPacket env packet t s = (Ok (), s\<lparr>snOut := snOut s @ [out_to t b]\<rparr>)"
  using assms by (auto simp: forwardPacket_def go_index_def relayed_def deliverable_def write_wss_def
      write_udp_def out_to_def split: if_splits)

lemma forwardPacket_undeliverable:
  assumes "packet \<noteq> []" "relayed packet = Ok b" "\<not> deliverable env s b t"
  shows "\<exists>e. forwardPacket env packet t s = (Fail e, s)"
  using assms by (auto simp: forwardPacket_def go_index_def relayed_def deliverable_def write_wss_def
      write_udp_def out_to_def split: if_splits)

lemma relayed_no_panic [simp]: "\<not> panics (relayed packet)"
  by (simp add: relayed_def FlagPacketFromSupernode_bytes)

lemma forwardPacket_unrelayed:
  assumes "packet \<noteq> []" "relayed packet = Inl e"
  shows "forwardPacket env packet t s = (Inl e, s)"
  using assms by (simp add: forwardPacket_def go_index_def relayed_def split: if_splits)

lemma forwardPacket_cases:
  assumes "packet \<noteq> []"
  obtains b where "relayed packet = Ok b" "deliverable env s b t"
      "forwardPacket env packet t s = (Ok (), s\<lparr>snOut := snOut s @ [out_to t b]\<rparr>)"
  | e where "forwardPacket env packet t s = (Fail e, s)"
proof (cases "relayed packet")
  case (Inl f)
  moreover obtain e where "f = Err e"
    using relayed_no_panic [of packet] Inl by (cases f) simp_all
  ultimately show thesis using forwardPacket_unrelayed [OF assms Inl] that(2) by simp
next
  case (Inr b)
  show thesis
  proof (cases "deliverable env s b t")
    case True
    show thesis by (rule that(1) [OF Inr True forwardPacket_Ok [OF assms Inr True]])
  next
    case False
    then show thesis using forwardPacket_undeliverable [OF assms Inr False] that(2) by blast
  qed
qed

lemma sn_core_forwardPacket [simp]: "sn_core (snd (forwardPacket env packet t s)) = sn_core s"
proof (cases "packet = []")
  case False
  then show ?thesis by (cases rule: forwardPacket_cases [of packet env s t]) simp_all
qed (simp add: forwardPacket_def go_index_def)

lemma forwardPacket_no_panic: "packet \<noteq> [] \<Longrightarrow> \<not> panics (fst (forwardPacket env packet t s))"
  by (cases rule: forwardPacket_cases [of packet env s t]) simp_all

lemma broadcast_loop_exact:
  assumes "packet \<noteq> []" "relayed packet = Ok b"
  shows "\<exists>n s'. broadcast_loop env packet sender ts k s = (Ok n, s') \<and> sn_core s' = sn_core s \<and>
    snOut s' = snOut s @ map (\<lambda>t. out_to t b) (filter (\<lambda>t. eMACAddr t \<noteq> sender \<and> deliverable env s b t) ts)"
proof (induction ts arbitrary: k s)
  case (Cons t ts)
  show ?case
  proof (cases "eMACAddr t = sender")
    case True
    then show ?thesis using Cons [of k s] by simp
  next
    case ne: False
    show ?thesis
    proof (cases "deliverable env s b t")
      case True
      let ?s = "s\<lparr>snOut := snOut s @ [out_to t b]\<rparr>"
      have "deliverable env ?s b u = deliverable env s b u" for u by (rule deliverable_core) simp
      then have f: "filter (\<lambda>t. eMACAddr t \<noteq> sender \<and> deliverable env ?s b t) ts =
          filter (\<lambda>t. eMACAddr t \<noteq> sender \<and> deliverable env s b t) ts" by simp
      obtain n s' where "broadcast_loop env packet sender ts (k + 1) ?s = (Ok n, s')" "sn_core s' = sn_core ?s"
          "snOut s' = snOut ?s @ map (\<lambda>t. out_to t b) (filter (\<lambda>t. eMACAddr t \<noteq> sender \<and> deliverable env s b t) ts)"
        using Cons [of "k + 1" ?s] unfolding f by blast
      then show ?thesis using forwardPacket_Ok [OF assms True] ne True by simp
    next
      case False
      have "deliverable env (count_dropped s) b u = deliverable env s b u" for u by (rule deliverable_core) simp
      then have f: "filter (\<lambda>t. eMACAddr t \<noteq> sender \<and> deliverable env (count_dropped s) b t) ts =
          filter (\<lambda>t. eMACAddr t \<noteq> sender \<and> deliverable env s b t) ts" by simp
      obtain n s' where "broadcast_loop env packet sender ts k (count_dropped s) = (Ok n, s')"
          "sn_core s' = sn_core (count_dropped s)"
          "snOut s' = snOut (count_dropped s) @ map (\<lambda>t. out_to t b) (filter (\<lambda>t. eMACAddr t \<noteq> sender \<and> deliverable env s b t) ts)"
        using Cons [of k "count_dropped s"] unfolding f by blast
      moreover obtain e where "forwardPacket env packet t s = (Fail e, s)"
        using forwardPacket_undeliverable [OF assms False] by blast
      ultimately show ?thesis using ne False by simp
    qed
  qed
qed simp

lemma broadcast_exact:
  assumes "packet \<noteq> []" "relayed packet = Ok b"
  shows "\<exists>s'. broadcast env packet c sender s = (Ok (), s') \<and> sn_core s' = sn_core s \<and>
    snOut s' = snOut s @ map (\<lambda>t. out_to t b)
      (filter (\<lambda>t. eMACAddr t \<noteq> sender \<and> deliverable env s b t) (GetAllEdges c s))"
  using broadcast_loop_exact [OF assms, of env sender "GetAllEdges c s" 0 s]
  by (auto simp: broadcast_def)

text \<open>The supernode's own packets are already flagged, so relaying leaves them as they are.\<close>

lemma SNHeader_Ok: "\<exists>h. SNHeader env pt com None = Ok h \<and> Version h = VersionV \<and> Flags h = FlagFromSuperNode"
  by (simp add: SNHeader_def copy6_def)

lemma length_PackProtoVDatagram [simp]: "length (PackProtoVDatagram h p) = 30 + length p"
  by (simp add: PackProtoVDatagram_def)

lemma PackProtoVDatagram_not_Nil [simp]: "PackProtoVDatagram h p \<noteq> []"
  by (metis length_PackProtoVDatagram add_is_0 list.size(3) zero_neq_numeral)

lemma relayed_own:
  assumes "Version h = VersionV" "Flags h = FlagFromSuperNode"
  shows "relayed (PackProtoVDatagram h p) = Ok (PackProtoVDatagram h p)"
proof -
  have u: "UnpackProtoVDatagram (PackProtoVDatagram h p) = Ok (h, p)"
    using assms(1) by (simp add: UnpackProtoVDatagram_eq_Ok)
  have "SetFromSupernode True h = h"
    using assms(2) by (simp add: SetFromSupernode_def SetFlag_def)
  then show ?thesis using u by (simp add: relayed_def FlagPacketFromSupernode_def)
qed

lemma SNHeader_cases:
  obtains h where "SNHeader env pt com None = Ok h" "Version h = VersionV" "Flags h = FlagFromSuperNode"
  using SNHeader_Ok by blast

lemma write_frame [simp]:
  "sn_core (snd (write_udp env p u s)) = sn_core s" "sn_core (snd (write_wss env p c s)) = sn_core s"
  "\<not> panics (fst (write_udp env p u s))" "\<not> panics (fst (write_wss env p c s))"
  by (simp_all add: write_udp_def write_wss_def)

lemma encode_msg_no_panic [simp]: "\<not> panics (encode_msg env p)"
  by (simp add: encode_msg_def split: option.splits)

lemma sn_core_SendStruct [simp]: "sn_core (snd (SendStruct env p com None addr s)) = sn_core s"
  by (rule SNHeader_cases [of env "pb_type p" com])
     (auto simp: SendStruct_def encode_msg_def Let_def split: option.splits net_addr.splits)

lemma SendStruct_no_panic [simp]: "\<not> panics (fst (SendStruct env p com None addr s))"
  by (rule SNHeader_cases [of env "pb_type p" com])
     (auto simp: SendStruct_def encode_msg_def Let_def forwardPacket_no_panic split: option.splits net_addr.splits)

lemma sn_core_WritePacket [simp]: "sn_core (snd (WritePacket env pt com None pl addr s)) = sn_core s"
  by (rule SNHeader_cases [of env pt com])
     (auto simp: WritePacket_def split: option.splits net_addr.splits)

lemma WritePacket_no_panic [simp]: "\<not> panics (fst (WritePacket env pt com None pl addr s))"
  by (rule SNHeader_cases [of env pt com])
     (auto simp: WritePacket_def forwardPacket_no_panic split: option.splits net_addr.splits)

lemma BroadcastStruct_exact:
  assumes "enMarshal env p = Some payload"
  obtains h s' where "SNHeader env (pb_type p) (cName c) None = Ok h"
    "BroadcastStruct env p c None sender s = (Ok (), s')" "sn_core s' = sn_core s"
    "snOut s' = snOut s @ map (\<lambda>t. out_to t (PackProtoVDatagram h payload))
      (filter (\<lambda>t. eMACAddr t \<noteq> sender \<and> deliverable env s (PackProtoVDatagram h payload) t) (GetAllEdges c s))"
proof (rule SNHeader_cases [of env "pb_type p" "cName c"])
  fix h assume h: "SNHeader env (pb_type p) (cName c) None = Ok h" "Version h = VersionV" "Flags h = FlagFromSuperNode"
  let ?pk = "PackProtoVDatagram h payload"
  obtain s' where "broadcast env ?pk c sender s = (Ok (), s')" "sn_core s' = sn_core s"
    "snOut s' = snOut s @ map (\<lambda>t. out_to t ?pk)
      (filter (\<lambda>t. eMACAddr t \<noteq> sender \<and> deliverable env s ?pk t) (GetAllEdges c s))"
    using broadcast_exact [OF PackProtoVDatagram_not_Nil relayed_own [OF h(2,3)]] by blast
  then show thesis using that h(1) assms by (simp add: BroadcastStruct_def encode_msg_def)
qed

lemma sn_core_BroadcastStruct [simp]: "sn_core (snd (BroadcastStruct env p c None sender s)) = sn_core s"
proof (cases "enMarshal env p")
  case None
  show ?thesis
    by (rule SNHeader_cases [of env "pb_type p" "cName c"]) (simp add: BroadcastStruct_def encode_msg_def None)
next
  case (Some b)
  then show ?thesis by (rule BroadcastStruct_exact [of env p b c sender s]) simp
qed

lemma BroadcastStruct_no_panic [simp]: "\<not> panics (fst (BroadcastStruct env p c None sender s))"
proof (cases "enMarshal env p")
  case None
  show ?thesis
    by (rule SNHeader_cases [of env "pb_type p" "cName c"]) (simp add: BroadcastStruct_def encode_msg_def None)
next
  case (Some b)
  then show ?thesis by (rule BroadcastStruct_exact [of env p b c sender s]) simp
qed

lemma sn_core_reply_to_edge [simp]: "sn_core (snd (reply_to_edge env p com c mac s)) = sn_core s"
  by (simp add: reply_to_edge_def split: option.splits)

lemma reply_to_edge_no_panic [simp]: "\<not> panics (fst (reply_to_edge env p com c mac s))"
  by (simp add: reply_to_edge_def split: option.splits)

section \<open>The invariant\<close>

text \<open>
  A community is filed under the hash of its name. Its edges are objects of the heap, filed
  under their own hardware address and marked with the community's name; the two indexes
  of the supernode point to objects of the heap, the first one under their own address.
\<close>

definition community_wf :: "Edge list \<Rightarrow> u32 \<Rightarrow> Community \<Rightarrow> bool" where
  "community_wf heap h c \<longleftrightarrow> HashCommunity (cName c) = h \<and> gwf (cEdges c) \<and>
     (\<forall>m a. gget (cEdges c) m = Some a \<longrightarrow>
        a < length heap \<and> eMACAddr (heap ! a) = m \<and> eCommunity (heap ! a) = cName c)"

definition sn_wf :: "Supernode \<Rightarrow> bool" where
  "sn_wf s \<longleftrightarrow>
     gwf (communities s) \<and> gwf (edgesByMAC s) \<and> gwf (edgesBySocket s) \<and>
     (\<forall>h c. gget (communities s) h = Some c \<longrightarrow> community_wf (snHeap s) h c) \<and>
     (\<forall>m a. gget (edgesByMAC s) m = Some a \<longrightarrow> a < length (snHeap s) \<and> eMACAddr (snHeap s ! a) = m) \<and>
     (\<forall>k a. gget (edgesBySocket s) k = Some a \<longrightarrow> a < length (snHeap s))"

lemma sn_wf_core: "sn_core s' = sn_core s \<Longrightarrow> sn_wf s' = sn_wf s"
  by (simp add: sn_core_eq sn_wf_def)

lemma sn_wf_community: "sn_wf s \<Longrightarrow> gget (communities s) h = Some c \<Longrightarrow> community_wf (snHeap s) h c"
  by (simp add: sn_wf_def)

lemma sn_wf_edge:
  "sn_wf s \<Longrightarrow> gget (communities s) h = Some c \<Longrightarrow> gget (cEdges c) m = Some a \<Longrightarrow>
     a < length (snHeap s) \<and> eMACAddr (edge_of s a) = m \<and> eCommunity (edge_of s a) = cName c"
  by (auto simp: edge_of_def community_wf_def dest: sn_wf_community)

text \<open>Changing the objects of the heap in place, as long as they keep address and community.\<close>

definition same_ids :: "Edge list \<Rightarrow> Edge list \<Rightarrow> bool" where
  "same_ids h h' \<longleftrightarrow> length h \<le> length h' \<and>
     (\<forall>a < length h. eMACAddr (h' ! a) = eMACAddr (h ! a) \<and> eCommunity (h' ! a) = eCommunity (h ! a))"

lemma same_ids_update:
  assumes "eMACAddr e = eMACAddr (h ! a)" "eCommunity e = eCommunity (h ! a)"
  shows "same_ids h (h[a := e])"
  unfolding same_ids_def
proof (intro conjI allI impI)
  fix b assume "b < length h"
  then show "eMACAddr (h[a := e] ! b) = eMACAddr (h ! b)" "eCommunity (h[a := e] ! b) = eCommunity (h ! b)"
    using assms by (cases "b = a"; simp)+
qed simp

lemma same_ids_append: "same_ids h (h @ es)"
  by (simp add: same_ids_def nth_append)

lemma same_idsD:
  "same_ids h h' \<Longrightarrow> a < length h \<Longrightarrow>
     a < length h' \<and> eMACAddr (h' ! a) = eMACAddr (h ! a) \<and> eCommunity (h' ! a) = eCommunity (h ! a)"
  by (simp add: same_ids_def)

lemma community_wf_same_ids:
  assumes "community_wf h k c" "same_ids h h'" shows "community_wf h' k c"
  unfolding community_wf_def
proof (intro conjI allI impI)
  fix m a assume "gget (cEdges c) m = Some a"
  then have "a < length h \<and> eMACAddr (h ! a) = m \<and> eCommunity (h ! a) = cName c"
    using assms(1) by (simp add: community_wf_def)
  then show "a < length h'" "eMACAddr (h' ! a) = m" "eCommunity (h' ! a) = cName c"
    using same_idsD [OF assms(2), of a] by simp_all
qed (use assms(1) in \<open>simp_all add: community_wf_def\<close>)

lemma sn_wf_same_ids:
  assumes "sn_wf s" "same_ids (snHeap s) h'" shows "sn_wf (s\<lparr>snHeap := h'\<rparr>)"
  using assms(1) same_idsD [OF assms(2)] community_wf_same_ids [OF _ assms(2)]
  unfolding sn_wf_def by simp

lemma sn_wf_put_community:
  "sn_wf s \<Longrightarrow> community_wf (snHeap s) h c \<Longrightarrow> sn_wf (put_community h c s)"
  by (simp add: sn_wf_def put_community_def)

lemma SetEdgeCachedInfo_fields [simp]:
  "snHeap (SetEdgeCachedInfo env mac d c r v s) = snHeap s"
  "communities (SetEdgeCachedInfo env mac d c r v s) = communities s"
  "edgesByMAC (SetEdgeCachedInfo env mac d c r v s) = edgesByMAC s"
  "edgesBySocket (SetEdgeCachedInfo env mac d c r v s) = edgesBySocket s"
  "snOut (SetEdgeCachedInfo env mac d c r v s) = snOut s"
  "wssConnections (SetEdgeCachedInfo env mac d c r v s) = wssConnections s"
  by (simp_all add: SetEdgeCachedInfo_def)

lemma put_community_fields [simp]:
  "snHeap (put_community h c s) = snHeap s"
  "communities (put_community h c s) = gput (communities s) h c"
  "edgesByMAC (put_community h c s) = edgesByMAC s"
  "edgesBySocket (put_community h c s) = edgesBySocket s"
  "edgeCachedInfos (put_community h c s) = edgeCachedInfos s"
  "snOut (put_community h c s) = snOut s"
  "wssConnections (put_community h c s) = wssConnections s"
  by (simp_all add: put_community_def)

lemma sn_wf_SetEdgeCachedInfo [simp]: "sn_wf (SetEdgeCachedInfo env mac d c r v s) = sn_wf s"
  by (simp add: sn_wf_def)

lemma community_wf_p2p [simp]: "community_wf h k (c\<lparr>cP2PInfos := x\<rparr>) = community_wf h k c"
  by (simp add: community_wf_def)

lemma community_wf_del: "community_wf h k c \<Longrightarrow> community_wf h k (c\<lparr>cEdges := gdel (cEdges c) m\<rparr>)"
  by (simp add: community_wf_def)

lemma community_wf_add:
  "community_wf h k c \<Longrightarrow> a < length h \<Longrightarrow> eMACAddr (h ! a) = m \<Longrightarrow> eCommunity (h ! a) = cName c \<Longrightarrow>
     community_wf h k (c\<lparr>cEdges := gput (cEdges c) m a\<rparr>)"
  by (simp add: community_wf_def)

lemma sn_wf_Unregister: "sn_wf s \<Longrightarrow> sn_wf (snd (Unregister env h mac s))"
  using sn_wf_community [of s h]
  by (simp add: Unregister_def sn_wf_put_community community_wf_del split: option.splits)

lemma sn_wf_SetP2PInfosFor:
  "sn_wf s \<Longrightarrow> gget (communities s) h = Some c \<Longrightarrow> sn_wf (snd (SetP2PInfosFor h c mac i s))"
  using sn_wf_community [of s h c] by (simp add: SetP2PInfosFor_def sn_wf_put_community)

lemma sn_wf_RefreshEdge: "sn_wf s \<Longrightarrow> sn_wf (snd (RefreshEdge env c r m s))"
  by (simp add: RefreshEdge_def Let_def edge_of_def sn_wf_same_ids same_ids_update split: option.splits)

lemma gwf_communities: "sn_wf s \<Longrightarrow> gwf (communities s)"
  by (simp add: sn_wf_def)

lemma sn_wf_RegisterCommunity: "sn_wf s \<Longrightarrow> sn_wf (snd (RegisterCommunity env name h s))"
  by (auto simp: RegisterCommunity_def NewCommunity_def split: option.splits
      intro!: on_ok_inv [where P = sn_wf] sn_wf_put_community simp: community_wf_def split: if_splits)

lemma RegisterCommunity_Ok:
  assumes "RegisterCommunity env name h s = (Ok c, s')"
  shows "h = HashCommunity name \<and> cName c = name \<and> gget (communities s') h = Some c \<and>
    (s' = s \<or> gget (communities s) h = None \<and> s' = put_community h c s \<and> cEdges c = [])"
  using assms
  by (auto simp: RegisterCommunity_def NewCommunity_def on_ok_def split: if_splits option.splits sum.splits)

lemma new_edge_fields [simp]:
  "eMACAddr (new_edge env c r msg vip) = EdgeMACAddr r" "eCommunity (new_edge env c r msg vip) = cName c"
  "eVirtualIP (new_edge env c r msg vip) = vip" "eMachineID (new_edge env c r msg vip) = rqClearMachineId msg"
  by (simp_all add: new_edge_def)

lemma touch_edge_fields [simp]:
  "eMACAddr (touch_edge env r e) = eMACAddr e" "eCommunity (touch_edge env r e) = eCommunity e"
  "eVirtualIP (touch_edge env r e) = eVirtualIP e" "eMachineID (touch_edge env r e) = eMachineID e"
  "eLastHeartbeat (touch_edge env r e) = enNow env"
  by (simp_all add: touch_edge_def Let_def split: option.splits)

lemma sn_wf_EdgeUpdate:
  assumes "sn_wf s" "gget (communities s) h = Some c"
  shows "sn_wf (snd (EdgeUpdate env h c r msg s))"
proof (cases "gget (cEdges c) (EdgeMACAddr r)")
  case (Some a)
  have "sn_wf (s\<lparr>snHeap := (snHeap s)[a := touch_edge env r (snHeap s ! a)]\<rparr>)"
    by (rule sn_wf_same_ids [OF assms(1) same_ids_update]) simp_all
  then show ?thesis using Some assms(1) by (simp add: EdgeUpdate_def Let_def edge_of_def)
next
  case None
  have "sn_wf (put_community h (c\<lparr>cEdges := gput (cEdges c) (EdgeMACAddr r) (length (snHeap s))\<rparr>)
      (s\<lparr>snHeap := snHeap s @ [new_edge env c r msg vip]\<rparr>))" for vip
    using sn_wf_same_ids [OF assms(1) same_ids_append]
      community_wf_same_ids [OF sn_wf_community [OF assms] same_ids_append]
    by (simp add: sn_wf_put_community community_wf_add)
  then show ?thesis using None assms(1) by (simp add: EdgeUpdate_def Let_def split: option.splits)
qed

text \<open>A successful update leaves the edge in its community, under the sender's address, and
  touches no other community and neither index.\<close>

lemma EdgeUpdate_Ok:
  assumes "EdgeUpdate env h c r msg s = (Ok a, s')" "sn_wf s" "gget (communities s) h = Some c"
  shows "\<exists>c'. gget (communities s') h = Some c' \<and> cName c' = cName c \<and>
      cEdges c' = gput (cEdges c) (EdgeMACAddr r) a \<and>
      (\<forall>k. k \<noteq> h \<longrightarrow> gget (communities s') k = gget (communities s) k) \<and>
      a < length (snHeap s') \<and> eMACAddr (edge_of s' a) = EdgeMACAddr r \<and> eCommunity (edge_of s' a) = cName c \<and>
      edgesByMAC s' = edgesByMAC s \<and> edgesBySocket s' = edgesBySocket s \<and> same_ids (snHeap s) (snHeap s') \<and>
      snOut s' = snOut s \<and> wssConnections s' = wssConnections s"
proof (cases "gget (cEdges c) (EdgeMACAddr r)")
  case (Some b)
  have e: "b < length (snHeap s)" "eMACAddr (edge_of s b) = EdgeMACAddr r" "eCommunity (edge_of s b) = cName c"
    using sn_wf_edge [OF assms(2,3) Some] by simp_all
  have s': "a = b" "s' = s\<lparr>snHeap := (snHeap s)[b := touch_edge env r (edge_of s b)]\<rparr>"
    using assms(1) Some e by (auto simp: EdgeUpdate_def Let_def)
  have "gput (cEdges c) (EdgeMACAddr r) b = cEdges c"
    using Some by (simp add: gput_def gget_def update_triv)
  then show ?thesis
    using s' e assms(3) same_ids_update [of "touch_edge env r (edge_of s b)" "snHeap s" b] by (simp add: edge_of_def)
next
  case None
  obtain vip where s': "a = length (snHeap s)"
     "s' = SetEdgeCachedInfo env (EdgeMACAddr r) (eDesc (new_edge env c r msg vip)) (cName c) True vip
         (put_community h (c\<lparr>cEdges := gput (cEdges c) (EdgeMACAddr r) a\<rparr>) (s\<lparr>snHeap := snHeap s @ [new_edge env c r msg vip]\<rparr>))"
    using assms(1) None by (auto simp: EdgeUpdate_def Let_def split: option.splits)
  then show ?thesis by (simp add: edge_of_def same_ids_append)
qed

lemma index_edge_fields [simp]:
  "snHeap (index_edge a s) = snHeap s" "communities (index_edge a s) = communities s"
  "snOut (index_edge a s) = snOut s" "wssConnections (index_edge a s) = wssConnections s"
  "edgesByMAC (index_edge a s) = gput (edgesByMAC s) (eMACAddr (edge_of s a)) a"
  "edge_of (index_edge a s) b = edge_of s b"
  by (simp_all add: index_edge_def Let_def edge_of_def)

lemma sn_wf_index_edge: "sn_wf s \<Longrightarrow> a < length (snHeap s) \<Longrightarrow> sn_wf (index_edge a s)"
  by (simp add: index_edge_def Let_def sn_wf_def edge_of_def)

lemma set_wss_conn_fields [simp]:
  "communities (set_wss_conn addr a s) = communities s" "edgesByMAC (set_wss_conn addr a s) = edgesByMAC s"
  "edgesBySocket (set_wss_conn addr a s) = edgesBySocket s" "snOut (set_wss_conn addr a s) = snOut s"
  "wssConnections (set_wss_conn addr a s) = wssConnections s"
  "length (snHeap (set_wss_conn addr a s)) = length (snHeap s)"
  by (simp_all add: set_wss_conn_def split: net_addr.splits)

lemma same_ids_set_wss_conn: "same_ids (snHeap s) (snHeap (set_wss_conn addr a s))"
  using same_ids_update [of "(snHeap s ! a)\<lparr>eWSSConnID := conn\<rparr>" "snHeap s" a for conn]
  by (cases addr) (simp_all add: set_wss_conn_def edge_of_def same_ids_def)

lemma sn_wf_set_wss_conn: "sn_wf s \<Longrightarrow> sn_wf (set_wss_conn addr a s)"
  by (cases addr) (simp_all add: set_wss_conn_def sn_wf_same_ids same_ids_update edge_of_def)

lemma sn_wf_stats [simp]: "sn_wf (s\<lparr>snStats := st\<rparr>) = sn_wf s"
  by (rule sn_wf_core) simp

lemma sn_wf_RegisterEdge:
  assumes wf: "sn_wf s"
  shows "sn_wf (snd (RegisterEdge env r msg s))"
proof -
  have "sn_wf (snd (st_then (EdgeUpdate env (CommunityHash r) c r msg') (\<lambda>a s. (Ok (a, cName c),
        s\<lparr>snStats := (snStats s)\<lparr>stEdgesRegistered := stEdgesRegistered (snStats s) + 1\<rparr>\<rparr>)) s1))"
    if "RegisterCommunity env (rqCommunityName msg) (CommunityHash r) s = (Ok c, s1)" for c s1 msg'
  proof -
    have "sn_wf s1" "gget (communities s1) (CommunityHash r) = Some c"
      using sn_wf_RegisterCommunity [OF wf, of env "rqCommunityName msg" "CommunityHash r"]
        RegisterCommunity_Ok [OF that] that by auto
    from sn_wf_EdgeUpdate [OF this, of env r msg'] show ?thesis
      by (intro st_then_inv [where P = sn_wf]) auto
  qed
  then show ?thesis
    unfolding RegisterEdge_def
    by (intro on_ok_inv [where P = sn_wf] st_then_inv [where P = sn_wf, of "RegisterCommunity _ _ _"]
        sn_wf_RegisterCommunity wf) auto
qed

text \<open>What a successful registration establishes.\<close>

lemma RegisterEdge_Ok:
  assumes "RegisterEdge env r msg s = (Ok (a, n), s')" "sn_wf s"
  obtains mid c s1 where "enDecrypt env (rqEncryptedMachineId msg) = Some mid"
    "mac_string (ExtGenerateMac (rqCommunityName msg) mid) = EdgeMACAddr r"
    "RegisterCommunity env (rqCommunityName msg) (CommunityHash r) s = (Ok c, s1)"
    "EdgeUpdate env (CommunityHash r) c r (msg\<lparr>rqClearMachineId := mid\<rparr>) s1 =
       (Ok a, s'\<lparr>snStats := snStats s1\<rparr>)" "sn_wf s1"
proof -
  obtain mid where v: "ValidateEdgeClaimedMACAddr env (EdgeMACAddr r) (rqEncryptedMachineId msg) (rqCommunityName msg) = Inr mid"
    using assms(1) by (cases "ValidateEdgeClaimedMACAddr env (EdgeMACAddr r) (rqEncryptedMachineId msg) (rqCommunityName msg)")
      (simp_all add: RegisterEdge_def)
  obtain rc s1 where rc: "RegisterCommunity env (rqCommunityName msg) (CommunityHash r) s = (rc, s1)" by fastforce
  with assms(1) v obtain c where c: "rc = Inr c" by (cases rc) (simp_all add: RegisterEdge_def st_then_def)
  have wf: "sn_wf s1" using sn_wf_RegisterCommunity [OF assms(2), of env "rqCommunityName msg" "CommunityHash r"] rc by simp
  obtain ru s2 where u: "EdgeUpdate env (CommunityHash r) c r (msg\<lparr>rqClearMachineId := mid\<rparr>) s1 = (ru, s2)" by fastforce
  with assms(1) v rc c have "ru = Inr a" "s2 = s'\<lparr>snStats := snStats s2\<rparr>"
    by (cases ru; simp add: RegisterEdge_def st_then_def; auto)+
  moreover have "snStats s2 = snStats s1"
    using u by (auto simp: EdgeUpdate_def Let_def SetEdgeCachedInfo_def put_community_def split: option.splits if_splits)
  ultimately show thesis
    using that [of mid c s1] v rc c u wf
    by (auto simp: ValidateEdgeClaimedMACAddr_def DecryptMachineID_def res_bind_eq_Inr split: option.splits if_splits)
qed

lemma sn_wf_del_indexes:
  "sn_wf s \<Longrightarrow> sn_wf (s\<lparr>edgesBySocket := gdel (edgesBySocket s) k, edgesByMAC := gdel (edgesByMAC s) m\<rparr>)"
  by (simp add: sn_wf_def)

definition drop_indexes :: "string \<Rightarrow> Edge \<Rightarrow> Supernode \<Rightarrow> Supernode" where
  "drop_indexes mac e s =
     s\<lparr>edgesBySocket := gdel (edgesBySocket s) (udp_string (Some (edge_UDPAddr e))), edgesByMAC := gdel (edgesByMAC s) mac,
       snStats := (snStats s)\<lparr>stEdgesUnregistered := stEdgesUnregistered (snStats s) + 1\<rparr>\<rparr>"

lemma onEdgeUnregistered_eq:
  "onEdgeUnregistered env h mac s =
     (case gget (edgesByMAC s) mac of
        None \<Rightarrow> (Panic NilDereference, s)
      | Some a \<Rightarrow>
          (case gget (communities s) h of
             None \<Rightarrow> (Ok (), drop_indexes mac (edge_of s a) s)
           | Some c \<Rightarrow> st_ignore (BroadcastStruct env
               (MPeerInfoList (newPeerInfoEvent TypeUnregister (edge_of s a))) c None mac)
               (drop_indexes mac (edge_of s a) s)))"
  by (simp add: onEdgeUnregistered_def drop_indexes_def Let_def split: option.splits)

lemma sn_wf_drop_indexes: "sn_wf s \<Longrightarrow> sn_wf (drop_indexes mac e s)"
  using sn_wf_del_indexes [of s mac "udp_string (Some (edge_UDPAddr e))"] by (simp add: drop_indexes_def)

lemma onEdgeUnregistered_core:
  assumes "gget (edgesByMAC s) mac = Some a"
  shows "sn_core (snd (onEdgeUnregistered env h mac s)) = sn_core (drop_indexes mac (edge_of s a) s)"
    "\<not> panics (fst (onEdgeUnregistered env h mac s))"
  using assms by (simp_all add: onEdgeUnregistered_eq split: option.splits)

lemma sn_wf_onEdgeUnregistered: "sn_wf s \<Longrightarrow> sn_wf (snd (onEdgeUnregistered env h mac s))"
  by (cases "gget (edgesByMAC s) mac")
     (simp_all add: onEdgeUnregistered_eq [of env h mac s] sn_wf_drop_indexes
       sn_wf_core [OF sn_core_BroadcastStruct] split: option.splits)

lemma GetCommunity_Ok:
  "GetCommunity r s = Ok c \<longleftrightarrow>
     gget (communities s) (CommunityHash r) = Some c \<and> gget (cEdges c) (EdgeMACAddr r) \<noteq> None"
  by (auto simp: GetCommunity_def GetCommunityForEdge_def GetEdge_def split: option.splits if_splits)

lemma GetCommunity_no_panic [simp]: "\<not> panics (GetCommunity r s)"
  by (simp add: GetCommunity_def GetCommunityForEdge_def split: option.splits)

lemma sn_wf_UnregisterEdge: "sn_wf s \<Longrightarrow> sn_wf (snd (UnregisterEdge env r s))"
  using sn_wf_Unregister [of s env "CommunityHash r" "EdgeMACAddr r"]
  by (auto simp: UnregisterEdge_def sn_wf_onEdgeUnregistered intro!: on_ok_inv [where P = sn_wf]
      split: prod.splits bool.splits)

section \<open>Forwarding, exactly\<close>

text \<open>A packet that was received as a raw message leaves with one bit more.\<close>

lemma relayed_raw:
  assumes "NewRawMessage packet addr = Ok r"
  shows "relayed packet = Ok (packet[3 := packet ! 3 OR 2])" "packet \<noteq> []" "rRawPacket r = packet"
    "packet ! 0 = VersionV" "30 \<le> length packet"
proof -
  have p: "packet = PackProtoVDatagram (rHeader r) (rPayload r)" "Version (rHeader r) = VersionV" "rRawPacket r = packet"
    using assms by (simp_all add: NewRawMessage_Ok)
  then show ne: "packet \<noteq> []" "rRawPacket r = packet" by (metis PackProtoVDatagram_not_Nil)+
  show v: "packet ! 0 = VersionV" using p(1,2) header_bytes_nth0 by (metis PackProtoVDatagram_def)
  show l: "30 \<le> length packet" unfolding p(1) by simp
  show "relayed packet = Ok (packet[3 := packet ! 3 OR 2])"
    using v l by (simp add: relayed_def FlagPacketFromSupernode_bytes VersionV_def)
qed

lemma ForwardUnicast_exact:
  assumes "rRawPacket r \<noteq> []" "relayed (rRawPacket r) = Ok b" "GetCommunity r s = Ok c"
    and "GetEdge c (DestMACAddr r) s = Some t"
  shows "ForwardUnicast env r s =
    (if deliverable env s b t then (Ok (), count_forwarded 1 (s\<lparr>snOut := snOut s @ [out_to t b]\<rparr>))
     else (Fail ForwardFailed, count_dropped s))"
proof (cases "deliverable env s b t")
  case True
  then show ?thesis using forwardPacket_Ok [OF assms(1,2) True] assms(3,4) by (simp add: ForwardUnicast_def)
next
  case False
  obtain e where "forwardPacket env (rRawPacket r) t s = (Fail e, s)"
    using forwardPacket_undeliverable [OF assms(1,2) False] by blast
  then show ?thesis using assms(3,4) False by (simp add: ForwardUnicast_def)
qed

lemma ForwardWithFallBack_direct:
  assumes "rRawPacket r \<noteq> []" "relayed (rRawPacket r) = Ok b" "GetCommunity r s = Ok c"
    and "GetEdge c (DestMACAddr r) s = Some t" "deliverable env s b t"
  shows "ForwardWithFallBack env r s = (Ok (), count_forwarded 1 (s\<lparr>snOut := snOut s @ [out_to t b]\<rparr>))"
  using forwardPacket_Ok [OF assms(1,2,5)] assms(3,4) by (simp add: ForwardWithFallBack_def)

lemma ForwardWithFallBack_broadcast:
  assumes "rRawPacket r \<noteq> []" "relayed (rRawPacket r) = Ok b" "GetCommunity r s = Ok c"
    and "\<forall>t. GetEdge c (DestMACAddr r) s = Some t \<longrightarrow> \<not> deliverable env s b t"
  shows "\<exists>s'. ForwardWithFallBack env r s = (Ok (), s') \<and> sn_core s' = sn_core s \<and>
    snOut s' = snOut s @ map (\<lambda>t. out_to t b)
      (filter (\<lambda>t. eMACAddr t \<noteq> EdgeMACAddr r \<and> deliverable env s b t) (GetAllEdges c s))"
proof (cases "GetEdge c (DestMACAddr r) s")
  case None
  then show ?thesis
    using broadcast_exact [OF assms(1,2), of env c "EdgeMACAddr r" s] assms(3) by (simp add: ForwardWithFallBack_def)
next
  case (Some t)
  then obtain e where f: "forwardPacket env (rRawPacket r) t s = (Fail e, s)"
    using forwardPacket_undeliverable [OF assms(1,2)] assms(4) by blast
  have d: "deliverable env (count_dropped s) b u = deliverable env s b u" for u by (rule deliverable_core) simp
  have g: "GetAllEdges c (count_dropped s) = GetAllEdges c s" by (simp add: GetAllEdges_def edge_of_def count_dropped_def)
  show ?thesis
    using broadcast_exact [OF assms(1,2), of env c "EdgeMACAddr r" "count_dropped s"] assms(3) Some f
    unfolding d g by (simp add: ForwardWithFallBack_def)
qed

lemma ForwardUnicast_core:
  assumes "rRawPacket r \<noteq> []" "relayed (rRawPacket r) = Ok b"
  shows "sn_core (snd (ForwardUnicast env r s)) = sn_core s \<and> \<not> panics (fst (ForwardUnicast env r s))"
proof (cases "GetCommunity r s")
  case (Inl e)
  then show ?thesis using GetCommunity_no_panic [of r s] by (simp add: ForwardUnicast_def panics_Inl)
next
  case (Inr c)
  then show ?thesis
    using ForwardUnicast_exact [OF assms Inr, of _ env]
    by (cases "GetEdge c (DestMACAddr r) s") (simp_all add: ForwardUnicast_def [of env r s])
qed

lemma ForwardWithFallBack_core:
  assumes "rRawPacket r \<noteq> []" "relayed (rRawPacket r) = Ok b"
  shows "sn_core (snd (ForwardWithFallBack env r s)) = sn_core s \<and> \<not> panics (fst (ForwardWithFallBack env r s))"
proof (cases "GetCommunity r s")
  case (Inl e)
  then show ?thesis using GetCommunity_no_panic [of r s] by (simp add: ForwardWithFallBack_def panics_Inl)
next
  case (Inr c)
  show ?thesis
  proof (cases "\<exists>t. GetEdge c (DestMACAddr r) s = Some t \<and> deliverable env s b t")
    case True
    then show ?thesis using ForwardWithFallBack_direct [OF assms Inr, of _ env] by auto
  next
    case False
    then show ?thesis using ForwardWithFallBack_broadcast [OF assms Inr, of env] by fastforce
  qed
qed

section \<open>The handlers keep the invariant\<close>

lemma sn_wf_handleP2PStateInfo: "sn_wf s \<Longrightarrow> sn_wf (snd (handleP2PStateInfoMessage env r s))"
  unfolding handleP2PStateInfoMessage_def
  by (intro on_ok_inv [where P = sn_wf]) (auto simp: GetCommunity_Ok intro!: sn_wf_SetP2PInfosFor)

lemma sn_wf_reply: "sn_wf s \<Longrightarrow> sn_wf (snd (reply_to_edge env p com c mac s))"
  by (simp add: sn_wf_core [OF sn_core_reply_to_edge])

lemma sn_wf_handlePeerRequest: "sn_wf s \<Longrightarrow> sn_wf (snd (handlePeerRequestMessage env r s))"
  unfolding handlePeerRequestMessage_def
  by (intro on_ok_inv [where P = sn_wf]) (auto intro!: sn_wf_reply)

lemma sn_wf_handleLeases: "sn_wf s \<Longrightarrow> sn_wf (snd (handleLeasesInfosMessage env r s))"
  unfolding handleLeasesInfosMessage_def
  by (intro on_ok_inv [where P = sn_wf]) (auto intro!: sn_wf_reply on_ok_inv [where P = sn_wf])

lemma sn_wf_handleP2PFullState: "sn_wf s \<Longrightarrow> sn_wf (snd (handleP2PFullStateMessage env r s))"
  unfolding handleP2PFullStateMessage_def
  by (intro on_ok_inv [where P = sn_wf]) (auto intro!: sn_wf_reply on_ok_inv [where P = sn_wf])

lemma sn_wf_handleUnregister: "sn_wf s \<Longrightarrow> sn_wf (snd (handleUnregisterMessage env r s))"
  unfolding handleUnregisterMessage_def
  by (intro on_ok_inv [where P = sn_wf]) (auto intro!: sn_wf_UnregisterEdge)

lemma sn_wf_SendStruct [simp]: "sn_wf (snd (SendStruct env p com None addr s)) = sn_wf s"
  by (rule sn_wf_core) simp

lemma sn_wf_BroadcastStruct [simp]: "sn_wf (snd (BroadcastStruct env p c None sender s)) = sn_wf s"
  by (rule sn_wf_core) simp

lemma sn_wf_count [simp]:
  "sn_wf (count_dropped s) = sn_wf s" "sn_wf (count_forwarded n s) = sn_wf s"
  "sn_wf (count_processed s) = sn_wf s" "sn_wf (count_heartbeat s) = sn_wf s"
  by (rule sn_wf_core, simp)+

lemma sn_wf_handleSNPublicSecret: "sn_wf s \<Longrightarrow> sn_wf (snd (handleSNPublicSecretMessage env r s))"
  unfolding handleSNPublicSecretMessage_def by (intro on_ok_inv [where P = sn_wf]) auto

lemma sn_wf_handleHeartbeat: "sn_wf s \<Longrightarrow> sn_wf (snd (handleHeartbeatMessage env r s))"
  unfolding handleHeartbeatMessage_def
  by (intro on_ok_inv [where P = sn_wf] st_then_inv [where P = sn_wf])
     (auto intro!: sn_wf_RefreshEdge split: option.splits dest!: arg_cong [where f = "\<lambda>x. sn_wf (snd x)"]
       simp: sn_wf_RefreshEdge)

lemma st_ignore_SendStruct:
  "\<exists>s'. st_ignore (SendStruct env p com None addr) s = (Ok (), s') \<and> sn_core s' = sn_core s"
  using SendStruct_no_panic [of env p com addr s] sn_core_SendStruct [of env p com addr s]
  by (cases "SendStruct env p com None addr s"; cases "fst (SendStruct env p com None addr s)")
     (auto simp: st_ignore_def panics_Inl split: fault.splits)

lemma handleRegister_Ok:
  assumes "sn_decode env TypeRegisterRequest as_RegisterRequest r = Ok msg" "RegisterEdge env r msg s = (Ok (a, n), s1)"
  shows "sn_core (snd (handleRegisterMessage env r s)) = sn_core (index_edge a (set_wss_conn (rFromAddr r) a s1)) \<and>
    \<not> panics (fst (handleRegisterMessage env r s))"
proof -
  let ?s2 = "index_edge a (set_wss_conn (rFromAddr r) a s1)"
  let ?p = "MRegisterResponse \<lparr>rpIsRegisterOk = True, rpVirtualIp = ip_string (eVirtualIP (edge_of ?s2 a)),
    rpMasklen = int (eVNetMaskLen (edge_of ?s2 a))\<rparr>"
  obtain s3 where "st_ignore (SendStruct env ?p (rqCommunityName msg) None (rFromAddr r)) ?s2 = (Ok (), s3)"
      "sn_core s3 = sn_core ?s2"
    using st_ignore_SendStruct by blast
  then show ?thesis using assms by (simp add: handleRegisterMessage_def Let_def split: option.splits)
qed

lemma handleRegister_Err:
  assumes "sn_decode env TypeRegisterRequest as_RegisterRequest r = Ok msg" "RegisterEdge env r msg s = (Fail e, s1)"
  shows "\<exists>s'. handleRegisterMessage env r s = (Fail e, s') \<and> sn_core s' = sn_core s1"
proof -
  let ?p = "MRegisterResponse \<lparr>rpIsRegisterOk = False, rpVirtualIp = [], rpMasklen = 0\<rparr>"
  obtain s3 where "st_ignore (SendStruct env ?p (rqCommunityName msg) None (rFromAddr r)) s1 = (Ok (), s3)"
      "sn_core s3 = sn_core s1"
    using st_ignore_SendStruct by blast
  then show ?thesis using assms by (simp add: handleRegisterMessage_def)
qed

lemma sn_wf_handleRegister:
  assumes wf: "sn_wf s"
  shows "sn_wf (snd (handleRegisterMessage env r s))"
proof (cases "sn_decode env TypeRegisterRequest as_RegisterRequest r")
  case (Inl e)
  then show ?thesis by (simp add: handleRegisterMessage_def wf)
next
  case (Inr msg)
  obtain res s1 where re: "RegisterEdge env r msg s = (res, s1)" by fastforce
  have wf1: "sn_wf s1" using sn_wf_RegisterEdge [OF wf, of env r msg] re by simp
  show ?thesis
  proof (cases res)
    case Ok: (Inr x)
    then obtain a n where a: "RegisterEdge env r msg s = (Ok (a, n), s1)" using re by (cases x) simp
    then obtain c s0 where u: "RegisterCommunity env (rqCommunityName msg) (CommunityHash r) s = (Ok c, s0)" "sn_wf s0"
      "\<exists>msg'. EdgeUpdate env (CommunityHash r) c r msg' s0 = (Ok a, s1\<lparr>snStats := snStats s0\<rparr>)"
      using RegisterEdge_Ok [OF a wf] by metis
    then have "a < length (snHeap s1)"
      using EdgeUpdate_Ok [OF _ u(2)] RegisterCommunity_Ok [OF u(1)] by force
    then have "sn_wf (index_edge a (set_wss_conn (rFromAddr r) a s1))"
      using wf1 by (simp add: sn_wf_index_edge sn_wf_set_wss_conn)
    then show ?thesis using handleRegister_Ok [OF Inr a] by (metis sn_wf_core)
  next
    case (Inl f)
    show ?thesis
    proof (cases f)
      case (Crash p)
      then show ?thesis using Inr re Inl wf1 by (simp add: handleRegisterMessage_def)
    next
      case (Err e)
      then obtain s' where "handleRegisterMessage env r s = (Fail e, s')" "sn_core s' = sn_core s1"
        using handleRegister_Err [OF Inr, of s e s1] re Inl by auto
      then show ?thesis using wf1 sn_wf_core [of s' s1] by simp
    qed
  qed
qed

lemma sn_wf_handleVFuze:
  assumes wf: "sn_wf s"
  shows "sn_wf (snd (handleVFuze env packet addr s))"
proof -
  have "sn_wf (snd (forwardPacket env packet t s))" for t
    by (simp add: sn_wf_core [OF sn_core_forwardPacket] wf)
  then show ?thesis by (simp add: handleVFuze_def wf split: sum.splits fault.splits option.splits)
qed

lemmas sn_handlers_wf =
  sn_wf_handleRegister sn_wf_handleUnregister sn_wf_handleHeartbeat sn_wf_handlePeerRequest
  sn_wf_handleP2PStateInfo sn_wf_handleP2PFullState sn_wf_handleLeases sn_wf_handleSNPublicSecret

lemma sn_wf_handleDataPing:
  assumes "sn_wf s" "rRawPacket r \<noteq> []" "relayed (rRawPacket r) = Ok b"
  shows "sn_wf (snd (handleDataMessage env r s))" "sn_wf (snd (handlePingMessage env r s))"
  using assms(1) ForwardWithFallBack_core [OF assms(2,3), of env s] ForwardUnicast_core [OF assms(2,3), of env s]
    sn_wf_core [of "snd (ForwardWithFallBack env r s)" s] sn_wf_core [of "snd (ForwardUnicast env r s)" s]
  by (simp_all add: handleDataMessage_def handlePingMessage_def)

text \<open>The handler table as a case distinction.\<close>

lemma Handle_cases:
  "Handle (SnMessageHandlers env) d r =
     (let pt = PacketType (rHeader r) in
      if pt = TypeRegisterRequest then handleRegisterMessage env r
      else if pt = TypeUnregisterRequest then handleUnregisterMessage env r
      else if pt = TypeHeartbeat then handleHeartbeatMessage env r
      else if pt = TypeData then handleDataMessage env r
      else if pt = TypePeerListRequest then handlePeerRequestMessage env r
      else if pt = TypePing then handlePingMessage env r
      else if pt = TypeP2PStateInfo then handleP2PStateInfoMessage env r
      else if pt = TypeP2PFullState then handleP2PFullStateMessage env r
      else if pt = TypeLeasesInfos then handleLeasesInfosMessage env r
      else if pt = TypeSNPublicSecret then handleSNPublicSecretMessage env r
      else d pt)"
  by (simp add: Handle_def SnMessageHandlers_def gget_def Let_def)

lemma sn_wf_Handle:
  assumes "sn_wf s" "NewRawMessage packet addr = Ok r"
  shows "sn_wf (snd (Handle (SnMessageHandlers env) (\<lambda>pt s. (Fail (NoHandler pt), s)) r s))"
  using assms(1) sn_wf_handleDataPing [OF assms(1), of r _ env] relayed_raw [OF assms(2)]
  by (simp add: Handle_cases Let_def sn_handlers_wf)

lemma sn_core_retry [simp]: "sn_core (snd (retry_register env addr e s)) = sn_core s"
  by (simp add: retry_register_def split: net_addr.splits)

lemma sn_wf_ProcessPacket:
  assumes "sn_wf s"
  shows "sn_wf (snd (ProcessPacket env packet addr s))"
proof -
  let ?s = "count_processed s"
  have wf: "sn_wf ?s" using assms by simp
  have "sn_wf (snd (case Handle (SnMessageHandlers env) (\<lambda>pt s. (Fail (NoHandler pt), s)) r ?s of
      (Inl (Err e), s') \<Rightarrow> retry_register env addr e s' | (x, s') \<Rightarrow> (x, s')))"
    if "NewRawMessage packet addr = Ok r" for r
    using sn_wf_Handle [OF wf that, of env]
    by (auto simp: sn_wf_core [OF sn_core_retry] split: prod.splits sum.splits fault.splits)
  then show ?thesis
    using wf unfolding ProcessPacket_def Let_def
    by (intro on_ok_inv [where P = sn_wf]) (auto simp: sn_wf_handleVFuze split: sum.splits fault.splits)
qed

lemma sn_wf_cleanup_loop: "sn_wf s \<Longrightarrow> sn_wf (snd (cleanup_loop env ids s))"
proof (induction ids arbitrary: s)
  case (Cons i ids)
  obtain h mac where i: "i = (h, mac)" by fastforce
  obtain b s1 where u: "Unregister env h mac s = (b, s1)" by fastforce
  then have wf1: "sn_wf s1" using sn_wf_Unregister [OF Cons.prems, of env h mac] by simp
  show ?case
  proof (cases b)
    case True
    let ?s = "s1\<lparr>snStats := (snStats s1)\<lparr>stEdgesUnregistered := stEdgesUnregistered (snStats s1) + 1\<rparr>\<rparr>"
    have wf2: "sn_wf (snd (onEdgeUnregistered env h mac ?s))" using wf1 by (simp add: sn_wf_onEdgeUnregistered)
    have "sn_wf (snd (st_then (onEdgeUnregistered env h mac) (\<lambda>_. cleanup_loop env ids) ?s))"
    proof (rule st_then_inv [where P = sn_wf], rule wf2)
      fix x s' assume "onEdgeUnregistered env h mac ?s = (Inr x, s')"
      then show "sn_wf (snd (cleanup_loop env ids s'))" using Cons.IH wf2 by simp
    qed
    then show ?thesis using u True i by simp
  next
    case False
    then show ?thesis using Cons.IH wf1 u i by simp
  qed
qed simp

lemma sn_wf_wss [simp]: "sn_wf (wss_open conn s) = sn_wf s" "sn_wf (wss_close conn s) = sn_wf s"
  by (simp_all add: wss_open_def wss_close_def sn_wf_def)

interpretation sn: step_system sn_step sn_wf
proof unfold_locales
  fix s ev assume wf: "sn_wf s"
  show "sn_wf (sn_step ev s)"
  proof (cases ev)
    case (EvCleanup env)
    have "sn_wf (snd (CleanupStaleEdges env x s))" for x
      using sn_wf_cleanup_loop [OF wf, of env "stale_ids env x s"]
      by (cases "cleanup_loop env (stale_ids env x s) s"; cases "fst (cleanup_loop env (stale_ids env x s) s)")
         (auto simp: CleanupStaleEdges_def st_then_def)
    then show ?thesis by (simp add: sn_step_def EvCleanup)
  qed (use wf in \<open>simp_all add: sn_step_def sn_wf_ProcessPacket\<close>)
qed

lemma sn_wf_NewSupernode: "sn_wf (NewSupernodeWithConfig config pem)"
  by (simp add: NewSupernodeWithConfig_def sn_wf_def)

end
