(* ===== verification/Supernode_Spec.thy ===== *)
theory Supernode_Spec
  imports Supernode_Lib
begin

text \<open>
  What the supernode promises: who can enter and leave a community, where packets go, what
  the cleanup removes, and which inputs can bring the process down. \<open>edges_at\<close> is the
  abstract view of the membership that the handlers implement: the set of hardware
  addresses of each community.
\<close>

section \<open>Membership\<close>

definition edges_at :: "Supernode \<Rightarrow> u32 \<Rightarrow> string set" where
  "edges_at s h = (case gget (communities s) h of None \<Rightarrow> {} | Some c \<Rightarrow> gkeys (cEdges c))"

lemma edges_at_core: "communities s' = communities s \<Longrightarrow> edges_at s' = edges_at s"
  by (simp add: edges_at_def fun_eq_iff)

lemma edges_at_sn_core: "sn_core s' = sn_core s \<Longrightarrow> edges_at s' = edges_at s"
  by (rule edges_at_core) (simp add: sn_core_eq)

lemma edges_at_Unregister:
  "edges_at (snd (Unregister env h mac s)) k = (if k = h then edges_at s k - {mac} else edges_at s k)"
  by (auto simp: Unregister_def edges_at_def gkeys_iff split: option.splits)

lemma Unregister_known: "fst (Unregister env h mac s) \<longleftrightarrow> mac \<in> edges_at s h"
  by (auto simp: Unregister_def edges_at_def gkeys_iff split: option.splits)

lemma edges_at_put_same:
  "gget (communities s) h = Some c \<Longrightarrow> cEdges c' = cEdges c \<Longrightarrow> edges_at (put_community h c' s) = edges_at s"
  by (simp add: edges_at_def fun_eq_iff)

lemma edges_at_RegisterCommunity: "edges_at (snd (RegisterCommunity env name h s)) = edges_at s"
proof -
  have "edges_at (put_community h c s) = edges_at s" if "gget (communities s) h = None" "cEdges c = []" for c
    using that by (simp add: edges_at_def fun_eq_iff)
  then show ?thesis
    by (auto simp: RegisterCommunity_def NewCommunity_def on_ok_def split: option.splits sum.splits if_splits)
qed

lemma edges_at_RefreshEdge: "edges_at (snd (RefreshEdge env c r m s)) = edges_at s"
  by (rule edges_at_core) (simp add: RefreshEdge_def Let_def split: option.splits)

lemma communities_onEdgeUnregistered: "communities (snd (onEdgeUnregistered env h mac s)) = communities s"
proof (cases "gget (edgesByMAC s) mac")
  case (Some a)
  then show ?thesis
    using onEdgeUnregistered_core(1) [OF Some, of env h] by (simp add: sn_core_eq drop_indexes_def)
qed (simp add: onEdgeUnregistered_eq)

lemma edges_at_onEdgeUnregistered [simp]: "edges_at (snd (onEdgeUnregistered env h mac s)) = edges_at s"
  by (rule edges_at_core) (rule communities_onEdgeUnregistered)

lemma edges_at_UnregisterEdge:
  "edges_at (snd (UnregisterEdge env r s)) k =
     (if k = CommunityHash r then edges_at s k - {EdgeMACAddr r} else edges_at s k)"
proof (cases "GetCommunity r s")
  case (Inl e)
  then have "EdgeMACAddr r \<notin> edges_at s (CommunityHash r)"
    by (auto simp: GetCommunity_def GetCommunityForEdge_def GetEdge_def edges_at_def gkeys_iff split: option.splits if_splits)
  then show ?thesis using Inl by (auto simp: UnregisterEdge_def)
next
  case (Inr c)
  obtain b s1 where u: "Unregister env (CommunityHash r) (EdgeMACAddr r) s = (b, s1)" by fastforce
  then show ?thesis
    using Inr edges_at_Unregister [of env "CommunityHash r" "EdgeMACAddr r" s k]
    by (cases b) (simp_all add: UnregisterEdge_def)
qed

lemma RegisterEdge_edges_at:
  assumes "sn_wf s" "RegisterEdge env r msg s = (res, s1)"
  shows "edges_at s1 k = (if k = CommunityHash r \<and> (\<exists>x. res = Inr x) then insert (EdgeMACAddr r) (edges_at s k) else edges_at s k)"
proof (cases res)
  case (Inr x)
  then obtain a n where a: "RegisterEdge env r msg s = (Ok (a, n), s1)" using assms(2) by (cases x) simp
  from RegisterEdge_Ok [OF this assms(1)] obtain mid c s0 where
    rc: "RegisterCommunity env (rqCommunityName msg) (CommunityHash r) s = (Ok c, s0)" and
    u: "EdgeUpdate env (CommunityHash r) c r (msg\<lparr>rqClearMachineId := mid\<rparr>) s0 = (Ok a, s1\<lparr>snStats := snStats s0\<rparr>)" and
    wf0: "sn_wf s0" by metis
  have e0: "edges_at s0 = edges_at s"
    using edges_at_RegisterCommunity [of env "rqCommunityName msg" "CommunityHash r" s] rc by simp
  have c: "gget (communities s0) (CommunityHash r) = Some c" using RegisterCommunity_Ok [OF rc] by blast
  obtain c' where c': "gget (communities s1) (CommunityHash r) = Some c'" "cEdges c' = gput (cEdges c) (EdgeMACAddr r) a"
      "\<And>k. k \<noteq> CommunityHash r \<Longrightarrow> gget (communities s1) k = gget (communities s0) k"
    using EdgeUpdate_Ok [OF u wf0 c] by auto
  have "edges_at s1 (CommunityHash r) = insert (EdgeMACAddr r) (edges_at s0 (CommunityHash r))"
    using c c' by (simp add: edges_at_def)
  moreover have "k \<noteq> CommunityHash r \<Longrightarrow> edges_at s1 k = edges_at s0 k" using c'(3) by (simp add: edges_at_def)
  ultimately show ?thesis using e0 Inr by simp
next
  case (Inl f)
  have "edges_at s1 = edges_at s"
  proof -
    obtain rc s0 where rc: "RegisterCommunity env (rqCommunityName msg) (CommunityHash r) s = (rc, s0)" by fastforce
    then have e0: "edges_at s0 = edges_at s"
      using edges_at_RegisterCommunity [of env "rqCommunityName msg" "CommunityHash r" s] by simp
    have nu: "s' = s0" if "EdgeUpdate env (CommunityHash r) c r m s0 = (Inl g, s')" for c m g s'
      using that by (auto simp: EdgeUpdate_def Let_def split: option.splits if_splits)
    show ?thesis
      using assms(2) Inl rc e0 nu
      by (auto simp: RegisterEdge_def st_then_def on_ok_def split: sum.splits prod.splits)
  qed
  then show ?thesis using Inl by simp
qed

lemma edges_at_handleRegister:
  assumes "sn_wf s"
  shows "edges_at (snd (handleRegisterMessage env r s)) k = edges_at s k \<or>
    k = CommunityHash r \<and> edges_at (snd (handleRegisterMessage env r s)) k = insert (EdgeMACAddr r) (edges_at s k) \<and>
    (\<exists>msg a n s1. sn_decode env TypeRegisterRequest as_RegisterRequest r = Ok msg \<and> RegisterEdge env r msg s = (Ok (a, n), s1))"
proof (cases "sn_decode env TypeRegisterRequest as_RegisterRequest r")
  case (Inl e)
  then show ?thesis by (simp add: handleRegisterMessage_def)
next
  case (Inr msg)
  obtain res s1 where re: "RegisterEdge env r msg s = (res, s1)" by fastforce
  note ea = RegisterEdge_edges_at [OF assms re, of k]
  show ?thesis
  proof (cases res)
    case Ok: (Inr x)
    then obtain a n where a: "RegisterEdge env r msg s = (Ok (a, n), s1)" using re by (cases x) simp
    have "communities (snd (handleRegisterMessage env r s)) = communities s1"
      using handleRegister_Ok [OF Inr a] by (simp add: sn_core_eq)
    then have "edges_at (snd (handleRegisterMessage env r s)) k = edges_at s1 k" by (simp add: edges_at_def)
    then show ?thesis using ea Ok Inr a by auto
  next
    case (Inl f)
    then have "edges_at (snd (handleRegisterMessage env r s)) = edges_at s1"
      using handleRegister_Err [OF Inr, of s _ s1] re Inr
      by (cases f) (auto simp: handleRegisterMessage_def intro: edges_at_sn_core)
    then show ?thesis using ea Inl by simp
  qed
qed

lemma edges_at_SetP2PInfosFor:
  "gget (communities s) h = Some c \<Longrightarrow> edges_at (snd (SetP2PInfosFor h c mac i s)) = edges_at s"
  by (simp add: SetP2PInfosFor_def edges_at_put_same)

lemma edges_at_handleP2PStateInfo: "edges_at (snd (handleP2PStateInfoMessage env r s)) = edges_at s"
  unfolding handleP2PStateInfoMessage_def
  by (intro on_ok_inv [where P = "\<lambda>s'. edges_at s' = edges_at s"])
     (auto simp: GetCommunity_Ok edges_at_SetP2PInfosFor)

lemma edges_at_reply [simp]: "edges_at (snd (reply_to_edge env p com c mac s)) = edges_at s"
  by (rule edges_at_sn_core) simp

lemma edges_at_SendStruct [simp]: "edges_at (snd (SendStruct env p com None addr s)) = edges_at s"
  by (rule edges_at_sn_core) simp

lemma edges_at_BroadcastStruct [simp]: "edges_at (snd (BroadcastStruct env p c None sender s)) = edges_at s"
  by (rule edges_at_sn_core) simp

lemma edges_at_count [simp]: "edges_at (count_heartbeat s) = edges_at s" "edges_at (count_processed s) = edges_at s"
  by (rule edges_at_sn_core, simp)+

lemma edges_at_queries:
  "edges_at (snd (handlePeerRequestMessage env r s)) = edges_at s"
  "edges_at (snd (handleLeasesInfosMessage env r s)) = edges_at s"
  "edges_at (snd (handleP2PFullStateMessage env r s)) = edges_at s"
  "edges_at (snd (handleSNPublicSecretMessage env r s)) = edges_at s"
  unfolding handlePeerRequestMessage_def handleLeasesInfosMessage_def handleP2PFullStateMessage_def
    handleSNPublicSecretMessage_def
  by (auto intro!: on_ok_inv [where P = "\<lambda>s'. edges_at s' = edges_at s"])

lemma edges_at_handleHeartbeat: "edges_at (snd (handleHeartbeatMessage env r s)) = edges_at s"
proof -
  have "edges_at s'' = edges_at s'" if "RefreshEdge env c r d s' = (Inr x, s'')" for c d s' s'' x
    using edges_at_RefreshEdge [of env c r d s'] that by simp
  then show ?thesis
    unfolding handleHeartbeatMessage_def
    by (intro on_ok_inv [where P = "\<lambda>s'. edges_at s' = edges_at s"] st_then_inv [where P = "\<lambda>s'. edges_at s' = edges_at s"])
       (auto simp: edges_at_RefreshEdge split: option.splits)
qed

lemma edges_at_handleDataPing:
  assumes "rRawPacket r \<noteq> []" "relayed (rRawPacket r) = Ok b"
  shows "edges_at (snd (handleDataMessage env r s)) = edges_at s" "edges_at (snd (handlePingMessage env r s)) = edges_at s"
  using ForwardWithFallBack_core [OF assms, of env s] ForwardUnicast_core [OF assms, of env s]
  by (auto simp: handleDataMessage_def handlePingMessage_def intro: edges_at_sn_core)

lemma edges_at_handleUnregister:
  "edges_at (snd (handleUnregisterMessage env r s)) k = edges_at s k \<or>
   k = CommunityHash r \<and> edges_at (snd (handleUnregisterMessage env r s)) k = edges_at s k - {EdgeMACAddr r} \<and>
   (\<exists>msg mid. decode_msg (enUnmarshal env) TypeUnregisterRequest as_UnregisterRequest r = Ok msg \<and>
      ValidateEdgeClaimedMACAddr env (EdgeMACAddr r) (urEncryptedMachineId msg) (urCommunityName msg) = Ok mid)"
proof (cases "sn_decode env TypeUnregisterRequest as_UnregisterRequest r")
  case (Inr msg)
  then show ?thesis
    using edges_at_UnregisterEdge [of env r s k]
    by (cases "ValidateEdgeClaimedMACAddr env (EdgeMACAddr r) (urEncryptedMachineId msg) (urCommunityName msg)")
       (auto simp: handleUnregisterMessage_def)
qed (simp add: handleUnregisterMessage_def)

lemma edges_at_Handle:
  fixes env :: sn_env
  assumes "sn_wf s" "NewRawMessage packet addr = Ok r"
  defines "s' \<equiv> snd (Handle (SnMessageHandlers env) (\<lambda>pt s. (Fail (NoHandler pt), s)) r s)"
  shows "edges_at s' k = edges_at s k
    \<or> edges_at s' k = edges_at (snd (handleRegisterMessage env r s)) k
    \<or> edges_at s' k = edges_at (snd (handleUnregisterMessage env r s)) k"
  using edges_at_handleDataPing [of r _ env s] relayed_raw [OF assms(2)]
  unfolding s'_def Handle_cases Let_def
  by (simp add: edges_at_queries edges_at_handleP2PStateInfo edges_at_handleHeartbeat)

lemma edges_at_ProcessPacket:
  assumes "sn_wf s"
  shows "edges_at (snd (ProcessPacket env packet addr s)) k = edges_at s k \<or>
    (\<exists>r. NewRawMessage packet addr = Ok r \<and>
      (edges_at (snd (ProcessPacket env packet addr s)) k = edges_at (snd (handleRegisterMessage env r (count_processed s))) k \<or>
       edges_at (snd (ProcessPacket env packet addr s)) k = edges_at (snd (handleUnregisterMessage env r (count_processed s))) k))"
proof -
  let ?s = "count_processed s" and ?d = "\<lambda>pt s. (Fail (NoHandler pt), s)"
  have v: "edges_at (snd (handleVFuze env packet addr ?s)) = edges_at s"
  proof -
    have "edges_at (snd (forwardPacket env packet t ?s)) = edges_at s" for t
      using edges_at_sn_core [OF sn_core_forwardPacket, of env packet t ?s] by simp
    then show ?thesis by (simp add: handleVFuze_def split: sum.splits fault.splits option.splits)
  qed
  show ?thesis
  proof (cases "NewRawMessage packet addr")
    case (Inl e)
    then show ?thesis using v
      by (cases "packet = []") (auto simp: ProcessPacket_def Let_def go_index_def split: fault.splits)
  next
    case (Inr r)
    have ne: "packet \<noteq> []" "packet ! 0 \<noteq> VersionVFuze"
      using relayed_raw [OF Inr] by (simp_all add: VersionV_def VersionVFuze_def)
    have "edges_at (snd (ProcessPacket env packet addr s)) =
        edges_at (snd (Handle (SnMessageHandlers env) ?d r ?s))"
      using ne Inr edges_at_sn_core [OF sn_core_retry]
      by (auto simp: ProcessPacket_def Let_def go_index_def split: prod.splits sum.splits fault.splits)
    then show ?thesis using edges_at_Handle [OF _ Inr, of ?s env k] assms Inr by simp
  qed
qed

section \<open>Stale edges\<close>

text \<open>An edge of a community is stale when its last heartbeat is longer ago than the expiry.\<close>

definition stale :: "sn_env \<Rightarrow> int \<Rightarrow> Supernode \<Rightarrow> u32 \<Rightarrow> string \<Rightarrow> bool" where
  "stale env x s h m \<longleftrightarrow> (\<exists>c a. gget (communities s) h = Some c \<and> gget (cEdges c) m = Some a \<and>
     time_sub (enNow env) (eLastHeartbeat (edge_of s a)) > x)"

lemma stale_ids_iff:
  assumes "sn_wf s"
  shows "(h, m) \<in> set (stale_ids env x s) \<longleftrightarrow> stale env x s h m"
proof -
  have "m \<in> set (GetStaleEdgeIDs env x c s) \<longleftrightarrow>
      (\<exists>a. gget (cEdges c) m = Some a \<and> time_sub (enNow env) (eLastHeartbeat (edge_of s a)) > x)"
    if c: "gget (communities s) h = Some c" for c
  proof -
    have wf: "gwf (cEdges c)" using sn_wf_community [OF assms c] by (simp add: community_wf_def)
    have "eMACAddr (edge_of s a) = k" if "(k, a) \<in> set (cEdges c)" for k a
      using that gget_in_set [OF wf] sn_wf_edge [OF assms c] by simp
    then have k: "eMACAddr (edge_of s a) = k" if "gget (cEdges c) k = Some a" for k a
      using that gget_in_set [OF wf] by simp
    have all: "e \<in> set (GetAllEdges c s) \<longleftrightarrow> (\<exists>k a. gget (cEdges c) k = Some a \<and> e = edge_of s a)" for e
      using gget_in_set [OF wf] by (force simp: GetAllEdges_def)
    show ?thesis by (auto simp: GetStaleEdgeIDs_def all k intro!: image_eqI [of _ eMACAddr "edge_of s _"])
  qed
  moreover have "(h, m) \<in> set (stale_ids env x s) \<longleftrightarrow>
      (\<exists>c. gget (communities s) h = Some c \<and> m \<in> set (GetStaleEdgeIDs env x c s))"
    unfolding gget_in_set [OF gwf_communities [OF assms], symmetric] by (force simp: stale_ids_def)
  ultimately show ?thesis by (auto simp: stale_def)
qed

lemma edges_at_cleanup_loop:
  "edges_at (snd (cleanup_loop env ids s)) k \<subseteq> edges_at s k \<and>
   edges_at s k - {m. (k, m) \<in> set ids} \<subseteq> edges_at (snd (cleanup_loop env ids s)) k \<and>
   (fst (cleanup_loop env ids s) = Ok () \<longrightarrow> edges_at (snd (cleanup_loop env ids s)) k = edges_at s k - {m. (k, m) \<in> set ids})"
proof (induction ids arbitrary: s)
  case (Cons i ids)
  obtain h mac where i: "i = (h, mac)" by fastforce
  obtain b s1 where u: "Unregister env h mac s = (b, s1)" by fastforce
  have e1: "edges_at s1 k = (if k = h then edges_at s k - {mac} else edges_at s k)"
    using edges_at_Unregister [of env h mac s k] u by simp
  show ?case
  proof (cases b)
    case False
    then show ?thesis using Cons [of s1] e1 i u Unregister_known [of env h mac s] by (auto split: if_splits)
  next
    case True
    let ?s = "s1\<lparr>snStats := (snStats s1)\<lparr>stEdgesUnregistered := stEdgesUnregistered (snStats s1) + 1\<rparr>\<rparr>"
    obtain r s2 where o: "onEdgeUnregistered env h mac ?s = (r, s2)" by fastforce
    have e2: "edges_at s2 = edges_at s1"
      using edges_at_onEdgeUnregistered [of env h mac ?s] o edges_at_core [of ?s s1] by simp
    show ?thesis
    proof (cases r)
      case (Inl e)
      then have "cleanup_loop env (i # ids) s = (Inl e, s2)" using i u True o by simp
      then show ?thesis using e1 e2 i by auto
    next
      case (Inr x)
      then have "cleanup_loop env (i # ids) s = cleanup_loop env ids s2" using i u True o by simp
      then show ?thesis using Cons [of s2] e1 e2 i by (auto split: if_splits)
    qed
  qed
qed simp

lemma edges_at_CleanupStaleEdges:
  fixes env :: sn_env and x :: int
  defines "s' \<equiv> \<lambda>s. snd (CleanupStaleEdges env x s)"
  assumes "sn_wf s"
  shows "edges_at s k - {m. stale env x s k m} \<subseteq> edges_at (s' s) k" "edges_at (s' s) k \<subseteq> edges_at s k"
    "fst (CleanupStaleEdges env x s) = Ok () \<Longrightarrow> edges_at (s' s) k = edges_at s k - {m. stale env x s k m}"
proof -
  obtain r s1 where c: "cleanup_loop env (stale_ids env x s) s = (r, s1)" by fastforce
  have "edges_at (s' s) = edges_at s1"
    using c by (cases r) (auto simp: s'_def CleanupStaleEdges_def st_then_def intro: edges_at_core)
  moreover have "fst (CleanupStaleEdges env x s) = Ok () \<Longrightarrow> r = Ok ()"
    using c by (cases r) (auto simp: CleanupStaleEdges_def st_then_def)
  ultimately show "edges_at s k - {m. stale env x s k m} \<subseteq> edges_at (s' s) k" "edges_at (s' s) k \<subseteq> edges_at s k"
    "fst (CleanupStaleEdges env x s) = Ok () \<Longrightarrow> edges_at (s' s) k = edges_at s k - {m. stale env x s k m}"
    using edges_at_cleanup_loop [of env "stale_ids env x s" s k] c
    by (simp_all add: stale_ids_iff [OF assms(2)])
qed

section \<open>Panics\<close>

text \<open>Two conditions the process depends on: the configured subnet and mask are usable, and
  every edge of a community is the one indexed under its address.\<close>

definition alloc_ok :: "NetworkAllocator \<Rightarrow> bool" where
  "alloc_ok m \<longleftrightarrow> 4 \<le> length (baseNetwork m) \<and> 4 \<le> length (naMask m)"

definition sn_indexed :: "Supernode \<Rightarrow> bool" where
  "sn_indexed s \<longleftrightarrow> (\<forall>h m. m \<in> edges_at s h \<longrightarrow> m \<in> gkeys (edgesByMAC s))"

lemma on_ok_no_panic:
  "\<not> panics r \<Longrightarrow> (\<And>x. r = Inr x \<Longrightarrow> \<not> panics (fst (f x s))) \<Longrightarrow> \<not> panics (fst (on_ok r f s))"
  by (cases r) (simp_all add: panics_Inl)

lemma panics_on_ok:
  "panics (fst (on_ok r f s)) \<longleftrightarrow> panics r \<or> (\<exists>x. r = Inr x \<and> panics (fst (f x s)))"
  by (cases r) (simp_all add: panics_Inl)

lemma st_then_no_panic:
  "\<not> panics (fst (m s)) \<Longrightarrow> (\<And>x s'. m s = (Inr x, s') \<Longrightarrow> \<not> panics (fst (f x s'))) \<Longrightarrow> \<not> panics (fst (st_then m f s))"
  by (cases "m s"; cases "fst (m s)") (auto simp: st_then_def panics_Inl)

lemma ValidateEdgeClaimedMACAddr_no_panic [simp]: "\<not> panics (ValidateEdgeClaimedMACAddr env m e c)"
  by (simp add: ValidateEdgeClaimedMACAddr_def DecryptMachineID_def split: option.splits)

lemma DecryptMachineID_no_panic [simp]: "\<not> panics (DecryptMachineID env e)"
  by (simp add: DecryptMachineID_def split: option.splits)

lemma RefreshEdge_no_panic [simp]: "\<not> panics (fst (RefreshEdge env c r m s))"
  by (simp add: RefreshEdge_def Let_def split: option.splits)

lemma EdgeUpdate_no_panic [simp]: "\<not> panics (fst (EdgeUpdate env h c r msg s))"
  by (simp add: EdgeUpdate_def Let_def split: option.splits)

lemma ProposeVirtualNetwork_no_panic: "alloc_ok m \<Longrightarrow> \<not> panics (ProposeVirtualNetwork m c)"
  by (simp add: alloc_ok_def ProposeVirtualNetwork_def go_uint32_def Let_def split: option.splits)

lemma RegisterCommunity_no_panic:
  "alloc_ok (netAllocator s) \<Longrightarrow> \<not> panics (fst (RegisterCommunity env name h s))"
proof -
  assume a: "alloc_ok (netAllocator s)"
  have "\<not> panics (fst (on_ok (err_map (\<lambda>_. NetworkAllocFailed) (ProposeVirtualNetwork (netAllocator s) name)) (\<lambda>prefix.
      on_ok (NewCommunity env name prefix) (\<lambda>c s. (Ok c, put_community h c s))) s))"
    by (intro on_ok_no_panic) (simp_all add: ProposeVirtualNetwork_no_panic [OF a] NewCommunity_def)
  then show ?thesis by (auto simp: RegisterCommunity_def split: option.splits)
qed

lemma RegisterEdge_no_panic: "alloc_ok (netAllocator s) \<Longrightarrow> \<not> panics (fst (RegisterEdge env r msg s))"
  unfolding RegisterEdge_def
  by (intro on_ok_no_panic st_then_no_panic) (simp_all add: RegisterCommunity_no_panic)

lemma handleRegister_no_panic:
  assumes "alloc_ok (netAllocator s)"
  shows "\<not> panics (fst (handleRegisterMessage env r s))"
proof (cases "sn_decode env TypeRegisterRequest as_RegisterRequest r")
  case (Inl e)
  moreover have "\<not> panics (sn_decode env TypeRegisterRequest as_RegisterRequest r)" by simp
  ultimately show ?thesis by (simp add: handleRegisterMessage_def panics_Inl)
next
  case (Inr msg)
  obtain res s1 where re: "RegisterEdge env r msg s = (res, s1)" by fastforce
  have np: "\<not> panics res" using RegisterEdge_no_panic [OF assms, of env r msg] re by simp
  show ?thesis
  proof (cases res)
    case (Inr x)
    then show ?thesis
      using handleRegister_Ok [OF \<open>sn_decode env TypeRegisterRequest as_RegisterRequest r = Ok msg\<close>, of s _ _ s1] re
      by (cases x) simp
  next
    case (Inl f)
    then obtain e where "f = Err e" using np by (cases f) simp_all
    then show ?thesis
      using handleRegister_Err [OF \<open>sn_decode env TypeRegisterRequest as_RegisterRequest r = Ok msg\<close>, of s e s1] re Inl
      by auto
  qed
qed

lemma UnregisterEdge_panics_iff:
  "panics (fst (UnregisterEdge env r s)) \<longleftrightarrow>
     EdgeMACAddr r \<in> edges_at s (CommunityHash r) \<and> EdgeMACAddr r \<notin> gkeys (edgesByMAC s)"
proof (cases "GetCommunity r s")
  case (Inl e)
  then have "EdgeMACAddr r \<notin> edges_at s (CommunityHash r)"
    by (auto simp: GetCommunity_def GetCommunityForEdge_def GetEdge_def edges_at_def gkeys_iff split: option.splits if_splits)
  moreover have "\<not> panics (GetCommunity r s)" by simp
  ultimately show ?thesis using Inl by (simp add: UnregisterEdge_def panics_Inl)
next
  case (Inr c)
  then have k: "EdgeMACAddr r \<in> edges_at s (CommunityHash r)"
    by (auto simp: GetCommunity_Ok edges_at_def gkeys_iff)
  obtain b s1 where u: "Unregister env (CommunityHash r) (EdgeMACAddr r) s = (b, s1)" by fastforce
  have b: "b" using Unregister_known [of env "CommunityHash r" "EdgeMACAddr r" s] u k by simp
  have m: "edgesByMAC s1 = edgesByMAC s" using u by (auto simp: Unregister_def split: option.splits)
  have "panics (fst (UnregisterEdge env r s)) = panics (fst (onEdgeUnregistered env (CommunityHash r) (EdgeMACAddr r) s1))"
    using Inr u b by (simp add: UnregisterEdge_def)
  also have "\<dots> \<longleftrightarrow> EdgeMACAddr r \<notin> gkeys (edgesByMAC s)"
  proof (cases "gget (edgesByMAC s1) (EdgeMACAddr r)")
    case None
    then have "EdgeMACAddr r \<notin> gkeys (edgesByMAC s)" using m by (simp add: gget_None_iff)
    then show ?thesis using None by (simp add: onEdgeUnregistered_eq)
  next
    case (Some a)
    then show ?thesis using onEdgeUnregistered_core(2) [OF Some, of env "CommunityHash r"] m by (auto simp: gkeys_iff)
  qed
  finally show ?thesis using k by simp
qed

lemma handleUnregister_no_panic: "sn_indexed s \<Longrightarrow> \<not> panics (fst (handleUnregisterMessage env r s))"
  unfolding handleUnregisterMessage_def
  by (intro on_ok_no_panic) (auto simp: UnregisterEdge_panics_iff sn_indexed_def)

lemma queries_no_panic:
  "\<not> panics (fst (handlePeerRequestMessage env r s))" "\<not> panics (fst (handleLeasesInfosMessage env r s))"
  "\<not> panics (fst (handleP2PFullStateMessage env r s))" "\<not> panics (fst (handleSNPublicSecretMessage env r s))"
  "\<not> panics (fst (handleP2PStateInfoMessage env r s))"
  unfolding handlePeerRequestMessage_def handleLeasesInfosMessage_def handleP2PFullStateMessage_def
    handleSNPublicSecretMessage_def handleP2PStateInfoMessage_def
  by (auto simp: panics_on_ok GetCommunityPeerP2PInfosDatas_def SetP2PInfosFor_def split: if_splits)

lemma handleHeartbeat_no_panic: "\<not> panics (fst (handleHeartbeatMessage env r s))"
  unfolding handleHeartbeatMessage_def
  by (intro on_ok_no_panic st_then_no_panic) (auto split: option.splits)

lemma sn_indexed_core: "sn_core s' = sn_core s \<Longrightarrow> sn_indexed s' = sn_indexed s"
  using edges_at_sn_core [of s' s] by (simp add: sn_indexed_def sn_core_eq)

lemma ProcessPacket_panics_iff:
  assumes "alloc_ok (netAllocator s)" "sn_indexed s"
  shows "panics (fst (ProcessPacket env packet addr s)) \<longleftrightarrow> packet = []"
proof (cases "packet = []")
  case True
  then show ?thesis by (simp add: ProcessPacket_def go_index_def)
next
  case False
  let ?s = "count_processed s" and ?d = "\<lambda>pt s. (Fail (NoHandler pt), s)"
  have a: "alloc_ok (netAllocator ?s)" "sn_indexed ?s"
    using assms sn_indexed_core [of ?s s] by (simp_all add: count_processed_def)
  have "\<not> panics (fst (Handle (SnMessageHandlers env) ?d r ?s))" if r: "NewRawMessage packet addr = Ok r" for r
    using ForwardWithFallBack_core [of r _ env ?s] ForwardUnicast_core [of r _ env ?s] relayed_raw [OF r]
    by (simp add: Handle_cases Let_def handleRegister_no_panic a handleUnregister_no_panic queries_no_panic
        handleHeartbeat_no_panic handleDataMessage_def handlePingMessage_def)
  moreover have "\<not> panics (fst (retry_register env addr e s'))" for e s'
    by (simp add: retry_register_def split: net_addr.splits)
  moreover have "\<not> panics (fst (handleVFuze env packet addr ?s))"
    using False by (auto simp: handleVFuze_def forwardPacket_no_panic VFuzePacketDestMACAddr_def split: option.splits if_splits)
  moreover have "NewRawMessage packet addr \<noteq> Panic p" for p
    using NewRawMessage_no_panic [of packet addr] by (metis panics_simps(3))
  ultimately show ?thesis
    using False by (auto simp: ProcessPacket_def Let_def go_index_def panics_Inl
        split: prod.splits sum.splits fault.splits if_splits)
qed

end
