(* ===== verification/Supernode_Props.thy ===== *)
theory Supernode_Props
  imports Supernode_Spec
begin

text \<open>
  The properties of the supernode. Membership of a community is specified by an abstract
  system whose only steps are an authenticated join, an authenticated leave and the expiry of
  some edges; the supernode refines it along every sequence of events. The other properties
  say what a handler sends, what the cleanup removes and which inputs stop the process.
\<close>

section \<open>The membership specification\<close>

text \<open>The evidence in an event that an edge owns the hardware address it claims: the machine
  id, which only the holder of the supernode's key can decrypt, generates the address.\<close>

definition owns_mac :: "sn_env \<Rightarrow> string \<Rightarrow> bytes \<Rightarrow> string \<Rightarrow> bool" where
  "owns_mac env community enc mac \<longleftrightarrow>
     (case enDecrypt env enc of None \<Rightarrow> False | Some mid \<Rightarrow> mac_string (ExtGenerateMac community mid) = mac)"

definition asks_to_join :: "sn_event \<Rightarrow> u32 \<Rightarrow> string \<Rightarrow> bool" where
  "asks_to_join ev h mac \<longleftrightarrow>
     (\<exists>env packet addr r msg. ev = EvPacket env packet addr \<and> NewRawMessage packet addr = Ok r \<and>
        decode_msg (enUnmarshal env) TypeRegisterRequest as_RegisterRequest r = Ok msg \<and>
        CommunityHash r = h \<and> HashCommunity (rqCommunityName msg) = h \<and> EdgeMACAddr r = mac \<and>
        owns_mac env (rqCommunityName msg) (rqEncryptedMachineId msg) mac)"

definition asks_to_leave :: "sn_event \<Rightarrow> u32 \<Rightarrow> string \<Rightarrow> bool" where
  "asks_to_leave ev h mac \<longleftrightarrow>
     (\<exists>env packet addr r msg. ev = EvPacket env packet addr \<and> NewRawMessage packet addr = Ok r \<and>
        decode_msg (enUnmarshal env) TypeUnregisterRequest as_UnregisterRequest r = Ok msg \<and>
        CommunityHash r = h \<and> EdgeMACAddr r = mac \<and>
        owns_mac env (urCommunityName msg) (urEncryptedMachineId msg) mac)"

inductive member_step :: "sn_event \<Rightarrow> (u32 \<Rightarrow> string set) \<Rightarrow> (u32 \<Rightarrow> string set) \<Rightarrow> bool" where
  stay: "member_step ev M M"
| join: "asks_to_join ev h m \<Longrightarrow> member_step ev M (M(h := insert m (M h)))"
| leave: "asks_to_leave ev h m \<Longrightarrow> member_step ev M (M(h := M h - {m}))"
| expire: "(\<And>h. M' h \<subseteq> M h) \<Longrightarrow> member_step (EvCleanup env) M M'"

inductive member_run :: "sn_event list \<Rightarrow> (u32 \<Rightarrow> string set) \<Rightarrow> (u32 \<Rightarrow> string set) \<Rightarrow> bool" where
  finished: "member_run [] M M"
| step: "member_step ev M M' \<Longrightarrow> member_run evs M' M'' \<Longrightarrow> member_run (ev # evs) M M''"

lemma Validate_owns_mac:
  "ValidateEdgeClaimedMACAddr env mac enc community = Ok mid \<Longrightarrow> owns_mac env community enc mac"
  by (auto simp: ValidateEdgeClaimedMACAddr_def DecryptMachineID_def owns_mac_def split: option.splits if_splits)

lemma handleRegister_join:
  assumes "sn_wf s" "edges_at (snd (handleRegisterMessage env r s)) k \<noteq> edges_at s k"
  shows "k = CommunityHash r \<and> edges_at (snd (handleRegisterMessage env r s)) k = insert (EdgeMACAddr r) (edges_at s k) \<and>
    (\<exists>msg. decode_msg (enUnmarshal env) TypeRegisterRequest as_RegisterRequest r = Ok msg \<and>
       HashCommunity (rqCommunityName msg) = k \<and> owns_mac env (rqCommunityName msg) (rqEncryptedMachineId msg) (EdgeMACAddr r))"
proof -
  obtain msg a n s1 where k: "k = CommunityHash r"
      "edges_at (snd (handleRegisterMessage env r s)) k = insert (EdgeMACAddr r) (edges_at s k)"
    and d: "decode_msg (enUnmarshal env) TypeRegisterRequest as_RegisterRequest r = Ok msg"
    and e: "RegisterEdge env r msg s = (Ok (a, n), s1)"
    using edges_at_handleRegister [OF assms(1), of env r k] assms(2) by auto
  obtain mid c s2 where "enDecrypt env (rqEncryptedMachineId msg) = Some mid"
      "mac_string (ExtGenerateMac (rqCommunityName msg) mid) = EdgeMACAddr r"
      "RegisterCommunity env (rqCommunityName msg) (CommunityHash r) s = (Ok c, s2)"
    by (rule RegisterEdge_Ok [OF e assms(1)])
  then show ?thesis using k d by (auto simp: owns_mac_def dest: RegisterCommunity_Ok)
qed

lemma handleUnregister_leave:
  assumes "edges_at (snd (handleUnregisterMessage env r s)) k \<noteq> edges_at s k"
  shows "k = CommunityHash r \<and> edges_at (snd (handleUnregisterMessage env r s)) k = edges_at s k - {EdgeMACAddr r} \<and>
    (\<exists>msg. decode_msg (enUnmarshal env) TypeUnregisterRequest as_UnregisterRequest r = Ok msg \<and>
       owns_mac env (urCommunityName msg) (urEncryptedMachineId msg) (EdgeMACAddr r))"
  using edges_at_handleUnregister [of env r s k] assms by (auto dest: Validate_owns_mac)

lemma ProcessPacket_member_step:
  fixes env :: sn_env and packet :: bytes and addr :: net_addr
  assumes "sn_wf s"
  defines "s' \<equiv> snd (ProcessPacket env packet addr s)"
  shows "member_step (EvPacket env packet addr) (edges_at s) (edges_at s')"
proof (cases "edges_at s' = edges_at s")
  case True
  then show ?thesis by (simp add: member_step.stay)
next
  case False
  then obtain k where k: "edges_at s' k \<noteq> edges_at s k" by blast
  let ?s = "count_processed s"
  have wf: "sn_wf ?s" using assms(1) by simp
  have cases: "\<exists>r. NewRawMessage packet addr = Ok r \<and>
      (edges_at s' j = edges_at (snd (handleRegisterMessage env r ?s)) j \<or>
       edges_at s' j = edges_at (snd (handleUnregisterMessage env r ?s)) j)" if "edges_at s' j \<noteq> edges_at s j" for j
    using edges_at_ProcessPacket [OF assms(1), of env packet addr j] that by (auto simp: s'_def)
  obtain r where r: "NewRawMessage packet addr = Ok r" using cases [OF k] by blast
  have only: "j = CommunityHash r" if "edges_at s' j \<noteq> edges_at s j" for j
    using cases [OF that] that r handleRegister_join [OF wf, of env r j] handleUnregister_leave [of env r ?s j] by auto
  have kr: "k = CommunityHash r" by (rule only [OF k])
  have upd: "edges_at s' = (edges_at s)(k := edges_at s' k)"
  proof
    show "edges_at s' j = ((edges_at s)(k := edges_at s' k)) j" for j using only [of j] kr by (cases "j = k") auto
  qed
  consider "edges_at s' k = edges_at (snd (handleRegisterMessage env r ?s)) k"
    | "edges_at s' k = edges_at (snd (handleUnregisterMessage env r ?s)) k" using cases [OF k] r by auto
  then show ?thesis
  proof cases
    case 1
    have ne: "edges_at (snd (handleRegisterMessage env r ?s)) k \<noteq> edges_at ?s k" using k 1 by simp
    have "asks_to_join (EvPacket env packet addr) k (EdgeMACAddr r)"
      unfolding asks_to_join_def using handleRegister_join [OF wf ne] r by blast
    moreover have "edges_at s' k = insert (EdgeMACAddr r) (edges_at s k)"
      using handleRegister_join [OF wf ne] 1 by (metis edges_at_count(2))
    ultimately show ?thesis by (subst upd) (simp add: member_step.join)
  next
    case 2
    have ne: "edges_at (snd (handleUnregisterMessage env r ?s)) k \<noteq> edges_at ?s k" using k 2 by simp
    have "asks_to_leave (EvPacket env packet addr) k (EdgeMACAddr r)"
      unfolding asks_to_leave_def using handleUnregister_leave [OF ne] r by blast
    moreover have "edges_at s' k = edges_at s k - {EdgeMACAddr r}"
      using handleUnregister_leave [OF ne] 2 by (metis edges_at_count(2))
    ultimately show ?thesis by (subst upd) (simp add: member_step.leave)
  qed
qed

lemma edges_at_wss [simp]: "edges_at (wss_open conn s) = edges_at s" "edges_at (wss_close conn s) = edges_at s"
  by (simp_all add: edges_at_def fun_eq_iff wss_open_def wss_close_def)

lemma sn_step_member_step: "sn_wf s \<Longrightarrow> member_step ev (edges_at s) (edges_at (sn_step ev s))"
proof (cases ev)
  case (EvCleanup env)
  assume "sn_wf s"
  then show ?thesis
    using EvCleanup edges_at_CleanupStaleEdges(2) [of s env] by (auto simp: sn_step_def intro!: member_step.expire)
qed (auto simp: sn_step_def ProcessPacket_member_step intro: member_step.stay)

lemma sn_run_member_run: "sn_wf s \<Longrightarrow> member_run evs (edges_at s) (edges_at (fold sn_step evs s))"
  by (induction evs arbitrary: s) (auto intro: member_run.intros sn_step_member_step sn.inv_step)


text \<open>C11. In every state the supernode reaches, a community is filed under the hash of its name,
  its edges under their hardware addresses and with its name, and the two global indexes point
  at edges that exist, the first one under their own address.\<close>

theorem reachable_states_consistent: "sn_wf (fold sn_step evs (NewSupernodeWithConfig config pem))"
  by (rule sn.inv_run) (rule sn_wf_NewSupernode)

section \<open>Where packets go\<close>

lemma ProcessPacket_raw:
  assumes "NewRawMessage packet addr = Ok r"
  shows "ProcessPacket env packet addr s =
    (case Handle (SnMessageHandlers env) (\<lambda>pt s. (Fail (NoHandler pt), s)) r (count_processed s) of
       (Inl (Err e), s') \<Rightarrow> retry_register env addr e s' | (x, s') \<Rightarrow> (x, s'))"
  using relayed_raw [OF assms] assms
  by (simp add: ProcessPacket_def Let_def go_index_def VersionV_def VersionVFuze_def)

lemma count_processed_fields [simp]:
  "communities (count_processed s) = communities s" "edgesByMAC (count_processed s) = edgesByMAC s"
  "edgesBySocket (count_processed s) = edgesBySocket s" "snConfig (count_processed s) = snConfig s"
  "snHeap (count_processed s) = snHeap s" "wssConnections (count_processed s) = wssConnections s"
  by (simp_all add: count_processed_def)

lemma edge_of_count [simp]: "edge_of (count_processed s) = edge_of s"
  by (simp add: edge_of_def fun_eq_iff)

lemma edges_count [simp]:
  "GetEdge c m (count_processed s) = GetEdge c m s" "GetAllEdges c (count_processed s) = GetAllEdges c s"
  "GetCommunity r (count_processed s) = GetCommunity r s"
  by (simp_all add: GetEdge_def GetAllEdges_def GetCommunity_def GetCommunityForEdge_def split: option.splits)

lemma deliverable_count [simp]: "deliverable env (count_processed s) b e = deliverable env s b e"
  by (rule deliverable_core) simp

text \<open>The edges a data packet is for: its destination if that can be reached, otherwise every
  other edge of the community that can.\<close>

definition data_targets :: "sn_env \<Rightarrow> bytes \<Rightarrow> RawMessage \<Rightarrow> Community \<Rightarrow> Supernode \<Rightarrow> Edge list" where
  "data_targets env b r c s =
     (let everyone = filter (\<lambda>t. eMACAddr t \<noteq> EdgeMACAddr r \<and> deliverable env s b t) (GetAllEdges c s) in
      case GetEdge c (DestMACAddr r) s of
        Some t \<Rightarrow> if deliverable env s b t then [t] else everyone
      | None \<Rightarrow> everyone)"

lemma ForwardWithFallBack_targets:
  assumes "NewRawMessage packet addr = Ok r" "GetCommunity r s = Ok c"
  defines "b \<equiv> packet[3 := packet ! 3 OR 2]"
  shows "\<exists>s'. ForwardWithFallBack env r s = (Ok (), s') \<and> sn_core s' = sn_core s \<and>
    snOut s' = snOut s @ map (\<lambda>t. out_to t b) (data_targets env b r c s)"
proof (cases "\<exists>t. GetEdge c (DestMACAddr r) s = Some t \<and> deliverable env s b t")
  case True
  then obtain t where "GetEdge c (DestMACAddr r) s = Some t" "deliverable env s b t" by blast
  then show ?thesis
    using ForwardWithFallBack_direct [of r b s c t env] relayed_raw [OF assms(1)] assms(2)
    by (simp add: b_def data_targets_def Let_def)
next
  case False
  then have "data_targets env b r c s = filter (\<lambda>t. eMACAddr t \<noteq> EdgeMACAddr r \<and> deliverable env s b t) (GetAllEdges c s)"
    by (auto simp: data_targets_def Let_def split: option.splits)
  then show ?thesis
    using ForwardWithFallBack_broadcast [of r b s c env] relayed_raw [OF assms(1)] assms(2) False
    by (simp add: b_def)
qed

lemma ProcessPacket_data:
  assumes "NewRawMessage packet addr = Ok r" "PacketType (rHeader r) = TypeData" "GetCommunity r s = Ok c"
  shows "\<exists>s'. ProcessPacket env packet addr s = (Ok (), s') \<and> sn_core s' = sn_core s \<and>
    snOut s' = snOut s @ map (\<lambda>t. out_to t (packet[3 := packet ! 3 OR 2]))
      (data_targets env (packet[3 := packet ! 3 OR 2]) r c s)"
proof -
  let ?s = "count_processed s"
  have "data_targets env b r c ?s = data_targets env b r c s" for b
    by (simp add: data_targets_def Let_def split: option.splits)
  moreover have "Handle (SnMessageHandlers env) d r ?s = ForwardWithFallBack env r ?s" for d
    using assms(2) by (simp add: Handle_cases Let_def handleDataMessage_def packet_type_defs)
  ultimately show ?thesis
    using ForwardWithFallBack_targets [OF assms(1), of ?s c env] assms(3)
    by (auto simp: ProcessPacket_raw [OF assms(1)])
qed

lemma ProcessPacket_fuze:
  assumes "packet ! 0 = VersionVFuze" "packet \<noteq> []" "VFuzePacketDestMACAddr packet = Ok dst" "cfEnableVFuze (snConfig s)"
    and "gget (edgesByMAC s) (mac_string dst) = Some d" "gget (edgesBySocket s) (addr_string addr) = Some src"
    and "eCommunity (edge_of s d) = eCommunity (edge_of s src)" "deliverable env s packet (edge_of s d)"
  shows "\<exists>s'. ProcessPacket env packet addr s = (Ok (), s') \<and> snOut s' = snOut s @ [out_to (edge_of s d) packet]"
proof -
  let ?s = "count_processed s"
  have r: "relayed packet = Ok packet" using assms(1) by (simp add: relayed_def VersionV_def VersionVFuze_def)
  have "ProcessPacket env packet addr s = st_ignore (forwardPacket env packet (edge_of s d)) ?s"
    using assms by (simp add: ProcessPacket_def Let_def go_index_def handleVFuze_def)
  then show ?thesis
    using forwardPacket_Ok [OF assms(2) r, of env ?s "edge_of s d"] assms(8) by (auto simp: st_ignore_def)
qed

text \<open>C4. A data packet of a registered edge is sent, flagged as coming from the supernode and
  otherwise unchanged, to the destination edge of the sender's own community if that is
  reachable and else to all the other reachable edges of that community: to nobody else, to
  nobody twice, and nothing but the counters and the sockets is touched.\<close>

theorem data_stays_in_the_community:
  assumes "NewRawMessage packet addr = Ok r" "PacketType (rHeader r) = TypeData" "GetCommunity r s = Ok c"
  shows "\<exists>s'. ProcessPacket env packet addr s = (Ok (), s') \<and> sn_core s' = sn_core s \<and>
    snOut s' = snOut s @ map (\<lambda>t. out_to t (packet[3 := packet ! 3 OR 2]))
      (data_targets env (packet[3 := packet ! 3 OR 2]) r c s)"
  by (rule ProcessPacket_data [OF assms])

text \<open>A network of two edges for the examples.\<close>

definition demo_header :: "PacketType \<Rightarrow> ProtoVHeader" where
  "demo_header pt =
     \<lparr>Version = VersionV, TTL = 64, PacketType = pt, Flags = 0, Sequence = 1, CommunityID = HashCommunity ''n2n'',
      SourceID = Arr6 2 0 0 0 0 1, DestID = Arr6 2 0 0 0 0 2, Timestamp = 0, Checksum = 0\<rparr>"

definition demo_addr :: net_addr where
  "demo_addr = UDPAddr \<lparr>uIP = [192, 0, 2, 1], uPort = 7000\<rparr>"

definition demo_packet :: "PacketType \<Rightarrow> bytes" where
  "demo_packet pt = PackProtoVDatagram (demo_header pt) [7]"

definition demo_raw :: "PacketType \<Rightarrow> RawMessage" where
  "demo_raw pt = \<lparr>rHeader = demo_header pt, rPayload = [7], rFromAddr = demo_addr, rRawPacket = demo_packet pt\<rparr>"

definition demo_edge :: "byte \<Rightarrow> Edge" where
  "demo_edge n =
     \<lparr>eDesc = ''edge'', ePublicIP = [192, 0, 2, n], ePublicPort = 7000, eCommunity = ''n2n'', eVirtualIP = [10, 128, 0, n],
      eVNetMaskLen = 24, eLastHeartbeat = 0, eLastSequence = 0, eMACAddr = mac_string [2, 0, 0, 0, 0, n],
      eMachineID = [n], eWSSConnID = []\<rparr>"

definition demo_community :: Community where
  "demo_community =
     \<lparr>cName = ''n2n'', cSubnet = \<lparr>pfAddr = [10, 128, 0, 0], pfBits = 24\<rparr>, cMaskLen = 24,
      cEdges = [(mac_string [2, 0, 0, 0, 0, 1], 0), (mac_string [2, 0, 0, 0, 0, 2], 1)], cP2PInfos = []\<rparr>"

definition demo_sn :: Supernode where
  "demo_sn = (NewSupernodeWithConfig DefaultConfig [])
     \<lparr>communities := [(HashCommunity ''n2n'', demo_community)],
      edgesByMAC := [(mac_string [2, 0, 0, 0, 0, 1], 0), (mac_string [2, 0, 0, 0, 0, 2], 1)],
      edgesBySocket := [(''192.0.2.1:7000'', 0), (''192.0.2.2:7000'', 1)],
      snHeap := [demo_edge 1, demo_edge 2]\<rparr>"

definition demo_env :: sn_env where
  "demo_env =
     \<lparr>enNow = 3600 * 1000000000, enDecrypt = Some, enMarshal = (\<lambda>_. Some []),
      enUnmarshal = (\<lambda>pt b. if pt = TypeHeartbeat then Some (MHeartbeatPulse
        \<lparr>hbEdgeMacAddr = [], hbCommunityName = ''n2n'', hbEncryptedMachineId = b, hbClearMachineId = []\<rparr>) else None),
      enPoolOk = (\<lambda>_. True), enRequestIP = (\<lambda>_ _. Some [10, 128, 0, 3]), enLeases = (\<lambda>_. []),
      enUDPWrite = (\<lambda>_ _. True), enWSSWrite = (\<lambda>_ _. True)\<rparr>"

lemma demo_raw_Ok [simp]: "NewRawMessage (demo_packet pt) demo_addr = Ok (demo_raw pt)"
  by (simp add: NewRawMessage_Ok demo_raw_def demo_packet_def demo_header_def)

lemma demo_raw_fields [simp]:
  "rHeader (demo_raw pt) = demo_header pt" "PacketType (demo_header pt) = pt" "CommunityHash (demo_raw pt) = HashCommunity ''n2n''"
  "EdgeMACAddr (demo_raw pt) = mac_string [2, 0, 0, 0, 0, 1]" "DestMACAddr (demo_raw pt) = mac_string [2, 0, 0, 0, 0, 2]"
  by (simp_all add: demo_raw_def demo_header_def CommunityHash_def EdgeMACAddr_def DestMACAddr_def GetSrcMACAddr_def
      GetDstMACAddr_def bytesToMAC_def arr6_zero_def)

lemma demo_GetCommunity [simp]: "GetCommunity (demo_raw pt) demo_sn = Ok demo_community"
  by (simp add: GetCommunity_Ok demo_sn_def demo_community_def gget_def)

theorem data_stays_in_the_community_witness:
  "\<exists>s'. ProcessPacket demo_env (demo_packet TypeData) demo_addr demo_sn = (Ok (), s') \<and> sn_core s' = sn_core demo_sn \<and>
    snOut s' = snOut demo_sn @ map (\<lambda>t. out_to t ((demo_packet TypeData)[3 := demo_packet TypeData ! 3 OR 2]))
      (data_targets demo_env ((demo_packet TypeData)[3 := demo_packet TypeData ! 3 OR 2]) (demo_raw TypeData) demo_community demo_sn)"
  by (rule data_stays_in_the_community) simp_all

fun out_bytes :: "sn_out \<Rightarrow> bytes" where
  "out_bytes (OutUDP _ b) = b"
| "out_bytes (OutWSS _ b) = b"

lemma out_bytes_out_to [simp]: "out_bytes (out_to e b) = b"
  by (simp add: out_to_def)

lemma WritePacket_exact:
  "\<exists>h outs. SNHeader env pt com None = Ok h \<and> snOut (snd (WritePacket env pt com None pl addr s)) = snOut s @ outs \<and>
     length outs \<le> 1 \<and> (\<forall>out \<in> set outs. out_bytes out = PackProtoVDatagram h pl)"
proof -
  obtain h where h: "SNHeader env pt com None = Ok h" "Version h = VersionV" "Flags h = FlagFromSuperNode"
    by (rule SNHeader_cases)
  let ?p = "PackProtoVDatagram h pl"
  have f: "\<exists>outs. snOut (snd (forwardPacket env ?p t s)) = snOut s @ outs \<and> length outs \<le> 1 \<and>
      (\<forall>out \<in> set outs. out_bytes out = ?p)" for t
    by (rule forwardPacket_cases [of ?p env s t]) (auto simp: relayed_own h)
  have "\<exists>outs. snOut (snd (WritePacket env pt com None pl addr s)) = snOut s @ outs \<and> length outs \<le> 1 \<and>
      (\<forall>out \<in> set outs. out_bytes out = ?p)"
    using f by (auto simp: WritePacket_def h write_udp_def split: option.splits net_addr.splits)
  then show ?thesis using h by blast
qed

lemma SNHeader_type: "SNHeader env pt com dst = Ok h \<Longrightarrow> PacketType h = pt"
  by (auto simp: SNHeader_def res_bind_eq_Inr)

text \<open>A data or ping packet of a sender that is not registered in the community it addresses
  is never passed on. The process neither stops nor changes anything but its counters; at most
  one datagram leaves, an empty request to register again, and none if the sender came over a
  stream.\<close>

theorem unregistered_sender_is_told_to_register:
  assumes "NewRawMessage packet addr = Ok r" "PacketType (rHeader r) \<in> {TypeData, TypePing}"
    and "EdgeMACAddr r \<notin> edges_at s (CommunityHash r)"
  shows "\<exists>s' outs. ProcessPacket env packet addr s = (Ok (), s') \<and> sn_core s' = sn_core s \<and>
    snOut s' = snOut s @ outs \<and> length outs \<le> 1 \<and>
    (\<forall>out \<in> set outs. (\<exists>u. addr = UDPAddr u) \<and>
       (\<exists>h. PacketType h = TypeRetryRegisterRequest \<and> out_bytes out = PackProtoVDatagram h []))"
proof -
  let ?s = "count_processed s"
  obtain e where e: "GetCommunity r s = Fail e" "e = ErrCommunityUnknownEdge \<or> e = ErrCommunityNotFound"
    using assms(3)
    by (auto simp: GetCommunity_def GetCommunityForEdge_def GetEdge_def edges_at_def gkeys_iff split: option.splits)
  have "Handle (SnMessageHandlers env) d r ?s = (Fail e, ?s)" for d
    using assms(2) e(1)
    by (auto simp: Handle_cases Let_def handleDataMessage_def handlePingMessage_def packet_type_defs
        ForwardWithFallBack_def ForwardUnicast_def)
  then have p: "ProcessPacket env packet addr s = retry_register env addr e ?s"
    by (simp add: ProcessPacket_raw [OF assms(1)])
  obtain h outs where o: "SNHeader env TypeRetryRegisterRequest [] None = Ok h"
      "snOut (snd (WritePacket env TypeRetryRegisterRequest [] None [] addr ?s)) = snOut s @ outs"
      "length outs \<le> 1" "\<forall>out \<in> set outs. out_bytes out = PackProtoVDatagram h []"
    using WritePacket_exact [of env TypeRetryRegisterRequest "[]" "[]" addr ?s] by auto
  show ?thesis
  proof (cases addr)
    case (UDPAddr u)
    let ?w = "WritePacket env TypeRetryRegisterRequest [] None [] addr"
    have "st_ignore ?w ?s = (Ok (), snd (?w ?s))"
      using WritePacket_no_panic [of env TypeRetryRegisterRequest "[]" "[]" addr ?s]
      by (cases "?w ?s"; cases "fst (?w ?s)") (auto simp: st_ignore_def panics_Inl split: fault.splits)
    then show ?thesis
      using p e(2) o SNHeader_type [OF o(1)] UDPAddr sn_core_WritePacket [of env TypeRetryRegisterRequest "[]" "[]" addr ?s]
      by (auto simp: retry_register_def)
  qed (use p e(2) in \<open>auto simp: retry_register_def\<close>)
qed

theorem unregistered_sender_is_told_to_register_witness:
  "\<exists>s' outs. ProcessPacket demo_env (demo_packet TypeData) demo_addr (NewSupernodeWithConfig DefaultConfig []) = (Ok (), s') \<and>
    sn_core s' = sn_core (NewSupernodeWithConfig DefaultConfig []) \<and>
    snOut s' = snOut (NewSupernodeWithConfig DefaultConfig []) @ outs \<and> length outs \<le> 1 \<and>
    (\<forall>out \<in> set outs. (\<exists>u. demo_addr = UDPAddr u) \<and>
       (\<exists>h. PacketType h = TypeRetryRegisterRequest \<and> out_bytes out = PackProtoVDatagram h []))"
  by (rule unregistered_sender_is_told_to_register [of _ _ "demo_raw TypeData"])
     (simp_all add: edges_at_def NewSupernodeWithConfig_def)

text \<open>C12. A fast-path packet, which carries only its destination, leaves the supernode at most
  once and unchanged, to the edge with the destination address, and only if the socket it
  came from is that of an edge of the same community. Nothing but the outbox changes.\<close>

theorem fuze_stays_in_the_community:
  assumes "packet ! 0 = VersionVFuze" "packet \<noteq> []"
  shows "\<exists>s' outs. ProcessPacket env packet addr s = (Ok (), s') \<and> sn_core s' = sn_core s \<and>
    snOut s' = snOut s @ outs \<and>
    (outs = [] \<or> (\<exists>dst d src. VFuzePacketDestMACAddr packet = Ok dst \<and> cfEnableVFuze (snConfig s) \<and>
       gget (edgesByMAC s) (mac_string dst) = Some d \<and> gget (edgesBySocket s) (addr_string addr) = Some src \<and>
       eCommunity (edge_of s d) = eCommunity (edge_of s src) \<and> outs = [out_to (edge_of s d) packet]))"
proof -
  let ?s = "count_processed s"
  have r: "relayed packet = Ok packet" using assms(1) by (simp add: relayed_def VersionV_def VersionVFuze_def)
  have p: "ProcessPacket env packet addr s = handleVFuze env packet addr ?s"
    using assms by (simp add: ProcessPacket_def Let_def go_index_def)
  have np: "\<not> panics (VFuzePacketDestMACAddr packet)"
    using assms(2) by (simp add: VFuzePacketDestMACAddr_def)
  have f: "\<exists>s' outs. st_ignore (forwardPacket env packet t) ?s = (Ok (), s') \<and> sn_core s' = sn_core s \<and>
      snOut s' = snOut s @ outs \<and> (outs = [] \<or> outs = [out_to t packet])" for t
    by (rule forwardPacket_cases [OF assms(2), of env ?s t]) (auto simp: st_ignore_def r)
  show ?thesis
    unfolding p handleVFuze_def using np
    by (auto split: sum.splits fault.splits option.splits simp: panics_Inl) (insert f, fastforce+)?
qed

theorem fuze_stays_in_the_community_witness:
  "\<exists>s' outs. ProcessPacket demo_env [VersionVFuze, 2, 0, 0, 0, 0, 2, 9] demo_addr demo_sn = (Ok (), s') \<and>
    sn_core s' = sn_core demo_sn \<and> snOut s' = snOut demo_sn @ outs \<and>
    (outs = [] \<or> (\<exists>dst d src. VFuzePacketDestMACAddr [VersionVFuze, 2, 0, 0, 0, 0, 2, 9] = Ok dst \<and>
       cfEnableVFuze (snConfig demo_sn) \<and>
       gget (edgesByMAC demo_sn) (mac_string dst) = Some d \<and> gget (edgesBySocket demo_sn) (addr_string demo_addr) = Some src \<and>
       eCommunity (edge_of demo_sn d) = eCommunity (edge_of demo_sn src) \<and>
       outs = [out_to (edge_of demo_sn d) [VersionVFuze, 2, 0, 0, 0, 0, 2, 9]]))"
  by (rule fuze_stays_in_the_community) simp_all

end
