(* ===== verification/Supernode_Crash.thy ===== *)
theory Supernode_Crash
  imports Supernode_Props
begin

text \<open>
  What can stop the supernode. An edge object is looked up in \<^verbatim>\<open>edgesByMAC\<close> when its edge is
  unregistered, and a hardware address that two communities share is in that map only once.
  As long as no address is shared and no datagram is empty the process never panics.
\<close>

section \<open>The index of the edges\<close>

definition sn_unique :: "Supernode \<Rightarrow> bool" where
  "sn_unique s \<longleftrightarrow> (\<forall>h k m. m \<in> edges_at s h \<longrightarrow> m \<in> edges_at s k \<longrightarrow> h = k)"

text \<open>The parts of the state that decide about panics.\<close>

definition idx :: "Supernode \<Rightarrow> NetworkAllocator \<times> (u32 \<Rightarrow> string set) \<times> (string, nat) gomap" where
  "idx s = (netAllocator s, edges_at s, edgesByMAC s)"

lemma idx_core: "sn_core s' = sn_core s \<Longrightarrow> idx s' = idx s"
  using edges_at_sn_core [of s' s] by (simp add: idx_def sn_core_eq)

lemma idx_eq: "idx s' = idx s \<longleftrightarrow> netAllocator s' = netAllocator s \<and> edges_at s' = edges_at s \<and> edgesByMAC s' = edgesByMAC s"
  by (auto simp: idx_def)

lemma sn_indexed_idx: "idx s' = idx s \<Longrightarrow> sn_indexed s' = sn_indexed s"
  by (simp add: idx_eq sn_indexed_def)

lemma idx_SetP2PInfosFor:
  "gget (communities s) h = Some c \<Longrightarrow> idx (snd (SetP2PInfosFor h c mac i s)) = idx s"
  by (simp add: idx_eq edges_at_SetP2PInfosFor) (simp add: SetP2PInfosFor_def put_community_def)

lemma idx_handleP2PStateInfo: "idx (snd (handleP2PStateInfoMessage env r s)) = idx s"
  unfolding handleP2PStateInfoMessage_def
  by (intro on_ok_inv [where P = "\<lambda>s'. idx s' = idx s"]) (auto simp: GetCommunity_Ok idx_SetP2PInfosFor)

lemma idx_RefreshEdge: "idx (snd (RefreshEdge env c r m s)) = idx s"
  by (simp add: idx_eq edges_at_RefreshEdge) (simp add: RefreshEdge_def Let_def split: option.splits)

lemma idx_sends [simp]:
  "idx (snd (SendStruct env p com None addr s)) = idx s" "idx (snd (BroadcastStruct env p c None sender s)) = idx s"
  "idx (snd (reply_to_edge env p com c mac s)) = idx s" "idx (count_heartbeat s) = idx s" "idx (count_processed s) = idx s"
  by (rule idx_core, simp)+

lemma idx_handleHeartbeat: "idx (snd (handleHeartbeatMessage env r s)) = idx s"
proof -
  have "idx s'' = idx s'" if "RefreshEdge env c r d s' = (Inr x, s'')" for c d s' s'' x
    using idx_RefreshEdge [of env c r d s'] that by simp
  then show ?thesis
    unfolding handleHeartbeatMessage_def
    by (intro on_ok_inv [where P = "\<lambda>s'. idx s' = idx s"] st_then_inv [where P = "\<lambda>s'. idx s' = idx s"])
       (auto simp: idx_RefreshEdge split: option.splits)
qed

lemma idx_queries:
  "idx (snd (handlePeerRequestMessage env r s)) = idx s" "idx (snd (handleLeasesInfosMessage env r s)) = idx s"
  "idx (snd (handleP2PFullStateMessage env r s)) = idx s" "idx (snd (handleSNPublicSecretMessage env r s)) = idx s"
  unfolding handlePeerRequestMessage_def handleLeasesInfosMessage_def handleP2PFullStateMessage_def
    handleSNPublicSecretMessage_def
  by (auto intro!: on_ok_inv [where P = "\<lambda>s'. idx s' = idx s"])

lemma idx_handleDataPing:
  assumes "rRawPacket r \<noteq> []" "relayed (rRawPacket r) = Ok b"
  shows "idx (snd (handleDataMessage env r s)) = idx s" "idx (snd (handlePingMessage env r s)) = idx s"
  using ForwardWithFallBack_core [OF assms, of env s] ForwardUnicast_core [OF assms, of env s]
  by (auto simp: handleDataMessage_def handlePingMessage_def intro: idx_core)

definition alloc_index :: "Supernode \<Rightarrow> NetworkAllocator \<times> (string, nat) gomap" where
  "alloc_index s = (netAllocator s, edgesByMAC s)"

lemma alloc_index_EdgeUpdate: "alloc_index (snd (EdgeUpdate env h c r msg s)) = alloc_index s"
  by (auto simp: EdgeUpdate_def Let_def alloc_index_def SetEdgeCachedInfo_def put_community_def split: option.splits)

lemma alloc_index_RegisterCommunity: "alloc_index (snd (RegisterCommunity env name h s)) = alloc_index s"
  by (auto simp: RegisterCommunity_def NewCommunity_def on_ok_def alloc_index_def put_community_def
      split: option.splits sum.splits if_splits)

lemma alloc_index_RegisterEdge: "alloc_index (snd (RegisterEdge env r msg s)) = alloc_index s"
proof -
  let ?P = "\<lambda>s'. alloc_index s' = alloc_index s"
  have "?P s2" if "RegisterCommunity env name h s = (Inr c, s2)" for name h c s2
    using alloc_index_RegisterCommunity [of env name h s] that by simp
  moreover have "alloc_index s3 = alloc_index s2" if "EdgeUpdate env h c r m s2 = (Inr a, s3)" for h c m a s2 s3
    using alloc_index_EdgeUpdate [of env h c r m s2] that by simp
  ultimately show ?thesis
    unfolding RegisterEdge_def
    by (intro on_ok_inv [where P = ?P] st_then_inv [where P = ?P])
       (auto simp: alloc_index_RegisterCommunity alloc_index_EdgeUpdate, auto simp: alloc_index_def)
qed

lemma RegisterEdge_registered:
  assumes "RegisterEdge env r msg s = (Ok (a, n), s1)" "sn_wf s"
  shows "a < length (snHeap s1) \<and> eMACAddr (edge_of s1 a) = EdgeMACAddr r \<and> eCommunity (edge_of s1 a) = rqCommunityName msg \<and>
    (\<exists>c. gget (communities s1) (CommunityHash r) = Some c \<and> cName c = rqCommunityName msg \<and> gget (cEdges c) (EdgeMACAddr r) = Some a)"
proof -
  obtain mid c s0 where
    rc: "RegisterCommunity env (rqCommunityName msg) (CommunityHash r) s = (Ok c, s0)" and
    u: "EdgeUpdate env (CommunityHash r) c r (msg\<lparr>rqClearMachineId := mid\<rparr>) s0 = (Ok a, s1\<lparr>snStats := snStats s0\<rparr>)" and
    wf0: "sn_wf s0" using RegisterEdge_Ok [OF assms] by metis
  have c: "gget (communities s0) (CommunityHash r) = Some c" "cName c = rqCommunityName msg"
    using RegisterCommunity_Ok [OF rc] by blast+
  have h: "snHeap (s1\<lparr>snStats := x\<rparr>) = snHeap s1" "communities (s1\<lparr>snStats := x\<rparr>) = communities s1"
    "edge_of (s1\<lparr>snStats := x\<rparr>) a = edge_of s1 a" for x by (simp_all add: edge_of_def)
  show ?thesis using EdgeUpdate_Ok [OF u wf0 c(1), unfolded h] c(2) by auto
qed

lemma set_wss_conn_mac [simp]: "eMACAddr (edge_of (set_wss_conn addr a s) b) = eMACAddr (edge_of s b)"
  by (cases addr; cases "a < length (snHeap s)"; cases "a = b") (simp_all add: set_wss_conn_def edge_of_def list_update_beyond)

lemma sn_indexed_handleRegister:
  assumes "sn_wf s" "sn_indexed s"
  shows "sn_indexed (snd (handleRegisterMessage env r s)) \<and> netAllocator (snd (handleRegisterMessage env r s)) = netAllocator s"
proof (cases "sn_decode env TypeRegisterRequest as_RegisterRequest r")
  case (Inl e)
  then show ?thesis using assms(2) by (simp add: handleRegisterMessage_def)
next
  case (Inr msg)
  obtain res s1 where re: "RegisterEdge env r msg s = (res, s1)" by fastforce
  have ai: "netAllocator s1 = netAllocator s" "edgesByMAC s1 = edgesByMAC s"
    using alloc_index_RegisterEdge [of env r msg s] re by (simp_all add: alloc_index_def)
  note at = RegisterEdge_edges_at [OF assms(1) re]
  consider (ok) a n where "res = Ok (a, n)" | (err) e where "res = Fail e" | (panic) p where "res = Panic p"
    by (cases res; cases "projl res") auto
  then show ?thesis
  proof cases
    case ok
    let ?s2 = "index_edge a (set_wss_conn (rFromAddr r) a s1)"
    have core: "sn_core (snd (handleRegisterMessage env r s)) = sn_core ?s2"
      using handleRegister_Ok [OF Inr, of s a n s1] re ok by simp
    have "edgesByMAC ?s2 = gput (edgesByMAC s) (EdgeMACAddr r) a"
      using RegisterEdge_registered [OF re [unfolded ok] assms(1)] ai by simp
    moreover have "edges_at ?s2 k \<subseteq> insert (EdgeMACAddr r) (edges_at s k)" for k
      using at [of k] edges_at_core [of ?s2 s1] by auto
    moreover have "netAllocator ?s2 = netAllocator s"
      using ai by (simp add: index_edge_def set_wss_conn_def Let_def split: net_addr.splits)
    ultimately show ?thesis
      using core edges_at_sn_core [OF core] assms(2) by (auto simp: sn_indexed_def sn_core_eq)
  next
    case err
    then obtain s' where "handleRegisterMessage env r s = (Fail e, s')" "sn_core s' = sn_core s1"
      using handleRegister_Err [OF Inr, of s e s1] re by auto
    then show ?thesis
      using at ai assms(2) edges_at_sn_core [of s' s1] err by (simp add: sn_indexed_def sn_core_eq)
  next
    case panic
    then show ?thesis using re Inr at ai assms(2) by (simp add: handleRegisterMessage_def sn_indexed_def)
  qed
qed

lemma onEdgeUnregistered_known:
  assumes "gget (edgesByMAC s) mac = Some a"
  shows "\<exists>s'. onEdgeUnregistered env h mac s = (Ok (), s') \<and> sn_core s' = sn_core (drop_indexes mac (edge_of s a) s)"
proof -
  have "\<exists>s'. st_ignore (BroadcastStruct env p c None mac) t = (Ok (), s') \<and> sn_core s' = sn_core t" for p c t
    using BroadcastStruct_no_panic [of env p c mac t] sn_core_BroadcastStruct [of env p c mac t]
    by (cases "BroadcastStruct env p c None mac t"; cases "fst (BroadcastStruct env p c None mac t)")
       (auto simp: st_ignore_def panics_Inl split: fault.splits)
  then show ?thesis using assms by (auto simp: onEdgeUnregistered_eq split: option.splits)
qed

text \<open>Taking an edge out of its community and out of the index, as both callers do.\<close>

lemma unregister_one:
  assumes "sn_indexed s" "sn_unique s" "mac \<in> edges_at s h" "communities s1 = communities (snd (Unregister env h mac s))"
    and "edgesByMAC s1 = edgesByMAC s" "netAllocator s1 = netAllocator s"
  shows "\<exists>s'. onEdgeUnregistered env h mac s1 = (Ok (), s') \<and> sn_indexed s' \<and> sn_unique s' \<and> netAllocator s' = netAllocator s"
proof -
  obtain a where a: "gget (edgesByMAC s1) mac = Some a"
    using assms(1,3,5) by (auto simp: sn_indexed_def gkeys_iff)
  obtain s' where s': "onEdgeUnregistered env h mac s1 = (Ok (), s')" "sn_core s' = sn_core (drop_indexes mac (edge_of s1 a) s1)"
    using onEdgeUnregistered_known [OF a] by blast
  have e: "edges_at s' k = (if k = h then edges_at s k - {mac} else edges_at s k)" for k
    using edges_at_core [of s' "snd (Unregister env h mac s)"] s'(2) assms(4) edges_at_Unregister [of env h mac s k]
    by (simp add: sn_core_eq drop_indexes_def)
  have "gkeys (edgesByMAC s') = gkeys (edgesByMAC s) - {mac}" "netAllocator s' = netAllocator s"
    using s'(2) assms(5,6) by (simp_all add: sn_core_eq drop_indexes_def)
  then have "sn_indexed s'" "netAllocator s' = netAllocator s" "sn_unique s'"
    using assms(1-3) e by (auto simp: sn_indexed_def sn_unique_def split: if_splits)
  then show ?thesis using s' by blast
qed

lemma Unregister_frame:
  "edgesByMAC (snd (Unregister env h mac s)) = edgesByMAC s" "netAllocator (snd (Unregister env h mac s)) = netAllocator s"
  by (auto simp: Unregister_def SetEdgeCachedInfo_def put_community_def split: option.splits)

lemma Unregister_unknown: "mac \<notin> edges_at s h \<Longrightarrow> Unregister env h mac s = (False, s)"
  by (auto simp: Unregister_def edges_at_def gkeys_iff split: option.splits)

lemma cleanup_loop_no_panic:
  "sn_indexed s \<Longrightarrow> sn_unique s \<Longrightarrow>
     \<exists>s'. cleanup_loop env ids s = (Ok (), s') \<and> sn_indexed s' \<and> sn_unique s' \<and> netAllocator s' = netAllocator s"
proof (induction ids arbitrary: s)
  case (Cons i ids)
  obtain h mac where i: "i = (h, mac)" by fastforce
  show ?case
  proof (cases "mac \<in> edges_at s h")
    case True
    obtain b s1 where u: "Unregister env h mac s = (b, s1)" by fastforce
    then have b using Unregister_known [of env h mac s] True by simp
    let ?s1 = "s1\<lparr>snStats := (snStats s1)\<lparr>stEdgesUnregistered := stEdgesUnregistered (snStats s1) + 1\<rparr>\<rparr>"
    obtain s2 where "onEdgeUnregistered env h mac ?s1 = (Ok (), s2)"
        "sn_indexed s2" "sn_unique s2" "netAllocator s2 = netAllocator s"
      using unregister_one [OF Cons.prems True, of ?s1 env] Unregister_frame [of env h mac s] u by auto
    then show ?thesis using Cons.IH [of s2] i u \<open>b\<close> by simp
  qed (use Cons i in \<open>simp add: Unregister_unknown\<close>)
qed simp

lemma CleanupStaleEdges_no_panic:
  assumes "sn_indexed s" "sn_unique s"
  shows "\<exists>s'. CleanupStaleEdges env x s = (Ok (), s') \<and> sn_indexed s' \<and> netAllocator s' = netAllocator s"
proof -
  obtain s1 where "cleanup_loop env (stale_ids env x s) s = (Ok (), s1)" "sn_indexed s1" "netAllocator s1 = netAllocator s"
    using cleanup_loop_no_panic [OF assms] by blast
  then show ?thesis
    using sn_indexed_core [of "s1\<lparr>snStats := t\<rparr>" s1 for t] by (simp add: CleanupStaleEdges_def)
qed

lemma sn_indexed_handleUnregister:
  assumes "sn_indexed s" "sn_unique s"
  shows "sn_indexed (snd (handleUnregisterMessage env r s)) \<and> netAllocator (snd (handleUnregisterMessage env r s)) = netAllocator s"
proof -
  have "sn_indexed (snd (UnregisterEdge env r s)) \<and> netAllocator (snd (UnregisterEdge env r s)) = netAllocator s"
  proof (cases "EdgeMACAddr r \<in> edges_at s (CommunityHash r)")
    case True
    obtain b s1 where u: "Unregister env (CommunityHash r) (EdgeMACAddr r) s = (b, s1)" by fastforce
    then have "b" using Unregister_known [of env "CommunityHash r" "EdgeMACAddr r" s] True by simp
    obtain s2 where "onEdgeUnregistered env (CommunityHash r) (EdgeMACAddr r) s1 = (Ok (), s2)"
        "sn_indexed s2" "netAllocator s2 = netAllocator s"
      using unregister_one [OF assms True, of s1 env] Unregister_frame [of env "CommunityHash r" "EdgeMACAddr r" s] u by auto
    then show ?thesis using u \<open>b\<close> assms(1) by (cases "GetCommunity r s") (simp_all add: UnregisterEdge_def)
  next
    case False
    then show ?thesis using assms(1)
      by (cases "GetCommunity r s") (simp_all add: UnregisterEdge_def Unregister_unknown)
  qed
  then show ?thesis
    using assms(1) unfolding handleUnregisterMessage_def
    by (intro on_ok_inv [where P = "\<lambda>s'. sn_indexed s' \<and> netAllocator s' = netAllocator s"]) auto
qed

text \<open>Both conditions are kept by every event, as long as no address is shared.\<close>

definition sn_sound :: "NetworkAllocator \<Rightarrow> Supernode \<Rightarrow> bool" where
  "sn_sound al s \<longleftrightarrow> sn_wf s \<and> sn_indexed s \<and> netAllocator s = al"

lemma sn_sound_idx: "idx s' = idx s \<Longrightarrow> sn_wf s' \<Longrightarrow> sn_sound al s \<Longrightarrow> sn_sound al s'"
  using sn_indexed_idx [of s' s] by (simp add: sn_sound_def idx_eq)

lemma sn_indexed_Handle:
  assumes "sn_wf s" "sn_indexed s" "sn_unique s" "NewRawMessage packet addr = Ok r"
  shows "sn_indexed (snd (Handle (SnMessageHandlers env) d r s)) \<and>
    netAllocator (snd (Handle (SnMessageHandlers env) d r s)) = netAllocator s \<or>
    Handle (SnMessageHandlers env) d r s = d (PacketType (rHeader r)) s"
proof -
  have i: "sn_indexed s' \<and> netAllocator s' = netAllocator s" if "idx s' = idx s" for s'
    using sn_indexed_idx [OF that] that assms(2) by (simp add: idx_eq)
  show ?thesis
    unfolding Handle_cases Let_def
    using sn_indexed_handleRegister [OF assms(1,2), of env r] sn_indexed_handleUnregister [OF assms(2,3), of env r]
      i [OF idx_handleHeartbeat] i [OF idx_handleP2PStateInfo] i [OF idx_queries(1)] i [OF idx_queries(2)]
      i [OF idx_queries(3)] i [OF idx_queries(4)] i [OF idx_handleDataPing(1)] i [OF idx_handleDataPing(2)]
      relayed_raw [OF assms(4)]
    by simp
qed

lemma sn_sound_ProcessPacket:
  assumes "sn_sound al s" "sn_unique s"
  shows "sn_sound al (snd (ProcessPacket env packet addr s))"
proof -
  let ?s = "count_processed s" and ?d = "\<lambda>pt s. (Fail (NoHandler pt), s)"
  have s: "sn_wf ?s" "sn_indexed ?s" "sn_unique ?s" "netAllocator ?s = al"
    using assms sn_indexed_idx [of ?s s] idx_sends(5) [of s, unfolded idx_eq]
    by (simp_all add: sn_sound_def sn_unique_def)
  have same: "sn_indexed s' \<and> netAllocator s' = al" if "idx s' = idx ?s" for s'
    using sn_indexed_idx [OF that] that [unfolded idx_eq] s(2,4) by simp
  have keep: "sn_indexed (snd (ProcessPacket env packet addr s)) \<and> netAllocator (snd (ProcessPacket env packet addr s)) = al"
  proof (cases "NewRawMessage packet addr")
    case (Inl e)
    have "idx (snd (forwardPacket env packet t ?s)) = idx ?s" for t by (rule idx_core) simp
    then have "idx (snd (handleVFuze env packet addr ?s)) = idx ?s"
      by (simp add: handleVFuze_def split: sum.splits fault.splits option.splits)
    then show ?thesis
      using Inl same [of ?s] same [of "snd (handleVFuze env packet addr ?s)"]
      by (cases "packet = []") (auto simp: ProcessPacket_def Let_def go_index_def split: fault.splits)
  next
    case (Inr r)
    obtain x s1 where h: "Handle (SnMessageHandlers env) ?d r ?s = (x, s1)" by fastforce
    have i: "sn_indexed s1" "netAllocator s1 = al"
      using sn_indexed_Handle [OF s(1-3) Inr, of env ?d] h s by auto
    have r: "idx (snd (retry_register env addr e s1)) = idx s1" for e by (rule idx_core) simp
    have "packet \<noteq> []" "packet ! 0 \<noteq> VersionVFuze"
      using relayed_raw [OF Inr] by (simp_all add: VersionV_def VersionVFuze_def)
    then show ?thesis
      using Inr h i r sn_indexed_idx [OF r] by (auto simp: ProcessPacket_def Let_def go_index_def idx_eq split: sum.splits fault.splits)
  qed
  then show ?thesis using assms(1) sn_wf_ProcessPacket [of s] by (simp add: sn_sound_def)
qed

lemma sn_sound_step:
  assumes "sn_sound al s" "sn_unique s"
  shows "sn_sound al (sn_step ev s)"
proof (cases ev)
  case (EvCleanup env)
  obtain s' where "CleanupStaleEdges env (cfExpiryDuration (snConfig s)) s = (Ok (), s')" "sn_indexed s'" "netAllocator s' = al"
    using CleanupStaleEdges_no_panic [of s] assms by (auto simp: sn_sound_def)
  then show ?thesis
    using EvCleanup sn.inv_step [of s ev] assms(1) by (simp add: sn_sound_def sn_step_def)
next
  case (EvPacket env packet addr)
  then show ?thesis using sn_sound_ProcessPacket [OF assms] by (simp add: sn_step_def)
qed (use assms(1) in \<open>simp_all add: sn_step_def sn_sound_def wss_open_def wss_close_def sn_wf_def sn_indexed_def edges_at_def\<close>)

lemma sn_sound_run:
  assumes "sn_sound al s" "\<forall>n. sn_unique (fold sn_step (take n evs) s)"
  shows "sn_sound al (fold sn_step (take n evs) s)"
  using assms
proof (induction evs arbitrary: s n)
  case (Cons ev evs)
  have u: "sn_unique s" using Cons.prems(2) [rule_format, of 0] by simp
  have "\<forall>n. sn_unique (fold sn_step (take n evs) (sn_step ev s))"
  proof
    show "sn_unique (fold sn_step (take n evs) (sn_step ev s))" for n
      using Cons.prems(2) [rule_format, of "Suc n"] by simp
  qed
  then show ?case using Cons.IH [OF sn_sound_step [OF Cons.prems(1) u]] Cons.prems(1) by (cases n) simp_all
qed simp

text \<open>C5. Started with a usable subnet configuration, the supernode handles any sequence of
  events without a panic as long as no datagram is empty and at no moment two communities hold
  the same hardware address.\<close>

theorem supernode_does_not_panic:
  fixes evs :: "sn_event list" and config :: Config and pem :: bytes
  defines "at \<equiv> \<lambda>n. fold sn_step (take n evs) (NewSupernodeWithConfig config pem)"
  assumes "alloc_ok (netAllocator (NewSupernodeWithConfig config pem))"
    and "\<forall>env addr. EvPacket env [] addr \<notin> set evs" "\<forall>n. sn_unique (at n)" "n < length evs"
  shows "\<not> panics (fst (sn_run (evs ! n) (at n)))"
proof -
  have "sn_sound (netAllocator (NewSupernodeWithConfig config pem)) (NewSupernodeWithConfig config pem)"
    by (simp add: sn_sound_def sn_wf_NewSupernode) (simp add: sn_indexed_def edges_at_def NewSupernodeWithConfig_def)
  then have s: "sn_wf (at n)" "sn_indexed (at n)" "alloc_ok (netAllocator (at n))"
    using sn_sound_run [of _ "NewSupernodeWithConfig config pem" evs n] assms(2,4) by (simp_all add: at_def sn_sound_def)
  have e: "evs ! n \<in> set evs" using assms(5) by simp
  show ?thesis
  proof (cases "evs ! n")
    case (EvPacket env packet addr)
    then have "packet \<noteq> []" using e assms(3) by auto
    then show ?thesis using EvPacket ProcessPacket_panics_iff [OF s(3,2)] by simp
  next
    case (EvCleanup env)
    obtain s' where "CleanupStaleEdges env (cfExpiryDuration (snConfig (at n))) (at n) = (Ok (), s')"
      using CleanupStaleEdges_no_panic [OF s(2)] assms(4) by blast
    then show ?thesis using EvCleanup by simp
  qed simp_all
qed

text \<open>An environment without a protobuf library, in which every write succeeds.\<close>

definition quiet_env :: "int \<Rightarrow> sn_env" where
  "quiet_env now =
     \<lparr>enNow = now, enDecrypt = Some, enMarshal = (\<lambda>_. None), enUnmarshal = (\<lambda>_ _. None), enPoolOk = (\<lambda>_. True),
      enRequestIP = (\<lambda>_ _. None), enLeases = (\<lambda>_. []), enUDPWrite = (\<lambda>_ _. True), enWSSWrite = (\<lambda>_ _. True)\<rparr>"

lemma default_alloc_ok: "alloc_ok (netAllocator (NewSupernodeWithConfig DefaultConfig pem))"
proof -
  have "alloc_ok (NewNetworkAllocator (ip_or_nil (ParseIP ''10.128.0.0'')) (CIDRMask 24))"
    unfolding alloc_ok_def by code_simp
  then show ?thesis by (simp add: NewSupernodeWithConfig_def DefaultConfig_def)
qed

lemma sn_unique_no_community: "communities s = [] \<Longrightarrow> sn_unique s"
  by (simp add: sn_unique_def edges_at_def)

lemma short_datagram_step: "sn_step (EvPacket env [0] addr) s = count_processed s"
  by (simp add: sn_step_def ProcessPacket_def Let_def go_index_def NewRawMessage_def UnpackProtoVDatagram_def
      VersionVFuze_def ProtoVHeaderSize_def)

theorem supernode_does_not_panic_witness:
  "\<not> panics (fst (sn_run ([EvPacket (quiet_env 0) [0] (WSSAddr ''c''), EvCleanup (quiet_env 5)] ! 1)
     (fold sn_step (take 1 [EvPacket (quiet_env 0) [0] (WSSAddr ''c''), EvCleanup (quiet_env 5)])
       (NewSupernodeWithConfig DefaultConfig []))))"
proof (rule supernode_does_not_panic)
  let ?s0 = "NewSupernodeWithConfig DefaultConfig []"
  let ?evs = "[EvPacket (quiet_env 0) [0] (WSSAddr ''c''), EvCleanup (quiet_env 5)]"
  have c: "communities (count_processed ?s0) = []" by (simp add: count_processed_def NewSupernodeWithConfig_def)
  then have "communities (sn_step (EvCleanup (quiet_env 5)) (count_processed ?s0)) = []"
    by (simp add: sn_step_def CleanupStaleEdges_def stale_ids_def st_then_def)
  then have "communities (fold sn_step (take n ?evs) ?s0) = []" for n
  proof -
    consider "n = 0" | "n = 1" | m where "n = Suc (Suc m)" by (metis One_nat_def not0_implies_Suc)
    then show ?thesis
      using c \<open>communities (sn_step _ _) = []\<close> by cases (simp_all add: short_datagram_step)
  qed
  then show "\<forall>n. sn_unique (fold sn_step (take n ?evs) ?s0)" by (blast intro: sn_unique_no_community)
qed (simp_all add: default_alloc_ok)

section \<open>Cleanup\<close>


lemma demo_edges_at: "edges_at demo_sn h = (if h = HashCommunity ''n2n''
    then {mac_string [2, 0, 0, 0, 0, 1], mac_string [2, 0, 0, 0, 0, 2]} else {})"
  by (auto simp: edges_at_def demo_sn_def demo_community_def gget_def gkeys_def)

lemma demo_sound: "sn_wf demo_sn" "sn_indexed demo_sn" "sn_unique demo_sn"
proof -
  show "sn_indexed demo_sn"
    by (auto simp: sn_indexed_def demo_edges_at split: if_splits) (simp_all add: demo_sn_def gkeys_def)
  show "sn_unique demo_sn" by (auto simp: sn_unique_def demo_edges_at split: if_splits)
  have "hex2 1 \<noteq> hex2 2" by code_simp
  then show "sn_wf demo_sn"
    by (auto simp: sn_wf_def demo_sn_def community_wf_def demo_community_def demo_edge_def gget_def gwf_def mac_string_inject
        split: if_splits)
qed


section \<open>Inputs that stop the process\<close>


text \<open>C13. Two communities that hold the same hardware address share one entry of the index. When
  the edge of the one has been unregistered, which succeeds, unregistering the edge of the other
  dereferences a nil pointer.\<close>

theorem shared_address_stops_the_supernode:
  fixes env1 env2 :: sn_env and r1 r2 :: RawMessage
  assumes "EdgeMACAddr r1 = EdgeMACAddr r2" "CommunityHash r1 \<noteq> CommunityHash r2" "sn_indexed s"
    and "EdgeMACAddr r1 \<in> edges_at s (CommunityHash r1)" "EdgeMACAddr r2 \<in> edges_at s (CommunityHash r2)"
  shows "fst (UnregisterEdge env1 r1 s) = Ok () \<and> panics (fst (UnregisterEdge env2 r2 (snd (UnregisterEdge env1 r1 s))))"
proof -
  let ?m = "EdgeMACAddr r1" and ?h = "CommunityHash r1"
  obtain b s1 where u: "Unregister env1 ?h ?m s = (b, s1)" by fastforce
  then have b using Unregister_known [of env1 ?h ?m s] assms(4) by simp
  obtain a where a: "gget (edgesByMAC s1) ?m = Some a"
    using assms(3,4) Unregister_frame(1) [of env1 ?h ?m s] u by (auto simp: sn_indexed_def gkeys_iff)
  obtain s2 where s2: "onEdgeUnregistered env1 ?h ?m s1 = (Ok (), s2)" "sn_core s2 = sn_core (drop_indexes ?m (edge_of s1 a) s1)"
    using onEdgeUnregistered_known [OF a] by blast
  have "\<exists>c. GetCommunity r1 s = Ok c"
    using assms(4) by (auto simp: GetCommunity_Ok edges_at_def gkeys_iff split: option.splits)
  then have w: "UnregisterEdge env1 r1 s = (Ok (), s2)" using u \<open>b\<close> s2(1) by (auto simp: UnregisterEdge_def)
  have "?m \<notin> gkeys (edgesByMAC s2)" using s2(2) by (simp add: sn_core_eq drop_indexes_def)
  moreover have "?m \<in> edges_at s2 (CommunityHash r2)"
    using edges_at_UnregisterEdge [of env1 r1 s "CommunityHash r2"] w assms(1,2,5) by simp
  ultimately show ?thesis using w assms(1) by (simp add: UnregisterEdge_panics_iff)
qed

definition shared_sn :: Supernode where
  "shared_sn = demo_sn\<lparr>communities :=
     [(HashCommunity ''n2n'', demo_community), (HashCommunity ''lab'', demo_community\<lparr>cName := ''lab''\<rparr>)]\<rparr>"

definition shared_raw :: RawMessage where
  "shared_raw = (demo_raw TypeUnregisterRequest)\<lparr>rHeader := (demo_header TypeUnregisterRequest)\<lparr>CommunityID := HashCommunity ''lab''\<rparr>\<rparr>"

lemma shared_raw_fields [simp]:
  "CommunityHash shared_raw = HashCommunity ''lab''" "EdgeMACAddr shared_raw = mac_string [2, 0, 0, 0, 0, 1]"
  by (simp_all add: shared_raw_def demo_header_def CommunityHash_def EdgeMACAddr_def GetSrcMACAddr_def bytesToMAC_def arr6_zero_def)

lemma shared_edges_at:
  "edges_at shared_sn h = (if h = HashCommunity ''n2n'' \<or> h = HashCommunity ''lab''
     then {mac_string [2, 0, 0, 0, 0, 1], mac_string [2, 0, 0, 0, 0, 2]} else {})"
  by (auto simp: edges_at_def shared_sn_def demo_community_def gget_def gkeys_def)

theorem shared_address_stops_the_supernode_witness:
  "fst (UnregisterEdge demo_env (demo_raw TypeUnregisterRequest) shared_sn) = Ok () \<and>
   panics (fst (UnregisterEdge demo_env shared_raw (snd (UnregisterEdge demo_env (demo_raw TypeUnregisterRequest) shared_sn))))"
proof (rule shared_address_stops_the_supernode)
  have "HashCommunity ''n2n'' \<noteq> HashCommunity ''lab''" by code_simp
  then show "CommunityHash (demo_raw TypeUnregisterRequest) \<noteq> CommunityHash shared_raw" by simp
  show "sn_indexed shared_sn"
    by (auto simp: sn_indexed_def shared_edges_at split: if_splits) (simp_all add: shared_sn_def demo_sn_def gkeys_def)
qed (simp_all add: shared_edges_at)

end
