(* ===== verification/Supernode_Session.thy ===== *)
theory Supernode_Session
  imports Supernode_Crash
begin

text \<open>
  The life of an edge at the supernode: a valid registration succeeds and files the edge, a
  heartbeat with the right machine id keeps it alive, one with a wrong machine id changes
  nothing.
\<close>

section \<open>Heartbeats\<close>

lemma handleHeartbeat_wrong:
  assumes "decode_msg (enUnmarshal env) TypeHeartbeat as_HeartbeatPulse r = Ok msg" "GetCommunity r s = Ok c"
    and "gget (cEdges c) (EdgeMACAddr r) = Some a" "enDecrypt env (hbEncryptedMachineId msg) = Some mid"
    and "mid \<noteq> eMachineID (edge_of s a)"
  shows "handleHeartbeatMessage env r s = (Fail WrongMachineID, count_heartbeat s)"
  using assms by (simp add: handleHeartbeatMessage_def DecryptMachineID_def RefreshEdge_def st_then_def Let_def
      count_heartbeat_def edge_of_def)

lemma RefreshEdge_right:
  assumes "gget (cEdges c) (EdgeMACAddr r) = Some a" "a < length (snHeap s)"
  shows "\<exists>b s'. RefreshEdge env c r (eMachineID (edge_of s a)) s = (Ok b, s') \<and> communities s' = communities s \<and>
    length (snHeap s') = length (snHeap s) \<and> eLastHeartbeat (edge_of s' a) = enNow env \<and>
    (\<forall>k. k \<noteq> a \<longrightarrow> edge_of s' k = edge_of s k)"
  using assms by (simp add: RefreshEdge_def Let_def edge_of_def)

lemma st_ignore_BroadcastStruct:
  "\<exists>s'. st_ignore (BroadcastStruct env p c None sender) s = (Ok (), s') \<and> sn_core s' = sn_core s"
  using BroadcastStruct_no_panic [of env p c sender s] sn_core_BroadcastStruct [of env p c sender s]
  by (cases "BroadcastStruct env p c None sender s"; cases "fst (BroadcastStruct env p c None sender s)")
     (auto simp: st_ignore_def panics_Inl split: fault.splits)

lemma handleHeartbeat_right:
  assumes "decode_msg (enUnmarshal env) TypeHeartbeat as_HeartbeatPulse r = Ok msg" "GetCommunity r s = Ok c"
    and "gget (cEdges c) (EdgeMACAddr r) = Some a" "enDecrypt env (hbEncryptedMachineId msg) = Some (eMachineID (edge_of s a))"
    and "a < length (snHeap s)"
  shows "\<exists>s'. handleHeartbeatMessage env r s = (Ok (), s') \<and> communities s' = communities s \<and>
    length (snHeap s') = length (snHeap s) \<and> eLastHeartbeat (edge_of s' a) = enNow env \<and>
    (\<forall>k. k \<noteq> a \<longrightarrow> edge_of s' k = edge_of s k)"
proof -
  let ?s = "count_heartbeat s"
  have e: "edge_of ?s = edge_of s" "communities ?s = communities s" "snHeap ?s = snHeap s"
    by (simp_all add: count_heartbeat_def edge_of_def fun_eq_iff)
  obtain b s1 where s1: "RefreshEdge env c r (eMachineID (edge_of s a)) ?s = (Ok b, s1)" "communities s1 = communities s"
      "length (snHeap s1) = length (snHeap s)" "eLastHeartbeat (edge_of s1 a) = enNow env" "\<forall>k. k \<noteq> a \<longrightarrow> edge_of s1 k = edge_of s k"
    using RefreshEdge_right [of c r a ?s env] assms(3,5) e by auto
  have g: "GetEdge c (EdgeMACAddr r) s1 = Some (edge_of s1 a)" using assms(3) by (simp add: GetEdge_def)
  obtain s2 where s2: "st_ignore (BroadcastStruct env (MPeerInfoList (newPeerInfoEvent TypeRegister (edge_of s1 a))) c None (EdgeMACAddr r)) s1
      = (Ok (), s2)" "sn_core s2 = sn_core s1" using st_ignore_BroadcastStruct by blast
  have "handleHeartbeatMessage env r s = (Ok (), if b then s2 else s1)"
    using assms s1(1) g s2(1) by (simp add: handleHeartbeatMessage_def DecryptMachineID_def)
  then show ?thesis using s1 s2(2) by (auto simp: sn_core_eq edge_of_def)
qed

text \<open>A heartbeat whose decrypted machine id is not the one the edge registered with is
  refused and counted, and changes nothing else: nobody can keep another edge alive or move its
  address without its machine id.\<close>

theorem heartbeat_needs_the_machine_id:
  assumes "decode_msg (enUnmarshal env) TypeHeartbeat as_HeartbeatPulse r = Ok msg" "GetCommunity r s = Ok c"
    and "gget (cEdges c) (EdgeMACAddr r) = Some a" "enDecrypt env (hbEncryptedMachineId msg) = Some mid"
    and "mid \<noteq> eMachineID (edge_of s a)"
  shows "handleHeartbeatMessage env r s = (Fail WrongMachineID, count_heartbeat s)"
  by (rule handleHeartbeat_wrong [OF assms])

lemma demo_heartbeat:
  "decode_msg (enUnmarshal demo_env) TypeHeartbeat as_HeartbeatPulse (demo_raw TypeHeartbeat) =
     Ok \<lparr>hbEdgeMacAddr = [], hbCommunityName = ''n2n'', hbEncryptedMachineId = [7], hbClearMachineId = []\<rparr>"
  unfolding decode_msg_Ok by (simp add: demo_env_def) (simp add: demo_raw_def)

lemma demo_lookup: "gget (cEdges demo_community) (mac_string [2, 0, 0, 0, 0, 1]) = Some 0" "edge_of demo_sn 0 = demo_edge 1"
  by (simp_all add: demo_community_def gget_def demo_sn_def edge_of_def)

theorem heartbeat_needs_the_machine_id_witness:
  "handleHeartbeatMessage demo_env (demo_raw TypeHeartbeat) demo_sn = (Fail WrongMachineID, count_heartbeat demo_sn)"
  by (rule heartbeat_needs_the_machine_id [OF demo_heartbeat demo_GetCommunity, where a = 0 and mid = "[7]"])
     (simp_all only: demo_raw_fields demo_lookup, simp_all add: demo_env_def demo_edge_def)

text \<open>C9. An edge that proves its machine id in a heartbeat stays a member through any cleanup
  that runs no later than the expiry time after it: the heartbeat is accepted, and the cleanup
  does not remove the edge.\<close>

theorem heartbeat_keeps_the_edge_alive:
  assumes "sn_wf s" "decode_msg (enUnmarshal env) TypeHeartbeat as_HeartbeatPulse r = Ok msg" "GetCommunity r s = Ok c"
    and "gget (cEdges c) (EdgeMACAddr r) = Some a" "enDecrypt env (hbEncryptedMachineId msg) = Some (eMachineID (edge_of s a))"
    and "time_sub (enNow env') (enNow env) \<le> x"
  shows "\<exists>s'. handleHeartbeatMessage env r s = (Ok (), s') \<and>
    EdgeMACAddr r \<in> edges_at (snd (CleanupStaleEdges env' x s')) (CommunityHash r)"
proof -
  have c: "gget (communities s) (CommunityHash r) = Some c" using assms(3) by (simp add: GetCommunity_Ok)
  have a: "a < length (snHeap s)" using sn_wf_edge [OF assms(1) c assms(4)] by simp
  obtain s' where s': "handleHeartbeatMessage env r s = (Ok (), s')" "communities s' = communities s"
      "eLastHeartbeat (edge_of s' a) = enNow env"
    using handleHeartbeat_right [OF assms(2-5) a] by auto
  have wf: "sn_wf s'" using sn_wf_handleHeartbeat [OF assms(1), of env r] s'(1) by simp
  have "EdgeMACAddr r \<in> edges_at s' (CommunityHash r)" "\<not> stale env' x s' (CommunityHash r) (EdgeMACAddr r)"
    using c assms(4,6) s'(2,3) by (auto simp: edges_at_def gkeys_iff stale_def)
  then show ?thesis using edges_at_CleanupStaleEdges(1) [OF wf, of "CommunityHash r" env' x] s'(1) by auto
qed

definition trusting_env :: sn_env where
  "trusting_env = demo_env\<lparr>enDecrypt := (\<lambda>_. Some [1])\<rparr>"

theorem heartbeat_keeps_the_edge_alive_witness:
  "\<exists>s'. handleHeartbeatMessage trusting_env (demo_raw TypeHeartbeat) demo_sn = (Ok (), s') \<and>
    EdgeMACAddr (demo_raw TypeHeartbeat) \<in> edges_at (snd (CleanupStaleEdges demo_env 600000000000 s')) (CommunityHash (demo_raw TypeHeartbeat))"
proof (rule heartbeat_keeps_the_edge_alive [OF demo_sound(1) _ demo_GetCommunity, where a = 0])
  show "decode_msg (enUnmarshal trusting_env) TypeHeartbeat as_HeartbeatPulse (demo_raw TypeHeartbeat) =
     Ok \<lparr>hbEdgeMacAddr = [], hbCommunityName = ''n2n'', hbEncryptedMachineId = [7], hbClearMachineId = []\<rparr>"
    using demo_heartbeat by (simp add: trusting_env_def)
  show "gget (cEdges demo_community) (EdgeMACAddr (demo_raw TypeHeartbeat)) = Some 0"
    by (simp only: demo_raw_fields demo_lookup)
qed (simp_all add: trusting_env_def demo_lookup demo_edge_def demo_env_def time_sub_def
    max_duration_def min_duration_def)

section \<open>Registration\<close>

lemma owns_mac_Validate:
  "owns_mac env community enc mac \<Longrightarrow>
     \<exists>mid. enDecrypt env enc = Some mid \<and> ValidateEdgeClaimedMACAddr env mac enc community = Ok mid"
  by (auto simp: ValidateEdgeClaimedMACAddr_def DecryptMachineID_def owns_mac_def split: option.splits)

text \<open>The address an edge gets: the one it has, or else a fresh one of the pool.\<close>

definition vip_for :: "sn_env \<Rightarrow> Community \<Rightarrow> string \<Rightarrow> Supernode \<Rightarrow> ip_addr option" where
  "vip_for env c mac s =
     (case gget (cEdges c) mac of
        Some a \<Rightarrow> Some (eVirtualIP (edge_of s a))
      | None \<Rightarrow> Option.bind (enRequestIP env (pool_cidr (cSubnet c)) mac) (\<lambda>ip. ParseAddr (ip_string ip)))"

text \<open>Its mask, likewise.\<close>

definition mask_for :: "Community \<Rightarrow> string \<Rightarrow> Supernode \<Rightarrow> nat" where
  "mask_for c mac s = (case gget (cEdges c) mac of Some a \<Rightarrow> eVNetMaskLen (edge_of s a) | None \<Rightarrow> cMaskLen c)"

lemma touch_edge_mask [simp]: "eVNetMaskLen (touch_edge env r e) = eVNetMaskLen e"
  by (simp add: touch_edge_def Let_def split: option.splits)

lemma EdgeUpdate_succeeds:
  assumes "sn_wf s" "gget (communities s) h = Some c" "vip_for env c (EdgeMACAddr r) s = Some vip"
  shows "\<exists>a s'. EdgeUpdate env h c r msg s = (Ok a, s') \<and> eVirtualIP (edge_of s' a) = vip \<and>
    eLastHeartbeat (edge_of s' a) = enNow env \<and> eVNetMaskLen (edge_of s' a) = mask_for c (EdgeMACAddr r) s"
proof (cases "gget (cEdges c) (EdgeMACAddr r)")
  case None
  then show ?thesis
    using assms(3) by (auto simp: EdgeUpdate_def vip_for_def mask_for_def Let_def bind_eq_Some_conv edge_of_def new_edge_def)
next
  case (Some a)
  then show ?thesis
    using assms(3) sn_wf_edge [OF assms(1,2) Some] by (auto simp: EdgeUpdate_def vip_for_def mask_for_def Let_def edge_of_def)
qed

lemma RegisterEdge_succeeds:
  assumes "sn_wf s" "owns_mac env (rqCommunityName msg) (rqEncryptedMachineId msg) (EdgeMACAddr r)"
    and "CommunityHash r = HashCommunity (rqCommunityName msg)" "gget (communities s) (CommunityHash r) = Some c"
    and "cName c = rqCommunityName msg" "vip_for env c (EdgeMACAddr r) s = Some vip"
  obtains a s' where "RegisterEdge env r msg s = (Ok (a, cName c), s')" "eVirtualIP (edge_of s' a) = vip"
    "eLastHeartbeat (edge_of s' a) = enNow env" "eVNetMaskLen (edge_of s' a) = mask_for c (EdgeMACAddr r) s"
    "snOut s' = snOut s" "wssConnections s' = wssConnections s"
proof -
  obtain mid where v: "ValidateEdgeClaimedMACAddr env (EdgeMACAddr r) (rqEncryptedMachineId msg) (rqCommunityName msg) = Ok mid"
    using owns_mac_Validate [OF assms(2)] by blast
  obtain a s1 where u: "EdgeUpdate env (CommunityHash r) c r (msg\<lparr>rqClearMachineId := mid\<rparr>) s = (Ok a, s1)"
      "eVirtualIP (edge_of s1 a) = vip" "eLastHeartbeat (edge_of s1 a) = enNow env" "eVNetMaskLen (edge_of s1 a) = mask_for c (EdgeMACAddr r) s"
    using EdgeUpdate_succeeds [OF assms(1,4,6)] by blast
  define s2 where "s2 = s1\<lparr>snStats := (snStats s1)\<lparr>stEdgesRegistered := stEdgesRegistered (snStats s1) + 1\<rparr>\<rparr>"
  have "RegisterEdge env r msg s = (Ok (a, cName c), s2)"
    using v u(1) assms(3-5) by (simp add: RegisterEdge_def RegisterCommunity_def st_then_def s2_def)
  then show thesis
    using that u(2-4) EdgeUpdate_Ok [OF u(1) assms(1,4)] by (auto simp: s2_def edge_of_def)
qed

lemma handleRegister_member:
  assumes "sn_wf s" "decode_msg (enUnmarshal env) TypeRegisterRequest as_RegisterRequest r = Ok msg"
    and "RegisterEdge env r msg s = (Ok (a, n), s2)"
  shows "let s' = snd (handleRegisterMessage env r s) in
    EdgeMACAddr r \<in> edges_at s' (CommunityHash r) \<and> gget (edgesByMAC s') (EdgeMACAddr r) = Some a \<and>
    edge_of s' a = edge_of (set_wss_conn (rFromAddr r) a s2) a"
proof -
  note reg = RegisterEdge_registered [OF assms(3,1)]
  let ?s3 = "index_edge a (set_wss_conn (rFromAddr r) a s2)" and ?s' = "snd (handleRegisterMessage env r s)"
  have core: "sn_core ?s' = sn_core ?s3" using handleRegister_Ok [of env r msg s a n s2] assms(2,3) by simp
  have "EdgeMACAddr r \<in> edges_at ?s' (CommunityHash r)"
    using edges_at_sn_core [OF core] edges_at_core [of ?s3 s2] RegisterEdge_edges_at [OF assms(1,3), of "CommunityHash r"]
    by simp
  moreover have "gget (edgesByMAC ?s') (EdgeMACAddr r) = Some a" using core reg by (simp add: sn_core_eq)
  moreover have "edge_of ?s' a = edge_of (set_wss_conn (rFromAddr r) a s2) a" using core by (simp add: sn_core_eq edge_of_def)
  ultimately show ?thesis by (simp add: Let_def)
qed

text \<open>C10. A registration that proves the claimed hardware address, for a community that is known
  under its own hash and for which an address is available, succeeds: afterwards the edge is a
  member, it is indexed under its hardware address, its heartbeat is fresh, and it has the
  virtual address it had before or, if it is new, the one the pool proposed.\<close>

theorem valid_registration_succeeds:
  assumes "sn_wf s" "decode_msg (enUnmarshal env) TypeRegisterRequest as_RegisterRequest r = Ok msg"
    and "owns_mac env (rqCommunityName msg) (rqEncryptedMachineId msg) (EdgeMACAddr r)"
    and "CommunityHash r = HashCommunity (rqCommunityName msg)" "gget (communities s) (CommunityHash r) = Some c"
    and "cName c = rqCommunityName msg" "vip_for env c (EdgeMACAddr r) s = Some vip"
  shows "\<exists>a. let s' = snd (handleRegisterMessage env r s) in
    EdgeMACAddr r \<in> edges_at s' (CommunityHash r) \<and> gget (edgesByMAC s') (EdgeMACAddr r) = Some a \<and>
    eVirtualIP (edge_of s' a) = vip \<and> eLastHeartbeat (edge_of s' a) = enNow env"
proof -
  obtain a s2 where e: "RegisterEdge env r msg s = (Ok (a, cName c), s2)" "eVirtualIP (edge_of s2 a) = vip"
      "eLastHeartbeat (edge_of s2 a) = enNow env"
    by (rule RegisterEdge_succeeds [OF assms(1,3-7)])
  have "eVirtualIP (edge_of (set_wss_conn addr a s2) a) = vip \<and> eLastHeartbeat (edge_of (set_wss_conn addr a s2) a) = enNow env" for addr
    using e(2,3) RegisterEdge_registered [OF e(1) assms(1)] by (auto simp: set_wss_conn_def edge_of_def split: net_addr.splits)
  then show ?thesis using handleRegister_member [OF assms(1,2) e(1)] by (auto simp: Let_def)
qed

text \<open>An edge of the demo network whose address its machine id generates.\<close>

definition reg_mac :: hwaddr where
  "reg_mac = ExtGenerateMac ''n2n'' [5]"

definition reg_msg :: RegisterRequest where
  "reg_msg = \<lparr>rqEdgeMacAddr = [], rqEdgeDesc = ''new'', rqCommunityName = ''n2n'', rqEncryptedMachineId = [5], rqClearMachineId = []\<rparr>"

definition reg_env :: sn_env where
  "reg_env = demo_env\<lparr>enUnmarshal := (\<lambda>_ _. Some (MRegisterRequest reg_msg))\<rparr>"

definition reg_raw :: RawMessage where
  "reg_raw = (demo_raw TypeRegisterRequest)\<lparr>rHeader := (demo_header TypeRegisterRequest)\<lparr>SourceID := arr6_of reg_mac\<rparr>\<rparr>"

definition reg_sn :: Supernode where
  "reg_sn = (NewSupernodeWithConfig DefaultConfig [])
     \<lparr>communities := [(HashCommunity ''n2n'', demo_community\<lparr>cEdges := []\<rparr>)]\<rparr>"

lemma reg_raw_fields:
  "EdgeMACAddr reg_raw = mac_string reg_mac" "CommunityHash reg_raw = HashCommunity ''n2n''"
proof -
  have l: "length reg_mac = 6" and m: "reg_mac ! 0 AND 3 = 2"
    by (simp_all add: reg_mac_def ExtGenerateMac_def length_extGenerateMac extGenerateMac_first)
  have "reg_mac ! 0 \<noteq> 0" using m by auto
  then have "\<exists>b \<in> set reg_mac. b \<noteq> 0" using l nth_mem [of 0 reg_mac] by auto
  then have "bytesToMAC (arr6_of reg_mac) = Some reg_mac" using l by (auto simp: bytesToMAC_arr6_of)
  then show "EdgeMACAddr reg_raw = mac_string reg_mac"
    by (simp add: reg_raw_def EdgeMACAddr_def GetSrcMACAddr_def)
qed (simp add: reg_raw_def CommunityHash_def demo_header_def)

theorem valid_registration_succeeds_witness:
  "\<exists>a. let s' = snd (handleRegisterMessage reg_env reg_raw reg_sn) in
    EdgeMACAddr reg_raw \<in> edges_at s' (CommunityHash reg_raw) \<and> gget (edgesByMAC s') (EdgeMACAddr reg_raw) = Some a \<and>
    eVirtualIP (edge_of s' a) = [10, 128, 0, 3] \<and> eLastHeartbeat (edge_of s' a) = enNow reg_env"
proof (rule valid_registration_succeeds [where c = "demo_community\<lparr>cEdges := []\<rparr>" and msg = reg_msg])
  have "ParseAddr (ip_string [10, 128, 0, 3]) = Some [10, 128, 0, 3]" by code_simp
  then show "vip_for reg_env (demo_community\<lparr>cEdges := []\<rparr>) (EdgeMACAddr reg_raw) reg_sn = Some [10, 128, 0, 3]"
    by (simp add: vip_for_def reg_env_def demo_env_def)
  show "sn_wf reg_sn"
    by (simp add: reg_sn_def sn_wf_def community_wf_def demo_community_def NewSupernodeWithConfig_def gget_def gwf_def)
  show "owns_mac reg_env (rqCommunityName reg_msg) (rqEncryptedMachineId reg_msg) (EdgeMACAddr reg_raw)"
    by (simp add: owns_mac_def reg_env_def demo_env_def reg_msg_def reg_raw_fields reg_mac_def)
  show "decode_msg (enUnmarshal reg_env) TypeRegisterRequest as_RegisterRequest reg_raw = Ok reg_msg"
    unfolding decode_msg_Ok by (simp add: reg_env_def reg_raw_def)
qed (simp_all add: reg_raw_fields reg_msg_def reg_sn_def demo_community_def gget_def)

end
