(* ===== verification/Frame.thy ===== *)
theory Frame
  imports Netaddr
begin

text \<open>
  Ethernet frames (\<^verbatim>\<open>pkg/tuntap/frame.go\<close>, \<^verbatim>\<open>ethertype.go\<close>, \<^verbatim>\<open>arp.go\<close>): the unchecked fast
  readers, which panic on a short frame, the checked readers, the classification of hardware
  addresses, the builders, and the gratuitous ARP frame. The properties are that a checked
  reader never panics and returns what the fast one does, that a frame that is built is parsed
  back, and that the all-in-one parser agrees with the single readers.
\<close>

unbundle bit_operations_syntax

section \<open>Ethertypes and tags\<close>

record Ethertype =
  etHi :: byte
  etLo :: byte

definition Ethertype_Value :: "Ethertype \<Rightarrow> u16" where
  "Ethertype_Value e = push_bit 8 (ucast (etHi e)) OR ucast (etLo e)"

definition Ethertype_String :: "Ethertype \<Rightarrow> string" where
  "Ethertype_String e = ''0x'' @ hex2 (etHi e) @ hex2 (etLo e)"

definition EthertypeIPv4 :: Ethertype where "EthertypeIPv4 = \<lparr>etHi = 0x08, etLo = 0x00\<rparr>"
definition EthertypeIPv6 :: Ethertype where "EthertypeIPv6 = \<lparr>etHi = 0x86, etLo = 0xdd\<rparr>"
definition EthertypeARP :: Ethertype where "EthertypeARP = \<lparr>etHi = 0x08, etLo = 0x06\<rparr>"

definition no_ethertype :: Ethertype where "no_ethertype = \<lparr>etHi = 0, etLo = 0\<rparr>"

datatype Tagging = NotTagged | Tagged | DoubleTagged

text \<open>The value of the Go constant: the number of bytes the tags take.\<close>

fun tag_bytes :: "Tagging \<Rightarrow> nat" where
  "tag_bytes NotTagged = 0"
| "tag_bytes Tagged = 4"
| "tag_bytes DoubleTagged = 8"

definition MinFrameSize :: nat where "MinFrameSize = 14"
definition MinTaggedFrameSize :: nat where "MinTaggedFrameSize = 18"
definition MinDoubleTaggedSize :: nat where "MinDoubleTaggedSize = 22"

definition Dot1QTagType :: u16 where "Dot1QTagType = 0x8100"
definition Dot1AdTagType :: u16 where "Dot1AdTagType = 0x88a8"

lemmas frame_sizes = MinFrameSize_def MinTaggedFrameSize_def MinDoubleTaggedSize_def

definition BroadcastAddr :: hwaddr where
  "BroadcastAddr = [0xff, 0xff, 0xff, 0xff, 0xff, 0xff]"

datatype frame_error = ErrFrameTooShort | ErrNotTagged | ErrBufferTooSmall

section \<open>Fast readers\<close>

definition FastDestination :: "bytes \<Rightarrow> (frame_error, hwaddr) res" where
  "FastDestination f = go_slice 0 6 f"

definition FastSource :: "bytes \<Rightarrow> (frame_error, hwaddr) res" where
  "FastSource f = go_slice 6 12 f"

definition go_u16 :: "bytes \<Rightarrow> nat \<Rightarrow> (frame_error, u16) res" where
  "go_u16 f i = res_bind (go_index f i) (\<lambda>a. res_bind (go_index f (i + 1)) (\<lambda>b.
     Ok (push_bit 8 (ucast a) OR ucast b)))"

definition FastTaggingType :: "bytes \<Rightarrow> (frame_error, Tagging) res" where
  "FastTaggingType f =
     res_bind (go_u16 f 12) (\<lambda>typeField.
       if typeField = Dot1QTagType then
         (if length f \<ge> 18
          then res_bind (go_u16 f 16) (\<lambda>t. Ok (if t = Dot1QTagType then DoubleTagged else Tagged))
          else Ok Tagged)
       else if typeField = Dot1AdTagType then Ok DoubleTagged
       else Ok NotTagged)"

definition FastEthertype :: "bytes \<Rightarrow> Tagging \<Rightarrow> (frame_error, Ethertype) res" where
  "FastEthertype f t =
     (let pos = 12 + tag_bytes t in
      res_bind (go_index f pos) (\<lambda>a. res_bind (go_index f (pos + 1)) (\<lambda>b. Ok \<lparr>etHi = a, etLo = b\<rparr>)))"

definition FastPayload :: "bytes \<Rightarrow> Tagging \<Rightarrow> (frame_error, bytes) res" where
  "FastPayload f t = go_slice (12 + tag_bytes t + 2) (length f) f"

definition FastVLANID :: "bytes \<Rightarrow> (frame_error, u16) res" where
  "FastVLANID f =
     res_bind (go_index f 14) (\<lambda>a. res_bind (go_index f 15) (\<lambda>b.
       Ok (push_bit 8 (ucast (a AND 0x0F)) OR ucast b)))"

section \<open>Checked readers\<close>

definition Destination :: "bytes \<Rightarrow> (frame_error, hwaddr) res" where
  "Destination f = (if length f < 6 then Fail ErrFrameTooShort else FastDestination f)"

definition Source :: "bytes \<Rightarrow> (frame_error, hwaddr) res" where
  "Source f = (if length f < 12 then Fail ErrFrameTooShort else FastSource f)"

definition DetectTagging :: "bytes \<Rightarrow> (frame_error, Tagging) res" where
  "DetectTagging f = (if length f < MinFrameSize then Fail ErrFrameTooShort else FastTaggingType f)"

fun min_size :: "nat \<Rightarrow> Tagging \<Rightarrow> nat" where
  "min_size n NotTagged = n"
| "min_size n Tagged = MinTaggedFrameSize"
| "min_size n DoubleTagged = MinDoubleTaggedSize"

definition GetEthertype :: "bytes \<Rightarrow> (frame_error, Ethertype) res" where
  "GetEthertype f =
     (if length f < MinFrameSize then Fail ErrFrameTooShort
      else res_bind (FastTaggingType f) (\<lambda>t.
        if length f < min_size MinFrameSize t then Fail ErrFrameTooShort else FastEthertype f t))"

definition Payload :: "bytes \<Rightarrow> (frame_error, bytes) res" where
  "Payload f =
     (if length f < MinFrameSize then Fail ErrFrameTooShort
      else res_bind (FastTaggingType f) (\<lambda>t.
        if length f < min_size (MinFrameSize + 2) t then Fail ErrFrameTooShort else FastPayload f t))"

definition GetVLANID :: "bytes \<Rightarrow> (frame_error, u16) res" where
  "GetVLANID f =
     (if length f < MinFrameSize then Fail ErrFrameTooShort
      else res_bind (FastTaggingType f) (\<lambda>t.
        if t = NotTagged then Fail ErrNotTagged
        else if length f < MinTaggedFrameSize then Fail ErrFrameTooShort
        else FastVLANID f))"

section \<open>Classification\<close>

definition IsBroadcast :: "hwaddr \<Rightarrow> bool" where
  "IsBroadcast a =
     (if length a < 6 then False
      else a ! 0 = 0xff \<and> a ! 1 = 0xff \<and> a ! 2 = 0xff \<and> a ! 3 = 0xff \<and> a ! 4 = 0xff \<and> a ! 5 = 0xff)"

definition IsMulticast :: "hwaddr \<Rightarrow> bool" where
  "IsMulticast a \<longleftrightarrow> length a > 0 \<and> a ! 0 AND 0x01 = 0x01"

definition IsIPv4Multicast :: "hwaddr \<Rightarrow> bool" where
  "IsIPv4Multicast a = (if length a < 3 then False else a ! 0 = 0x01 \<and> a ! 1 = 0x00 \<and> a ! 2 = 0x5e)"

definition IsIPv6Multicast :: "hwaddr \<Rightarrow> bool" where
  "IsIPv6Multicast a = (if length a < 2 then False else a ! 0 = 0x33 \<and> a ! 1 = 0x33)"

section \<open>Building\<close>

text \<open>\<^verbatim>\<open>copy(dst[i:j], src)\<close> for a destination of at least \<open>j\<close> bytes.\<close>

definition copy_at :: "nat \<Rightarrow> nat \<Rightarrow> bytes \<Rightarrow> bytes \<Rightarrow> bytes" where
  "copy_at i j src dst = take i dst @ go_copy (slice i j dst) src @ drop j dst"

definition write_frame :: "bytes \<Rightarrow> hwaddr \<Rightarrow> hwaddr \<Rightarrow> Ethertype \<Rightarrow> bytes \<Rightarrow> bytes" where
  "write_frame buffer dst src e payload =
     copy_at 14 (length buffer) payload
       ((copy_at 6 12 src (copy_at 0 6 dst buffer))[12 := etHi e, 13 := etLo e])"

definition NewFrame :: "hwaddr \<Rightarrow> hwaddr \<Rightarrow> Ethertype \<Rightarrow> bytes \<Rightarrow> bytes" where
  "NewFrame dst src e payload = write_frame (replicate (14 + length payload) 0) dst src e payload"

text \<open>\<^verbatim>\<open>NewFrameInto\<close> returns the number of bytes it wrote; the second component is the buffer.\<close>

definition NewFrameInto :: "bytes \<Rightarrow> hwaddr \<Rightarrow> hwaddr \<Rightarrow> Ethertype \<Rightarrow> bytes \<Rightarrow> (frame_error, nat) res \<times> bytes" where
  "NewFrameInto buffer dst src e payload =
     (let requiredSize = 14 + length payload in
      if length buffer < requiredSize then (Fail ErrBufferTooSmall, buffer)
      else (Ok requiredSize, write_frame buffer dst src e payload))"

record frame_fields =
  ffDst :: hwaddr
  ffSrc :: hwaddr
  ffTagging :: Tagging
  ffEthertype :: Ethertype
  ffPayload :: bytes

text \<open>\<^verbatim>\<open>ParseFrame\<close> returns the fields it has read also with an error; the fields are zero
  values before.\<close>

definition no_fields :: frame_fields where
  "no_fields = \<lparr>ffDst = [], ffSrc = [], ffTagging = NotTagged, ffEthertype = no_ethertype, ffPayload = []\<rparr>"

definition ParseFrame :: "bytes \<Rightarrow> (frame_error, frame_fields \<times> frame_error option) res" where
  "ParseFrame f =
     (if length f < MinFrameSize then Ok (no_fields, Some ErrFrameTooShort)
      else
        res_bind (FastDestination f) (\<lambda>dst.
        res_bind (FastSource f) (\<lambda>src.
        res_bind (FastTaggingType f) (\<lambda>tagging.
          let ff = no_fields\<lparr>ffDst := dst, ffSrc := src, ffTagging := tagging\<rparr> in
          if length f < min_size MinFrameSize tagging then Ok (ff, Some ErrFrameTooShort)
          else
            res_bind (FastEthertype f tagging) (\<lambda>ethertype.
            res_bind (FastPayload f tagging) (\<lambda>payload.
              Ok (ff\<lparr>ffEthertype := ethertype, ffPayload := payload\<rparr>, None)))))))"

section \<open>Gratuitous ARP\<close>

datatype arp_error = ErrArpNotIPv4 | ErrArpNoAddress | ErrArpShortAddress

text \<open>The frame that \<^verbatim>\<open>SendGratuitousARP\<close> hands to the platform's raw send; \<open>hw\<close> is the
  hardware address of the interface, which may be missing.\<close>

definition arp_packet :: "hwaddr \<Rightarrow> bytes \<Rightarrow> bytes" where
  "arp_packet mac ip4 =
     copy_at 24 28 ip4 (copy_at 18 24 mac (copy_at 14 18 ip4 (copy_at 8 14 mac
       (copy_at 6 8 (put16 2) ((copy_at 2 4 (put16 0x0800) (copy_at 0 2 (put16 1) (replicate 28 0)))[4 := 6, 5 := 4])))))"

definition SendGratuitousARP :: "hwaddr option \<Rightarrow> ip_addr \<Rightarrow> (arp_error, bytes) res" where
  "SendGratuitousARP hw vip =
     (case To4 vip of
        None \<Rightarrow> Fail ErrArpNotIPv4
      | Some ip4 \<Rightarrow>
          (case hw of
             None \<Rightarrow> Fail ErrArpNoAddress
           | Some mac \<Rightarrow>
               if length mac < 6 then Fail ErrArpShortAddress
               else
                 let srcMAC = take 6 mac;
                     frame = copy_at 14 42 (arp_packet srcMAC ip4)
                       (copy_at 12 14 [0x08, 0x06] (copy_at 6 12 srcMAC (copy_at 0 6 BroadcastAddr (replicate 42 0))))
                 in Ok frame))"

section \<open>Lemmas\<close>

lemma go_u16_Ok: "i + 1 < length f \<Longrightarrow> go_u16 f i = Ok (push_bit 8 (ucast (f ! i)) OR ucast (f ! (i + 1)))"
  by (simp add: go_u16_def go_index_def)

lemma FastTaggingType_Ok: "14 \<le> length f \<Longrightarrow> \<exists>t. FastTaggingType f = Ok t"
  by (simp add: FastTaggingType_def go_u16_Ok)

lemma FastTaggingType_cases:
  assumes "14 \<le> length f"
  obtains t where "FastTaggingType f = Ok t"
  using FastTaggingType_Ok [OF assms] by blast

lemma fast_readers_Ok:
  "6 \<le> length f \<Longrightarrow> FastDestination f = Ok (take 6 f)"
  "12 \<le> length f \<Longrightarrow> FastSource f = Ok (slice 6 12 f)"
  "14 + tag_bytes t \<le> length f \<Longrightarrow> FastEthertype f t = Ok \<lparr>etHi = f ! (12 + tag_bytes t), etLo = f ! (13 + tag_bytes t)\<rparr>"
  "14 + tag_bytes t \<le> length f \<Longrightarrow> FastPayload f t = Ok (drop (14 + tag_bytes t) f)"
  "16 \<le> length f \<Longrightarrow> FastVLANID f = Ok (push_bit 8 (ucast (f ! 14 AND 0x0F)) OR ucast (f ! 15))"
  by (simp_all add: FastDestination_def FastSource_def FastEthertype_def FastPayload_def FastVLANID_def
      go_slice_def go_index_def slice_def Let_def)

lemma min_size_frame:
  "min_size MinFrameSize t = 14 + tag_bytes t" "min_size 14 t = 14 + tag_bytes t"
  "min_size 16 t = (if t = NotTagged then 16 else 14 + tag_bytes t)"
  by (cases t; simp add: frame_sizes)+

lemma ParseFrame_Ok:
  assumes "14 \<le> length f" "FastTaggingType f = Ok t" "14 + tag_bytes t \<le> length f"
  shows "ParseFrame f = Ok (\<lparr>ffDst = take 6 f, ffSrc = slice 6 12 f, ffTagging = t,
    ffEthertype = \<lparr>etHi = f ! (12 + tag_bytes t), etLo = f ! (13 + tag_bytes t)\<rparr>, ffPayload = drop (14 + tag_bytes t) f\<rparr>, None)"
  using assms by (simp add: ParseFrame_def fast_readers_Ok min_size_frame Let_def no_fields_def frame_sizes)

lemma length_copy_at [simp]: "i \<le> j \<Longrightarrow> j \<le> length dst \<Longrightarrow> length (copy_at i j src dst) = length dst"
  by (simp add: copy_at_def slice_def)

text \<open>A source of exactly the length of the window replaces it.\<close>

lemma copy_at_exact: "i \<le> j \<Longrightarrow> j \<le> length dst \<Longrightarrow> length src = j - i \<Longrightarrow> copy_at i j src dst = take i dst @ src @ drop j dst"
  by (simp add: copy_at_def go_copy_def slice_def)

lemma write_frame_eq:
  assumes "length dst = 6" "length src = 6" "14 + length payload \<le> length buffer"
  shows "write_frame buffer dst src e payload =
    dst @ src @ [etHi e, etLo e] @ payload @ drop (14 + length payload) buffer"
proof -
  have "copy_at 6 12 src (copy_at 0 6 dst buffer) = dst @ src @ drop 12 buffer"
    using assms by (simp add: copy_at_exact)
  moreover have "(dst @ src @ drop 12 buffer)[12 := etHi e, 13 := etLo e] = dst @ src @ [etHi e, etLo e] @ drop 14 buffer"
  proof -
    have "drop 12 buffer = buffer ! 12 # buffer ! 13 # drop 14 buffer"
      using assms(3) Cons_nth_drop_Suc [of 12 buffer] Cons_nth_drop_Suc [of 13 buffer] by simp
    then show ?thesis using assms by (simp add: list_update_append)
  qed
  ultimately show ?thesis
    using assms by (simp add: write_frame_def copy_at_def go_copy_def slice_def add.commute)
qed

section \<open>Properties\<close>

text \<open>No checked reader panics, whatever bytes it is given: every length below what it reads
  is answered with an error.\<close>

theorem checked_readers_never_panic:
  "\<not> panics (Destination f) \<and> \<not> panics (Source f) \<and> \<not> panics (DetectTagging f) \<and> \<not> panics (GetEthertype f) \<and>
   \<not> panics (Payload f) \<and> \<not> panics (GetVLANID f) \<and> \<not> panics (ParseFrame f)"
proof (cases "14 \<le> length f")
  case True
  then obtain t where t: "FastTaggingType f = Ok t" by (rule FastTaggingType_cases)
  then show ?thesis
    using True by (cases t) (auto simp: Destination_def Source_def DetectTagging_def GetEthertype_def Payload_def
        GetVLANID_def ParseFrame_def fast_readers_Ok frame_sizes Let_def)
next
  case False
  then show ?thesis
    by (auto simp: Destination_def Source_def DetectTagging_def GetEthertype_def Payload_def
        GetVLANID_def ParseFrame_def fast_readers_Ok frame_sizes)
qed

text \<open>The all-in-one parser agrees with the single readers on every frame it accepts, with one
  exception: the payload reader rejects untagged frames of 14 and 15 bytes, whose payload the
  parser returns.\<close>

theorem parser_agrees_with_readers:
  assumes "ParseFrame f = Ok (ff, None)"
  shows "Destination f = Ok (ffDst ff) \<and> Source f = Ok (ffSrc ff) \<and> DetectTagging f = Ok (ffTagging ff) \<and>
    GetEthertype f = Ok (ffEthertype ff) \<and>
    Payload f = (if ffTagging ff = NotTagged \<and> length f < 16 then Fail ErrFrameTooShort else Ok (ffPayload ff))"
proof -
  have l: "14 \<le> length f" using assms by (auto simp: ParseFrame_def frame_sizes split: if_splits)
  then obtain t where t: "FastTaggingType f = Ok t" by (rule FastTaggingType_cases)
  have m: "14 + tag_bytes t \<le> length f"
    using assms l t by (auto simp: ParseFrame_def frame_sizes min_size_frame fast_readers_Ok Let_def split: if_splits)
  have "ff = \<lparr>ffDst = take 6 f, ffSrc = slice 6 12 f, ffTagging = t,
      ffEthertype = \<lparr>etHi = f ! (12 + tag_bytes t), etLo = f ! (13 + tag_bytes t)\<rparr>, ffPayload = drop (14 + tag_bytes t) f\<rparr>"
    using assms ParseFrame_Ok [OF l t m] by simp
  then show ?thesis
    using l t m by (auto simp: Destination_def Source_def DetectTagging_def GetEthertype_def Payload_def fast_readers_Ok
        frame_sizes min_size_frame)
qed

theorem parser_agrees_with_readers_witness:
  "Destination (replicate 14 1) = Ok (replicate 6 1) \<and> Source (replicate 14 1) = Ok (replicate 6 1) \<and>
   DetectTagging (replicate 14 1) = Ok NotTagged \<and> GetEthertype (replicate 14 1) = Ok \<lparr>etHi = 1, etLo = 1\<rparr> \<and>
   Payload (replicate 14 1) = Fail ErrFrameTooShort"
proof -
  have "ParseFrame (replicate 14 1) = Ok (\<lparr>ffDst = replicate 6 1, ffSrc = replicate 6 1, ffTagging = NotTagged,
      ffEthertype = \<lparr>etHi = 1, etLo = 1\<rparr>, ffPayload = []\<rparr>, None)"
    by code_simp
  from parser_agrees_with_readers [OF this] show ?thesis by simp
qed

lemma NewFrame_eq:
  "length dst = 6 \<Longrightarrow> length src = 6 \<Longrightarrow> NewFrame dst src e payload = dst @ src @ [etHi e, etLo e] @ payload"
  by (simp add: NewFrame_def write_frame_eq)

definition untagged :: "Ethertype \<Rightarrow> bool" where
  "untagged e \<longleftrightarrow> Ethertype_Value e \<noteq> Dot1QTagType \<and> Ethertype_Value e \<noteq> Dot1AdTagType"

lemma FastTaggingType_untagged:
  assumes "length dst = 6" "length src = 6" "untagged e"
  shows "FastTaggingType (dst @ src @ [etHi e, etLo e] @ payload) = Ok NotTagged"
proof -
  let ?f = "dst @ src @ [etHi e, etLo e] @ payload"
  have "?f ! 12 = etHi e" "?f ! 13 = etLo e" using assms(1,2) by (simp_all add: nth_append)
  then have "go_u16 ?f 12 = Ok (Ethertype_Value e)" by (simp add: go_u16_Ok assms(1,2) Ethertype_Value_def)
  then show ?thesis using assms(3) by (simp add: FastTaggingType_def untagged_def)
qed

lemma ParseFrame_NewFrame:
  assumes "length dst = 6" "length src = 6" "untagged e"
  shows "ParseFrame (NewFrame dst src e payload) =
    Ok (\<lparr>ffDst = dst, ffSrc = src, ffTagging = NotTagged, ffEthertype = e, ffPayload = payload\<rparr>, None)"
proof -
  let ?f = "dst @ src @ [etHi e, etLo e] @ payload"
  have "?f ! 12 = etHi e" "?f ! 13 = etLo e" "take 6 ?f = dst" "slice 6 12 ?f = src" "drop 14 ?f = payload"
    using assms(1,2) by (simp_all add: nth_append slice_def)
  then show ?thesis
    using ParseFrame_Ok [OF _ FastTaggingType_untagged [OF assms], of payload] assms(1,2) by (simp add: NewFrame_eq)
qed

text \<open>A frame that is built from addresses of six bytes, an ethertype that is not a VLAN tag
  and a payload is parsed back into exactly these, and building it in place in a larger buffer
  gives the same bytes and leaves the rest of the buffer alone.\<close>

theorem frame_roundtrip:
  assumes "length dst = 6" "length src = 6" "untagged e" "14 + length payload \<le> length buffer"
  shows "ParseFrame (NewFrame dst src e payload) =
      Ok (\<lparr>ffDst = dst, ffSrc = src, ffTagging = NotTagged, ffEthertype = e, ffPayload = payload\<rparr>, None) \<and>
    NewFrameInto buffer dst src e payload =
      (Ok (14 + length payload), NewFrame dst src e payload @ drop (14 + length payload) buffer)"
  using ParseFrame_NewFrame [OF assms(1-3)] assms by (simp add: NewFrameInto_def Let_def write_frame_eq NewFrame_eq)

theorem frame_roundtrip_witness:
  "ParseFrame (NewFrame [2, 0, 0, 0, 0, 1] [2, 0, 0, 0, 0, 2] EthertypeIPv4 [9]) =
      Ok (\<lparr>ffDst = [2, 0, 0, 0, 0, 1], ffSrc = [2, 0, 0, 0, 0, 2], ffTagging = NotTagged, ffEthertype = EthertypeIPv4, ffPayload = [9]\<rparr>, None) \<and>
   NewFrameInto (replicate 16 7) [2, 0, 0, 0, 0, 1] [2, 0, 0, 0, 0, 2] EthertypeIPv4 [9] =
      (Ok 15, NewFrame [2, 0, 0, 0, 0, 1] [2, 0, 0, 0, 0, 2] EthertypeIPv4 [9] @ drop 15 (replicate 16 7))"
proof -
  have "untagged EthertypeIPv4" by code_simp
  then show ?thesis
    using frame_roundtrip [of "[2, 0, 0, 0, 0, 1]" "[2, 0, 0, 0, 0, 2]" EthertypeIPv4 "[9]" "replicate 16 7"] by simp
qed

lemma length_To4: "To4 ip = Some v4 \<Longrightarrow> length v4 = 4"
  by (auto simp: To4_def split: if_splits)

lemma arp_packet_eq:
  assumes "length mac = 6" "length ip4 = 4"
  shows "arp_packet mac ip4 = [0, 1, 8, 0, 6, 4, 0, 2] @ mac @ ip4 @ mac @ ip4"
proof -
  have "(copy_at 2 4 (put16 0x0800) (copy_at 0 2 (put16 1) (replicate 28 0)))[4 := 6, 5 := 4] =
      [0, 1, 8, 0, 6, 4] @ replicate 22 0" by code_simp
  moreover have "copy_at 6 8 (put16 2) ([0, 1, 8, 0, 6, 4] @ replicate 22 0) = [0, 1, 8, 0, 6, 4, 0, 2] @ replicate 20 0" by code_simp
  ultimately show ?thesis using assms by (simp add: arp_packet_def copy_at_exact)
qed

text \<open>A gratuitous ARP for an IPv4 address is a broadcast ARP frame of 42 bytes from the
  interface's hardware address, whose body announces that address for the IPv4 address as both
  sender and target.\<close>

theorem gratuitous_arp_frame:
  assumes "To4 vip = Some ip4" "6 \<le> length mac"
  shows "\<exists>f. SendGratuitousARP (Some mac) vip = Ok f \<and> length f = 42 \<and>
    ParseFrame f = Ok (\<lparr>ffDst = BroadcastAddr, ffSrc = take 6 mac, ffTagging = NotTagged, ffEthertype = EthertypeARP,
      ffPayload = [0, 1, 8, 0, 6, 4, 0, 2] @ take 6 mac @ ip4 @ take 6 mac @ ip4\<rparr>, None) \<and> IsBroadcast BroadcastAddr"
proof -
  let ?m = "take 6 mac" and ?b = "[0, 1, 8, 0, 6, 4, 0, 2] @ take 6 mac @ ip4 @ take 6 mac @ ip4"
  have m: "length ?m = 6" and i: "length ip4 = 4" and b: "length BroadcastAddr = 6"
    using assms length_To4 by (simp_all add: BroadcastAddr_def)
  have u: "untagged EthertypeARP" by code_simp
  have s: "SendGratuitousARP (Some mac) vip = Ok (BroadcastAddr @ ?m @ [8, 6] @ ?b)"
    using assms m i b by (simp add: SendGratuitousARP_def Let_def arp_packet_eq copy_at_exact)
  have n: "NewFrame BroadcastAddr ?m EthertypeARP ?b = BroadcastAddr @ ?m @ [8, 6] @ ?b"
    using NewFrame_eq [OF b m, of EthertypeARP ?b] by (simp add: EthertypeARP_def)
  have "ParseFrame (BroadcastAddr @ ?m @ [8, 6] @ ?b) =
      Ok (\<lparr>ffDst = BroadcastAddr, ffSrc = ?m, ffTagging = NotTagged, ffEthertype = EthertypeARP, ffPayload = ?b\<rparr>, None)"
    using ParseFrame_NewFrame [OF b m u, of ?b] n by simp
  moreover have "length (BroadcastAddr @ ?m @ [8, 6] @ ?b) = 42" using m i b by simp
  moreover have "IsBroadcast BroadcastAddr" by code_simp
  ultimately show ?thesis using s by blast
qed

theorem gratuitous_arp_frame_witness:
  "\<exists>f. SendGratuitousARP (Some [2, 0, 0, 0, 0, 1]) [10, 0, 0, 1] = Ok f \<and> length f = 42 \<and>
    ParseFrame f = Ok (\<lparr>ffDst = BroadcastAddr, ffSrc = take 6 [2, 0, 0, 0, 0, 1], ffTagging = NotTagged, ffEthertype = EthertypeARP,
      ffPayload = [0, 1, 8, 0, 6, 4, 0, 2] @ take 6 [2, 0, 0, 0, 0, 1] @ [10, 0, 0, 1] @ take 6 [2, 0, 0, 0, 0, 1] @ [10, 0, 0, 1]\<rparr>, None) \<and>
    IsBroadcast BroadcastAddr"
  by (rule gratuitous_arp_frame) (simp_all add: To4_def)

end
