(* ===== verification/Aes.thy ===== *)
theory Aes
  imports Sha256
begin

text \<open>
  \<^verbatim>\<open>aes.NewCipher\<close> with a 32 byte key and \<^verbatim>\<open>cipher.NewGCM\<close> of Go's standard library: AES-256 in
  Galois/counter mode without additional data. The substitution box is computed from the field
  inverse. The library lemma is that opening a sealed message gives the message back.
\<close>

unbundle bit_operations_syntax

section \<open>The block cipher\<close>

definition xtime :: "byte \<Rightarrow> byte" where
  "xtime b = push_bit 1 b XOR (if bit b 7 then 0x1b else 0)"

fun gf_mul :: "nat \<Rightarrow> byte \<Rightarrow> byte \<Rightarrow> byte" where
  "gf_mul 0 a b = 0"
| "gf_mul (Suc n) a b = (if bit b 0 then a else 0) XOR gf_mul n (xtime a) (drop_bit 1 b)"

abbreviation mul8 :: "byte \<Rightarrow> byte \<Rightarrow> byte" where
  "mul8 a b \<equiv> gf_mul 8 a b"

text \<open>The inverse is the 254th power, by squaring and multiplying.\<close>

definition gf_inv :: "byte \<Rightarrow> byte" where
  "gf_inv a =
     (let a2 = mul8 a a; a4 = mul8 a2 a2; a8 = mul8 a4 a4; a16 = mul8 a8 a8; a32 = mul8 a16 a16;
          a64 = mul8 a32 a32; a128 = mul8 a64 a64
      in mul8 a2 (mul8 a4 (mul8 a8 (mul8 a16 (mul8 a32 (mul8 a64 a128))))))"

definition rotl8 :: "nat \<Rightarrow> byte \<Rightarrow> byte" where
  "rotl8 n x = push_bit n x OR drop_bit (8 - n) x"

definition sbox :: "byte \<Rightarrow> byte" where
  "sbox b = (let i = gf_inv b in i XOR rotl8 1 i XOR rotl8 2 i XOR rotl8 3 i XOR rotl8 4 i XOR 0x63)"

definition xor_bytes :: "bytes \<Rightarrow> bytes \<Rightarrow> bytes" where
  "xor_bytes a b = map2 (XOR) a b"

fun rcon :: "nat \<Rightarrow> byte" where
  "rcon 0 = 1"
| "rcon (Suc n) = xtime (rcon n)"

text \<open>The key schedule for eight key words, one word of four bytes per call.\<close>

definition key_step :: "bytes list \<Rightarrow> bytes list" where
  "key_step w =
     (let i = length w; prev = w ! (i - 1);
          t = (if i mod 8 = 0 then xor_bytes (map sbox (rotate1 prev)) [rcon (i div 8 - 1), 0, 0, 0]
               else if i mod 8 = 4 then map sbox prev else prev)
      in w @ [xor_bytes (w ! (i - 8)) t])"

definition key_words :: "bytes \<Rightarrow> bytes list" where
  "key_words key = (key_step ^^ 52) (map (\<lambda>i. slice (4 * i) (4 * i + 4) key) [0..<8])"

definition round_keys :: "bytes \<Rightarrow> bytes list" where
  "round_keys key = (let w = key_words key in map (\<lambda>r. concat (slice (4 * r) (4 * r + 4) w)) [0..<15])"

definition shift_rows :: "bytes \<Rightarrow> bytes" where
  "shift_rows s = map (\<lambda>k. s ! ((k + 4 * (k mod 4)) mod 16)) [0..<16]"

fun mix_column :: "bytes \<Rightarrow> bytes" where
  "mix_column [a, b, c, d] =
     [mul8 a 2 XOR mul8 b 3 XOR c XOR d, a XOR mul8 b 2 XOR mul8 c 3 XOR d,
      a XOR b XOR mul8 c 2 XOR mul8 d 3, mul8 a 3 XOR b XOR c XOR mul8 d 2]"
| "mix_column s = s"

definition mix_columns :: "bytes \<Rightarrow> bytes" where
  "mix_columns s = concat (map (\<lambda>i. mix_column (slice (4 * i) (4 * i + 4) s)) [0..<4])"

definition aes_encrypt :: "bytes \<Rightarrow> bytes \<Rightarrow> bytes" where
  "aes_encrypt key block =
     (let rk = round_keys key;
          s = foldl (\<lambda>s k. xor_bytes (mix_columns (shift_rows (map sbox s))) k) (xor_bytes block (rk ! 0)) (slice 1 14 rk)
      in xor_bytes (shift_rows (map sbox s)) (rk ! 14))"

section \<open>Galois/counter mode\<close>

fun ghash_mul :: "nat \<Rightarrow> 128 word \<Rightarrow> 128 word \<Rightarrow> 128 word \<Rightarrow> 128 word" where
  "ghash_mul 0 x v z = z"
| "ghash_mul (Suc n) x v z =
     ghash_mul n x (if bit v 0 then drop_bit 1 v XOR push_bit 120 0xe1 else drop_bit 1 v) (if bit x n then z XOR v else z)"

definition block_word :: "bytes \<Rightarrow> 128 word" where
  "block_word b = foldl (\<lambda>a x. push_bit 8 a OR ucast x) 0 b"

definition word_block :: "128 word \<Rightarrow> bytes" where
  "word_block w = map (\<lambda>i. ucast (drop_bit (8 * (15 - i)) w)) [0..<16]"

fun ghash :: "128 word \<Rightarrow> 128 word \<Rightarrow> bytes list \<Rightarrow> 128 word" where
  "ghash h y [] = y"
| "ghash h y (b # bs) = ghash h (ghash_mul 128 (y XOR block_word b) h 0) bs"

definition pad_block :: "bytes \<Rightarrow> bytes" where
  "pad_block b = b @ replicate (16 - length b) 0"

function blocks :: "bytes \<Rightarrow> bytes list" where
  "blocks bs = (if bs = [] then [] else pad_block (take 16 bs) # blocks (drop 16 bs))"
  by pat_completeness auto
termination by (relation "measure length") auto

declare blocks.simps [simp del]

text \<open>The counter block; a nonce has 12 bytes and the counter of the first data block is 2.\<close>

definition counter_block :: "bytes \<Rightarrow> u32 \<Rightarrow> bytes" where
  "counter_block nonce c = nonce @ put32 c"

function ctr :: "bytes \<Rightarrow> bytes \<Rightarrow> u32 \<Rightarrow> bytes \<Rightarrow> bytes" where
  "ctr key nonce c bs =
     (if bs = [] then []
      else xor_bytes (take 16 bs) (aes_encrypt key (counter_block nonce c)) @ ctr key nonce (c + 1) (drop 16 bs))"
  by pat_completeness auto
termination by (relation "measure (\<lambda>(key, nonce, c, bs). length bs)") auto

declare ctr.simps [simp del]

definition gcm_tag :: "bytes \<Rightarrow> bytes \<Rightarrow> bytes \<Rightarrow> bytes" where
  "gcm_tag key nonce ct =
     (let h = block_word (aes_encrypt key (replicate 16 0));
          lens = replicate 8 0 @ rev (put64le (of_nat (8 * length ct)))
      in xor_bytes (word_block (ghash h 0 (blocks ct @ [lens]))) (aes_encrypt key (counter_block nonce 1)))"

definition gcm_Seal :: "bytes \<Rightarrow> bytes \<Rightarrow> bytes \<Rightarrow> bytes" where
  "gcm_Seal key nonce plaintext = (let ct = ctr key nonce 2 plaintext in ct @ gcm_tag key nonce ct)"

definition gcm_Open :: "bytes \<Rightarrow> bytes \<Rightarrow> bytes \<Rightarrow> bytes option" where
  "gcm_Open key nonce msg =
     (if length msg < 16 then None
      else let ct = take (length msg - 16) msg; tag = drop (length msg - 16) msg in
        if tag = gcm_tag key nonce ct then Some (ctr key nonce 2 ct) else None)"

section \<open>Opening what was sealed\<close>

lemma length_xor_bytes [simp]: "length (xor_bytes a b) = min (length a) (length b)"
  by (simp add: xor_bytes_def)

lemma xor_bytes_cancel: "length a \<le> length b \<Longrightarrow> xor_bytes (xor_bytes a b) b = a"
  by (auto simp: xor_bytes_def list_eq_iff_nth_eq xor.assoc)

lemma key_step_length:
  assumes "\<forall>x \<in> set w. length x = 4" "8 \<le> length w"
  shows "(\<forall>x \<in> set (key_step w). length x = 4) \<and> length (key_step w) = Suc (length w)"
proof -
  have "length (w ! (length w - 1)) = 4" "length (w ! (length w - 8)) = 4" using assms by auto
  then show ?thesis using assms by (auto simp: key_step_def Let_def)
qed

lemma key_steps_length:
  "\<forall>x \<in> set w. length x = 4 \<Longrightarrow> 8 \<le> length w \<Longrightarrow>
     (\<forall>x \<in> set ((key_step ^^ n) w). length x = 4) \<and> length ((key_step ^^ n) w) = length w + n"
proof (induction n)
  case (Suc n)
  then show ?case using key_step_length [of "(key_step ^^ n) w"] by simp
qed simp

lemma length_concat_words: "\<forall>x \<in> set xs. length x = 4 \<Longrightarrow> length (concat xs) = 4 * length xs"
  by (induction xs) auto

lemma round_key_length:
  assumes "length key = 32" "r < 15"
  shows "length (round_keys key ! r) = 16"
proof -
  let ?w = "map (\<lambda>i. slice (4 * i) (4 * i + 4) key) [0..<8]"
  have w: "\<forall>x \<in> set ?w. length x = 4" "length ?w = 8" using assms(1) by (auto simp: slice_def)
  have k: "\<forall>x \<in> set (key_words key). length x = 4" "length (key_words key) = length ?w + 52"
    unfolding key_words_def using key_steps_length [OF w(1) eq_imp_le [OF w(2) [symmetric]], of 52] by blast+
  let ?s = "slice (4 * r) (4 * r + 4) (key_words key)"
  have "set ?s \<subseteq> set (key_words key)" unfolding slice_def by (meson set_drop_subset set_take_subset subset_trans)
  then have "length (concat ?s) = 4 * length ?s" using k(1) by (intro length_concat_words) auto
  moreover have "length ?s = 4" using k(2) w(2) assms(2) by (simp add: slice_def)
  ultimately show ?thesis using assms(2) by (simp add: round_keys_def Let_def)
qed

lemma length_aes_encrypt [simp]: "length key = 32 \<Longrightarrow> length (aes_encrypt key b) = 16"
  by (simp add: aes_encrypt_def Let_def shift_rows_def round_key_length)

lemma length_ctr: "length key = 32 \<Longrightarrow> length (ctr key nonce c bs) = length bs"
proof (induction key nonce c bs rule: ctr.induct)
  case (1 key nonce c bs)
  then show ?case by (cases "bs = []") (simp_all add: ctr.simps [of key nonce c bs] ctr.simps [of key nonce c "[]"])
qed

lemma ctr_ctr: "length key = 32 \<Longrightarrow> ctr key nonce c (ctr key nonce c bs) = bs"
proof (induction key nonce c bs rule: ctr.induct)
  case (1 key nonce c bs)
  show ?case
  proof (cases "bs = []")
    case False
    let ?k = "aes_encrypt key (counter_block nonce c)" and ?r = "ctr key nonce (c + 1) (drop 16 bs)"
    let ?x = "xor_bytes (take 16 bs) ?k"
    have e: "ctr key nonce c bs = ?x @ ?r" using False by (subst ctr.simps) simp
    have t: "take 16 (?x @ ?r) = ?x \<and> drop 16 (?x @ ?r) = ?r"
    proof (cases "length bs < 16")
      case True
      then have "?r = []" by (simp add: ctr.simps)
      then show ?thesis using True 1(2) by simp
    qed (use 1(2) in simp)
    have "?x @ ?r \<noteq> []" using False 1(2) by (metis append_is_Nil_conv e length_0_conv length_ctr)
    then have "ctr key nonce c (?x @ ?r) = xor_bytes ?x ?k @ ctr key nonce (c + 1) ?r"
      by (subst ctr.simps) (simp only: if_False t)
    also have "\<dots> = take 16 bs @ drop 16 bs" using 1 False by (simp add: xor_bytes_cancel)
    finally show ?thesis using e by simp
  qed (simp add: ctr.simps)
qed

lemma length_gcm_tag [simp]: "length key = 32 \<Longrightarrow> length (gcm_tag key nonce ct) = 16"
  by (simp add: gcm_tag_def Let_def word_block_def)

lemma gcm_Open_Seal: "length key = 32 \<Longrightarrow> gcm_Open key nonce (gcm_Seal key nonce p) = Some p"
  by (simp add: gcm_Open_def gcm_Seal_def Let_def ctr_ctr)

lemma length_gcm_Seal: "length key = 32 \<Longrightarrow> length (gcm_Seal key nonce p) = length p + 16"
  by (simp add: gcm_Seal_def Let_def length_ctr)

end
