(* ===== verification/Transform.thy ===== *)
theory Transform
  imports Aes Machine
begin

text \<open>
  The payload pipeline of an edge (\<^verbatim>\<open>pkg/tranform\<close>): transforms, the processor that applies them
  forward on the way out and backward on the way in, and the pipeline an edge is configured
  with. A transform is a value for one packet: the random nonce it would read is an argument. The
  Zstandard library is a pair of parameters. The contract between a sender's and a receiver's
  transform is the locale \<open>transform_pair\<close>.
\<close>

section \<open>Transforms\<close>

datatype tr_error =
    ErrNoTransforms | ErrNonce | ErrCiphertextShort | ErrOpen | ErrCompress | ErrDecompress

record Transform =
  trApply :: "bytes \<Rightarrow> (tr_error, bytes) res"
  trReverse :: "bytes \<Rightarrow> (tr_error, bytes) res"

definition NewNoOpTransform :: Transform where
  "NewNoOpTransform = \<lparr>trApply = (\<lambda>b. Ok b), trReverse = (\<lambda>b. Ok b)\<rparr>"

definition keyFromPassphrase :: "string \<Rightarrow> bytes" where
  "keyFromPassphrase passphrase = Sum256 (str_bytes passphrase)"

definition nonceSize :: nat where
  "nonceSize = 12"

text \<open>\<open>seed\<close> gives the bytes that \<^verbatim>\<open>rand.Reader\<close> fills the nonce with, if it can.\<close>

definition aes_Apply :: "bytes \<Rightarrow> (nat \<Rightarrow> byte) option \<Rightarrow> bytes \<Rightarrow> (tr_error, bytes) res" where
  "aes_Apply key seed plaintext =
     (case seed of
        None \<Rightarrow> Fail ErrNonce
      | Some f \<Rightarrow> let nonce = map f [0..<nonceSize] in Ok (nonce @ gcm_Seal key nonce plaintext))"

definition aes_Reverse :: "bytes \<Rightarrow> bytes \<Rightarrow> (tr_error, bytes) res" where
  "aes_Reverse key ciphertext =
     (if length ciphertext < nonceSize then Fail ErrCiphertextShort
      else case gcm_Open key (take nonceSize ciphertext) (drop nonceSize ciphertext) of
        None \<Rightarrow> Fail ErrOpen | Some p \<Rightarrow> Ok p)"

definition NewAESGCMTransform :: "string \<Rightarrow> (nat \<Rightarrow> byte) option \<Rightarrow> Transform" where
  "NewAESGCMTransform passphrase seed =
     (let key = keyFromPassphrase passphrase in \<lparr>trApply = aes_Apply key seed, trReverse = aes_Reverse key\<rparr>)"

definition NewZstdTransform :: "(bytes \<Rightarrow> bytes option) \<Rightarrow> (bytes \<Rightarrow> bytes option) \<Rightarrow> Transform" where
  "NewZstdTransform compress decompress =
     \<lparr>trApply = (\<lambda>b. case compress b of None \<Rightarrow> Fail ErrCompress | Some c \<Rightarrow> Ok c),
      trReverse = (\<lambda>b. case decompress b of None \<Rightarrow> Fail ErrDecompress | Some c \<Rightarrow> Ok c)\<rparr>"

section \<open>The processor\<close>

definition NewPayloadProcessor :: "Transform list \<Rightarrow> (tr_error, Transform list) res" where
  "NewPayloadProcessor ts = (if ts = [] then Fail ErrNoTransforms else Ok ts)"

fun PrepareOutput :: "Transform list \<Rightarrow> bytes \<Rightarrow> (tr_error, bytes) res" where
  "PrepareOutput [] payload = Ok payload"
| "PrepareOutput (t # ts) payload = res_bind (trApply t payload) (PrepareOutput ts)"

fun parse_loop :: "Transform list \<Rightarrow> bytes \<Rightarrow> (tr_error, bytes) res" where
  "parse_loop [] payload = Ok payload"
| "parse_loop (t # ts) payload = res_bind (trReverse t payload) (parse_loop ts)"

definition ParseInput :: "Transform list \<Rightarrow> bytes \<Rightarrow> (tr_error, bytes) res" where
  "ParseInput ts payload = parse_loop (rev ts) payload"

text \<open>The pipeline that \<^verbatim>\<open>NewEdgeClient\<close> sets up: compression first, then encryption, and a
  transform that does nothing if neither is configured.\<close>

record zstd_lib =
  zCompress :: "bytes \<Rightarrow> bytes option"
  zDecompress :: "bytes \<Rightarrow> bytes option"

definition edge_pipeline :: "bool \<Rightarrow> string \<Rightarrow> zstd_lib \<Rightarrow> (nat \<Rightarrow> byte) option \<Rightarrow> Transform list" where
  "edge_pipeline compressPayload passphrase z seed =
     (let ts = (if compressPayload then [NewZstdTransform (zCompress z) (zDecompress z)] else []) @
               (if passphrase \<noteq> [] then [NewAESGCMTransform passphrase seed] else [])
      in if ts = [] then [NewNoOpTransform] else ts)"

section \<open>The contract\<close>

locale transform_pair =
  fixes sender receiver :: Transform
  assumes reverse_apply: "trApply sender x = Ok y \<Longrightarrow> trReverse receiver y = Ok x"
    and apply_no_panic: "\<not> panics (trApply sender x)"
    and reverse_no_panic: "\<not> panics (trReverse receiver y)"
begin

lemma single_roundtrip: "PrepareOutput [sender] x = Ok y \<Longrightarrow> ParseInput [receiver] y = Ok x"
  using reverse_apply by (auto simp: ParseInput_def res_bind_eq_Inr)

lemma append_roundtrip:
  assumes rest: "\<And>x y. PrepareOutput ss x = Ok y \<Longrightarrow> ParseInput rs y = Ok x"
    and "PrepareOutput (sender # ss) x = Ok y"
  shows "ParseInput (receiver # rs) y = Ok x"
proof -
  have loop: "parse_loop (as @ [r]) b = res_bind (parse_loop as b) (trReverse r)" for as r b
    by (induction as arbitrary: b) (simp_all add: res_bind_def split: sum.splits)
  obtain z where "trApply sender x = Ok z" "PrepareOutput ss z = Ok y" using assms(2) by (auto simp: res_bind_eq_Inr)
  then show ?thesis using rest [of z y] reverse_apply [of x z] loop by (simp add: ParseInput_def)
qed

end

lemma key_length [simp]: "length (keyFromPassphrase p) = 32"
  by (simp add: keyFromPassphrase_def)

interpretation no_op: transform_pair NewNoOpTransform NewNoOpTransform
  by unfold_locales (simp_all add: NewNoOpTransform_def)

interpretation aes: transform_pair "NewAESGCMTransform p seed" "NewAESGCMTransform p seed'"
proof
  show "trReverse (NewAESGCMTransform p seed') y = Ok x" if "trApply (NewAESGCMTransform p seed) x = Ok y" for x y
    using that
    by (auto simp: NewAESGCMTransform_def aes_Apply_def aes_Reverse_def Let_def gcm_Open_Seal split: option.splits)
qed (simp_all add: NewAESGCMTransform_def aes_Apply_def aes_Reverse_def Let_def split: option.splits)

text \<open>What the code relies on of the compression library.\<close>

definition zstd_faithful :: "zstd_lib \<Rightarrow> bool" where
  "zstd_faithful z \<longleftrightarrow> (\<forall>x y. zCompress z x = Some y \<longrightarrow> zDecompress z y = Some x)"

lemma zstd_pair:
  assumes "zstd_faithful z"
  shows "transform_pair (NewZstdTransform (zCompress z) (zDecompress z)) (NewZstdTransform (zCompress z) (zDecompress z))"
  using assms by unfold_locales (auto simp: NewZstdTransform_def zstd_faithful_def split: option.splits)

lemmas zstd_roundtrip =
  transform_pair.single_roundtrip [OF zstd_pair] transform_pair.append_roundtrip [OF zstd_pair]

text \<open>Whatever an edge sends through its pipeline, every edge with the same configuration reads
  back exactly, whichever nonce was drawn. The compression library must decompress what it
  compressed; encryption is the modelled AES-256-GCM under the SHA-256 of the passphrase.\<close>

theorem payload_roundtrip:
  assumes "zstd_faithful z" "PrepareOutput (edge_pipeline zip_on passphrase z seed) x = Ok y"
  shows "ParseInput (edge_pipeline zip_on passphrase z seed') y = Ok x"
proof -
  consider "zip_on" "passphrase \<noteq> []" | "zip_on" "passphrase = []" | "\<not> zip_on" "passphrase \<noteq> []" | "\<not> zip_on" "passphrase = []"
    by blast
  then show ?thesis
  proof cases
    case 1
    let ?z = "NewZstdTransform (zCompress z) (zDecompress z)" and ?a = "NewAESGCMTransform passphrase"
    have e: "edge_pipeline zip_on passphrase z t = [?z, ?a t]" for t using 1 by (simp add: edge_pipeline_def Let_def)
    have "ParseInput [?z, ?a seed'] y = Ok x"
      by (rule zstd_roundtrip(2) [OF assms(1), of "[?a seed]"]) (rule aes.single_roundtrip, assumption, use assms(2) e in simp)
    then show ?thesis using e by simp
  next
    case 2
    then show ?thesis using assms zstd_roundtrip(1) [OF assms(1)] by (simp add: edge_pipeline_def Let_def)
  next
    case 3
    then show ?thesis using assms aes.single_roundtrip by (simp add: edge_pipeline_def Let_def)
  next
    case 4
    then show ?thesis using assms no_op.single_roundtrip by (simp add: edge_pipeline_def Let_def)
  qed
qed

text \<open>A library that stores its input behind a marker byte.\<close>

definition zstd_store :: zstd_lib where
  "zstd_store = \<lparr>zCompress = (\<lambda>b. Some (0 # b)), zDecompress = (\<lambda>b. case b of [] \<Rightarrow> None | _ # r \<Rightarrow> Some r)\<rparr>"

lemma zstd_store_faithful: "zstd_faithful zstd_store"
  by (simp add: zstd_faithful_def zstd_store_def)

theorem payload_roundtrip_witness:
  "ParseInput (edge_pipeline True ''secret'' zstd_store None)
     (map (\<lambda>_. 7) [0..<nonceSize] @ gcm_Seal (keyFromPassphrase ''secret'') (map (\<lambda>_. 7) [0..<nonceSize]) [0, 1, 2]) = Ok [1, 2]"
proof (rule payload_roundtrip [OF zstd_store_faithful, where seed = "Some (\<lambda>_. 7)"])
  show "PrepareOutput (edge_pipeline True ''secret'' zstd_store (Some (\<lambda>_. 7))) [1, 2] =
      Ok (map (\<lambda>_. 7) [0..<nonceSize] @ gcm_Seal (keyFromPassphrase ''secret'') (map (\<lambda>_. 7) [0..<nonceSize]) [0, 1, 2])"
    by (simp add: edge_pipeline_def NewZstdTransform_def NewAESGCMTransform_def zstd_store_def aes_Apply_def Let_def)
qed

end
