(* ===== verification/Edge_Client.thy ===== *)
theory Edge_Client
  imports P2P Frame Transform
begin

text \<open>
  The edge (\<^verbatim>\<open>pkg/edge\<close>): its state, the datagrams it sends and where it sends them, the packet
  handlers, the setup with the supernode, and one step of each of its loops (TAP, UDP,
  WebSocket, heartbeat, peer pings, peer announcements). A step maps a state to a result and a
  state, and a panic is a result. What is written to a socket is appended to \<open>ecOut\<close>, what is
  written to the TAP device to \<open>ecTapOut\<close>.

  The two receive buffers are part of the state: the code reuses them from packet to packet and
  looks at bytes beyond the packet that was read.

  What lies outside is the record \<open>ed_env\<close>, one per event: the clock, the services table, the
  protobuf, RSA and zstd libraries, the random numbers of the encryption, and whether a write, a
  connection attempt or a system call succeeds.
\<close>

section \<open>State\<close>

record EdgeClientApi =
  IsWaitingForLeasesInfos :: bool
  LastLeasesInfos :: "LeasesInfos option"

datatype edge_out = EdgeUDP udp_addr bytes | EdgeWSS bytes

text \<open>The fields of the client that never change after its construction are a record of their own.
  Of the transports and devices only their presence matters, and the payload processor is
  determined by the two settings of the configuration.\<close>

record EdgeSettings =
  esID :: string
  esCommunity :: string
  esSupernodeAddr :: udp_addr
  esConn :: bool
  esWssConfig :: bool
  esEnableVFuze :: bool
  esCommunityHash :: u32
  esMACAddr :: hwaddr
  esMachineId :: bytes
  esCompressPayload :: bool
  esPassphrase :: string

record EdgeClient =
  ecSettings :: EdgeSettings
  ecPeers :: PeerRegistry
  ecWSSTransport :: bool
  ecSeq :: u32
  ecVirtualIP :: string
  ecParsedVirtualIP :: "ip_addr option"
  ecUnregisterDone :: bool
  ecRunning :: bool
  ecPacketsSent :: u64
  ecPacketsRecv :: u64
  ecEAPI :: "EdgeClientApi option"
  ecSNPubKey :: "bytes option"
  ecRegistered :: bool
  isWaitingForSNPubKeyUpdate :: bool
  isWaitingForSNRetryRegisterResponse :: bool
  ecReconnectDelay :: int
  ecPacketBuf :: bytes
  ecFrameBuf :: bytes
  ecTapOut :: "bytes list"
  ecRawOut :: "bytes list"
  ecOut :: "edge_out list"

abbreviation ecID :: "EdgeClient \<Rightarrow> string" where "ecID e \<equiv> esID (ecSettings e)"
abbreviation ecCommunity :: "EdgeClient \<Rightarrow> string" where "ecCommunity e \<equiv> esCommunity (ecSettings e)"
abbreviation ecSupernodeAddr :: "EdgeClient \<Rightarrow> udp_addr" where "ecSupernodeAddr e \<equiv> esSupernodeAddr (ecSettings e)"
abbreviation ecConn :: "EdgeClient \<Rightarrow> bool" where "ecConn e \<equiv> esConn (ecSettings e)"
abbreviation ecWssConfig :: "EdgeClient \<Rightarrow> bool" where "ecWssConfig e \<equiv> esWssConfig (ecSettings e)"
abbreviation ecEnableVFuze :: "EdgeClient \<Rightarrow> bool" where "ecEnableVFuze e \<equiv> esEnableVFuze (ecSettings e)"
abbreviation ecMACAddr :: "EdgeClient \<Rightarrow> hwaddr" where "ecMACAddr e \<equiv> esMACAddr (ecSettings e)"
abbreviation ecMachineId :: "EdgeClient \<Rightarrow> bytes" where "ecMachineId e \<equiv> esMachineId (ecSettings e)"
abbreviation ecCompressPayload :: "EdgeClient \<Rightarrow> bool" where "ecCompressPayload e \<equiv> esCompressPayload (ecSettings e)"
abbreviation ecPassphrase :: "EdgeClient \<Rightarrow> string" where "ecPassphrase e \<equiv> esPassphrase (ecSettings e)"

record ed_env =
  evNow :: int
  evServices :: "string \<Rightarrow> int option"
  evMarshal :: "pb_msg \<Rightarrow> bytes option"
  evUnmarshal :: "PacketType \<Rightarrow> bytes \<Rightarrow> pb_msg option"
  evParseKey :: "bytes \<Rightarrow> bytes option"
  evEncrypt :: "bytes \<Rightarrow> bytes \<Rightarrow> bytes option"
  evZstd :: zstd_lib
  evSeed :: "(nat \<Rightarrow> byte) option"
  evUDPWrite :: "udp_addr \<Rightarrow> bytes \<Rightarrow> bool"
  evWSSWrite :: "bytes \<Rightarrow> bool"
  evTapWrite :: "bytes \<Rightarrow> bool"
  evRawSend :: "bytes \<Rightarrow> bool"
  evIfUp :: "string \<Rightarrow> bool"
  evHardwareAddr :: "hwaddr option"
  evDeadline :: bool
  evRead :: "(bytes \<times> net_addr) option"
  evConnect :: bool

datatype ed_error =
    EdProto proto_error | EdP2P p2p_error | EdPayload tr_error | EdArp arp_error | EdFrame frame_error
  | EnforceP2PNilDest | EnforceP2PUnknownPeer
  | NoTransport | UDPWriteFailed | WSSWriteFailed | TAPWriteFailed | RawSendFailed | IfUpFailed
  | EdEncodeFailed | EdEncryptFailed | KeyParseFailed | ErrNACKRegister | UnexpectedRequest
  | BadPingSource | PingNotForUs | MissingTargetMAC | BadTargetMAC
  | NotRegistered | NoHeartbeatWhileWaiting | NoP2PInfosWhileWaiting
  | DeadlineFailed | ReadTimeout | ShortReply | InvalidVirtualIP | NoVirtualIP
  | EdWrongPacketType | EdNoHandler PacketType

type_synonym 'a edm = "(EdgeClient, ed_error, 'a) op"

definition DefaultBufferSize :: nat where "DefaultBufferSize = 65507"

definition set_peers :: "PeerRegistry \<Rightarrow> EdgeClient \<Rightarrow> EdgeClient" where
  "set_peers reg e = e\<lparr>ecPeers := reg\<rparr>"

section \<open>Sending\<close>

definition UDPAddrWithStrategy :: "ed_env \<Rightarrow> hwaddr option \<Rightarrow> UDPWriteStrategy \<Rightarrow> EdgeClient \<Rightarrow> (ed_error, udp_addr option) res" where
  "UDPAddrWithStrategy env dst strategy e =
     (if ecWSSTransport e then Ok (Some (ecSupernodeAddr e))
      else case strategy of
        UDPEnforceSupernode \<Rightarrow> Ok (Some (ecSupernodeAddr e))
      | _ \<Rightarrow>
          (case dst of
             None \<Rightarrow> if strategy = UDPEnforceP2P then Fail EnforceP2PNilDest else Ok (Some (ecSupernodeAddr e))
           | Some d \<Rightarrow>
               (case GetPeer (mac_string d) (ecPeers e) of
                  Inl _ \<Rightarrow> if strategy = UDPEnforceP2P then Fail EnforceP2PUnknownPeer else Ok (Some (ecSupernodeAddr e))
                | Inr a \<Rightarrow>
                    let p = rgHeap (ecPeers e) ! a in
                    if pStatus p \<noteq> P2PAvailable \<and> strategy = UDPBestEffort then Ok (Some (ecSupernodeAddr e))
                    else Ok (peer_UDPAddr (evServices env) p))))"

definition EdgeHeader :: "ed_env \<Rightarrow> PacketType \<Rightarrow> hwaddr option \<Rightarrow> ProtoVHeader edm" where
  "EdgeHeader env pt dst e =
     (let e1 = e\<lparr>ecSeq := ecSeq e + 1\<rparr>;
          seq = (ucast (ecSeq e1 AND 0xFFFF) :: u16)
      in on_ok (err_map EdProto (copy6 (ecMACAddr e))) (\<lambda>sid.
         on_ok (err_map EdProto (case dst of None \<Rightarrow> Ok arr6_zero | Some d \<Rightarrow> copy6 d)) (\<lambda>did e.
           (Ok \<lparr>Version = VersionV, TTL = 64, PacketType = pt, Flags = 0, Sequence = seq,
                CommunityID = HashCommunity (ecCommunity e), SourceID = sid, DestID = did,
                Timestamp = unix_seconds (evNow env), Checksum = 0\<rparr>, e))) e1)"

text \<open>The last part of the three sending functions. Writing to a nil address is an error of
  \<^verbatim>\<open>WriteToUDP\<close>.\<close>

definition transmit :: "ed_env \<Rightarrow> bytes \<Rightarrow> udp_addr option \<Rightarrow> unit edm" where
  "transmit env packet udpSocket e =
     (if ecWSSTransport e then
        (if evWSSWrite env packet then (Ok (), e\<lparr>ecOut := ecOut e @ [EdgeWSS packet]\<rparr>) else (Fail WSSWriteFailed, e))
      else if \<not> ecConn e then (Fail NoTransport, e)
      else case udpSocket of
        None \<Rightarrow> (Fail UDPWriteFailed, e)
      | Some u \<Rightarrow>
          if evUDPWrite env u packet then (Ok (), e\<lparr>ecOut := ecOut e @ [EdgeUDP u packet]\<rparr>)
          else (Fail UDPWriteFailed, e))"

definition count_sent :: "EdgeClient \<Rightarrow> EdgeClient" where
  "count_sent e = e\<lparr>ecPacketsSent := ecPacketsSent e + 1\<rparr>"

definition WritePacket_edge :: "ed_env \<Rightarrow> PacketType \<Rightarrow> hwaddr option \<Rightarrow> bytes \<Rightarrow> UDPWriteStrategy \<Rightarrow> unit edm" where
  "WritePacket_edge env pt dst payload strategy e =
     on_ok (UDPAddrWithStrategy env dst strategy e) (\<lambda>udpSocket.
     st_then (EdgeHeader env pt dst) (\<lambda>header e.
       transmit env (PackProtoVDatagram header payload) udpSocket (count_sent e))) e"

definition SendStruct_edge :: "ed_env \<Rightarrow> pb_msg \<Rightarrow> hwaddr option \<Rightarrow> UDPWriteStrategy \<Rightarrow> unit edm" where
  "SendStruct_edge env m dst strategy e =
     on_ok (UDPAddrWithStrategy env dst strategy e) (\<lambda>udpSocket.
     st_then (EdgeHeader env (pb_type m) dst) (\<lambda>header.
     on_ok (case evMarshal env m of None \<Rightarrow> Fail EdEncodeFailed | Some b \<Rightarrow> Ok b) (\<lambda>payload.
       transmit env (PackProtoVDatagram header payload) udpSocket))) e"

definition SendVFuze :: "ed_env \<Rightarrow> hwaddr \<Rightarrow> bytes \<Rightarrow> UDPWriteStrategy \<Rightarrow> unit edm" where
  "SendVFuze env dst payload strategy e =
     on_ok (UDPAddrWithStrategy env (Some dst) strategy e) (\<lambda>udpSocket.
     on_ok (err_map EdProto (VFuzeHeaderBytes dst)) (\<lambda>vfuzh e.
       transmit env (vfuzh @ payload) udpSocket (count_sent e))) e"

section \<open>Requests\<close>

text \<open>A nil public key is dereferenced by the encryption.\<close>

definition EncryptedMachineID :: "ed_env \<Rightarrow> EdgeClient \<Rightarrow> (ed_error, bytes) res" where
  "EncryptedMachineID env e =
     (case ecSNPubKey e of
        None \<Rightarrow> Panic NilDereference
      | Some k \<Rightarrow> (case evEncrypt env k (ecMachineId e) of None \<Rightarrow> Fail EdEncryptFailed | Some c \<Rightarrow> Ok c))"

definition Unregister_edge :: "ed_env \<Rightarrow> unit edm" where
  "Unregister_edge env e =
     (if \<not> ecRegistered e then (Fail NotRegistered, e)
      else on_ok (EncryptedMachineID env e) (\<lambda>encMacid e.
        if ecUnregisterDone e then (Ok (), e)
        else SendStruct_edge env
          (MUnregisterRequest \<lparr>urEdgeMacAddr = mac_string (ecMACAddr e), urCommunityName = ecCommunity e,
             urEncryptedMachineId = encMacid\<rparr>)
          None UDPEnforceSupernode (e\<lparr>ecUnregisterDone := True\<rparr>)) e)"

definition sendPeerListRequest :: "ed_env \<Rightarrow> unit edm" where
  "sendPeerListRequest env e = SendStruct_edge env (MPeerListRequest (ecCommunity e)) None UDPEnforceSupernode e"

definition sendHeartbeat :: "ed_env \<Rightarrow> unit edm" where
  "sendHeartbeat env e =
     (if isWaitingForSNPubKeyUpdate e \<or> isWaitingForSNRetryRegisterResponse e then (Fail NoHeartbeatWhileWaiting, e)
      else on_ok (EncryptedMachineID env e) (\<lambda>encmacid.
        SendStruct_edge env
          (MHeartbeatPulse \<lparr>hbEdgeMacAddr = mac_string (ecMACAddr e), hbCommunityName = ecCommunity e,
             hbEncryptedMachineId = encmacid, hbClearMachineId = []\<rparr>)
          None UDPEnforceSupernode) e)"

definition HasPendingChanges :: "PeerRegistry \<Rightarrow> bool" where
  "HasPendingChanges reg = hasPendingChanges reg"

definition sendP2PInfos :: "ed_env \<Rightarrow> unit edm" where
  "sendP2PInfos env e =
     (if isWaitingForSNPubKeyUpdate e \<or> isWaitingForSNRetryRegisterResponse e then (Fail NoP2PInfosWhileWaiting, e)
      else if \<not> HasPendingChanges (ecPeers e) then (Ok (), e)
      else SendStruct_edge env (MPeerP2PInfos (GetPeerP2PInfos (ecPeers e))) None UDPEnforceSupernode
             (set_peers (ClearPendingChanges (ecPeers e)) e))"

definition sendP2PFullStateRequest :: "ed_env \<Rightarrow> unit edm" where
  "sendP2PFullStateRequest env e =
     (if IsWaitingCommunityDatas (ecPeers e) then (Ok (), e)
      else SendStruct_edge env
        (MP2PFullState \<lparr>fsCommunityName = ecCommunity e, fsIsRequest = True, fsReachables = Some [], fsUnreachables = Some []\<rparr>)
        None UDPEnforceSupernode (set_peers ((ecPeers e)\<lparr>IsWaitingCommunityDatas := True\<rparr>) e))"

definition sendLeasesInfosRequest :: "ed_env \<Rightarrow> unit edm" where
  "sendLeasesInfosRequest env e =
     (case ecEAPI e of
        None \<Rightarrow> (Panic NilDereference, e)
      | Some eapi \<Rightarrow>
          if IsWaitingForLeasesInfos eapi then (Ok (), e)
          else st_then (SendStruct_edge env
              (MLeasesInfos \<lparr>lsIsRequest = True, lsCommunityName = ecCommunity e, lsLeases = []\<rparr>) None UDPEnforceSupernode)
            (\<lambda>_ e. (Ok (), e\<lparr>ecEAPI := Some (eapi\<lparr>IsWaitingForLeasesInfos := True\<rparr>)\<rparr>)) e)"

definition RequestSNPublicKey :: "ed_env \<Rightarrow> unit edm" where
  "RequestSNPublicKey env = SendStruct_edge env (MSnPublicSecret \<lparr>spIsRequest = True, spPemData = []\<rparr>) None UDPEnforceSupernode"

definition RequestRegister :: "ed_env \<Rightarrow> unit edm" where
  "RequestRegister env e =
     on_ok (EncryptedMachineID env e) (\<lambda>encMachineID.
       SendStruct_edge env
         (MRegisterRequest \<lparr>rqEdgeMacAddr = mac_string (ecMACAddr e), rqEdgeDesc = ecID e, rqCommunityName = ecCommunity e,
            rqEncryptedMachineId = encMachineID, rqClearMachineId = []\<rparr>)
         None UDPEnforceSupernode) e"

section \<open>Payloads\<close>

definition ProcessOutgoingPayload :: "ed_env \<Rightarrow> EdgeClient \<Rightarrow> bytes \<Rightarrow> (ed_error, bytes) res" where
  "ProcessOutgoingPayload env e payload =
     err_map EdPayload (PrepareOutput (edge_pipeline (ecCompressPayload e) (ecPassphrase e) (evZstd env) (evSeed env)) payload)"

definition ProcessIncomingPayload :: "ed_env \<Rightarrow> EdgeClient \<Rightarrow> bytes \<Rightarrow> (ed_error, bytes) res" where
  "ProcessIncomingPayload env e payload =
     err_map EdPayload (ParseInput (edge_pipeline (ecCompressPayload e) (ecPassphrase e) (evZstd env) (evSeed env)) payload)"

definition minGCMSize :: nat where "minGCMSize = 28"

definition pad_frame :: "bytes \<Rightarrow> bytes" where
  "pad_frame payload = (if length payload < 60 then go_copy (replicate 60 0) payload else payload)"

definition handleDataPayload :: "ed_env \<Rightarrow> bytes \<Rightarrow> unit edm" where
  "handleDataPayload env payload e =
     on_ok (if length payload < minGCMSize then Ok payload else ProcessIncomingPayload env e payload) (\<lambda>payload e.
       let frame = pad_frame payload in
       if evTapWrite env frame then (Ok (), e\<lparr>ecTapOut := ecTapOut e @ [frame]\<rparr>) else (Fail TAPWriteFailed, e)) e"

definition IsKnownPeerSocket :: "udp_addr option \<Rightarrow> EdgeClient \<Rightarrow> bool" where
  "IsKnownPeerSocket addr e = (case GetPeerBySocket addr (ecPeers e) of Inl _ \<Rightarrow> False | Inr _ \<Rightarrow> True)"

definition IsSupernodeUDPAddr :: "udp_addr option \<Rightarrow> EdgeClient \<Rightarrow> (ed_error, bool) res" where
  "IsSupernodeUDPAddr addr e =
     (case addr of
        None \<Rightarrow> Panic NilDereference
      | Some u \<Rightarrow> Ok (ip_equal (uIP u) (uIP (ecSupernodeAddr e)) \<and> uPort u = uPort (ecSupernodeAddr e)))"

definition disablePeerSocketCheckingInVFuze :: bool where
  "disablePeerSocketCheckingInVFuze = True"

text \<open>\<^verbatim>\<open>handleVFuzePacket\<close> is given the whole buffer and the length \<open>n\<close> of the packet in it.\<close>

definition handleVFuzePacket :: "ed_env \<Rightarrow> bytes \<Rightarrow> nat \<Rightarrow> udp_addr option \<Rightarrow> unit edm" where
  "handleVFuzePacket env packetBuf n addr e =
     (if \<not> ecEnableVFuze e then (Ok (), e)
      else case VFuzePacketDestMACAddr packetBuf of
        Inl (Crash p) \<Rightarrow> (Panic p, e)
      | Inl (Err _) \<Rightarrow> (Ok (), e)
      | Inr dst \<Rightarrow>
          if mac_string (ecMACAddr e) \<noteq> mac_string dst then (Ok (), e)
          else on_ok (if disablePeerSocketCheckingInVFuze then Ok True
                      else res_bind (IsSupernodeUDPAddr addr e) (\<lambda>sn. Ok (sn \<or> IsKnownPeerSocket addr e))) (\<lambda>known.
            if \<not> known then (\<lambda>e. (Ok (), e))
            else on_ok (go_slice ProtoVFuzeSize n packetBuf) (handleDataPayload env)) e)"

section \<open>Handlers\<close>

abbreviation ed_decode :: "ed_env \<Rightarrow> PacketType \<Rightarrow> (pb_msg \<Rightarrow> 'm option) \<Rightarrow> RawMessage \<Rightarrow> (ed_error, 'm) res" where
  "ed_decode env pt as r \<equiv> err_map EdProto (decode_msg (evUnmarshal env) pt as r)"

definition ignore_message :: "RawMessage \<Rightarrow> unit edm" where
  "ignore_message r e = (Ok (), e)"

text \<open>Heartbeats of a relay, acknowledgements and requests for peer lists are ignored.\<close>

definition handleHeartbeatMessage_edge :: "RawMessage \<Rightarrow> unit edm" where
  "handleHeartbeatMessage_edge = ignore_message"

definition handleAckMessage :: "RawMessage \<Rightarrow> unit edm" where
  "handleAckMessage = ignore_message"

definition handlePeerListRequestMessage :: "RawMessage \<Rightarrow> unit edm" where
  "handlePeerListRequestMessage = ignore_message"

definition handleSNPublicSecretMessage_edge :: "ed_env \<Rightarrow> RawMessage \<Rightarrow> unit edm" where
  "handleSNPublicSecretMessage_edge env r =
     on_ok (ed_decode env TypeSNPublicSecret as_SnPublicSecret r) (\<lambda>msg.
     on_ok (case evParseKey env (spPemData msg) of None \<Rightarrow> Fail KeyParseFailed | Some k \<Rightarrow> Ok k) (\<lambda>pubkey e.
       let e1 = e\<lparr>ecSNPubKey := Some pubkey, isWaitingForSNPubKeyUpdate := False\<rparr>
       in if isWaitingForSNRetryRegisterResponse e1 then RequestRegister env e1 else (Ok (), e1)))"

definition handleRegisterResponseMessage :: "ed_env \<Rightarrow> RawMessage \<Rightarrow> unit edm" where
  "handleRegisterResponseMessage env r =
     on_ok (ed_decode env TypeRegisterResponse as_RegisterResponse r) (\<lambda>msg e.
       if \<not> rpIsRegisterOk msg then (Fail ErrNACKRegister, e)
       else st_ignore (sendPeerListRequest env)
         (set_peers ((ecPeers e)\<lparr>IsWaitingCommunityDatas := False\<rparr>)
           (e\<lparr>ecRegistered := True, isWaitingForSNRetryRegisterResponse := False\<rparr>)))"

definition handleDataMessage_edge :: "ed_env \<Rightarrow> RawMessage \<Rightarrow> unit edm" where
  "handleDataMessage_edge env r = handleDataPayload env (rPayload r)"

definition handlePeerInfoMessage :: "ed_env \<Rightarrow> RawMessage \<Rightarrow> unit edm" where
  "handlePeerInfoMessage env r =
     on_ok (ed_decode env TypePeerInfo as_PeerInfoList r) (\<lambda>msg e.
       let (res, reg) = HandlePeerInfoList (evServices env) (evNow env) msg False True (ecPeers e)
       in (err_map EdP2P res, set_peers reg e))"

definition handleLeasesInfosMessage_edge :: "ed_env \<Rightarrow> RawMessage \<Rightarrow> unit edm" where
  "handleLeasesInfosMessage_edge env r =
     on_ok (ed_decode env TypeLeasesInfos as_LeasesInfos r) (\<lambda>msg e.
       if lsIsRequest msg then (Fail UnexpectedRequest, e)
       else case ecEAPI e of
         None \<Rightarrow> (Panic NilDereference, e)
       | Some eapi \<Rightarrow> (Ok (), e\<lparr>ecEAPI := Some (eapi\<lparr>LastLeasesInfos := Some msg, IsWaitingForLeasesInfos := False\<rparr>)\<rparr>))"

definition handleRetryRegisterRequest :: "ed_env \<Rightarrow> RawMessage \<Rightarrow> unit edm" where
  "handleRetryRegisterRequest env r e =
     (if PacketType (rHeader r) \<noteq> TypeRetryRegisterRequest then (Fail EdWrongPacketType, e)
      else if isWaitingForSNRetryRegisterResponse e then (Ok (), e)
      else st_then (RequestSNPublicKey env) (\<lambda>_ e.
        (Ok (), e\<lparr>isWaitingForSNPubKeyUpdate := True, isWaitingForSNRetryRegisterResponse := True\<rparr>)) e)"

definition handleP2PFullStateMessage_edge :: "ed_env \<Rightarrow> RawMessage \<Rightarrow> unit edm" where
  "handleP2PFullStateMessage_edge env r =
     on_ok (ed_decode env TypeP2PFullState as_P2PFullState r) (\<lambda>msg e.
       if fsIsRequest msg then (Fail UnexpectedRequest, e)
       else on_ok (err_map EdP2P (UpdateP2PCommunityDatas (fsReachables msg) (fsUnreachables msg) (ecPeers e)))
         (\<lambda>reg e. (Ok (), set_peers reg e)) e)"

text \<open>\<^verbatim>\<open>UpdateP2PStatus\<close> of a peer of the registry, with the pending mark if it changed.\<close>

definition update_status :: "int \<Rightarrow> nat \<Rightarrow> P2PCapacity \<Rightarrow> string \<Rightarrow> PeerRegistry \<Rightarrow> PeerRegistry" where
  "update_status now a status checkid reg =
     (let (changed, p) = UpdateP2PStatus now status checkid (rgHeap reg ! a);
          reg1 = reg\<lparr>rgHeap := (rgHeap reg)[a := p]\<rparr>
      in if changed then SetPendingChanges reg1 else reg1)"

definition update_duplex :: "nat \<Rightarrow> bool \<Rightarrow> PeerRegistry \<Rightarrow> PeerRegistry" where
  "update_duplex a v reg =
     (let (changed, p) = SetFullDuplex v (rgHeap reg ! a);
          reg1 = reg\<lparr>rgHeap := (rgHeap reg)[a := p]\<rparr>
      in if changed = Some True then SetPendingChanges reg1 else reg1)"

definition handle_pong :: "ed_env \<Rightarrow> string \<Rightarrow> bool \<Rightarrow> nat \<Rightarrow> PeerRegistry \<Rightarrow> PeerRegistry" where
  "handle_pong env checkid fromSN a reg =
     (let reg1 = (if pCheckID (rgHeap reg ! a) = checkid then update_status (evNow env) a P2PAvailable checkid reg
                  else update_status (evNow env) a P2PUnknown [] reg)
      in if pStatus (rgHeap reg1 ! a) = P2PAvailable then update_duplex a (\<not> fromSN) reg1 else reg1)"

definition handlePingMessage_edge :: "ed_env \<Rightarrow> RawMessage \<Rightarrow> unit edm" where
  "handlePingMessage_edge env r =
     on_ok (ed_decode env TypePing as_PeerToPing r) (\<lambda>msg e.
       if \<not> pgIsPong msg then
         (case ParseMAC (EdgeMACAddr r) of
            None \<Rightarrow> (Fail BadPingSource, e)
          | Some dst \<Rightarrow>
              if DestMACAddr r \<noteq> mac_string (ecMACAddr e) then (Fail PingNotForUs, e)
              else st_ignore (SendStruct_edge env (MPeerToPing \<lparr>pgCheckId = pgCheckId msg, pgIsPong = True\<rparr>)
                     (Some dst) UDPBestEffort) e)
       else
         (case GetPeer (EdgeMACAddr r) (ecPeers e) of
            Inl _ \<Rightarrow> (Ok (), e)
          | Inr a \<Rightarrow> (Ok (), set_peers (handle_pong env (pgCheckId msg) (IsFromSupernode (rHeader r)) a (ecPeers e)) e)))"

definition handleUnregisterRequestMessage :: "ed_env \<Rightarrow> RawMessage \<Rightarrow> unit edm" where
  "handleUnregisterRequestMessage env r =
     on_ok (ed_decode env TypeUnregisterRequest as_UnregisterRequest r) (\<lambda>_ e.
       if EdgeMACAddr r = mac_string (ecMACAddr e) then (Ok (), e)
       else (Ok (), set_peers (RemovePeer (evServices env) (EdgeMACAddr r) (ecPeers e)) e))"

definition mark_available :: "ed_env \<Rightarrow> string \<Rightarrow> PeerRegistry \<Rightarrow> PeerRegistry" where
  "mark_available env mac reg =
     (case GetPeer mac reg of Inl _ \<Rightarrow> reg | Inr a \<Rightarrow> update_status (evNow env) a P2PAvailable [] reg)"

definition handleP2PStateInfoMessage_edge :: "ed_env \<Rightarrow> RawMessage \<Rightarrow> unit edm" where
  "handleP2PStateInfoMessage_edge env r =
     on_ok (ed_decode env TypeP2PStateInfo as_PeerP2PInfos r) (\<lambda>msg e.
       let reg1 = (if ppFrom msg \<noteq> None then mark_available env (EdgeMACAddr r) (ecPeers e) else ecPeers e)
       in (Ok (), set_peers (fold (\<lambda>info. mark_available env (mac_key info)) (ppTo msg) reg1) e))"

definition handleOnlineCheckMessage :: "ed_env \<Rightarrow> RawMessage \<Rightarrow> unit edm" where
  "handleOnlineCheckMessage env r =
     on_ok (ed_decode env TypeOnlineCheck as_OnlineCheck r) (\<lambda>msg.
       if ocIsReply msg then (\<lambda>e. (Ok (), e))
       else SendStruct_edge env MAck (GetSrcMACAddr (rHeader r)) UDPBestEffort)"

definition handleICECandidateMessage :: "ed_env \<Rightarrow> RawMessage \<Rightarrow> unit edm" where
  "handleICECandidateMessage env r =
     on_ok (ed_decode env TypeICECandidate as_ICECandidate r) (\<lambda>msg e.
       let targetMAC = (if icTargetMac msg = [] then DestMACAddr r else icTargetMac msg) in
       if targetMAC = [] then (Fail MissingTargetMAC, e)
       else case ParseMAC targetMAC of
         None \<Rightarrow> (Fail BadTargetMAC, e)
       | Some dst \<Rightarrow> SendStruct_edge env (MICECandidate msg) (Some dst) UDPBestEffort e)"

definition handleTURNCredentialsMessage :: "ed_env \<Rightarrow> RawMessage \<Rightarrow> unit edm" where
  "handleTURNCredentialsMessage env r =
     on_ok (ed_decode env TypeTURNCredentials as_TURNCredentials r) (\<lambda>_ e. (Ok (), e))"

definition messageHandlers :: "ed_env \<Rightarrow> (PacketType, RawMessage \<Rightarrow> unit edm) gomap" where
  "messageHandlers env =
    [(TypeData, handleDataMessage_edge env),
     (TypePeerInfo, handlePeerInfoMessage env),
     (TypePing, handlePingMessage_edge env),
     (TypeP2PFullState, handleP2PFullStateMessage_edge env),
     (TypeLeasesInfos, handleLeasesInfosMessage_edge env),
     (TypeRetryRegisterRequest, handleRetryRegisterRequest env),
     (TypeRegisterResponse, handleRegisterResponseMessage env),
     (TypeSNPublicSecret, handleSNPublicSecretMessage_edge env),
     (TypeHeartbeat, handleHeartbeatMessage_edge),
     (TypeUnregisterRequest, handleUnregisterRequestMessage env),
     (TypeAck, handleAckMessage),
     (TypePeerListRequest, handlePeerListRequestMessage),
     (TypeP2PStateInfo, handleP2PStateInfoMessage_edge env),
     (TypeOnlineCheck, handleOnlineCheckMessage env),
     (TypeICECandidate, handleICECandidateMessage env),
     (TypeTURNCredentials, handleTURNCredentialsMessage env)]"

section \<open>The loops, one round each\<close>

text \<open>Reading a packet into a buffer that is reused: the rest of the buffer keeps its content.\<close>

definition read_into :: "bytes \<Rightarrow> bytes \<Rightarrow> bytes" where
  "read_into buf data = go_copy buf data"

text \<open>What the UDP and the WebSocket loop do with a packet of \<open>n\<close> bytes in the buffer. The loops log
  the errors of the handlers and go on.\<close>

definition dispatch :: "ed_env \<Rightarrow> nat \<Rightarrow> udp_addr option \<Rightarrow> net_addr \<Rightarrow> unit edm" where
  "dispatch env n udpAddr addr e =
     (let packetBuf = ecPacketBuf e in
      on_ok (go_index packetBuf 0) (\<lambda>v e.
        if v = VersionVFuze then st_ignore (handleVFuzePacket env packetBuf n udpAddr) e
        else if n < ProtoVHeaderSize then (Ok (), e)
        else case NewRawMessage (take n packetBuf) addr of
          Inl (Crash p) \<Rightarrow> (Panic p, e)
        | Inl (Err _) \<Rightarrow> (Ok (), e)
        | Inr rawMsg \<Rightarrow> st_ignore (Handle (messageHandlers env) (\<lambda>pt e. (Fail (EdNoHandler pt), e)) rawMsg) e) e)"

definition receive :: "bytes \<Rightarrow> EdgeClient \<Rightarrow> EdgeClient" where
  "receive data e = e\<lparr>ecPacketBuf := read_into (ecPacketBuf e) data, ecPacketsRecv := ecPacketsRecv e + 1\<rparr>"

definition handleUDP :: "ed_env \<Rightarrow> bytes \<Rightarrow> udp_addr \<Rightarrow> unit edm" where
  "handleUDP env data addr e =
     dispatch env (min (length data) (length (ecPacketBuf e))) (Some addr) (UDPAddr addr) (receive data e)"

datatype wss_input = WSSData bytes | WSSTimeout | WSSError

text \<open>One round of \<^verbatim>\<open>handleWSS\<close>; the result says whether the loop goes on. The delay is in
  nanoseconds. The messages carry no UDP address, and no handler asks for one.\<close>

definition second :: int where "second = 1000000000"

definition wss_reconnect :: "ed_env \<Rightarrow> bool edm" where
  "wss_reconnect env e =
     (if \<not> evConnect env then
        (Ok True, e\<lparr>ecReconnectDelay := min (ecReconnectDelay e * 2) (60 * second)\<rparr>)
      else st_then (st_ignore (RequestSNPublicKey env)) (\<lambda>_ e. (Ok True, e))
        (e\<lparr>ecWSSTransport := True, ecReconnectDelay := 3 * second, ecRegistered := False,
           isWaitingForSNRetryRegisterResponse := True\<rparr>))"

definition handleWSS :: "ed_env \<Rightarrow> wss_input \<Rightarrow> bool edm" where
  "handleWSS env inp e =
     (if \<not> ecWSSTransport e then (if \<not> ecWssConfig e then (Ok False, e) else wss_reconnect env e)
      else case inp of
        WSSTimeout \<Rightarrow> (Ok True, e)
      | WSSError \<Rightarrow> (Ok True, e\<lparr>ecWSSTransport := False\<rparr>)
      | WSSData data \<Rightarrow>
          st_then (dispatch env (min (length data) (length (ecPacketBuf e))) None (WSSAddr []))
            (\<lambda>_ e. (Ok True, e)) (receive data e))"

text \<open>One frame from the TAP device. \<^verbatim>\<open>GetEthertype\<close> and \<^verbatim>\<open>FastDestination\<close> are given the whole
  buffer.\<close>

definition send_frame :: "ed_env \<Rightarrow> hwaddr \<Rightarrow> bytes \<Rightarrow> unit edm" where
  "send_frame env destMAC payload e =
     (if \<not> IsBroadcast destMAC then
        (if ecEnableVFuze e then SendVFuze env destMAC payload UDPBestEffort e
         else WritePacket_edge env TypeData (Some destMAC) payload UDPBestEffort e)
      else WritePacket_edge env TypeData (Some destMAC) payload UDPEnforceSupernode e)"

definition handleTAP :: "ed_env \<Rightarrow> bytes \<Rightarrow> unit edm" where
  "handleTAP env frame e =
     (let n = min (length frame) (length (ecFrameBuf e));
          frameBuf = read_into (ecFrameBuf e) frame;
          e1 = e\<lparr>ecFrameBuf := frameBuf\<rparr>
      in if n < 14 then (Ok (), e1)
      else case GetEthertype frameBuf of
        Inl (Crash p) \<Rightarrow> (Panic p, e1)
      | Inl (Err _) \<Rightarrow> (Ok (), e1)
      | Inr ethertype \<Rightarrow>
          if ethertype = EthertypeIPv6 then (Ok (), e1)
          else case ProcessOutgoingPayload env e1 (take n frameBuf) of
            Inl (Crash p) \<Rightarrow> (Panic p, e1)
          | Inl (Err _) \<Rightarrow> (Ok (), e1)
          | Inr payload \<Rightarrow> on_ok (err_map EdFrame (FastDestination frameBuf)) (\<lambda>destMAC. st_ignore (send_frame env destMAC payload)) e1)"

definition handleHeartbeat :: "ed_env \<Rightarrow> unit edm" where
  "handleHeartbeat env = st_ignore (sendHeartbeat env)"

definition handleP2PInfos :: "ed_env \<Rightarrow> unit edm" where
  "handleP2PInfos env = st_ignore (sendP2PInfos env)"

text \<open>Pinging the peers. An empty hardware address of a message is nil.\<close>

definition nil_if_empty :: "bytes \<Rightarrow> hwaddr option" where
  "nil_if_empty m = (if m = [] then None else Some m)"

fun send_pings :: "ed_env \<Rightarrow> nat \<Rightarrow> pb_msg \<Rightarrow> hwaddr option \<Rightarrow> unit edm" where
  "send_pings env 0 msg dst = SendStruct_edge env msg dst UDPEnforceP2P"
| "send_pings env (Suc n) msg dst =
     st_then (st_ignore (SendStruct_edge env msg dst UDPEnforceP2P)) (\<lambda>_. send_pings env n msg dst)"

definition check_id :: "EdgeClient \<Rightarrow> PeerInfo \<Rightarrow> string" where
  "check_id e i = join_with (CHR ''.'') [ecID e, mac_string (ecMACAddr e), mac_key i, piPubSocket i, itoa 0]"

definition PingPeer :: "ed_env \<Rightarrow> nat \<Rightarrow> nat \<Rightarrow> P2PCapacity \<Rightarrow> unit edm" where
  "PingPeer env a n status e =
     (let i = pInfos (rgHeap (ecPeers e) ! a);
          checkid = check_id e i
      in send_pings env n (MPeerToPing \<lparr>pgCheckId = checkid, pgIsPong = False\<rparr>) (nil_if_empty (piMacAddr i))
           (set_peers (update_status (evNow env) a status checkid (ecPeers e)) e))"

fun ping_all :: "ed_env \<Rightarrow> nat list \<Rightarrow> P2PCapacity \<Rightarrow> unit edm" where
  "ping_all env [] status e = (Ok (), e)"
| "ping_all env (a # as) status e = st_then (st_ignore (PingPeer env a 3 status)) (\<lambda>_. ping_all env as status) e"

definition UpdatePeersP2PStates :: "ed_env \<Rightarrow> unit edm" where
  "UpdatePeersP2PStates env e =
     st_then (ping_all env (GetP2PUnknownPeers (ecPeers e)) P2PPending) (\<lambda>_ e.
       let (pending, reg) = GetP2PendingPeers (evNow env) (ecPeers e) in
       st_then (ping_all env pending P2PPending) (\<lambda>_ e.
         ping_all env (GetP2PAvailablePeers (ecPeers e)) P2PAvailable e) (set_peers reg e)) e"

text \<open>The ticker of the pings recovers from a panic.\<close>

definition recovered :: "'a edm \<Rightarrow> unit edm" where
  "recovered m e = (Ok (), snd (m e))"

definition handleP2PUpdates :: "ed_env \<Rightarrow> unit edm" where
  "handleP2PUpdates env = recovered (UpdatePeersP2PStates env)"

text \<open>Starting and stopping. The check for a registered edge only logs.\<close>

definition Run :: "ed_env \<Rightarrow> unit edm" where
  "Run env e =
     (if ecRunning e then (Ok (), e)
      else st_then (st_ignore (sendPeerListRequest env)) (\<lambda>_ e.
        (Ok (), e\<lparr>ecEAPI := Some \<lparr>IsWaitingForLeasesInfos = False, LastLeasesInfos = None\<rparr>\<rparr>)) (e\<lparr>ecRunning := True\<rparr>))"

definition Close :: "ed_env \<Rightarrow> unit edm" where
  "Close env = st_then (st_ignore (Unregister_edge env)) (\<lambda>_ e. (Ok (), e\<lparr>ecRunning := False\<rparr>))"

section \<open>The edge as a system of events\<close>

datatype ed_event =
    EdUDP ed_env bytes udp_addr
  | EdWSS ed_env wss_input
  | EdTAP ed_env bytes
  | EdHeartbeat ed_env
  | EdP2PInfos ed_env
  | EdP2PUpdates ed_env
  | EdFullState ed_env
  | EdLeases ed_env

fun ed_run :: "ed_event \<Rightarrow> unit edm" where
  "ed_run (EdUDP env data addr) = handleUDP env data addr"
| "ed_run (EdWSS env inp) = st_then (handleWSS env inp) (\<lambda>_ e. (Ok (), e))"
| "ed_run (EdTAP env frame) = handleTAP env frame"
| "ed_run (EdHeartbeat env) = handleHeartbeat env"
| "ed_run (EdP2PInfos env) = handleP2PInfos env"
| "ed_run (EdP2PUpdates env) = handleP2PUpdates env"
| "ed_run (EdFullState env) = st_ignore (sendP2PFullStateRequest env)"
| "ed_run (EdLeases env) = st_ignore (sendLeasesInfosRequest env)"

definition ed_step :: "ed_event \<Rightarrow> EdgeClient \<Rightarrow> EdgeClient" where
  "ed_step ev e = snd (ed_run ev e)"

end
