(* ===== verification/Edge_Lib.thy ===== *)
theory Edge_Lib
  imports Edge_Client
begin

text \<open>
  Library of the edge: what sending changes (the sequence number, the counter, at most one
  datagram at the end of the outbox), what each handler keeps, and when the steps cannot
  panic.
\<close>

section \<open>The frame of sending\<close>

text \<open>Everything but the sequence number, the counter of sent packets and the outbox.\<close>

definition ed_core where
  "ed_core e = (ecSettings e, ecPeers e, ecSNPubKey e, ecEAPI e, ecRegistered e, isWaitingForSNPubKeyUpdate e,
     isWaitingForSNRetryRegisterResponse e, (ecPacketBuf e, ecFrameBuf e, ecTapOut e, ecRawOut e, ecUnregisterDone e,
     ecWSSTransport e, ecVirtualIP e, ecParsedVirtualIP e, ecRunning e, ecReconnectDelay e, ecPacketsRecv e))"

lemma ed_core_simps [simp]:
  "ed_core (count_sent e) = ed_core e" "ed_core (e\<lparr>ecSeq := n\<rparr>) = ed_core e" "ed_core (e\<lparr>ecOut := xs\<rparr>) = ed_core e"
  by (simp_all add: ed_core_def count_sent_def)

lemma ed_core_eq:
  "ed_core e' = ed_core e \<longleftrightarrow>
     ecSettings e' = ecSettings e \<and> ecPeers e' = ecPeers e \<and> ecSNPubKey e' = ecSNPubKey e \<and> ecEAPI e' = ecEAPI e \<and>
     ecRegistered e' = ecRegistered e \<and> isWaitingForSNPubKeyUpdate e' = isWaitingForSNPubKeyUpdate e \<and>
     isWaitingForSNRetryRegisterResponse e' = isWaitingForSNRetryRegisterResponse e \<and>
     ecPacketBuf e' = ecPacketBuf e \<and> ecFrameBuf e' = ecFrameBuf e \<and> ecTapOut e' = ecTapOut e \<and> ecRawOut e' = ecRawOut e \<and>
     ecUnregisterDone e' = ecUnregisterDone e \<and> ecWSSTransport e' = ecWSSTransport e \<and> ecVirtualIP e' = ecVirtualIP e \<and>
     ecParsedVirtualIP e' = ecParsedVirtualIP e \<and> ecRunning e' = ecRunning e \<and> ecReconnectDelay e' = ecReconnectDelay e \<and>
     ecPacketsRecv e' = ecPacketsRecv e"
  by (simp add: ed_core_def)

lemma EdgeHeader_cases:
  "EdgeHeader env pt dst e = (Panic SliceOutOfRange, e\<lparr>ecSeq := ecSeq e + 1\<rparr>) \<or>
   (\<exists>h. EdgeHeader env pt dst e = (Ok h, e\<lparr>ecSeq := ecSeq e + 1\<rparr>) \<and> PacketType h = pt \<and> Version h = VersionV)"
  by (cases dst) (simp_all add: EdgeHeader_def Let_def copy6_def err_map_def on_ok_def)

fun out_packet :: "edge_out \<Rightarrow> bytes" where
  "out_packet (EdgeUDP u p) = p"
| "out_packet (EdgeWSS p) = p"

text \<open>The datagram that leaves, if one does.\<close>

definition sent_as :: "ed_env \<Rightarrow> bytes \<Rightarrow> udp_addr option \<Rightarrow> EdgeClient \<Rightarrow> edge_out option" where
  "sent_as env packet sock e =
     (if ecWSSTransport e then (if evWSSWrite env packet then Some (EdgeWSS packet) else None)
      else case sock of None \<Rightarrow> None | Some u \<Rightarrow> if ecConn e \<and> evUDPWrite env u packet then Some (EdgeUDP u packet) else None)"

lemma transmit_wss:
  "ecWSSTransport e \<Longrightarrow> evWSSWrite env packet \<Longrightarrow>
     transmit env packet sock e = (Ok (), e\<lparr>ecOut := ecOut e @ [EdgeWSS packet]\<rparr>)"
  by (simp add: transmit_def)

lemma transmit_udp:
  "\<not> ecWSSTransport e \<Longrightarrow> ecConn e \<Longrightarrow> evUDPWrite env u packet \<Longrightarrow>
     transmit env packet (Some u) e = (Ok (), e\<lparr>ecOut := ecOut e @ [EdgeUDP u packet]\<rparr>)"
  by (simp add: transmit_def)

lemma transmit_Some:
  assumes "sent_as env packet sock e = Some x"
  shows "transmit env packet sock e = (Ok (), e\<lparr>ecOut := ecOut e @ [x]\<rparr>)"
proof (cases "ecWSSTransport e")
  case True
  then have "evWSSWrite env packet" and x: "x = EdgeWSS packet" using assms by (simp_all add: sent_as_def split: if_splits)
  then show ?thesis unfolding x using True by (intro transmit_wss)
next
  case False
  then obtain u where "sock = Some u" "ecConn e" "evUDPWrite env u packet" and x: "x = EdgeUDP u packet"
    using assms by (simp add: sent_as_def split: if_splits option.splits)
  then show ?thesis unfolding x using False by (simp add: transmit_udp)
qed

lemma transmit_None: "sent_as env packet sock e = None \<Longrightarrow> \<exists>f. transmit env packet sock e = (Fail f, e)"
  by (cases sock; cases "ecConn e") (simp_all add: sent_as_def transmit_def split: if_splits)

lemma sent_as_packet: "sent_as env packet sock e = Some x \<Longrightarrow> out_packet x = packet"
  by (cases sock) (auto simp: sent_as_def split: if_splits)

lemma transmit_cases:
  "(\<exists>f. transmit env packet sock e = (Fail f, e)) \<or>
   (\<exists>x. out_packet x = packet \<and> transmit env packet sock e = (Ok (), e\<lparr>ecOut := ecOut e @ [x]\<rparr>))"
proof (cases "sent_as env packet sock e")
  case None
  show ?thesis by (rule disjI1, rule transmit_None, rule None)
next
  case (Some x)
  show ?thesis by (rule disjI2, rule exI, rule conjI, rule sent_as_packet, rule Some, rule transmit_Some, rule Some)
qed

lemma transmit_core [simp]: "ed_core (snd (transmit env packet sock e)) = ed_core e"
  using transmit_cases [of env packet sock e] by (elim disjE exE conjE) simp_all

lemma transmit_no_panic [simp]: "\<not> panics (fst (transmit env packet sock e))"
  using transmit_cases [of env packet sock e] by (elim disjE exE conjE) simp_all

lemma EdgeHeader_core [simp]: "ed_core (snd (EdgeHeader env pt dst e)) = ed_core e"
  using EdgeHeader_cases [of env pt dst e] by (elim disjE exE conjE) simp_all

lemma st_then_core:
  "ed_core (snd (m e)) = ed_core e \<Longrightarrow> (\<And>x e'. ed_core e' = ed_core e \<Longrightarrow> ed_core (snd (f x e')) = ed_core e) \<Longrightarrow>
     ed_core (snd (st_then m f e)) = ed_core e"
  by (rule st_then_inv [where P = "\<lambda>e'. ed_core e' = ed_core e"]) (auto simp: snd_def split: prod.splits)

lemma on_ok_core:
  "(\<And>x. ed_core (snd (f x e)) = ed_core e) \<Longrightarrow> ed_core (snd (on_ok r f e)) = ed_core e"
  by (rule on_ok_inv [where P = "\<lambda>e'. ed_core e' = ed_core e"]) simp_all

lemma WritePacket_edge_core [simp]: "ed_core (snd (WritePacket_edge env pt dst payload strategy e)) = ed_core e"
  unfolding WritePacket_edge_def by (intro on_ok_core st_then_core) simp_all

lemma SendStruct_edge_core [simp]: "ed_core (snd (SendStruct_edge env m dst strategy e)) = ed_core e"
  unfolding SendStruct_edge_def
  by (intro on_ok_core st_then_core) (simp_all add: on_ok_def split: option.splits)

lemma SendVFuze_core [simp]: "ed_core (snd (SendVFuze env dst payload strategy e)) = ed_core e"
  unfolding SendVFuze_def by (intro on_ok_core) simp_all

section \<open>Steps that do not panic and keep a property\<close>

definition fine :: "('s \<Rightarrow> bool) \<Rightarrow> ('e, 'a) res \<times> 's \<Rightarrow> bool" where
  "fine P rs \<longleftrightarrow> \<not> panics (fst rs) \<and> P (snd rs)"

lemma fine_simps [simp]: "fine P (Ok x, s) \<longleftrightarrow> P s" "fine P (Fail x, s) \<longleftrightarrow> P s"
  by (simp_all add: fine_def)

lemma fine_on_ok:
  "\<not> panics r \<Longrightarrow> P s \<Longrightarrow> (\<And>x. r = Ok x \<Longrightarrow> fine P (f x s)) \<Longrightarrow> fine P (on_ok r f s)"
  by (cases r) (simp_all add: fine_def panics_Inl)

lemma fine_then: "fine P (m s) \<Longrightarrow> (\<And>x s'. P s' \<Longrightarrow> fine P (f x s')) \<Longrightarrow> fine P (st_then m f s)"
  by (cases "m s"; cases "fst (m s)") (auto simp: fine_def panics_Inl)

lemma fine_ignore: "fine P (m s) \<Longrightarrow> fine P (st_ignore m s)"
  by (simp add: fine_def)

section \<open>An edge that is set up\<close>

text \<open>A hardware address of six bytes, the supernode's key, the HTTP interface, buffers that hold a
  header, and a consistent registry.\<close>

definition ed_ok :: "(string \<Rightarrow> int option) \<Rightarrow> EdgeClient \<Rightarrow> bool" where
  "ed_ok services e \<longleftrightarrow>
     6 \<le> length (ecMACAddr e) \<and> ecSNPubKey e \<noteq> None \<and> ecEAPI e \<noteq> None \<and>
     ProtoVFuzeSize \<le> length (ecPacketBuf e) \<and> MinFrameSize \<le> length (ecFrameBuf e) \<and> reg_wf services (ecPeers e)"

lemma ed_ok_core: "ed_core e' = ed_core e \<Longrightarrow> ed_ok services e' = ed_ok services e"
  by (simp add: ed_core_eq ed_ok_def)

lemma ed_ok_simps [simp]:
  "ed_ok sv (e\<lparr>ecSeq := n\<rparr>) = ed_ok sv e" "ed_ok sv (e\<lparr>ecOut := xs\<rparr>) = ed_ok sv e" "ed_ok sv (count_sent e) = ed_ok sv e"
  "ed_ok sv (e\<lparr>ecTapOut := fs\<rparr>) = ed_ok sv e" "ed_ok sv (e\<lparr>ecUnregisterDone := b\<rparr>) = ed_ok sv e"
  "ed_ok sv (e\<lparr>ecWSSTransport := b\<rparr>) = ed_ok sv e" "ed_ok sv (e\<lparr>ecReconnectDelay := d\<rparr>) = ed_ok sv e"
  "ed_ok sv (e\<lparr>ecPacketsRecv := n64\<rparr>) = ed_ok sv e"
  "ed_ok sv (e\<lparr>ecRegistered := b\<rparr>) = ed_ok sv e" "ed_ok sv (e\<lparr>isWaitingForSNRetryRegisterResponse := b\<rparr>) = ed_ok sv e"
  "ed_ok sv (e\<lparr>isWaitingForSNPubKeyUpdate := b\<rparr>) = ed_ok sv e"
  by (simp_all add: ed_ok_def count_sent_def)

lemma ed_ok_sets:
  "ed_ok sv e \<Longrightarrow> ed_ok sv (e\<lparr>ecSNPubKey := Some k\<rparr>)" "ed_ok sv e \<Longrightarrow> ed_ok sv (e\<lparr>ecEAPI := Some a\<rparr>)"
  "ed_ok sv e \<Longrightarrow> reg_wf sv reg \<Longrightarrow> ed_ok sv (set_peers reg e)" "ed_ok sv e \<Longrightarrow> reg_wf sv (ecPeers e)"
  by (simp_all add: ed_ok_def set_peers_def)

definition dst_ok :: "hwaddr option \<Rightarrow> bool" where
  "dst_ok dst = (case dst of None \<Rightarrow> True | Some d \<Rightarrow> 6 \<le> length d)"

lemma UDPAddrWithStrategy_no_panic [simp]: "\<not> panics (UDPAddrWithStrategy env dst strategy e)"
  by (simp add: UDPAddrWithStrategy_def Let_def split: UDPWriteStrategy.splits option.splits sum.splits)

lemma EdgeHeader_fine: "ed_ok sv e \<Longrightarrow> dst_ok dst \<Longrightarrow> fine (ed_ok sv) (EdgeHeader env pt dst e)"
  unfolding EdgeHeader_def Let_def
  by (intro fine_on_ok) (auto simp: ed_ok_def dst_ok_def copy6_def split: option.splits)

lemma transmit_fine: "ed_ok sv e \<Longrightarrow> fine (ed_ok sv) (transmit env packet sock e)"
  by (simp add: fine_def ed_ok_core [OF transmit_core])

lemma WritePacket_edge_fine:
  "ed_ok sv e \<Longrightarrow> dst_ok dst \<Longrightarrow> fine (ed_ok sv) (WritePacket_edge env pt dst payload strategy e)"
  unfolding WritePacket_edge_def by (intro fine_on_ok fine_then EdgeHeader_fine transmit_fine) simp_all

lemma SendStruct_edge_fine:
  "ed_ok sv e \<Longrightarrow> dst_ok dst \<Longrightarrow> fine (ed_ok sv) (SendStruct_edge env m dst strategy e)"
  unfolding SendStruct_edge_def
  by (intro fine_on_ok fine_then EdgeHeader_fine transmit_fine) (simp_all split: option.splits)

lemma SendVFuze_fine:
  "ed_ok sv e \<Longrightarrow> 6 \<le> length dst \<Longrightarrow> fine (ed_ok sv) (SendVFuze env dst payload strategy e)"
  unfolding SendVFuze_def by (intro fine_on_ok transmit_fine) (simp_all add: VFuzeHeaderBytes_def)

lemma dst_ok_None [simp]: "dst_ok None"
  by (simp add: dst_ok_def)

lemma EncryptedMachineID_no_panic: "ed_ok sv e \<Longrightarrow> \<not> panics (EncryptedMachineID env e)"
  by (auto simp: ed_ok_def EncryptedMachineID_def split: option.splits)

lemmas send_fine = fine_on_ok fine_then fine_ignore WritePacket_edge_fine SendStruct_edge_fine SendVFuze_fine
  EncryptedMachineID_no_panic

lemma requests_fine:
  assumes "ed_ok sv e"
  shows "fine (ed_ok sv) (Unregister_edge env e)" "fine (ed_ok sv) (sendPeerListRequest env e)"
    "fine (ed_ok sv) (sendHeartbeat env e)" "fine (ed_ok sv) (sendP2PInfos env e)"
    "fine (ed_ok sv) (sendP2PFullStateRequest env e)" "fine (ed_ok sv) (sendLeasesInfosRequest env e)"
    "fine (ed_ok sv) (RequestSNPublicKey env e)" "fine (ed_ok sv) (RequestRegister env e)"
proof -
  show "fine (ed_ok sv) (Unregister_edge env e)" unfolding Unregister_edge_def using assms by (auto intro!: send_fine)
  show "fine (ed_ok sv) (sendPeerListRequest env e)" unfolding sendPeerListRequest_def using assms by (intro send_fine) simp_all
  show "fine (ed_ok sv) (sendHeartbeat env e)" unfolding sendHeartbeat_def using assms by (auto intro!: send_fine)
  show "fine (ed_ok sv) (sendP2PInfos env e)"
    unfolding sendP2PInfos_def using assms
    by (auto intro!: send_fine ed_ok_sets(3) simp: reg_wf_ClearPendingChanges ed_ok_sets(4))
  have "reg_wf sv ((ecPeers e)\<lparr>IsWaitingCommunityDatas := True\<rparr>)"
    using ed_ok_sets(4) [OF assms] by (simp add: reg_wf_def)
  then show "fine (ed_ok sv) (sendP2PFullStateRequest env e)"
    unfolding sendP2PFullStateRequest_def using assms by (auto intro!: send_fine ed_ok_sets(3))
  show "fine (ed_ok sv) (sendLeasesInfosRequest env e)"
    unfolding sendLeasesInfosRequest_def using assms
    by (auto intro!: send_fine ed_ok_sets(2) split: option.splits) (simp add: ed_ok_def)
  show "fine (ed_ok sv) (RequestSNPublicKey env e)" unfolding RequestSNPublicKey_def using assms by (intro send_fine) simp_all
  show "fine (ed_ok sv) (RequestRegister env e)"
    unfolding RequestRegister_def using assms by (intro send_fine) simp_all
qed

section \<open>Handlers\<close>

lemma reg_wf_update_status: "reg_wf sv reg \<Longrightarrow> reg_wf sv (update_status now a st c reg)"
proof -
  assume wf: "reg_wf sv reg"
  have "pInfos ((rgHeap reg)[a := snd (UpdateP2PStatus now st c (rgHeap reg ! a))] ! b) = pInfos (rgHeap reg ! b)" for b
    by (cases "b = a"; cases "a < length (rgHeap reg)") (simp_all add: list_update_beyond)
  then show ?thesis
    using reg_wf_same_infos [OF wf, of "(rgHeap reg)[a := snd (UpdateP2PStatus now st c (rgHeap reg ! a))]"]
    by (simp add: update_status_def split_beta Let_def SetPendingChanges_def reg_wf_def)
qed

lemma reg_wf_update_duplex: "reg_wf sv reg \<Longrightarrow> reg_wf sv (update_duplex a v reg)"
proof -
  assume wf: "reg_wf sv reg"
  have "pInfos ((rgHeap reg)[a := snd (SetFullDuplex v (rgHeap reg ! a))] ! b) = pInfos (rgHeap reg ! b)" for b
    by (cases "b = a"; cases "a < length (rgHeap reg)") (simp_all add: list_update_beyond)
  then show ?thesis
    using reg_wf_same_infos [OF wf, of "(rgHeap reg)[a := snd (SetFullDuplex v (rgHeap reg ! a))]"]
    by (simp add: update_duplex_def split_beta Let_def SetPendingChanges_def reg_wf_def)
qed

lemma reg_wf_handle_pong: "reg_wf sv reg \<Longrightarrow> reg_wf sv (handle_pong env c sn a reg)"
  by (simp add: handle_pong_def Let_def reg_wf_update_status reg_wf_update_duplex)

lemma reg_wf_mark_available: "reg_wf sv reg \<Longrightarrow> reg_wf sv (mark_available env mac reg)"
  by (simp add: mark_available_def reg_wf_update_status split: sum.splits)

lemma reg_wf_mark_all: "reg_wf sv reg \<Longrightarrow> reg_wf sv (fold (\<lambda>i. mark_available env (mac_key i)) is reg)"
  by (induction "is" arbitrary: reg) (simp_all add: reg_wf_mark_available)

lemma reg_wf_flag: "reg_wf sv (reg\<lparr>IsWaitingCommunityDatas := b\<rparr>) = reg_wf sv reg"
  by (simp add: reg_wf_def)

lemma length_mac_groups2: "mac_groups2 n c s = Some m \<Longrightarrow> length m = n"
  by (induction n c s arbitrary: m rule: mac_groups2.induct) (auto split: option.splits)

lemma length_mac_groups4: "mac_groups4 n s = Some m \<Longrightarrow> length m = 2 * n"
  by (induction n s arbitrary: m rule: mac_groups4.induct) (auto split: option.splits prod.splits)

lemma length_ParseMAC:
  assumes "ParseMAC s = Some m"
  shows "6 \<le> length m"
proof (cases "s ! 2 = CHR '':'' \<or> s ! 2 = CHR ''-''")
  case True
  then have "mac_size (length m)"
    using assms length_mac_groups2 [of "(length s + 1) div 3" "s ! 2" s m] by (simp add: ParseMAC_def split: if_splits)
  then show ?thesis by (auto simp: mac_size_def)
next
  case False
  then have "(length s + 1) mod 5 = 0" "mac_size (2 * (length s + 1) div 5)" "mac_groups4 ((length s + 1) div 5) s = Some m"
    using assms by (simp_all add: ParseMAC_def split: if_splits)
  moreover from this have "length m = 2 * ((length s + 1) div 5)" using length_mac_groups4 by blast
  moreover have "2 * (length s + 1) div 5 = 2 * ((length s + 1) div 5)"
    using calculation(1) by (metis div_mult_swap mod_0_imp_dvd)
  ultimately show ?thesis by (auto simp: mac_size_def)
qed

lemma length_GetSrcMACAddr: "dst_ok (GetSrcMACAddr h)"
  by (simp add: dst_ok_def GetSrcMACAddr_def bytesToMAC_def)

lemma pipeline_no_panic:
  "\<not> panics (PrepareOutput (edge_pipeline c p z seed) x)" "\<not> panics (ParseInput (edge_pipeline c p z seed) x)"
  by (simp_all add: edge_pipeline_def Let_def ParseInput_def res_bind_def NewZstdTransform_def NewNoOpTransform_def
      NewAESGCMTransform_def aes_Apply_def aes_Reverse_def split: sum.splits option.splits)

lemma payload_no_panic [simp]:
  "\<not> panics (ProcessOutgoingPayload env e x)" "\<not> panics (ProcessIncomingPayload env e x)"
  by (simp_all add: ProcessOutgoingPayload_def ProcessIncomingPayload_def pipeline_no_panic)

lemma handleDataPayload_fine: "ed_ok sv e \<Longrightarrow> fine (ed_ok sv) (handleDataPayload env payload e)"
  unfolding handleDataPayload_def by (rule fine_on_ok) (simp_all add: Let_def)

text \<open>The peer lists that arrive carry the origin they announce.\<close>

definition origins_present :: "ed_env \<Rightarrow> bool" where
  "origins_present env \<longleftrightarrow>
     (\<forall>b m. evUnmarshal env TypePeerInfo b = Some (MPeerInfoList m) \<longrightarrow> plHasOrigin m \<longrightarrow> plOrigin m \<noteq> None)"

lemma HandlePeerInfoList_no_panic:
  "(plHasOrigin m \<longrightarrow> plOrigin m \<noteq> None) \<Longrightarrow> \<not> panics (fst (HandlePeerInfoList sv now m reset ow reg))"
  by (auto simp: HandlePeerInfoList_def Let_def split: option.splits)

lemma ed_ok_registered [simp]:
  "ed_ok sv (set_peers reg (e\<lparr>ecRegistered := b, isWaitingForSNRetryRegisterResponse := c\<rparr>)) = ed_ok sv (set_peers reg e)"
  by (simp add: set_peers_def ed_ok_def)

lemma handlePeerInfoMessage_fine:
  assumes "ed_ok sv e" "evServices env = sv" "origins_present env"
  shows "fine (ed_ok sv) (handlePeerInfoMessage env r e)"
  unfolding handlePeerInfoMessage_def
proof (rule fine_on_ok)
  fix m assume "ed_decode env TypePeerInfo as_PeerInfoList r = Ok m"
  then obtain x where "evUnmarshal env TypePeerInfo (rPayload r) = Some x" "as_PeerInfoList x = Some m"
    by (auto simp: decode_msg_Ok)
  then have "plHasOrigin m \<longrightarrow> plOrigin m \<noteq> None"
    using assms(3) by (cases x) (auto simp: origins_present_def)
  moreover have "ed_ok sv (set_peers (snd (HandlePeerInfoList sv (evNow env) m False True (ecPeers e))) e)"
    by (rule ed_ok_sets(3) [OF assms(1) reg_wf_HandlePeerInfoList [OF ed_ok_sets(4) [OF assms(1)]]])
  ultimately show "fine (ed_ok sv) (let (res, reg) = HandlePeerInfoList (evServices env) (evNow env) m False True (ecPeers e)
      in (err_map EdP2P res, set_peers reg e))"
    using assms(2) HandlePeerInfoList_no_panic [of m sv "evNow env" False True "ecPeers e"] by (simp add: split_beta fine_def)
qed (use assms(1) in simp_all)

lemma registry_handlers_fine:
  assumes "ed_ok sv e" "evServices env = sv"
  shows "fine (ed_ok sv) (handleP2PFullStateMessage_edge env r e)" "fine (ed_ok sv) (handlePingMessage_edge env r e)"
    "fine (ed_ok sv) (handleUnregisterRequestMessage env r e)" "fine (ed_ok sv) (handleP2PStateInfoMessage_edge env r e)"
proof -
  note wf = ed_ok_sets(4) [OF assms(1)]
  have p: "\<not> panics (UpdateP2PCommunityDatas a b reg)" for a b reg by (simp add: UpdateP2PCommunityDatas_def split: option.splits)
  show "fine (ed_ok sv) (handleP2PFullStateMessage_edge env r e)"
    unfolding handleP2PFullStateMessage_edge_def using assms wf
    by (auto intro!: fine_on_ok ed_ok_sets(3) simp: p reg_wf_UpdateP2PCommunityDatas)
  show "fine (ed_ok sv) (handlePingMessage_edge env r e)"
    unfolding handlePingMessage_edge_def using assms wf
    by (auto intro!: send_fine ed_ok_sets(3) reg_wf_handle_pong simp: dst_ok_def length_ParseMAC split: option.splits sum.splits)
  show "fine (ed_ok sv) (handleUnregisterRequestMessage env r e)"
    unfolding handleUnregisterRequestMessage_def using assms wf
    by (auto intro!: fine_on_ok ed_ok_sets(3) reg_wf_RemovePeer)
  show "fine (ed_ok sv) (handleP2PStateInfoMessage_edge env r e)"
    unfolding handleP2PStateInfoMessage_edge_def Let_def using assms wf
    by (auto intro!: fine_on_ok ed_ok_sets(3) reg_wf_mark_all reg_wf_mark_available)
qed

lemma session_handlers_fine:
  assumes "ed_ok sv e"
  shows "fine (ed_ok sv) (handleSNPublicSecretMessage_edge env r e)" "fine (ed_ok sv) (handleRegisterResponseMessage env r e)"
    "fine (ed_ok sv) (handleRetryRegisterRequest env r e)" "fine (ed_ok sv) (handleLeasesInfosMessage_edge env r e)"
    "fine (ed_ok sv) (handleOnlineCheckMessage env r e)" "fine (ed_ok sv) (handleICECandidateMessage env r e)"
    "fine (ed_ok sv) (handleTURNCredentialsMessage env r e)" "fine (ed_ok sv) (handleDataMessage_edge env r e)"
proof -
  note wf = ed_ok_sets(4) [OF assms]
  have k: "ed_ok sv (e\<lparr>ecSNPubKey := Some k, isWaitingForSNPubKeyUpdate := False\<rparr>)" for k
    using ed_ok_sets(1) [OF assms, of k] by simp
  show "fine (ed_ok sv) (handleSNPublicSecretMessage_edge env r e)"
    unfolding handleSNPublicSecretMessage_edge_def Let_def using assms k
    by (auto intro!: fine_on_ok requests_fine split: option.splits)
  show "fine (ed_ok sv) (handleRegisterResponseMessage env r e)"
    unfolding handleRegisterResponseMessage_def using assms wf
    by (auto intro!: fine_on_ok fine_ignore requests_fine ed_ok_sets(3) simp: reg_wf_flag)
  show "fine (ed_ok sv) (handleRetryRegisterRequest env r e)"
    unfolding handleRetryRegisterRequest_def using assms by (auto intro!: fine_then requests_fine)
  show "fine (ed_ok sv) (handleLeasesInfosMessage_edge env r e)"
    unfolding handleLeasesInfosMessage_edge_def using assms
    by (auto intro!: fine_on_ok ed_ok_sets(2) split: option.splits) (simp add: ed_ok_def)
  show "fine (ed_ok sv) (handleOnlineCheckMessage env r e)"
    unfolding handleOnlineCheckMessage_def using assms by (auto intro!: send_fine simp: length_GetSrcMACAddr)
  show "fine (ed_ok sv) (handleICECandidateMessage env r e)"
    unfolding handleICECandidateMessage_def Let_def using assms
    by (auto intro!: send_fine simp: dst_ok_def length_ParseMAC split: option.splits)
  show "fine (ed_ok sv) (handleTURNCredentialsMessage env r e)"
    unfolding handleTURNCredentialsMessage_def using assms by (auto intro!: fine_on_ok)
  show "fine (ed_ok sv) (handleDataMessage_edge env r e)"
    unfolding handleDataMessage_edge_def using assms by (rule handleDataPayload_fine)
qed

lemma ignore_message_fine: "ed_ok sv e \<Longrightarrow> fine (ed_ok sv) (ignore_message r e)"
  by (simp add: ignore_message_def)

lemma messageHandlers_fine:
  assumes "ed_ok sv e" "evServices env = sv" "origins_present env"
  shows "fine (ed_ok sv) (Handle (messageHandlers env) (\<lambda>pt e. (Fail (EdNoHandler pt), e)) r e)"
proof (cases "gget (messageHandlers env) (PacketType (rHeader r))")
  case None
  then show ?thesis using assms(1) by (simp add: Handle_def)
next
  case (Some h)
  then have "(PacketType (rHeader r), h) \<in> set (messageHandlers env)" by (simp add: gget_def map_of_SomeD)
  then have "fine (ed_ok sv) (h r e)"
    unfolding messageHandlers_def list.set insert_iff empty_iff prod.inject
      handleHeartbeatMessage_edge_def handleAckMessage_def handlePeerListRequestMessage_def
    by (elim disjE conjE)
      (simp_all only: registry_handlers_fine [OF assms(1,2)] session_handlers_fine [OF assms(1)]
        handlePeerInfoMessage_fine [OF assms] ignore_message_fine [OF assms(1)])
  then show ?thesis using Some by (simp add: Handle_def)
qed

section \<open>The loops\<close>

lemma length_read_into [simp]: "length (read_into buf data) = length buf"
  by (simp add: read_into_def go_copy_def)

lemma read_into_0: "data \<noteq> [] \<Longrightarrow> buf \<noteq> [] \<Longrightarrow> read_into buf data ! 0 = data ! 0"
  by (simp add: read_into_def go_copy_def nth_append)

lemma ed_ok_receive [simp]: "ed_ok sv (receive data e) = ed_ok sv e"
  by (simp add: receive_def ed_ok_def)

lemma handleVFuzePacket_fine:
  assumes "ed_ok sv e" "ProtoVFuzeSize \<le> n" "n \<le> length buf"
  shows "fine (ed_ok sv) (handleVFuzePacket env buf n addr e)"
proof -
  have "fine (ed_ok sv) (on_ok (go_slice ProtoVFuzeSize n buf) (handleDataPayload env) e)"
    using assms by (auto simp: go_slice_def intro: handleDataPayload_fine)
  then show ?thesis
    using assms(1)
    by (auto simp: handleVFuzePacket_def disablePeerSocketCheckingInVFuze_def VFuzePacketDestMACAddr_def)
qed

text \<open>A packet that is not empty, and a whole header if it is a VFuze packet.\<close>

definition packet_ok :: "bytes \<Rightarrow> bool" where
  "packet_ok data \<longleftrightarrow> data \<noteq> [] \<and> (data ! 0 = VersionVFuze \<longrightarrow> ProtoVFuzeSize \<le> length data)"

lemma dispatch_fine:
  assumes "ed_ok sv e" "evServices env = sv" "origins_present env" "packet_ok data"
  shows "fine (ed_ok sv) (dispatch env (min (length data) (length (ecPacketBuf e))) ua addr (receive data e))"
proof -
  let ?n = "min (length data) (length (ecPacketBuf e))" and ?e = "receive data e"
  have e: "ed_ok sv ?e" using assms(1) by simp
  have b: "ecPacketBuf ?e = read_into (ecPacketBuf e) data" by (simp add: receive_def)
  have l: "ProtoVFuzeSize \<le> length (ecPacketBuf e)" using assms(1) by (simp add: ed_ok_def)
  then have ne: "ecPacketBuf e \<noteq> []" by (auto simp: ProtoVFuzeSize_def)
  then have i: "go_index (ecPacketBuf ?e) 0 = (Ok (data ! 0) :: (ed_error, byte) res)"
    using assms(4) b by (simp add: go_index_def read_into_0 packet_ok_def)
  have v: "fine (ed_ok sv) (handleVFuzePacket env (ecPacketBuf ?e) ?n ua ?e)" if "data ! 0 = VersionVFuze"
    using that assms(4) l b by (intro handleVFuzePacket_fine [OF e]) (simp_all add: packet_ok_def)
  have r: "NewRawMessage p addr \<noteq> Panic q" for p q
    by (simp add: NewRawMessage_def UnpackProtoVDatagram_def)
  show ?thesis
    unfolding dispatch_def Let_def i on_ok_simps
    using v e messageHandlers_fine [OF e assms(2,3)]
    by (auto intro!: fine_ignore simp: r split: sum.splits fault.splits)
qed

lemma handleUDP_fine:
  "ed_ok sv e \<Longrightarrow> evServices env = sv \<Longrightarrow> origins_present env \<Longrightarrow> packet_ok data \<Longrightarrow> fine (ed_ok sv) (handleUDP env data addr e)"
  unfolding handleUDP_def by (rule dispatch_fine)

lemma handleWSS_fine:
  assumes "ed_ok sv e" "evServices env = sv" "origins_present env" "\<And>data. inp = WSSData data \<Longrightarrow> packet_ok data"
  shows "fine (ed_ok sv) (handleWSS env inp e)"
  unfolding handleWSS_def wss_reconnect_def using assms
  by (auto intro!: fine_then fine_ignore requests_fine dispatch_fine split: wss_input.splits)

lemma GetEthertype_no_panic: "GetEthertype f \<noteq> Panic p"
proof (cases "14 \<le> length f")
  case True
  then obtain t where t: "FastTaggingType f = Ok t" by (rule FastTaggingType_cases)
  then show ?thesis using True by (cases t) (auto simp: GetEthertype_def fast_readers_Ok frame_sizes Let_def)
next
  case False
  then show ?thesis by (auto simp: GetEthertype_def frame_sizes)
qed

lemma FastDestination_long: "14 \<le> length f \<Longrightarrow> FastDestination f = Ok (take 6 f)"
  by (simp add: FastDestination_def go_slice_def slice_def)

lemma send_frame_fine: "ed_ok sv e \<Longrightarrow> 6 \<le> length dst \<Longrightarrow> fine (ed_ok sv) (send_frame env dst payload e)"
  by (auto simp: send_frame_def dst_ok_def intro!: send_fine)

lemma handleTAP_fine:
  assumes "ed_ok sv e"
  shows "fine (ed_ok sv) (handleTAP env frame e)"
proof -
  let ?b = "read_into (ecFrameBuf e) frame" and ?e = "e\<lparr>ecFrameBuf := read_into (ecFrameBuf e) frame\<rparr>"
  have e: "ed_ok sv ?e" and l: "14 \<le> length ?b" using assms by (simp_all add: ed_ok_def MinFrameSize_def)
  have s: "fine (ed_ok sv) (send_frame env (take 6 ?b) payload ?e)" for payload
    using l by (intro send_frame_fine [OF e]) simp
  have o: "ProcessOutgoingPayload env e' x \<noteq> Panic p" for e' x p
    using payload_no_panic(1) [of env e' x] by (cases "ProcessOutgoingPayload env e' x") (auto simp: panics_Inl)
  show ?thesis
    unfolding handleTAP_def Let_def using e s
    by (auto intro!: fine_ignore simp: GetEthertype_no_panic o FastDestination_long [OF l] split: sum.splits fault.splits)
qed

text \<open>The pings recover from a panic, so only the state matters.\<close>

lemma st_then_keeps: "P (snd (m s)) \<Longrightarrow> (\<And>x s'. P s' \<Longrightarrow> P (snd (f x s'))) \<Longrightarrow> P (snd (st_then m f s))"
  by (cases "m s"; cases "fst (m s)") auto

lemma ed_ok_send_pings: "ed_ok sv e \<Longrightarrow> ed_ok sv (snd (send_pings env n msg dst e))"
proof (induction n arbitrary: e)
  case (Suc n)
  show ?case
    unfolding send_pings.simps by (rule st_then_keeps) (use Suc in \<open>simp_all add: ed_ok_core [OF SendStruct_edge_core]\<close>)
qed (simp add: ed_ok_core [OF SendStruct_edge_core])

lemma ed_ok_ping_all: "ed_ok sv e \<Longrightarrow> ed_ok sv (snd (ping_all env as st e))"
proof (induction "as" arbitrary: e)
  case (Cons a "as")
  have "ed_ok sv (snd (PingPeer env a 3 st e))"
    unfolding PingPeer_def Let_def
    by (intro ed_ok_send_pings ed_ok_sets(3) Cons.prems reg_wf_update_status ed_ok_sets(4))
  then show ?case
    unfolding ping_all.simps by (intro st_then_keeps [where P = "ed_ok sv"]) (simp_all add: Cons.IH)
qed simp

lemma ed_ok_UpdatePeersP2PStates: "ed_ok sv e \<Longrightarrow> ed_ok sv (snd (UpdatePeersP2PStates env e))"
  unfolding UpdatePeersP2PStates_def split_beta Let_def
proof (rule st_then_keeps [where P = "ed_ok sv"])
  fix e' assume e': "ed_ok sv e'"
  have "ed_ok sv (set_peers (snd (GetP2PendingPeers (evNow env) (ecPeers e'))) e')"
    by (rule ed_ok_sets(3) [OF e' reg_wf_GetP2PendingPeers [OF ed_ok_sets(4) [OF e']]])
  then show "ed_ok sv (snd (st_then (ping_all env (fst (GetP2PendingPeers (evNow env) (ecPeers e'))) P2PPending)
      (\<lambda>_ e. ping_all env (GetP2PAvailablePeers (ecPeers e)) P2PAvailable e)
      (set_peers (snd (GetP2PendingPeers (evNow env) (ecPeers e'))) e')))"
    by (rule st_then_keeps [where P = "ed_ok sv", OF ed_ok_ping_all ed_ok_ping_all])
qed (rule ed_ok_ping_all)

section \<open>Runs\<close>

fun ev_env :: "ed_event \<Rightarrow> ed_env" where
  "ev_env (EdUDP env _ _) = env"
| "ev_env (EdWSS env _) = env"
| "ev_env (EdTAP env _) = env"
| "ev_env (EdHeartbeat env) = env"
| "ev_env (EdP2PInfos env) = env"
| "ev_env (EdP2PUpdates env) = env"
| "ev_env (EdFullState env) = env"
| "ev_env (EdLeases env) = env"

fun ev_packet :: "ed_event \<Rightarrow> bytes option" where
  "ev_packet (EdUDP _ data _) = Some data"
| "ev_packet (EdWSS _ (WSSData data)) = Some data"
| "ev_packet _ = None"

text \<open>Events of an edge on one host, without the two packets it cannot take.\<close>

definition ev_ok :: "(string \<Rightarrow> int option) \<Rightarrow> ed_event \<Rightarrow> bool" where
  "ev_ok services ev \<longleftrightarrow>
     evServices (ev_env ev) = services \<and> origins_present (ev_env ev) \<and> (\<forall>data. ev_packet ev = Some data \<longrightarrow> packet_ok data)"

lemma ed_run_fine:
  assumes "ed_ok sv e" "ev_ok sv ev"
  shows "fine (ed_ok sv) (ed_run ev e)"
proof (cases ev)
  case (EdWSS env inp)
  have "packet_ok data" if "inp = WSSData data" for data
    using assms(2) EdWSS that by (simp add: ev_ok_def)
  then show ?thesis using assms EdWSS by (auto simp: ev_ok_def intro!: fine_then handleWSS_fine)
next
  case (EdUDP env data addr)
  then show ?thesis using assms by (auto simp: ev_ok_def intro!: handleUDP_fine)
next
  case (EdP2PUpdates env)
  then show ?thesis using ed_ok_UpdatePeersP2PStates [OF assms(1), of env] by (simp add: handleP2PUpdates_def recovered_def)
qed (use assms(1) in \<open>auto simp: handleHeartbeat_def handleP2PInfos_def intro!: handleTAP_fine fine_ignore requests_fine\<close>)

interpretation ed: step_system "\<lambda>ev e. if ev_ok services ev then ed_step ev e else e" "ed_ok services" for services
  by unfold_locales (use ed_run_fine in \<open>auto simp: ed_step_def fine_def\<close>)

lemma fold_ed_step:
  "\<forall>ev \<in> set evs. ev_ok sv ev \<Longrightarrow> fold (\<lambda>ev e. if ev_ok sv ev then ed_step ev e else e) evs e = fold ed_step evs e"
  by (induction evs arbitrary: e) simp_all

end
