(* ===== verification/Edge_Setup.thy ===== *)
theory Edge_Setup
  imports Edge_Client Machine
begin

text \<open>
  The life of an edge before its loops run: the configuration with the command line of
  \<^verbatim>\<open>edge up\<close>, the choice of the transport, the construction of the client, and the first
  exchange with the supernode (public key, registration, address, ARP announcement); and the
  waiting loops of its HTTP interface. The network and the operating system are the record
  \<open>setup_env\<close>; the messages of the first exchange are read from the \<open>ed_env\<close> of their step.
\<close>

section \<open>Configuration\<close>

record EdgeConfig =
  egUDPBufferSize :: int
  egEdgeID :: string
  egCommunity :: string
  egTapName :: string
  egLocalPort :: int
  egSupernodeAddr :: string
  egHeartbeatInterval :: int
  egProtocolVersion :: byte
  egVerifyHash :: bool
  egEnableVFuze :: bool
  egConfigFile :: string
  egAPIListenAddr :: string
  egEncryptionPassphrase :: string
  egCompressPayload :: bool
  egWSEnabled :: bool
  egSupernodeURL :: string
  egWSSCert :: string
  egWSSKey :: string
  egWSSEnabled :: bool
  egProxyURL :: string

definition DefaultConfig_edge :: EdgeConfig where
  "DefaultConfig_edge =
     \<lparr>egUDPBufferSize = 8388608, egEdgeID = [], egCommunity = [], egTapName = ''n2n_tap0'', egLocalPort = 0,
      egSupernodeAddr = [], egHeartbeatInterval = 30 * second, egProtocolVersion = VersionV, egVerifyHash = True,
      egEnableVFuze = True, egConfigFile = ''edge.yaml'', egAPIListenAddr = '':7778'', egEncryptionPassphrase = [],
      egCompressPayload = False, egWSEnabled = False, egSupernodeURL = [], egWSSCert = [], egWSSKey = [],
      egWSSEnabled = False, egProxyURL = []\<rparr>"

text \<open>The flags of \<^verbatim>\<open>edge up\<close>: a flag that is not set is \<open>None\<close>.\<close>

record up_flags =
  ufPositional :: "string option"
  ufCommunity :: "string option"
  ufID :: "string option"
  ufProxyURL :: "string option"
  ufSupernode :: "string option"
  ufWS :: "bool option"
  ufWSS :: "bool option"
  ufWSSCert :: "string option"
  ufWSSKey :: "string option"
  ufAPIListen :: "string option"
  ufConfig :: "string option"
  ufTap :: "string option"
  ufPort :: "int option"
  ufEnableFuze :: "bool option"
  ufHeartbeat :: "int option"
  ufUDPBufferSize :: "int option"
  ufPassphrase :: "string option"
  ufCompress :: "bool option"

definition or_keep :: "'a option \<Rightarrow> 'a \<Rightarrow> 'a" where
  "or_keep f v = (case f of None \<Rightarrow> v | Some x \<Rightarrow> x)"

definition nonempty_or_keep :: "string option \<Rightarrow> string \<Rightarrow> string" where
  "nonempty_or_keep f v = (case f of None \<Rightarrow> v | Some x \<Rightarrow> if x \<noteq> [] then x else v)"

definition positional_url :: "up_flags \<Rightarrow> EdgeConfig \<Rightarrow> EdgeConfig" where
  "positional_url f cfg =
     (case ufPositional f of
        None \<Rightarrow> cfg
      | Some u \<Rightarrow>
          if u = [] then cfg
          else cfg\<lparr>egSupernodeURL := u, egCommunity := (if egCommunity cfg = [] then ''default'' else egCommunity cfg)\<rparr>)"

definition append_community :: "EdgeConfig \<Rightarrow> EdgeConfig" where
  "append_community cfg =
     (if egSupernodeURL cfg \<noteq> [] \<and> \<not> Contains (egSupernodeURL cfg) ''?community='' then
        let com = (if egCommunity cfg = [] then ''default'' else egCommunity cfg);
            separator = (if Contains (egSupernodeURL cfg) ''?'' then ''&'' else ''?'')
        in cfg\<lparr>egSupernodeURL := egSupernodeURL cfg @ separator @ ''community='' @ com,
               egCommunity := (if egCommunity cfg = [] then com else egCommunity cfg)\<rparr>
      else cfg)"

definition enable_by_scheme :: "EdgeConfig \<Rightarrow> EdgeConfig" where
  "enable_by_scheme cfg =
     (if egSupernodeURL cfg \<noteq> [] then
        (if HasPrefix (egSupernodeURL cfg) ''wss://'' then cfg\<lparr>egWSSEnabled := True\<rparr>
         else if HasPrefix (egSupernodeURL cfg) ''ws://'' then cfg\<lparr>egWSEnabled := True\<rparr>
         else cfg)
      else cfg)"

definition up_config :: "up_flags \<Rightarrow> EdgeConfig \<Rightarrow> EdgeConfig" where
  "up_config f cfg0 =
     (let c1 = positional_url f cfg0;
          c2 = c1\<lparr>egCommunity := nonempty_or_keep (ufCommunity f) (egCommunity c1),
                  egEdgeID := nonempty_or_keep (ufID f) (egEdgeID c1),
                  egProxyURL := or_keep (ufProxyURL f) (egProxyURL c1),
                  egSupernodeURL := or_keep (ufSupernode f) (egSupernodeURL c1)\<rparr>;
          c3 = enable_by_scheme (append_community c2)
      in c3\<lparr>egWSEnabled := or_keep (ufWS f) (egWSEnabled c3),
            egWSSEnabled := or_keep (ufWSS f) (egWSSEnabled c3),
            egWSSCert := or_keep (ufWSSCert f) (egWSSCert c3),
            egWSSKey := or_keep (ufWSSKey f) (egWSSKey c3),
            egAPIListenAddr := or_keep (ufAPIListen f) (egAPIListenAddr c3),
            egConfigFile := or_keep (ufConfig f) (egConfigFile c3),
            egTapName := or_keep (ufTap f) (egTapName c3),
            egLocalPort := or_keep (ufPort f) (egLocalPort c3),
            egEnableVFuze := or_keep (ufEnableFuze f) (egEnableVFuze c3),
            egHeartbeatInterval := or_keep (ufHeartbeat f) (egHeartbeatInterval c3),
            egUDPBufferSize := or_keep (ufUDPBufferSize f) (egUDPBufferSize c3),
            egEncryptionPassphrase := or_keep (ufPassphrase f) (egEncryptionPassphrase c3),
            egCompressPayload := or_keep (ufCompress f) (egCompressPayload c3)\<rparr>)"

section \<open>Transports\<close>

record setup_env =
  seDial :: "string \<Rightarrow> bool"
  seResolve :: "string \<Rightarrow> udp_addr option"
  seListen :: "int \<Rightarrow> bool"
  seTap :: bool
  seHosts :: bool
  seIfMac :: bool
  seWindows :: bool
  seTapMac :: "hwaddr option"
  seMgmt :: bool

datatype setup_error =
    DialFailed | ResolveFailed | ListenFailed | TapFailed
  | HostsNotWritable | MacNotSet | MgmtFailed | SetupMachine machine_error

record transports =
  tpConn :: bool
  tpWSS :: bool
  tpSnAddr :: udp_addr
  tpWssConfig :: bool

definition url_host :: "string \<Rightarrow> string \<Rightarrow> string \<Rightarrow> string" where
  "url_host scheme port url =
     (let host = takeWhile (\<lambda>c. c \<noteq> CHR ''/'') (TrimPrefix url scheme)
      in if CHR '':'' \<in> set host then host else host @ port)"

definition websocket_setup :: "setup_env \<Rightarrow> EdgeConfig \<Rightarrow> string \<Rightarrow> string \<Rightarrow> bool \<Rightarrow> (setup_error, transports) res" where
  "websocket_setup se cfg scheme port keepConfig =
     (if \<not> seDial se (egSupernodeURL cfg) then Fail DialFailed
      else
        let host = (if egSupernodeAddr cfg \<noteq> [] then egSupernodeAddr cfg else url_host scheme port (egSupernodeURL cfg)) in
        case seResolve se host of
          None \<Rightarrow> Fail ResolveFailed
        | Some a \<Rightarrow>
            if \<not> seTap se then Fail TapFailed
            else Ok \<lparr>tpConn = False, tpWSS = True, tpSnAddr = a, tpWssConfig = keepConfig\<rparr>)"

definition setupUDPConnection :: "setup_env \<Rightarrow> int \<Rightarrow> (setup_error, unit) res" where
  "setupUDPConnection se localPort = (if seListen se localPort then Ok () else Fail ListenFailed)"

definition setupNetworkComponents :: "setup_env \<Rightarrow> EdgeConfig \<Rightarrow> (setup_error, transports) res" where
  "setupNetworkComponents se cfg =
     (if (egWSEnabled cfg \<or> HasPrefix (egSupernodeURL cfg) ''ws://'') \<and> egSupernodeURL cfg \<noteq> []
      then websocket_setup se cfg ''ws://'' '':8080'' False
      else if (egWSSEnabled cfg \<or> HasPrefix (egSupernodeURL cfg) ''wss://'') \<and> egSupernodeURL cfg \<noteq> []
      then websocket_setup se cfg ''wss://'' '':443'' True
      else case seResolve se (egSupernodeAddr cfg) of
        None \<Rightarrow> Fail ResolveFailed
      | Some a \<Rightarrow>
          res_bind (setupUDPConnection se (egLocalPort cfg)) (\<lambda>_.
            if \<not> seTap se then Fail TapFailed
            else Ok \<lparr>tpConn = True, tpWSS = False, tpSnAddr = a, tpWssConfig = False\<rparr>))"

text \<open>\<^verbatim>\<open>NewEdgeClient\<close>. A fatal log ends the process and is an error here. The two buffers come from
  a pool that does not clear them.\<close>

definition edge_mac :: "setup_env \<Rightarrow> hwaddr \<Rightarrow> (setup_error, hwaddr) res" where
  "edge_mac se predictableMac =
     (if seIfMac se then Ok predictableMac
      else if seWindows se then Ok (or_keep (seTapMac se) predictableMac)
      else Fail MacNotSet)"

definition NewEdgeClient :: "machine_env \<Rightarrow> machine_state \<Rightarrow> setup_env \<Rightarrow> bytes \<Rightarrow> bytes \<Rightarrow> EdgeConfig \<Rightarrow> (setup_error, EdgeClient) res" where
  "NewEdgeClient menv ms se packetBuf frameBuf cfg =
     res_bind (err_map SetupMachine (GetMachineID menv ms)) (\<lambda>(machineId, ms1).
     res_bind (err_map SetupMachine (GenerateMac menv ms1 (egCommunity cfg))) (\<lambda>(predictableMac, _).
     if \<not> seHosts se then Fail HostsNotWritable
     else res_bind (setupNetworkComponents se cfg) (\<lambda>t.
     res_bind (edge_mac se predictableMac) (\<lambda>mac.
     if \<not> seMgmt se then Fail MgmtFailed
     else Ok \<lparr>ecSettings =
           \<lparr>esID = egEdgeID cfg, esCommunity = egCommunity cfg, esSupernodeAddr = tpSnAddr t, esConn = tpConn t,
            esWssConfig = tpWssConfig t, esEnableVFuze = egEnableVFuze cfg,
            esCommunityHash = HashCommunity (egCommunity cfg), esMACAddr = mac, esMachineId = machineId,
            esCompressPayload = egCompressPayload cfg, esPassphrase = egEncryptionPassphrase cfg\<rparr>,
       ecPeers = NewPeerRegistry (egCommunity cfg), ecWSSTransport = tpWSS t, ecSeq = 0,
       ecVirtualIP = [], ecParsedVirtualIP = None, ecUnregisterDone = False, ecRunning = False,
       ecPacketsSent = 0, ecPacketsRecv = 0, ecEAPI = None, ecSNPubKey = None, ecRegistered = False,
       isWaitingForSNPubKeyUpdate = False, isWaitingForSNRetryRegisterResponse = False,
       ecReconnectDelay = 3 * second, ecPacketBuf = packetBuf, ecFrameBuf = frameBuf,
       ecTapOut = [], ecRawOut = [], ecOut = []\<rparr>))))"

section \<open>The first exchange\<close>

definition setReadDeadline :: "ed_env \<Rightarrow> EdgeClient \<Rightarrow> (ed_error, unit) res" where
  "setReadDeadline env e =
     (if ecWSSTransport e \<or> ecConn e then (if evDeadline env then Ok () else Fail DeadlineFailed) else Fail NoTransport)"

definition readPacket :: "ed_env \<Rightarrow> EdgeClient \<Rightarrow> (ed_error, bytes \<times> net_addr) res" where
  "readPacket env e =
     (if ecWSSTransport e \<or> ecConn e
      then (case evRead env of None \<Rightarrow> Fail ReadTimeout | Some (data, addr) \<Rightarrow> Ok (take DefaultBufferSize data, addr))
      else Fail NoTransport)"

definition await :: "ed_env \<Rightarrow> EdgeClient \<Rightarrow> (ed_error, bytes \<times> net_addr) res" where
  "await env e =
     res_bind (setReadDeadline env e) (\<lambda>_.
     res_bind (readPacket env e) (\<lambda>(packet, addr).
     res_bind (setReadDeadline env e) (\<lambda>_.
       if length packet < ProtoVHeaderSize then Fail ShortReply else Ok (packet, addr))))"

definition from_packet :: "ed_env \<Rightarrow> PacketType \<Rightarrow> (pb_msg \<Rightarrow> 'm option) \<Rightarrow> bytes \<times> net_addr \<Rightarrow> (ed_error, RawMessage \<times> 'm) res" where
  "from_packet env pt as pa =
     err_map EdProto (MessageFromPacket pt (\<lambda>b. Option.bind (evUnmarshal env pt b) as) (fst pa) (snd pa))"

definition InitialGetSNPublicKey :: "ed_env \<Rightarrow> unit edm" where
  "InitialGetSNPublicKey env =
     st_then (RequestSNPublicKey env) (\<lambda>_ e.
     on_ok (await env e) (\<lambda>packet.
     on_ok (from_packet env TypeSNPublicSecret as_SnPublicSecret packet) (\<lambda>(_, msg).
     on_ok (case evParseKey env (spPemData msg) of None \<Rightarrow> Fail KeyParseFailed | Some k \<Rightarrow> Ok k) (\<lambda>pubkey e.
       (Ok (), e\<lparr>ecSNPubKey := Some pubkey\<rparr>)))) e)"

definition set_virtual_ip :: "RegisterResponse \<Rightarrow> EdgeClient \<Rightarrow> EdgeClient" where
  "set_virtual_ip msg e =
     (let vip = rpVirtualIp msg @ CHR ''/'' # itoa (rpMasklen msg)
      in e\<lparr>ecVirtualIP := vip, ecParsedVirtualIP := ParseIP (hd (split_at (CHR ''/'') vip))\<rparr>)"

definition InitialRegister :: "ed_env \<Rightarrow> unit edm" where
  "InitialRegister env =
     st_then (RequestRegister env) (\<lambda>_ e.
     on_ok (await env e) (\<lambda>packet.
     on_ok (from_packet env TypeRegisterResponse as_RegisterResponse packet) (\<lambda>(_, msg) e.
       if \<not> rpIsRegisterOk msg then (Fail ErrNACKRegister, e)
       else
         let e1 = set_virtual_ip msg e in
         if ecParsedVirtualIP e1 = None then (Fail InvalidVirtualIP, e1)
         else (Ok (), e1\<lparr>ecRegistered := True\<rparr>))) e)"

definition TunUp :: "ed_env \<Rightarrow> EdgeClient \<Rightarrow> (ed_error, unit) res" where
  "TunUp env e =
     (if ecVirtualIP e = [] then Fail NoVirtualIP else if evIfUp env (ecVirtualIP e) then Ok () else Fail IfUpFailed)"

definition sendGratuitousARP :: "ed_env \<Rightarrow> unit edm" where
  "sendGratuitousARP env e =
     (case ecParsedVirtualIP e of
        None \<Rightarrow> (Fail NoVirtualIP, e)
      | Some vip \<Rightarrow>
          on_ok (err_map EdArp (SendGratuitousARP (evHardwareAddr env) vip)) (\<lambda>frame e.
            if evRawSend env frame then (Ok (), e\<lparr>ecRawOut := ecRawOut e @ [frame]\<rparr>) else (Fail RawSendFailed, e)) e)"

text \<open>The two messages are read in two steps, each with its own environment.\<close>

definition InitialSetup :: "ed_env \<Rightarrow> ed_env \<Rightarrow> unit edm" where
  "InitialSetup env1 env2 =
     st_then (InitialGetSNPublicKey env1) (\<lambda>_.
     st_then (InitialRegister env2) (\<lambda>_ e.
     on_ok (TunUp env2 e) (\<lambda>_. sendGratuitousARP env2) e))"

section \<open>Waiting in the HTTP interface\<close>

text \<open>
  The handlers of the HTTP interface poll a flag that the packet loop clears. \<open>others k w\<close> is the
  flag after the other goroutines have worked during the \<open>k\<close>-th pause, \<open>elapsed k\<close> the time since
  the start after that pause. The results count the pauses; not returning is \<open>None\<close>.
\<close>

partial_function (option) wait_for_update ::
  "(nat \<Rightarrow> bool \<Rightarrow> bool) \<Rightarrow> (nat \<Rightarrow> int) \<Rightarrow> int \<Rightarrow> nat \<Rightarrow> bool \<Rightarrow> nat option" where
  "wait_for_update others elapsed timeout k w =
     (if w then wait_for_update others elapsed timeout (Suc k) (if elapsed k \<ge> timeout then False else others k w)
      else Some k)"

partial_function (option) poll_flag :: "(nat \<Rightarrow> bool \<Rightarrow> bool) \<Rightarrow> nat \<Rightarrow> bool \<Rightarrow> nat option" where
  "poll_flag others k w = (if w then poll_flag others (Suc k) (others k w) else Some k)"

definition WaitForCommunityDatasUpdate :: "(nat \<Rightarrow> bool \<Rightarrow> bool) \<Rightarrow> (nat \<Rightarrow> int) \<Rightarrow> int \<Rightarrow> EdgeClient \<Rightarrow> nat option" where
  "WaitForCommunityDatasUpdate others elapsed timeout e =
     wait_for_update others elapsed timeout 0 (IsWaitingCommunityDatas (ecPeers e))"

text \<open>The handlers up to the page they return: a request of the community data or of the leases, and
  the wait.\<close>

definition GetPeersJSON :: "ed_env \<Rightarrow> (nat \<Rightarrow> bool \<Rightarrow> bool) \<Rightarrow> nat option edm" where
  "GetPeersJSON env others =
     st_then (sendP2PFullStateRequest env) (\<lambda>_ e. (Ok (poll_flag others 0 (IsWaitingCommunityDatas (ecPeers e))), e))"

definition GetLeasesInfosJSON :: "ed_env \<Rightarrow> (nat \<Rightarrow> bool \<Rightarrow> bool) \<Rightarrow> nat option edm" where
  "GetLeasesInfosJSON env others =
     st_then (sendLeasesInfosRequest env) (\<lambda>_ e.
       (case ecEAPI e of
          None \<Rightarrow> Panic NilDereference
        | Some eapi \<Rightarrow> Ok (poll_flag others 0 (IsWaitingForLeasesInfos eapi)), e))"

definition GetPeersDot :: "ed_env \<Rightarrow> (nat \<Rightarrow> bool \<Rightarrow> bool) \<Rightarrow> (nat \<Rightarrow> int) \<Rightarrow> nat option edm" where
  "GetPeersDot env others elapsed =
     st_then (sendP2PFullStateRequest env) (\<lambda>_ e. (Ok (WaitForCommunityDatasUpdate others elapsed (3 * second) e), e))"

section \<open>Statistics\<close>

record EdgeStats =
  tsPacketsSent :: u64
  tsPacketsRecv :: u64
  tsCommunityHash :: u32

definition GetStats_edge :: "EdgeClient \<Rightarrow> EdgeStats" where
  "GetStats_edge e =
     \<lparr>tsPacketsSent = ecPacketsSent e, tsPacketsRecv = ecPacketsRecv e, tsCommunityHash = esCommunityHash (ecSettings e)\<rparr>"

end
