(* ===== verification/Edge_Props.thy ===== *)
theory Edge_Props
  imports Edge_Lib Edge_Setup
begin

text \<open>
  What the edge does over a run: it cannot panic once it is set up, unless a truncated VFuze
  packet or a peer list without its origin arrives; how it recovers its registration, and the
  states in which it cannot; which packets reach the TAP device; and that waiting for the
  community data ends.
\<close>

section \<open>An edge for the examples\<close>

definition demo_reg :: PeerRegistry where
  "demo_reg = NewPeerRegistry ''c''"

definition demo_client :: EdgeClient where
  "demo_client =
     \<lparr>ecSettings =
        \<lparr>esID = ''e'', esCommunity = ''c'', esSupernodeAddr = \<lparr>uIP = [10, 0, 0, 1], uPort = 7777\<rparr>, esConn = True,
         esWssConfig = False, esEnableVFuze = True, esCommunityHash = 0, esMACAddr = [2, 0, 0, 0, 0, 1],
         esMachineId = [1], esCompressPayload = False, esPassphrase = []\<rparr>,
      ecPeers = demo_reg, ecWSSTransport = False, ecSeq = 0, ecVirtualIP = [], ecParsedVirtualIP = None,
      ecUnregisterDone = False, ecRunning = True, ecPacketsSent = 0, ecPacketsRecv = 0,
      ecEAPI = Some \<lparr>IsWaitingForLeasesInfos = False, LastLeasesInfos = None\<rparr>, ecSNPubKey = Some [7],
      ecRegistered = True, isWaitingForSNPubKeyUpdate = False, isWaitingForSNRetryRegisterResponse = False,
      ecReconnectDelay = 3 * second, ecPacketBuf = replicate 100 0, ecFrameBuf = replicate 100 0,
      ecTapOut = [], ecRawOut = [], ecOut = []\<rparr>"

definition demo_pb :: "pb_msg \<Rightarrow> bytes option" where
  "demo_pb m = (case m of
     MSnPublicSecret s \<Rightarrow> if s = \<lparr>spIsRequest = False, spPemData = [9]\<rparr> then Some [1] else Some [5]
   | MRegisterResponse s \<Rightarrow> Some [2]
   | _ \<Rightarrow> Some [0])"

definition demo_unpb :: "PacketType \<Rightarrow> bytes \<Rightarrow> pb_msg option" where
  "demo_unpb pt b =
     (if pt = TypeSNPublicSecret \<and> b = [1] then Some (MSnPublicSecret \<lparr>spIsRequest = False, spPemData = [9]\<rparr>)
      else if pt = TypeRegisterResponse \<and> b = [2]
      then Some (MRegisterResponse \<lparr>rpIsRegisterOk = True, rpVirtualIp = ''10.0.0.7'', rpMasklen = 24\<rparr>)
      else None)"

definition demo_ed_env :: ed_env where
  "demo_ed_env =
     \<lparr>evNow = 0, evServices = (\<lambda>_. None), evMarshal = demo_pb, evUnmarshal = demo_unpb,
      evParseKey = (\<lambda>p. Some p), evEncrypt = (\<lambda>k m. Some (k @ m)),
      evZstd = \<lparr>zCompress = Some, zDecompress = Some\<rparr>, evSeed = Some (\<lambda>_. 0),
      evUDPWrite = (\<lambda>_ _. True), evWSSWrite = (\<lambda>_. True), evTapWrite = (\<lambda>_. True), evRawSend = (\<lambda>_. True),
      evIfUp = (\<lambda>_. True), evHardwareAddr = Some [2, 0, 0, 0, 0, 1], evDeadline = True, evRead = None, evConnect = True\<rparr>"

lemma demo_edge_ok: "ed_ok (\<lambda>_. None) demo_client"
  by (simp add: ed_ok_def demo_client_def demo_reg_def reg_wf_NewPeerRegistry ProtoVFuzeSize_def MinFrameSize_def)

section \<open>Panics\<close>


lemma demo_ev_ok: "origins_present demo_ed_env" "evServices demo_ed_env = (\<lambda>_. None)"
  by (auto simp: origins_present_def demo_ed_env_def demo_unpb_def packet_type_defs)


lemma handleVFuzePacket_frame [simp]:
  "ecPacketBuf (snd (handleVFuzePacket env buf n a e)) = ecPacketBuf e" "ecSettings (snd (handleVFuzePacket env buf n a e)) = ecSettings e"
proof -
  have p: "ecPacketBuf (snd (handleDataPayload env x e)) = ecPacketBuf e" "ecSettings (snd (handleDataPayload env x e)) = ecSettings e" for x
    by (simp_all add: handleDataPayload_def on_ok_def Let_def split: sum.splits)
  show "ecPacketBuf (snd (handleVFuzePacket env buf n a e)) = ecPacketBuf e" "ecSettings (snd (handleVFuzePacket env buf n a e)) = ecSettings e"
    by (simp_all add: handleVFuzePacket_def disablePeerSocketCheckingInVFuze_def on_ok_def p split: sum.splits fault.splits)
qed

lemma dispatch_fuze:
  assumes "ecPacketBuf e ! 0 = VersionVFuze" "ecPacketBuf e \<noteq> []"
  shows "dispatch env n ua addr e = st_ignore (handleVFuzePacket env (ecPacketBuf e) n ua) e"
  using assms by (simp add: dispatch_def go_index_def)

lemma take_read_into:
  assumes "take m buf = v" "m \<le> length buf" "length data \<le> m" "data = take (length data) v"
  shows "take m (read_into buf data) = v"
proof -
  have "take m (read_into buf data) = data @ drop (length data) (take m buf)"
    using assms(2,3) by (simp add: read_into_def go_copy_def drop_take)
  then show ?thesis using assms(1,4) by (metis append_take_drop_id)
qed

lemma truncated_fuze:
  assumes "ecEnableVFuze e" "take 7 (ecPacketBuf e) = VersionVFuze # ecMACAddr e" "length (ecMACAddr e) = 6" "k < 7"
  shows "panics (fst (handleUDP env (take k (VersionVFuze # ecMACAddr e)) a e))"
proof -
  let ?d = "take k (VersionVFuze # ecMACAddr e)"
  let ?e2 = "receive (take k (VersionVFuze # ecMACAddr e)) e"
  have len: "7 \<le> length (ecPacketBuf e)" using arg_cong [OF assms(2), of length] assms(3) by simp
  have dl: "length ?d = k" using assms(3,4) by simp
  have b2: "take 7 (ecPacketBuf ?e2) = VersionVFuze # ecMACAddr e"
    using take_read_into [OF assms(2) len, of ?d] assms(4) dl by (simp add: receive_def)
  have len2: "7 \<le> length (ecPacketBuf ?e2)" using len by (simp add: receive_def)
  have z: "ecPacketBuf ?e2 ! 0 = VersionVFuze" using b2 by (metis nth_Cons_0 nth_take zero_less_numeral)
  have "slice 1 7 (ecPacketBuf ?e2) = take 6 (drop 1 (take 7 (ecPacketBuf ?e2)))" by (simp add: slice_def take_drop)
  then have "VFuzePacketDestMACAddr (ecPacketBuf ?e2) = Ok (ecMACAddr e)"
    using len2 z b2 assms(3) by (simp add: VFuzePacketDestMACAddr_def ProtoVFuzeSize_def)
  then have "handleVFuzePacket env (ecPacketBuf ?e2) k (Some a) ?e2 = (Panic SliceOutOfRange, ?e2)"
    using assms(1,4)
    by (simp add: handleVFuzePacket_def disablePeerSocketCheckingInVFuze_def go_slice_def ProtoVFuzeSize_def receive_def)
  moreover have "min (length ?d) (length (ecPacketBuf e)) = k" using dl len assms(4) by simp
  moreover have "ecPacketBuf ?e2 \<noteq> []" using len2 by auto
  ultimately show ?thesis unfolding handleUDP_def by (simp add: dispatch_fuze [OF z])
qed



section \<open>Messages in and out\<close>

definition link_up :: "ed_env \<Rightarrow> EdgeClient \<Rightarrow> bool" where
  "link_up env e \<longleftrightarrow> (if ecWSSTransport e then \<forall>p. evWSSWrite env p else ecConn e \<and> (\<forall>u p. evUDPWrite env u p))"

lemma link_up_core: "ed_core e' = ed_core e \<Longrightarrow> link_up env e' = link_up env e"
  by (simp add: ed_core_eq link_up_def)

text \<open>The header of what an edge sends.\<close>

definition edge_header :: "ed_env \<Rightarrow> PacketType \<Rightarrow> hwaddr option \<Rightarrow> EdgeClient \<Rightarrow> ProtoVHeader" where
  "edge_header env pt dst e =
     \<lparr>Version = VersionV, TTL = 64, PacketType = pt, Flags = 0, Sequence = ucast ((ecSeq e + 1) AND 0xFFFF),
      CommunityID = HashCommunity (ecCommunity e), SourceID = arr6_of (take 6 (ecMACAddr e)),
      DestID = (case dst of None \<Rightarrow> arr6_zero | Some d \<Rightarrow> arr6_of (take 6 d)),
      Timestamp = unix_seconds (evNow env), Checksum = 0\<rparr>"

lemma EdgeHeader_Ok:
  "6 \<le> length (ecMACAddr e) \<Longrightarrow> dst_ok dst \<Longrightarrow>
     EdgeHeader env pt dst e = (Ok (edge_header env pt dst e), e\<lparr>ecSeq := ecSeq e + 1\<rparr>)"
  by (cases dst) (simp_all add: EdgeHeader_def edge_header_def Let_def copy6_def dst_ok_def err_map_def)

lemma sent_as_link_up: "link_up env e \<Longrightarrow> \<exists>x. sent_as env packet (Some u) e = Some x \<and> out_packet x = packet \<and>
    (\<not> ecWSSTransport e \<longrightarrow> x = EdgeUDP u packet)"
  by (simp add: link_up_def sent_as_def)

lemma UDPAddrWithStrategy_sn: "UDPAddrWithStrategy env dst UDPEnforceSupernode e = Ok (Some (ecSupernodeAddr e))"
  by (simp add: UDPAddrWithStrategy_def)

lemma SendStruct_edge_sent:
  assumes "6 \<le> length (ecMACAddr e)" "dst_ok dst" "link_up env e" "evMarshal env m = Some b"
    "UDPAddrWithStrategy env dst strategy e = Ok (Some u)"
  obtains x e' where "SendStruct_edge env m dst strategy e = (Ok (), e')" "ed_core e' = ed_core e" "ecOut e' = ecOut e @ [x]"
    "out_packet x = PackProtoVDatagram (edge_header env (pb_type m) dst e) b"
    "\<not> ecWSSTransport e \<longrightarrow> x = EdgeUDP u (PackProtoVDatagram (edge_header env (pb_type m) dst e) b)"
proof -
  let ?p = "PackProtoVDatagram (edge_header env (pb_type m) dst e) b" and ?e = "e\<lparr>ecSeq := ecSeq e + 1\<rparr>"
  have "link_up env ?e" using assms(3) by (simp add: link_up_def)
  then obtain x where x: "sent_as env ?p (Some u) ?e = Some x" "out_packet x = ?p" "\<not> ecWSSTransport ?e \<longrightarrow> x = EdgeUDP u ?p"
    using sent_as_link_up by blast
  have "SendStruct_edge env m dst strategy e = (Ok (), ?e\<lparr>ecOut := ecOut ?e @ [x]\<rparr>)"
    using assms(4,5) EdgeHeader_Ok [OF assms(1,2), of env "pb_type m"] transmit_Some [OF x(1)]
    by (simp add: SendStruct_edge_def)
  then show thesis using x(2,3) by (intro that [of "?e\<lparr>ecOut := ecOut ?e @ [x]\<rparr>" x]) simp_all
qed

text \<open>A message that arrives whole is given to the handler of its type.\<close>

definition raw_of :: "ProtoVHeader \<Rightarrow> bytes \<Rightarrow> net_addr \<Rightarrow> RawMessage" where
  "raw_of h b addr = \<lparr>rHeader = h, rPayload = b, rFromAddr = addr, rRawPacket = PackProtoVDatagram h b\<rparr>"

lemma dispatch_message:
  assumes "Version h = VersionV" "length (PackProtoVDatagram h b) \<le> length (ecPacketBuf e)"
  shows "handleUDP env (PackProtoVDatagram h b) a e =
    st_ignore (Handle (messageHandlers env) (\<lambda>pt e. (Fail (EdNoHandler pt), e)) (raw_of h b (UDPAddr a)))
      (receive (PackProtoVDatagram h b) e)"
proof -
  let ?p = "PackProtoVDatagram h b" and ?e = "receive (PackProtoVDatagram h b) e"
  have l: "30 \<le> length ?p" by (simp add: PackProtoVDatagram_def)
  have t: "take (length ?p) (ecPacketBuf ?e) = ?p" using assms(2) by (simp add: receive_def read_into_def go_copy_def)
  have z: "ecPacketBuf ?e ! 0 = VersionV"
    using assms l by (simp add: receive_def read_into_def go_copy_def nth_append PackProtoVDatagram_def header_bytes_nth0 [of h "[]", simplified])
  have ne: "0 < length (ecPacketBuf ?e)" using le_trans [OF l assms(2)] by (simp add: receive_def del: length_greater_0_conv)
  have "NewRawMessage ?p (UDPAddr a) = Ok (raw_of h b (UDPAddr a))"
    using assms(1) by (simp add: NewRawMessage_def UnpackProtoVDatagram_def PackProtoVDatagram_def header_bytes_nth0
        ProtoVHeaderSize_def header_of_bytes raw_of_def)
  then show ?thesis
    using l t z ne assms(2)
    by (simp add: handleUDP_def dispatch_def go_index_def VersionV_def VersionVFuze_def ProtoVHeaderSize_def Let_def)
qed

lemma edge_handlers:
  "gget (messageHandlers env) TypeRetryRegisterRequest = Some (handleRetryRegisterRequest env)"
  "gget (messageHandlers env) TypeSNPublicSecret = Some (handleSNPublicSecretMessage_edge env)"
  "gget (messageHandlers env) TypeRegisterResponse = Some (handleRegisterResponseMessage env)"
  "gget (messageHandlers env) TypeData = Some (handleDataMessage_edge env)"
  by (simp_all add: gget_def messageHandlers_def packet_type_defs)

section \<open>Losing and recovering the registration\<close>

abbreviation waiting :: "EdgeClient \<Rightarrow> bool" where
  "waiting e \<equiv> isWaitingForSNRetryRegisterResponse e"

lemma waiting_send [simp]:
  "waiting (snd (SendStruct_edge env m dst st e)) = waiting e" "waiting (snd (WritePacket_edge env pt dst b st e)) = waiting e"
  "waiting (snd (SendVFuze env d b st e)) = waiting e"
  using SendStruct_edge_core [of env m dst st e, unfolded ed_core_eq] WritePacket_edge_core [of env pt dst b st e, unfolded ed_core_eq]
    SendVFuze_core [of env d b st e, unfolded ed_core_eq]
  by simp_all

lemma waiting_set_peers [simp]: "waiting (set_peers reg e) = waiting e"
  by (simp add: set_peers_def)

lemma waiting_requests:
  "waiting (snd (sendPeerListRequest env e)) = waiting e" "waiting (snd (sendHeartbeat env e)) = waiting e"
  "waiting (snd (sendP2PInfos env e)) = waiting e" "waiting (snd (sendP2PFullStateRequest env e)) = waiting e"
  "waiting (snd (RequestSNPublicKey env e)) = waiting e"
  by (simp_all add: sendPeerListRequest_def sendHeartbeat_def sendP2PInfos_def sendP2PFullStateRequest_def RequestSNPublicKey_def
      on_ok_def split: sum.splits)

lemma waiting_sendLeasesInfosRequest: "waiting e \<Longrightarrow> waiting (snd (sendLeasesInfosRequest env e))"
  unfolding sendLeasesInfosRequest_def
  by (auto split: option.splits intro!: st_then_keeps [where P = waiting])

lemma waiting_handleDataPayload [simp]: "waiting (snd (handleDataPayload env b e)) = waiting e"
  by (simp add: handleDataPayload_def on_ok_def Let_def split: sum.splits)

lemma waiting_handlers:
  assumes "waiting e"
  shows "waiting (snd (handleRetryRegisterRequest env r e))" "waiting (snd (handleDataMessage_edge env r e))"
    "waiting (snd (handlePeerInfoMessage env r e))" "waiting (snd (handlePingMessage_edge env r e))"
    "waiting (snd (handleP2PFullStateMessage_edge env r e))" "waiting (snd (handleLeasesInfosMessage_edge env r e))"
    "waiting (snd (handleUnregisterRequestMessage env r e))" "waiting (snd (handleP2PStateInfoMessage_edge env r e))"
    "waiting (snd (handleOnlineCheckMessage env r e))" "waiting (snd (handleICECandidateMessage env r e))"
    "waiting (snd (handleTURNCredentialsMessage env r e))" "waiting (snd (ignore_message r e))"
  using assms
  by (simp_all add: handleRetryRegisterRequest_def handleDataMessage_edge_def handlePeerInfoMessage_def handlePingMessage_edge_def
      handleP2PFullStateMessage_edge_def handleLeasesInfosMessage_edge_def handleUnregisterRequestMessage_def
      handleP2PStateInfoMessage_edge_def handleOnlineCheckMessage_def handleICECandidateMessage_def
      handleTURNCredentialsMessage_def ignore_message_def on_ok_def Let_def split_beta split: sum.splits option.splits)

text \<open>An answer of the supernode: its public key, or the response to a registration.\<close>

definition answer :: "bytes \<Rightarrow> bool" where
  "answer data \<longleftrightarrow> 30 \<le> length data \<and> (data ! 2 = TypeSNPublicSecret \<or> data ! 2 = TypeRegisterResponse)"

lemma NewRawMessage_type: "NewRawMessage p addr = Ok r \<Longrightarrow> PacketType (rHeader r) = p ! 2"
  by (auto simp: NewRawMessage_Ok PackProtoVDatagram_def header_bytes_def put8_def)

lemma waiting_handled:
  assumes "waiting e" "PacketType (rHeader r) \<noteq> TypeSNPublicSecret" "PacketType (rHeader r) \<noteq> TypeRegisterResponse"
  shows "waiting (snd (Handle (messageHandlers env) (\<lambda>pt e. (Fail (EdNoHandler pt), e)) r e))"
proof (cases "gget (messageHandlers env) (PacketType (rHeader r))")
  case None
  then show ?thesis using assms(1) by (simp add: Handle_def)
next
  case (Some h)
  then have "(PacketType (rHeader r), h) \<in> set (messageHandlers env)" by (simp add: gget_def map_of_SomeD)
  then have "waiting (snd (h r e))"
    unfolding messageHandlers_def list.set insert_iff empty_iff prod.inject
      handleHeartbeatMessage_edge_def handleAckMessage_def handlePeerListRequestMessage_def
    using assms(2,3) by (elim disjE conjE) (simp_all only: waiting_handlers [OF assms(1)])
  then show ?thesis using Some by (simp add: Handle_def)
qed

lemma waiting_handleVFuzePacket [simp]: "waiting (snd (handleVFuzePacket env buf n a e)) = waiting e"
  by (simp add: handleVFuzePacket_def disablePeerSocketCheckingInVFuze_def on_ok_def split: sum.splits fault.splits)

lemma waiting_dispatch:
  assumes "waiting e" "\<not> answer data" "n = min (length data) (length (ecPacketBuf e))"
  shows "waiting (snd (dispatch env n ua addr (receive data e)))"
proof -
  let ?e = "receive data e"
  have w: "waiting ?e" using assms(1) by (simp add: receive_def)
  have "waiting (snd (Handle (messageHandlers env) (\<lambda>pt e. (Fail (EdNoHandler pt), e)) r ?e))"
    if r: "NewRawMessage (take n (ecPacketBuf ?e)) addr = Ok r" and n: "\<not> n < ProtoVHeaderSize" for r
  proof -
    have "take n (ecPacketBuf ?e) = take n data" using assms(3) by (simp add: receive_def read_into_def go_copy_def)
    then have "PacketType (rHeader r) = data ! 2" using NewRawMessage_type [OF r] n by (simp add: ProtoVHeaderSize_def)
    then show ?thesis using waiting_handled [OF w, of r env] assms(2,3) n by (simp add: answer_def ProtoVHeaderSize_def)
  qed
  then show ?thesis
    using w by (simp add: dispatch_def Let_def on_ok_def go_index_def split: sum.splits fault.splits)
qed

fun brings_answer :: "ed_event \<Rightarrow> bool" where
  "brings_answer (EdUDP _ data _) = answer data"
| "brings_answer (EdWSS _ (WSSData data)) = answer data"
| "brings_answer _ = False"

lemma waiting_send_frame [simp]: "waiting (snd (send_frame env d b e)) = waiting e"
  by (simp add: send_frame_def)

lemma waiting_handleTAP: "waiting (snd (handleTAP env frame e)) = waiting e"
  by (simp add: handleTAP_def Let_def on_ok_def split: sum.splits fault.splits)

lemma waiting_send_pings: "waiting e \<Longrightarrow> waiting (snd (send_pings env n msg dst e))"
  by (induction n arbitrary: e) (auto intro!: st_then_keeps [where P = waiting])

lemma waiting_ping_all: "waiting e \<Longrightarrow> waiting (snd (ping_all env as st e))"
proof (induction "as" arbitrary: e)
  case (Cons a "as")
  then have "waiting (snd (PingPeer env a 3 st e))" by (simp add: PingPeer_def Let_def waiting_send_pings)
  then show ?case unfolding ping_all.simps by (intro st_then_keeps [where P = waiting]) (simp_all add: Cons.IH)
qed simp

lemma waiting_UpdatePeersP2PStates: "waiting e \<Longrightarrow> waiting (snd (UpdatePeersP2PStates env e))"
  unfolding UpdatePeersP2PStates_def split_beta Let_def
  by (rule st_then_keeps [where P = waiting, OF waiting_ping_all], assumption,
      rule st_then_keeps [where P = waiting, OF waiting_ping_all waiting_ping_all]) simp_all

lemma waiting_step: "waiting e \<Longrightarrow> \<not> brings_answer ev \<Longrightarrow> waiting (ed_step ev e)"
proof (cases ev)
  case (EdWSS env inp)
  assume "waiting e" "\<not> brings_answer ev"
  then have "waiting (snd (handleWSS env inp e))"
    using EdWSS waiting_dispatch
    by (auto simp: handleWSS_def wss_reconnect_def waiting_requests intro!: st_then_keeps [where P = waiting] split: wss_input.splits)
  then show ?thesis using EdWSS by (simp add: ed_step_def st_then_keeps [where P = waiting])
next
  case (EdUDP env data addr)
  assume "waiting e" "\<not> brings_answer ev"
  then show ?thesis using EdUDP by (simp add: ed_step_def handleUDP_def waiting_dispatch)
qed (simp_all add: ed_step_def waiting_handleTAP handleHeartbeat_def handleP2PInfos_def waiting_requests handleP2PUpdates_def
    recovered_def waiting_UpdatePeersP2PStates waiting_sendLeasesInfosRequest)

interpretation silent: step_system "\<lambda>ev e. if brings_answer ev then e else ed_step ev e" waiting
  by unfold_locales (simp add: waiting_step)



text \<open>What the three messages of a recovery do, each on its own.\<close>

definition sent_types :: "EdgeClient \<Rightarrow> PacketType list" where
  "sent_types e = map (\<lambda>x. out_packet x ! 2) (ecOut e)"

lemma sent_types_receive [simp]: "sent_types (receive data e) = sent_types e"
  by (simp add: sent_types_def receive_def)

lemma pack_nth2: "PackProtoVDatagram h b ! 2 = PacketType h"
  by (simp add: PackProtoVDatagram_def header_bytes_def put8_def)

lemma SendStruct_edge_types:
  assumes "6 \<le> length (ecMACAddr e)" "link_up env e" "evMarshal env m \<noteq> None"
  obtains e' where "SendStruct_edge env m None UDPEnforceSupernode e = (Ok (), e')" "ed_core e' = ed_core e"
    "sent_types e' = sent_types e @ [pb_type m]"
proof -
  obtain b where b: "evMarshal env m = Some b" using assms(3) by blast
  show thesis
  proof (rule SendStruct_edge_sent [OF assms(1) dst_ok_None assms(2) b UDPAddrWithStrategy_sn])
    fix x e' assume "SendStruct_edge env m None UDPEnforceSupernode e = (Ok (), e')" "ed_core e' = ed_core e" "ecOut e' = ecOut e @ [x]"
      "out_packet x = PackProtoVDatagram (edge_header env (pb_type m) None e) b"
    then show thesis by (intro that [of e']) (simp_all add: sent_types_def pack_nth2 edge_header_def)
  qed
qed

lemma recovery_invited:
  assumes "6 \<le> length (ecMACAddr e)" "link_up env e" "\<forall>m. evMarshal env m \<noteq> None" "\<not> waiting e"
    and "PacketType (rHeader r) = TypeRetryRegisterRequest"
  obtains e' where "handleRetryRegisterRequest env r e = (Ok (), e')" "waiting e'" "ecSettings e' = ecSettings e"
    "ecWSSTransport e' = ecWSSTransport e" "ecPacketBuf e' = ecPacketBuf e" "sent_types e' = sent_types e @ [TypeSNPublicSecret]"
proof (rule SendStruct_edge_types [OF assms(1,2), of "MSnPublicSecret \<lparr>spIsRequest = True, spPemData = []\<rparr>"])
  fix e1 assume s: "SendStruct_edge env (MSnPublicSecret \<lparr>spIsRequest = True, spPemData = []\<rparr>) None UDPEnforceSupernode e = (Ok (), e1)"
    "ed_core e1 = ed_core e" "sent_types e1 = sent_types e @ [pb_type (MSnPublicSecret \<lparr>spIsRequest = True, spPemData = []\<rparr>)]"
  let ?e' = "e1\<lparr>isWaitingForSNPubKeyUpdate := True, isWaitingForSNRetryRegisterResponse := True\<rparr>"
  have "handleRetryRegisterRequest env r e = (Ok (), ?e')"
    using assms(4,5) s(1) by (simp add: handleRetryRegisterRequest_def RequestSNPublicKey_def)
  then show thesis
    using s(2,3) by (intro that [of ?e']) (simp_all add: ed_core_eq link_up_def sent_types_def)
qed (use assms(3) in blast)

lemma recovery_keyed:
  assumes "6 \<le> length (ecMACAddr e)" "link_up env e" "\<forall>m. evMarshal env m \<noteq> None" "waiting e"
    and "PacketType (rHeader r) = TypeSNPublicSecret" "evUnmarshal env TypeSNPublicSecret (rPayload r) = Some (MSnPublicSecret s)"
    and "evParseKey env (spPemData s) = Some k" "evEncrypt env k (ecMachineId e) \<noteq> None"
  obtains e' where "handleSNPublicSecretMessage_edge env r e = (Ok (), e')" "waiting e'" "\<not> isWaitingForSNPubKeyUpdate e'"
    "ecSettings e' = ecSettings e" "ecWSSTransport e' = ecWSSTransport e" "ecPacketBuf e' = ecPacketBuf e" "ecSNPubKey e' = Some k"
    "sent_types e' = sent_types e @ [TypeRegisterRequest]"
proof -
  let ?e = "e\<lparr>ecSNPubKey := Some k, isWaitingForSNPubKeyUpdate := False\<rparr>"
  obtain c where c: "evEncrypt env k (ecMachineId e) = Some c" using assms(8) by blast
  let ?m = "MRegisterRequest \<lparr>rqEdgeMacAddr = mac_string (ecMACAddr e), rqEdgeDesc = ecID e, rqCommunityName = ecCommunity e,
    rqEncryptedMachineId = c, rqClearMachineId = []\<rparr>"
  have h: "6 \<le> length (ecMACAddr ?e)" "link_up env ?e" "evMarshal env ?m \<noteq> None"
    using assms(1,2,3) by (simp_all add: link_up_def)
  show thesis
  proof (rule SendStruct_edge_types [OF h])
    fix e' assume s: "SendStruct_edge env ?m None UDPEnforceSupernode ?e = (Ok (), e')" "ed_core e' = ed_core ?e"
      "sent_types e' = sent_types ?e @ [pb_type ?m]"
    have "decode_msg (evUnmarshal env) TypeSNPublicSecret as_SnPublicSecret r = Ok s" using assms(5,6) by (simp add: decode_msg_Ok)
    then have "handleSNPublicSecretMessage_edge env r e = (Ok (), e')"
      using assms(4,7) s(1) c by (simp add: handleSNPublicSecretMessage_edge_def RequestRegister_def EncryptedMachineID_def)
    then show thesis
      using s(2,3) assms(4) by (intro that [of e']) (simp_all add: ed_core_eq link_up_def sent_types_def)
  qed
qed

lemma recovery_accepted:
  assumes "6 \<le> length (ecMACAddr e)" "link_up env e" "\<forall>m. evMarshal env m \<noteq> None"
    and "PacketType (rHeader r) = TypeRegisterResponse"
    and "evUnmarshal env TypeRegisterResponse (rPayload r) = Some (MRegisterResponse p)" "rpIsRegisterOk p"
  obtains e' where "handleRegisterResponseMessage env r e = (Ok (), e')" "\<not> waiting e'" "ecRegistered e'"
    "isWaitingForSNPubKeyUpdate e' = isWaitingForSNPubKeyUpdate e" "ecSNPubKey e' = ecSNPubKey e"
    "sent_types e' = sent_types e @ [TypePeerListRequest]"
proof -
  let ?e = "set_peers ((ecPeers e)\<lparr>IsWaitingCommunityDatas := False\<rparr>) (e\<lparr>ecRegistered := True, isWaitingForSNRetryRegisterResponse := False\<rparr>)"
  have h: "6 \<le> length (ecMACAddr ?e)" "link_up env ?e" "evMarshal env (MPeerListRequest (ecCommunity ?e)) \<noteq> None"
    using assms(1,2,3) by (simp_all add: link_up_def set_peers_def)
  show thesis
  proof (rule SendStruct_edge_types [OF h])
    fix e' assume s: "SendStruct_edge env (MPeerListRequest (ecCommunity ?e)) None UDPEnforceSupernode ?e = (Ok (), e')"
      "ed_core e' = ed_core ?e" "sent_types e' = sent_types ?e @ [pb_type (MPeerListRequest (ecCommunity ?e))]"
    have "decode_msg (evUnmarshal env) TypeRegisterResponse as_RegisterResponse r = Ok p" using assms(4,5) by (simp add: decode_msg_Ok)
    then have "handleRegisterResponseMessage env r e = (Ok (), e')"
      using assms(6) s(1) by (simp add: handleRegisterResponseMessage_def sendPeerListRequest_def st_ignore_Ok)
    then show thesis
      using s(2,3) by (intro that [of e']) (simp_all add: ed_core_eq set_peers_def sent_types_def)
  qed
qed

definition net_ok :: "ed_env \<Rightarrow> EdgeClient \<Rightarrow> bool" where
  "net_ok env e \<longleftrightarrow> link_up env e \<and> (\<forall>m. evMarshal env m \<noteq> None)"

text \<open>A whole packet of version 5 with the given type.\<close>

definition fits :: "PacketType \<Rightarrow> ProtoVHeader \<Rightarrow> bytes \<Rightarrow> EdgeClient \<Rightarrow> bool" where
  "fits pt h b e \<longleftrightarrow> Version h = VersionV \<and> PacketType h = pt \<and> length (PackProtoVDatagram h b) \<le> length (ecPacketBuf e)"

lemma ed_step_handled:
  assumes "fits pt h b e" "gget (messageHandlers env) pt = Some f"
  shows "ed_step (EdUDP env (PackProtoVDatagram h b) a) e = snd (f (raw_of h b (UDPAddr a)) (receive (PackProtoVDatagram h b) e))"
  using assms dispatch_message [of h b e env a] by (simp add: fits_def ed_step_def Handle_def raw_of_def)

lemma receive_frame [simp]:
  "ecSettings (receive d e) = ecSettings e" "ecWSSTransport (receive d e) = ecWSSTransport e" "link_up env (receive d e) = link_up env e" "waiting (receive d e) = waiting e"
  "length (ecPacketBuf (receive d e)) = length (ecPacketBuf e)" "ecSNPubKey (receive d e) = ecSNPubKey e"
  "isWaitingForSNPubKeyUpdate (receive d e) = isWaitingForSNPubKeyUpdate e"
  by (simp_all add: receive_def link_up_def)


definition demo_ed_header :: "PacketType \<Rightarrow> ProtoVHeader" where
  "demo_ed_header pt = edge_header demo_ed_env pt None demo_client"


section \<open>Failures\<close>

definition link_down :: "ed_env \<Rightarrow> EdgeClient \<Rightarrow> bool" where
  "link_down env e \<longleftrightarrow> (if ecWSSTransport e then \<forall>p. \<not> evWSSWrite env p else \<forall>u p. \<not> evUDPWrite env u p)"

lemma SendStruct_edge_down:
  assumes "link_down env e" "6 \<le> length (ecMACAddr e)"
  obtains g where "SendStruct_edge env m None UDPEnforceSupernode e = (Fail g, e\<lparr>ecSeq := ecSeq e + 1\<rparr>)"
proof (cases "evMarshal env m")
  case None
  then show ?thesis
    using EdgeHeader_Ok [OF assms(2) dst_ok_None] by (intro that) (simp add: SendStruct_edge_def UDPAddrWithStrategy_sn)
next
  case (Some b)
  let ?e = "e\<lparr>ecSeq := ecSeq e + 1\<rparr>" and ?p = "PackProtoVDatagram (edge_header env (pb_type m) None e) b"
  have "sent_as env ?p (Some (ecSupernodeAddr e)) ?e = None" using assms(1) by (simp add: link_down_def sent_as_def)
  then obtain f where "transmit env ?p (Some (ecSupernodeAddr e)) ?e = (Fail f, ?e)" by (blast dest: transmit_None)
  then show ?thesis
    using Some EdgeHeader_Ok [OF assms(2) dst_ok_None] by (intro that [of f]) (simp add: SendStruct_edge_def UDPAddrWithStrategy_sn)
qed

lemma lost_announcement:
  assumes "6 \<le> length (ecMACAddr e)" "link_down env e" "\<not> waiting e" "\<not> isWaitingForSNPubKeyUpdate e" "HasPendingChanges (ecPeers e)"
  obtains g e' where "sendP2PInfos env e = (Fail g, e')" "sendP2PInfos env' e' = (Ok (), e')" "ecOut e' = ecOut e"
proof -
  let ?e = "set_peers (ClearPendingChanges (ecPeers e)) e"
  have "link_down env ?e" "6 \<le> length (ecMACAddr ?e)" using assms(1,2) by (simp_all add: link_down_def set_peers_def)
  from SendStruct_edge_down [OF this] obtain g where
    g: "SendStruct_edge env (MPeerP2PInfos (GetPeerP2PInfos (ecPeers e))) None UDPEnforceSupernode ?e = (Fail g, ?e\<lparr>ecSeq := ecSeq ?e + 1\<rparr>)" .
  show thesis
    by (rule that [of g "?e\<lparr>ecSeq := ecSeq ?e + 1\<rparr>"])
       (use assms(3-5) g in \<open>simp_all add: sendP2PInfos_def HasPendingChanges_def set_peers_def ClearPendingChanges_def\<close>)
qed

lemma lost_state_request:
  assumes "6 \<le> length (ecMACAddr e)" "link_down env e" "\<not> IsWaitingCommunityDatas (ecPeers e)"
  obtains g e' where "sendP2PFullStateRequest env e = (Fail g, e')" "sendP2PFullStateRequest env' e' = (Ok (), e')" "ecOut e' = ecOut e"
proof -
  let ?e = "set_peers ((ecPeers e)\<lparr>IsWaitingCommunityDatas := True\<rparr>) e"
  let ?m = "MP2PFullState \<lparr>fsCommunityName = ecCommunity e, fsIsRequest = True, fsReachables = Some [], fsUnreachables = Some []\<rparr>"
  have "link_down env ?e" "6 \<le> length (ecMACAddr ?e)" using assms(1,2) by (simp_all add: link_down_def set_peers_def)
  from SendStruct_edge_down [OF this] obtain g where
    g: "SendStruct_edge env ?m None UDPEnforceSupernode ?e = (Fail g, ?e\<lparr>ecSeq := ecSeq ?e + 1\<rparr>)" .
  show thesis
    by (rule that [of g "?e\<lparr>ecSeq := ecSeq ?e + 1\<rparr>"])
       (use assms(3) g in \<open>simp_all add: sendP2PFullStateRequest_def set_peers_def\<close>)
qed

lemma lost_unregister:
  assumes "6 \<le> length (ecMACAddr e)" "link_down env e" "ecRegistered e" "\<not> ecUnregisterDone e" "ecSNPubKey e = Some k"
    and "evEncrypt env k (ecMachineId e) = Some c" "evEncrypt env' k (ecMachineId e) = Some c'"
  obtains g e' where "Unregister_edge env e = (Fail g, e')" "Unregister_edge env' e' = (Ok (), e')" "ecOut e' = ecOut e"
proof -
  let ?e = "e\<lparr>ecUnregisterDone := True\<rparr>"
  let ?m = "MUnregisterRequest \<lparr>urEdgeMacAddr = mac_string (ecMACAddr e), urCommunityName = ecCommunity e, urEncryptedMachineId = c\<rparr>"
  have "link_down env ?e" "6 \<le> length (ecMACAddr ?e)" using assms(1,2) by (simp_all add: link_down_def)
  from SendStruct_edge_down [OF this] obtain g where
    g: "SendStruct_edge env ?m None UDPEnforceSupernode ?e = (Fail g, ?e\<lparr>ecSeq := ecSeq ?e + 1\<rparr>)" .
  show thesis
    by (rule that [of g "?e\<lparr>ecSeq := ecSeq ?e + 1\<rparr>"])
       (use assms(3-7) g in \<open>simp_all add: Unregister_edge_def EncryptedMachineID_def\<close>)
qed

text \<open>C25. Three messages are marked as sent before they are: an announcement of peers, a request for the
  community data and the message that leaves the community. If the write fails, the error is
  reported once, and the next attempt, even over a working link, sends nothing.\<close>

theorem failed_sends_are_forgotten:
  assumes "6 \<le> length (ecMACAddr e)" "link_down env e"
    and "\<not> waiting e" "\<not> isWaitingForSNPubKeyUpdate e" "HasPendingChanges (ecPeers e)" "\<not> IsWaitingCommunityDatas (ecPeers e)"
    and "ecRegistered e" "\<not> ecUnregisterDone e" "ecSNPubKey e = Some k"
    and "evEncrypt env k (ecMachineId e) = Some c" "evEncrypt env' k (ecMachineId e) = Some c'"
  shows "(\<exists>g e'. sendP2PInfos env e = (Fail g, e') \<and> sendP2PInfos env' e' = (Ok (), e') \<and> ecOut e' = ecOut e) \<and>
    (\<exists>g e'. sendP2PFullStateRequest env e = (Fail g, e') \<and> sendP2PFullStateRequest env' e' = (Ok (), e') \<and> ecOut e' = ecOut e) \<and>
    (\<exists>g e'. Unregister_edge env e = (Fail g, e') \<and> Unregister_edge env' e' = (Ok (), e') \<and> ecOut e' = ecOut e)"
  using lost_announcement [OF assms(1-5)] lost_state_request [OF assms(1,2,6)] lost_unregister [OF assms(1,2,7-11)] by metis

definition demo_down_env :: ed_env where
  "demo_down_env = demo_ed_env\<lparr>evUDPWrite := \<lambda>_ _. False\<rparr>"

definition demo_pending_edge :: EdgeClient where
  "demo_pending_edge = demo_client\<lparr>ecPeers := SetPendingChanges demo_reg\<rparr>"

theorem failed_sends_are_forgotten_witness:
  "(\<exists>g e'. sendP2PInfos demo_down_env demo_pending_edge = (Fail g, e') \<and> sendP2PInfos demo_ed_env e' = (Ok (), e') \<and> ecOut e' = ecOut demo_pending_edge) \<and>
    (\<exists>g e'. sendP2PFullStateRequest demo_down_env demo_pending_edge = (Fail g, e') \<and> sendP2PFullStateRequest demo_ed_env e' = (Ok (), e') \<and>
      ecOut e' = ecOut demo_pending_edge) \<and>
    (\<exists>g e'. Unregister_edge demo_down_env demo_pending_edge = (Fail g, e') \<and> Unregister_edge demo_ed_env e' = (Ok (), e') \<and>
      ecOut e' = ecOut demo_pending_edge)"
  by (rule failed_sends_are_forgotten [of demo_pending_edge demo_down_env "[7]" "[7, 1]" demo_ed_env "[7, 1]"])
     (simp_all add: demo_pending_edge_def demo_down_env_def demo_client_def demo_ed_env_def link_down_def HasPendingChanges_def
       SetPendingChanges_def demo_reg_def NewPeerRegistry_def)

lemma fuze_received:
  assumes "ecEnableVFuze e" "length (ecMACAddr e) = 6" "7 + length payload \<le> length (ecPacketBuf e)"
  shows "handleUDP env (VersionVFuze # ecMACAddr e @ payload) a e =
    st_ignore (handleDataPayload env payload) (receive (VersionVFuze # ecMACAddr e @ payload) e)"
proof -
  let ?d = "(VersionVFuze # ecMACAddr e) @ payload" let ?e = "receive (VersionVFuze # ecMACAddr e @ payload) e"
  have l: "length ?d \<le> length (ecPacketBuf e)" using assms(2,3) by simp
  have b: "ecPacketBuf ?e = ?d @ drop (length ?d) (ecPacketBuf e)" using l by (simp add: receive_def read_into_def go_copy_def)
  have v: "VFuzePacketDestMACAddr (ecPacketBuf ?e) = Ok (ecMACAddr e)"
    using assms(2) by (simp add: b VFuzePacketDestMACAddr_def ProtoVFuzeSize_def slice_def)
  have g: "go_slice ProtoVFuzeSize (length ?d) (ecPacketBuf ?e) = (Ok payload :: (ed_error, bytes) res)"
    using assms(2) by (simp add: b go_slice_def ProtoVFuzeSize_def slice_def)
  have "handleVFuzePacket env (ecPacketBuf ?e) (length ?d) (Some a) ?e = handleDataPayload env payload ?e"
    using assms(1) v g by (simp add: handleVFuzePacket_def disablePeerSocketCheckingInVFuze_def)
  moreover have "min (length ?d) (length (ecPacketBuf e)) = length ?d" using l by simp
  ultimately show ?thesis
    using dispatch_fuze [of ?e env "length ?d" "Some a" "UDPAddr a"] b by (simp add: handleUDP_def st_ignore_def)
qed

text \<open>C24. Less than 28 bytes of payload are handed to the TAP device as they are, whatever passphrase the
  edge has: anyone who can reach its socket and knows its hardware address can inject such frames
  into a network that is otherwise encrypted.\<close>

theorem short_payload_bypasses_the_cipher:
  assumes "ecEnableVFuze e" "length (ecMACAddr e) = 6" "35 \<le> length (ecPacketBuf e)" "length payload < 28"
    and "\<forall>frame. evTapWrite env frame"
  shows "fst (handleUDP env (VersionVFuze # ecMACAddr e @ payload) a e) = Ok () \<and>
    ecTapOut (snd (handleUDP env (VersionVFuze # ecMACAddr e @ payload) a e)) =
      ecTapOut e @ [payload @ replicate (60 - length payload) 0]"
proof -
  let ?e = "receive (VersionVFuze # ecMACAddr e @ payload) e"
  have "pad_frame payload = payload @ replicate (60 - length payload) 0" using assms(4) by (simp add: pad_frame_def go_copy_def)
  then have "handleDataPayload env payload ?e = (Ok (), ?e\<lparr>ecTapOut := ecTapOut e @ [payload @ replicate (60 - length payload) 0]\<rparr>)"
    using assms(4,5) by (simp add: handleDataPayload_def minGCMSize_def receive_def)
  then show ?thesis using fuze_received [OF assms(1,2), of payload env a] assms(3,4) by (simp add: st_ignore_Ok)
qed

definition demo_secret_client :: EdgeClient where
  "demo_secret_client = demo_client\<lparr>ecSettings := (ecSettings demo_client)\<lparr>esPassphrase := ''secret''\<rparr>\<rparr>"

theorem short_payload_bypasses_the_cipher_witness:
  "fst (handleUDP demo_ed_env (VersionVFuze # ecMACAddr demo_secret_client @ [1, 2]) \<lparr>uIP = [10, 0, 0, 9], uPort = 1\<rparr> demo_secret_client) = Ok () \<and>
    ecTapOut (snd (handleUDP demo_ed_env (VersionVFuze # ecMACAddr demo_secret_client @ [1, 2]) \<lparr>uIP = [10, 0, 0, 9], uPort = 1\<rparr> demo_secret_client)) =
      ecTapOut demo_secret_client @ [[1, 2] @ replicate (60 - length [1, 2 :: byte]) 0]"
  by (rule short_payload_bypasses_the_cipher) (simp_all add: demo_secret_client_def demo_client_def demo_ed_env_def)

text \<open>C26. An edge configured with a \<open>ws\<close> address keeps no transport configuration, so its receive
  loop ends when the connection is lost; with a \<open>wss\<close> address it connects again.\<close>

theorem plain_websocket_never_reconnects:
  assumes "HasPrefix (egSupernodeURL cfg) ''ws://''" "setupNetworkComponents se cfg = Ok t"
    and "ecWssConfig e = tpWssConfig t" "ecWSSTransport e = tpWSS t"
  shows "\<exists>e'. handleWSS env WSSError e = (Ok True, e') \<and> \<not> ecWSSTransport e' \<and> (\<forall>inp env'. handleWSS env' inp e' = (Ok False, e'))"
proof -
  have "egSupernodeURL cfg \<noteq> []" using assms(1) by (auto simp: HasPrefix_def)
  then have "websocket_setup se cfg ''ws://'' '':8080'' False = Ok t" using assms(1,2) by (simp add: setupNetworkComponents_def)
  then have t: "tpWSS t" "\<not> tpWssConfig t" by (auto simp: websocket_setup_def Let_def split: if_splits option.splits)
  show ?thesis
    by (rule exI [of _ "e\<lparr>ecWSSTransport := False\<rparr>"]) (use assms(3,4) t in \<open>simp add: handleWSS_def\<close>)
qed

definition demo_ws_config :: EdgeConfig where
  "demo_ws_config = DefaultConfig_edge\<lparr>egSupernodeURL := ''ws://sn''\<rparr>"

definition demo_setup :: setup_env where
  "demo_setup = \<lparr>seDial = (\<lambda>_. True), seResolve = (\<lambda>_. Some \<lparr>uIP = [10, 0, 0, 1], uPort = 8080\<rparr>), seListen = (\<lambda>_. True), seTap = True,
     seHosts = True, seIfMac = True, seWindows = False, seTapMac = None, seMgmt = True\<rparr>"

theorem plain_websocket_never_reconnects_witness:
  "\<exists>e'. handleWSS demo_ed_env WSSError (demo_client\<lparr>ecWSSTransport := True\<rparr>) = (Ok True, e') \<and> \<not> ecWSSTransport e' \<and>
    (\<forall>inp env'. handleWSS env' inp e' = (Ok False, e'))"
  by (rule plain_websocket_never_reconnects [of demo_ws_config demo_setup
        "\<lparr>tpConn = False, tpWSS = True, tpSnAddr = \<lparr>uIP = [10, 0, 0, 1], uPort = 8080\<rparr>, tpWssConfig = False\<rparr>"])
     (simp_all add: demo_ws_config_def HasPrefix_def setupNetworkComponents_def websocket_setup_def demo_setup_def demo_client_def Let_def)

section \<open>Waiting in the HTTP interface\<close>

lemma wait_for_update_returns:
  assumes "\<forall>k. elapsed k \<ge> (int k + 1) * 300000000" "i \<le> 10" "i = 10 \<longrightarrow> \<not> w"
  shows "\<exists>k \<le> 10. wait_for_update others elapsed (3 * second) i w = Some k"
  using assms(2,3)
proof (induction "10 - i" arbitrary: i w)
  case 0
  then show ?case by (subst wait_for_update.simps) simp
next
  case (Suc d)
  show ?case
  proof (cases w)
    case True
    let ?w = "if elapsed i \<ge> 3 * second then False else others i w"
    have "elapsed i \<ge> 3 * second" if "i = 9" using assms(1) [rule_format, of i] that by (simp add: second_def)
    then have "Suc i = 10 \<longrightarrow> \<not> ?w" by auto
    moreover have "d = 10 - Suc i" "Suc i \<le> 10" using Suc.hyps(2) by simp_all
    ultimately obtain k where "k \<le> 10" "wait_for_update others elapsed (3 * second) (Suc i) ?w = Some k"
      using Suc.hyps(1) by blast
    then show ?thesis using True by (subst wait_for_update.simps) simp
  next
    case False
    then show ?thesis using Suc.prems(1) by (subst wait_for_update.simps) simp
  qed
qed

lemma poll_flag_stuck:
  assumes "poll_flag others k w = Some n"
  shows "others = (\<lambda>_ w. w) \<longrightarrow> \<not> w"
  by (rule poll_flag.raw_induct [where P = "\<lambda>others k w n. others = (\<lambda>_ w. w) \<longrightarrow> \<not> w", OF _ assms])
     (auto split: if_splits)

lemma sendP2PFullStateRequest_waits:
  assumes "sendP2PFullStateRequest env e = (Ok u, e')"
  shows "IsWaitingCommunityDatas (ecPeers e')"
proof (cases "IsWaitingCommunityDatas (ecPeers e)")
  case True
  then show ?thesis using assms by (simp add: sendP2PFullStateRequest_def)
next
  case False
  let ?e = "set_peers ((ecPeers e)\<lparr>IsWaitingCommunityDatas := True\<rparr>) e"
  have "e' = snd (sendP2PFullStateRequest env e)" using assms by simp
  then have "ecPeers e' = ecPeers ?e"
    using False SendStruct_edge_core [of env _ None UDPEnforceSupernode ?e, unfolded ed_core_eq]
    by (simp add: sendP2PFullStateRequest_def)
  then show ?thesis by (simp add: set_peers_def)
qed

lemma GetPeersDot_returns:
  assumes "\<forall>k. elapsed k \<ge> (int k + 1) * 300000000" "fst (sendP2PFullStateRequest env e) = Ok ()"
  shows "\<exists>k \<le> 10. fst (GetPeersDot env others elapsed e) = Ok (Some k)"
proof -
  obtain e' where e': "sendP2PFullStateRequest env e = (Ok (), e')" using assms(2) by (cases "sendP2PFullStateRequest env e") auto
  obtain k where "k \<le> 10" "WaitForCommunityDatasUpdate others elapsed (3 * second) e' = Some k"
    using wait_for_update_returns [OF assms(1), of 0 "IsWaitingCommunityDatas (ecPeers e')" others]
    by (auto simp: WaitForCommunityDatasUpdate_def)
  then show ?thesis using e' by (auto simp: GetPeersDot_def)
qed

lemma GetPeersJSON_stuck:
  assumes "fst (sendP2PFullStateRequest env e) = Ok ()"
  shows "fst (GetPeersJSON env (\<lambda>_ w. w) e) = Ok None"
proof -
  obtain e' where e': "sendP2PFullStateRequest env e = (Ok (), e')" using assms by (cases "sendP2PFullStateRequest env e") auto
  have "poll_flag (\<lambda>_ w. w) 0 True = None"
    using poll_flag_stuck [of "\<lambda>_ w. w" 0 True] by (cases "poll_flag (\<lambda>_ w. w) 0 True") auto
  then show ?thesis using e' sendP2PFullStateRequest_waits [OF e'] by (simp add: GetPeersJSON_def)
qed

text \<open>C27. The page \<^verbatim>\<open>/peers.dot\<close> is delivered after at most ten pauses of 300 ms once its request is
  sent, whatever the other goroutines do to the flag during the pauses. The page
  \<^verbatim>\<open>/peers.json\<close> waits without a time limit: if the answer of the supernode is lost, its
  handler does not return.\<close>

theorem waiting_for_the_community_ends:
  assumes "\<forall>k. elapsed k \<ge> (int k + 1) * 300000000" "fst (sendP2PFullStateRequest env e) = Ok ()"
  shows "(\<exists>k \<le> 10. fst (GetPeersDot env others elapsed e) = Ok (Some k)) \<and>
    fst (GetPeersJSON env (\<lambda>_ w. w) e) = Ok None"
  using GetPeersDot_returns [OF assms] GetPeersJSON_stuck [OF assms(2)] by blast

theorem waiting_for_the_community_ends_witness:
  "(\<exists>k \<le> 10. fst (GetPeersDot demo_ed_env (\<lambda>_ _. True) (\<lambda>k. (int k + 1) * 300000000) demo_client) = Ok (Some k)) \<and>
    fst (GetPeersJSON demo_ed_env (\<lambda>_ w. w) demo_client) = Ok None"
  by (rule waiting_for_the_community_ends)
     (simp_all add: sendP2PFullStateRequest_def demo_client_def demo_reg_def NewPeerRegistry_def set_peers_def demo_ed_env_def demo_pb_def
       SendStruct_edge_def UDPAddrWithStrategy_def EdgeHeader_def copy6_def go_slice_def slice_def transmit_def)

end
