(* ===== verification/Overlay.thy ===== *)
theory Overlay
  imports Supernode_Session Edge_Props
begin

text \<open>
  The parts together: a frame that one edge reads from its TAP device reaches the TAP device of
  another through the supernode, and the registration of an edge is accepted by a supernode with
  the matching key.
\<close>

section \<open>Payloads between two edges\<close>

text \<open>The two edges are configured alike, and the compression library is faithful.\<close>

definition same_pipeline :: "ed_env \<Rightarrow> EdgeClient \<Rightarrow> ed_env \<Rightarrow> EdgeClient \<Rightarrow> bool" where
  "same_pipeline enva ea envb eb \<longleftrightarrow> ecCompressPayload eb = ecCompressPayload ea \<and> ecPassphrase eb = ecPassphrase ea \<and>
     evZstd envb = evZstd enva \<and> zstd_faithful (evZstd enva)"

text \<open>The receiver hands payloads of less than 28 bytes on as they are. That is harmless for encrypted
  payloads, which are longer, and for plain ones, but not for compressed ones.\<close>

definition survives :: "EdgeClient \<Rightarrow> bytes \<Rightarrow> bool" where
  "survives e y \<longleftrightarrow> ecPassphrase e \<noteq> [] \<or> \<not> ecCompressPayload e \<or> minGCMSize \<le> length y"

lemma encrypted_length:
  "PrepareOutput (edge_pipeline zip_on p z seed) x = Ok y \<Longrightarrow> p \<noteq> [] \<Longrightarrow> 28 \<le> length y"
  by (auto simp: edge_pipeline_def Let_def res_bind_eq_Inr NewAESGCMTransform_def aes_Apply_def length_gcm_Seal nonceSize_def
      split: if_splits option.splits)

lemma plain_payload: "PrepareOutput (edge_pipeline False [] z seed) x = Ok y \<Longrightarrow> y = x"
  by (simp add: edge_pipeline_def Let_def NewNoOpTransform_def)

lemma handleDataPayload_prepared:
  assumes "same_pipeline enva ea envb eb" "ProcessOutgoingPayload enva ea frame = Ok y" "survives ea y"
    and "evTapWrite envb (pad_frame frame)"
  shows "handleDataPayload envb y eb = (Ok (), eb\<lparr>ecTapOut := ecTapOut eb @ [pad_frame frame]\<rparr>)"
proof -
  let ?p = "\<lambda>seed. edge_pipeline (ecCompressPayload ea) (ecPassphrase ea) (evZstd enva) seed"
  have p: "PrepareOutput (?p (evSeed enva)) frame = Ok y" using assms(2) by (simp add: ProcessOutgoingPayload_def err_map_Ok)
  have "ParseInput (?p (evSeed envb)) y = Ok frame"
    using payload_roundtrip [OF _ p] assms(1) by (simp add: same_pipeline_def)
  then have i: "ProcessIncomingPayload envb eb y = Ok frame"
    using assms(1) by (simp add: ProcessIncomingPayload_def same_pipeline_def err_map_def)
  have "y = frame" if "length y < minGCMSize"
  proof -
    have e: "ecPassphrase ea = []" using that encrypted_length [OF p] by (auto simp: minGCMSize_def)
    then have "\<not> ecCompressPayload ea" using that assms(3) by (simp add: survives_def)
    then show ?thesis using plain_payload [of "evZstd enva" "evSeed enva" frame y] p e by simp
  qed
  then have "(if length y < minGCMSize then Ok y else ProcessIncomingPayload envb eb y) = Ok frame" using i by simp
  then show ?thesis using assms(4) by (simp only: handleDataPayload_def on_ok_simps Let_def if_True)
qed

section \<open>Frames out\<close>

lemma handleTAP_sends:
  assumes "14 \<le> length frame" "length frame \<le> length (ecFrameBuf e)"
    and "GetEthertype (read_into (ecFrameBuf e) frame) = Ok t" "t \<noteq> EthertypeIPv6" "ProcessOutgoingPayload env e frame = Ok y"
  shows "handleTAP env frame e =
    st_ignore (send_frame env (take 6 frame) y) (e\<lparr>ecFrameBuf := read_into (ecFrameBuf e) frame\<rparr>)"
proof -
  let ?b = "read_into (ecFrameBuf e) frame"
  have b: "?b = frame @ drop (length frame) (ecFrameBuf e)" using assms(2) by (simp add: read_into_def go_copy_def)
  have "FastDestination ?b = Ok (take 6 frame)" using FastDestination_long [of ?b] assms(1) b by simp
  moreover have "take (length frame) ?b = frame" using b by simp
  moreover have "ProcessOutgoingPayload env (e\<lparr>ecFrameBuf := ?b\<rparr>) frame = Ok y" using assms(5) by (simp add: ProcessOutgoingPayload_def)
  moreover have "\<not> min (length frame) (length (ecFrameBuf e)) < 14" using assms(1,2) by simp
  moreover have "min (length frame) (length (ecFrameBuf e)) = length frame" using assms(2) by simp
  ultimately show ?thesis using assms(3,4) by (simp add: handleTAP_def Let_def err_map_def)
qed

lemma UDPAddrWithStrategy_frame [simp]:
  "UDPAddrWithStrategy env dst strategy (e\<lparr>ecFrameBuf := b\<rparr>) = UDPAddrWithStrategy env dst strategy e"
  by (cases strategy; cases dst) (simp_all add: UDPAddrWithStrategy_def Let_def split: sum.splits)

lemma transmit_up:
  assumes "link_up env e"
  obtains x where "transmit env p (Some u) e = (Ok (), e\<lparr>ecOut := ecOut e @ [x]\<rparr>)" "out_packet x = p"
  using sent_as_link_up [OF assms] transmit_Some by blast

text \<open>What leaves the edge for a frame, and where to.\<close>

definition frame_packet :: "ed_env \<Rightarrow> bytes \<Rightarrow> bytes \<Rightarrow> EdgeClient \<Rightarrow> bytes" where
  "frame_packet env frame y e =
     (if ecEnableVFuze e then VersionVFuze # take 6 frame @ y
      else PackProtoVDatagram (edge_header env TypeData (Some (take 6 frame)) e) y)"

definition sends_frame :: "ed_env \<Rightarrow> bytes \<Rightarrow> bytes \<Rightarrow> EdgeClient \<Rightarrow> bool" where
  "sends_frame env frame y e \<longleftrightarrow> 14 \<le> length frame \<and> length frame \<le> length (ecFrameBuf e) \<and> 6 \<le> length (ecMACAddr e) \<and>
     (\<exists>t. GetEthertype (read_into (ecFrameBuf e) frame) = Ok t \<and> t \<noteq> EthertypeIPv6) \<and> \<not> IsBroadcast (take 6 frame) \<and>
     ProcessOutgoingPayload env e frame = Ok y \<and> link_up env e \<and>
     UDPAddrWithStrategy env (Some (take 6 frame)) UDPBestEffort e = Ok (Some (ecSupernodeAddr e))"

lemma handleTAP_packet:
  assumes "sends_frame env frame y e"
  shows "\<exists>x e'. handleTAP env frame e = (Ok (), e') \<and> ecOut e' = ecOut e @ [x] \<and> out_packet x = frame_packet env frame y e"
proof -
  let ?e = "e\<lparr>ecFrameBuf := read_into (ecFrameBuf e) frame\<rparr>" and ?d = "take 6 frame"
  note a = assms [unfolded sends_frame_def]
  have t: "handleTAP env frame e = st_ignore (send_frame env ?d y) ?e" using handleTAP_sends a by blast
  have u: "UDPAddrWithStrategy env (Some ?d) UDPBestEffort ?e = Ok (Some (ecSupernodeAddr e))" using a by simp
  have d: "length ?d = 6" "dst_ok (Some ?d)" "6 \<le> length (ecMACAddr ?e)" using a by (auto simp: dst_ok_def)
  have l: "link_up env (count_sent ?e)" "link_up env (count_sent (?e\<lparr>ecSeq := ecSeq e + 1\<rparr>))" using a by (simp_all add: link_up_def count_sent_def)
  show ?thesis
  proof (cases "ecEnableVFuze e")
    case True
    obtain x where "transmit env (VersionVFuze # ?d @ y) (Some (ecSupernodeAddr e)) (count_sent ?e) =
        (Ok (), (count_sent ?e)\<lparr>ecOut := ecOut (count_sent ?e) @ [x]\<rparr>)" "out_packet x = VersionVFuze # ?d @ y"
      using transmit_up [OF l(1)] .
    then show ?thesis
      using t True a u d(1) by (simp add: send_frame_def SendVFuze_def VFuzeHeaderBytes_def err_map_def st_ignore_Ok frame_packet_def count_sent_def)
  next
    case False
    let ?p = "PackProtoVDatagram (edge_header env TypeData (Some ?d) e) y" and ?e2 = "count_sent (?e\<lparr>ecSeq := ecSeq e + 1\<rparr>)"
    obtain x where "transmit env ?p (Some (ecSupernodeAddr e)) ?e2 = (Ok (), ?e2\<lparr>ecOut := ecOut ?e2 @ [x]\<rparr>)" "out_packet x = ?p"
      using transmit_up [OF l(2)] .
    moreover have "edge_header env TypeData (Some ?d) ?e = edge_header env TypeData (Some ?d) e" by (simp add: edge_header_def)
    ultimately show ?thesis
      using t False a u EdgeHeader_Ok [OF d(3,2), of env TypeData]
      by (simp add: send_frame_def WritePacket_edge_def st_ignore_Ok frame_packet_def count_sent_def)
  qed
qed

section \<open>From one TAP device to the other\<close>

text \<open>An address of six bytes that are not all zero, as the machine id generates it.\<close>

definition proper_mac :: "hwaddr \<Rightarrow> bool" where
  "proper_mac m \<longleftrightarrow> length m = 6 \<and> m \<noteq> replicate 6 0"

lemma proper_mac_bytesToMAC: "proper_mac m \<Longrightarrow> bytesToMAC (arr6_of m) = Some m"
  by (auto simp: proper_mac_def bytesToMAC_arr6_of replicate_eq_replicate list_eq_iff_nth_eq all_set_conv_all_nth)

text \<open>The supernode knows both edges and can reach the receiver \<open>t\<close>.\<close>

definition data_route :: "sn_env \<Rightarrow> Supernode \<Rightarrow> EdgeClient \<Rightarrow> EdgeClient \<Rightarrow> Edge \<Rightarrow> bool" where
  "data_route env s ea eb t \<longleftrightarrow>
     (\<exists>c. gget (communities s) (HashCommunity (ecCommunity ea)) = Some c \<and> gget (cEdges c) (mac_string (ecMACAddr ea)) \<noteq> None \<and>
        GetEdge c (mac_string (ecMACAddr eb)) s = Some t) \<and> (\<forall>b. deliverable env s b t)"

definition fuze_route :: "sn_env \<Rightarrow> Supernode \<Rightarrow> net_addr \<Rightarrow> EdgeClient \<Rightarrow> Edge \<Rightarrow> bool" where
  "fuze_route env s addr eb t \<longleftrightarrow> cfEnableVFuze (snConfig s) \<and> ecEnableVFuze eb \<and>
     (\<exists>d src. gget (edgesByMAC s) (mac_string (ecMACAddr eb)) = Some d \<and> edge_of s d = t \<and>
        gget (edgesBySocket s) (addr_string addr) = Some src \<and> eCommunity (edge_of s src) = eCommunity t) \<and>
     (\<forall>b. deliverable env s b t)"

lemma fuze_relayed:
  assumes "fuze_route env s addr eb t" "length (ecMACAddr eb) = 6"
  shows "\<exists>s'. ProcessPacket env (VersionVFuze # ecMACAddr eb @ y) addr s = (Ok (), s') \<and>
    snOut s' = snOut s @ [out_to t (VersionVFuze # ecMACAddr eb @ y)]"
proof -
  have "VFuzePacketDestMACAddr (VersionVFuze # ecMACAddr eb @ y) = Ok (ecMACAddr eb)"
    using assms(2) by (simp add: VFuzePacketDestMACAddr_def ProtoVFuzeSize_def slice_def)
  then show ?thesis
    using ProcessPacket_fuze [of "VersionVFuze # ecMACAddr eb @ y" "ecMACAddr eb" s _ addr _ env] assms(1)
    by (fastforce simp: fuze_route_def)
qed

lemma data_relayed:
  fixes enva :: ed_env
  assumes "data_route env s ea eb t" "proper_mac (ecMACAddr ea)" "proper_mac (ecMACAddr eb)"
  defines "h \<equiv> edge_header enva TypeData (Some (ecMACAddr eb)) ea"
  shows "\<exists>s'. ProcessPacket env (PackProtoVDatagram h y) addr s = (Ok (), s') \<and>
    snOut s' = snOut s @ [out_to t (PackProtoVDatagram (h\<lparr>Flags := 2\<rparr>) y)]"
proof -
  let ?p = "PackProtoVDatagram h y" and ?r = "raw_of h y addr"
  have r: "NewRawMessage ?p addr = Ok ?r" by (simp add: NewRawMessage_Ok raw_of_def h_def edge_header_def)
  have m: "EdgeMACAddr ?r = mac_string (ecMACAddr ea)" "DestMACAddr ?r = mac_string (ecMACAddr eb)"
    using proper_mac_bytesToMAC [OF assms(2)] proper_mac_bytesToMAC [OF assms(3)] assms(2,3)
    by (simp_all add: EdgeMACAddr_def DestMACAddr_def GetSrcMACAddr_def GetDstMACAddr_def raw_of_def h_def edge_header_def proper_mac_def)
  obtain c where c: "GetCommunity ?r s = Ok c" "GetEdge c (DestMACAddr ?r) s = Some t"
  proof -
    have "CommunityHash ?r = HashCommunity (ecCommunity ea)" by (simp add: CommunityHash_def raw_of_def h_def edge_header_def)
    then show ?thesis using that assms(1) m unfolding data_route_def GetCommunity_Ok by metis
  qed
  have q: "?p[3 := ?p ! 3 OR 2] = PackProtoVDatagram (h\<lparr>Flags := 2\<rparr>) y"
  proof -
    have "?p ! 3 = 0" by (simp add: PackProtoVDatagram_def h_def edge_header_def header_bytes_def put8_def nth_append)
    then show ?thesis by (simp add: PackProtoVDatagram_def header_bytes_Flags list_update_append)
  qed
  have d: "data_targets env b ?r c s = [t]" for b using c(2) assms(1) by (simp add: data_targets_def data_route_def)
  have "PacketType (rHeader ?r) = TypeData" by (simp add: raw_of_def h_def edge_header_def)
  from ProcessPacket_data [OF r this c(1), of env] show ?thesis unfolding q d by auto
qed

lemma data_received:
  assumes "Version h = VersionV" "PacketType h = TypeData" "30 + length y \<le> length (ecPacketBuf e)"
  shows "handleUDP env (PackProtoVDatagram h y) a e =
    st_ignore (handleDataPayload env y) (receive (PackProtoVDatagram h y) e)"
  using dispatch_message [of h y e env a] assms edge_handlers(4) [of env]
  by (simp add: PackProtoVDatagram_def Handle_def raw_of_def handleDataMessage_edge_def st_ignore_def split: prod.splits)

text \<open>C2. A unicast frame that an edge reads from its TAP device is written to the TAP device of the
  edge with the destination address, padded to the minimal frame size and otherwise unchanged:
  the sender's packet is relayed by the supernode, as fast-path or as data packet, to that edge
  and to no other, and what it delivers is decrypted and decompressed to the frame. Both edges
  are configured alike and registered, and the frame survives the exemption for short payloads.\<close>

theorem frame_crosses_the_network:
  assumes "sends_frame enva frame y ea" "take 6 frame = ecMACAddr eb" "proper_mac (ecMACAddr ea)" "proper_mac (ecMACAddr eb)"
    and "same_pipeline enva ea envb eb" "survives ea y" "evTapWrite envb (pad_frame frame)"
    and "30 + length y \<le> length (ecPacketBuf eb)"
    and "if ecEnableVFuze ea then fuze_route env s addr eb t else data_route env s ea eb t"
  shows "\<exists>x ea' s' q eb'. handleTAP enva frame ea = (Ok (), ea') \<and> ecOut ea' = ecOut ea @ [x] \<and>
    ProcessPacket env (out_packet x) addr s = (Ok (), s') \<and> snOut s' = snOut s @ [out_to t q] \<and>
    handleUDP envb q a eb = (Ok (), eb') \<and> ecTapOut eb' = ecTapOut eb @ [pad_frame frame]"
proof -
  obtain x ea' where x: "handleTAP enva frame ea = (Ok (), ea')" "ecOut ea' = ecOut ea @ [x]" "out_packet x = frame_packet enva frame y ea"
    using handleTAP_packet [OF assms(1)] by blast
  have o: "ProcessOutgoingPayload enva ea frame = Ok y" using assms(1) by (simp add: sends_frame_def)
  have l: "length (ecMACAddr eb) = 6" using assms(4) by (simp add: proper_mac_def)
  have d: "st_ignore (handleDataPayload envb y) (receive q eb) =
      (Ok (), (receive q eb)\<lparr>ecTapOut := ecTapOut eb @ [pad_frame frame]\<rparr>)" for q
  proof -
    have "same_pipeline enva ea envb (receive q eb)" using assms(5) by (simp add: same_pipeline_def)
    from handleDataPayload_prepared [OF this o assms(6,7)] show ?thesis by (simp add: st_ignore_Ok receive_def)
  qed
  have "\<exists>q s'. ProcessPacket env (out_packet x) addr s = (Ok (), s') \<and> snOut s' = snOut s @ [out_to t q] \<and>
      handleUDP envb q a eb = st_ignore (handleDataPayload envb y) (receive q eb)"
  proof (cases "ecEnableVFuze ea")
    case True
    then have "fuze_route env s addr eb t" using assms(9) by simp
    then show ?thesis
      using fuze_relayed [OF _ l, of env s addr t y] fuze_received [OF _ l, of y envb a] assms(2,8) x(3) True
      by (auto simp: frame_packet_def fuze_route_def)
  next
    case False
    then have "data_route env s ea eb t" using assms(9) by simp
    let ?h = "edge_header enva TypeData (Some (ecMACAddr eb)) ea" and ?q = "PackProtoVDatagram (edge_header enva TypeData (Some (ecMACAddr eb)) ea\<lparr>Flags := 2\<rparr>) y"
    have "out_packet x = PackProtoVDatagram ?h y" using False assms(2) x(3) by (simp add: frame_packet_def)
    moreover have "handleUDP envb ?q a eb = st_ignore (handleDataPayload envb y) (receive ?q eb)"
      by (rule data_received [OF _ _ assms(8)]) (simp_all add: edge_header_def)
    ultimately show ?thesis using data_relayed [OF \<open>data_route env s ea eb t\<close> assms(3,4), of enva y addr] by auto
  qed
  then show ?thesis using x(1,2) d by fastforce
qed

text \<open>Two edges of the example network that share a passphrase, and a frame from the first to the
  second.\<close>

definition demo_member :: "byte \<Rightarrow> EdgeClient" where
  "demo_member n = demo_client\<lparr>ecSettings := (ecSettings demo_client)
     \<lparr>esCommunity := ''n2n'', esMACAddr := [2, 0, 0, 0, 0, n], esEnableVFuze := False, esPassphrase := ''secret''\<rparr>\<rparr>"

definition demo_frame :: bytes where
  "demo_frame = [2, 0, 0, 0, 0, 2, 2, 0, 0, 0, 0, 1, 8, 0]"

definition demo_sealed :: bytes where
  "demo_sealed = map (\<lambda>_. 0) [0..<nonceSize] @ gcm_Seal (keyFromPassphrase ''secret'') (map (\<lambda>_. 0) [0..<nonceSize]) demo_frame"

lemma demo_sends_frame: "sends_frame demo_ed_env demo_frame demo_sealed (demo_member 1)"
proof -
  let ?b = "read_into (replicate 100 0) demo_frame"
  have "GetEthertype ?b = Ok EthertypeIPv4" by code_simp
  moreover have "ProcessOutgoingPayload demo_ed_env (demo_member 1) demo_frame = Ok demo_sealed"
    by (simp add: ProcessOutgoingPayload_def demo_ed_env_def demo_member_def demo_client_def edge_pipeline_def NewAESGCMTransform_def
        aes_Apply_def demo_sealed_def err_map_def Let_def)
  moreover have "gget (rgPeers demo_reg) k = None" for k by (simp add: demo_reg_def NewPeerRegistry_def)
  ultimately show ?thesis
    by (simp add: sends_frame_def demo_frame_def demo_member_def demo_client_def IsBroadcast_def link_up_def demo_ed_env_def
        EthertypeIPv4_def EthertypeIPv6_def UDPAddrWithStrategy_def GetPeer_def)
qed

theorem frame_crosses_the_network_witness:
  "\<exists>x ea' s' q eb'. handleTAP demo_ed_env demo_frame (demo_member 1) = (Ok (), ea') \<and> ecOut ea' = ecOut (demo_member 1) @ [x] \<and>
    ProcessPacket demo_env (out_packet x) demo_addr demo_sn = (Ok (), s') \<and> snOut s' = snOut demo_sn @ [out_to (Supernode_Props.demo_edge 2) q] \<and>
    handleUDP demo_ed_env q \<lparr>uIP = [10, 0, 0, 1], uPort = 7777\<rparr> (demo_member 2) = (Ok (), eb') \<and>
    ecTapOut eb' = ecTapOut (demo_member 2) @ [pad_frame demo_frame]"
proof (rule frame_crosses_the_network [OF demo_sends_frame])
  show "30 + length demo_sealed \<le> length (ecPacketBuf (demo_member 2))"
    by (simp add: demo_sealed_def demo_member_def demo_client_def length_gcm_Seal demo_frame_def nonceSize_def)
  have "GetEdge demo_community (mac_string [2, 0, 0, 0, 0, 2]) demo_sn = Some (demo_edge 2)"
    by (simp add: GetEdge_def demo_community_def gget_def demo_sn_def edge_of_def hex2_def hexdigit_def)
  then have "data_route demo_env demo_sn (demo_member 1) (demo_member 2) (demo_edge 2)"
    using demo_lookup(1) by (simp add: data_route_def demo_member_def demo_client_def demo_sn_def gget_def deliverable_def demo_env_def demo_edge_def)
  then show "if ecEnableVFuze (demo_member 1) then fuze_route demo_env demo_sn demo_addr (demo_member 2) (demo_edge 2)
      else data_route demo_env demo_sn (demo_member 1) (demo_member 2) (demo_edge 2)"
    by (simp add: demo_member_def demo_client_def)
qed (simp_all add: demo_frame_def demo_member_def demo_client_def proper_mac_def same_pipeline_def demo_ed_env_def zstd_faithful_def survives_def numeral_eq_Suc)

section \<open>Registering\<close>

definition register_request :: "EdgeClient \<Rightarrow> bytes \<Rightarrow> RegisterRequest" where
  "register_request e c =
     \<lparr>rqEdgeMacAddr = mac_string (ecMACAddr e), rqEdgeDesc = ecID e, rqCommunityName = ecCommunity e,
      rqEncryptedMachineId = c, rqClearMachineId = []\<rparr>"

definition acceptance :: "ip_addr \<Rightarrow> nat \<Rightarrow> RegisterResponse" where
  "acceptance vip k = \<lparr>rpIsRegisterOk = True, rpVirtualIp = ip_string vip, rpMasklen = int k\<rparr>"

lemma RequestRegister_sent:
  assumes "6 \<le> length (ecMACAddr e)" "link_up env e" "ecSNPubKey e = Some k" "evEncrypt env k (ecMachineId e) = Some c"
    and "evMarshal env (MRegisterRequest (register_request e c)) = Some b"
  obtains x e' where "RequestRegister env e = (Ok (), e')" "ed_core e' = ed_core e" "ecOut e' = ecOut e @ [x]"
    "out_packet x = PackProtoVDatagram (edge_header env TypeRegisterRequest None e) b"
proof (rule SendStruct_edge_sent [OF assms(1) dst_ok_None assms(2,5) UDPAddrWithStrategy_sn])
  fix x e'
  assume "SendStruct_edge env (MRegisterRequest (register_request e c)) None UDPEnforceSupernode e = (Ok (), e')"
    "ed_core e' = ed_core e" "ecOut e' = ecOut e @ [x]"
    "out_packet x = PackProtoVDatagram (edge_header env (pb_type (MRegisterRequest (register_request e c))) None e) b"
  then show thesis
    using assms(3,4) by (intro that) (simp_all add: RequestRegister_def EncryptedMachineID_def register_request_def)
qed

text \<open>What the supernode answers to a registration that succeeds.\<close>

lemma registration_answered:
  assumes "decode_msg (enUnmarshal env) TypeRegisterRequest as_RegisterRequest r = Ok msg" "RegisterEdge env r msg s = (Ok (a, n), s1)"
    and "rFromAddr r = UDPAddr u" "addr_string (UDPAddr u) \<notin> set (wssConnections s1)" "\<forall>m. enMarshal env m \<noteq> None"
    and "\<forall>p. enUDPWrite env u p"
    and "enMarshal env (MRegisterResponse (acceptance (eVirtualIP (edge_of s1 a)) (eVNetMaskLen (edge_of s1 a)))) = Some bs"
  shows "\<exists>h rest s'. handleRegisterMessage env r s = (Ok (), s') \<and> Version h = VersionV \<and> PacketType h = TypeRegisterResponse \<and>
    snOut s' = snOut s1 @ OutUDP u (PackProtoVDatagram h bs) # rest"
proof -
  let ?s2 = "index_edge a s1"
  let ?m = "MRegisterResponse (acceptance (eVirtualIP (edge_of s1 a)) (eVNetMaskLen (edge_of s1 a)))"
  obtain h where h: "SNHeader env TypeRegisterResponse (rqCommunityName msg) None = Ok h" "Version h = VersionV"
    by (rule SNHeader_cases)
  let ?q = "PackProtoVDatagram h bs" let ?s3 = "?s2\<lparr>snOut := snOut s1 @ [OutUDP u ?q]\<rparr>"
  have "wss_target (UDPAddr u) ?s2 = None" using assms(4) by (auto simp: wss_target_def find_None_iff)
  then have "SendStruct env ?m (rqCommunityName msg) None (UDPAddr u) ?s2 = (Ok (), ?s3)"
    using h(1) assms(6,7) by (simp add: SendStruct_def encode_msg_def write_udp_def Let_def)
  then have r: "handleRegisterMessage env r s =
      (case gget (communities ?s3) (CommunityHash r) of
         None \<Rightarrow> (Ok (), ?s3)
       | Some c \<Rightarrow> BroadcastStruct env (MPeerInfoList (newPeerInfoEvent TypeRegister (edge_of ?s3 a))) c None (EdgeMACAddr r) ?s3)"
    using assms(1-3) by (simp add: handleRegisterMessage_def set_wss_conn_def Let_def acceptance_def st_ignore_Ok err_map_def)
  show ?thesis
  proof (cases "gget (communities ?s3) (CommunityHash r)")
    case None
    then show ?thesis using r h SNHeader_type [OF h(1)] by fastforce
  next
    case (Some c)
    let ?p = "MPeerInfoList (newPeerInfoEvent TypeRegister (edge_of ?s3 a))"
    obtain b where "enMarshal env ?p = Some b" using assms(5) by blast
    then obtain s' outs where "BroadcastStruct env ?p c None (EdgeMACAddr r) ?s3 = (Ok (), s')" "snOut s' = snOut ?s3 @ outs"
      by (rule BroadcastStruct_exact [of env ?p _ c "EdgeMACAddr r" ?s3]) blast
    then show ?thesis using r Some h SNHeader_type [OF h(1)] by fastforce
  qed
qed

lemma set_virtual_ip_v4:
  assumes "length vip = 4"
  shows "set_virtual_ip (acceptance vip k) e =
    e\<lparr>ecVirtualIP := dotted vip @ CHR ''/'' # itoa (int k), ecParsedVirtualIP := Some (v4_prefix @ vip)\<rparr>"
proof -
  have "CHR ''/'' \<notin> set (dotted vip)" using set_dotted [of "CHR ''/''" vip] by (auto simp: is_digit_def)
  then show ?thesis
    using assms by (simp add: set_virtual_ip_def acceptance_def Let_def ip_string_v4 split_at_append ParseIP_dotted)
qed

lemma InitialRegister_accepted:
  assumes "RequestRegister env e = (Ok (), e1)" "ecWSSTransport e1 \<or> ecConn e1" "evDeadline env"
    and "evRead env = Some (PackProtoVDatagram h bs, sa)" "30 + length bs \<le> DefaultBufferSize" "Version h = VersionV"
    and "PacketType h = TypeRegisterResponse"
    and "evUnmarshal env TypeRegisterResponse bs = Some (MRegisterResponse (acceptance vip k))" "length vip = 4"
  shows "\<exists>e'. InitialRegister env e = (Ok (), e') \<and> ecRegistered e' \<and> ecVirtualIP e' = dotted vip @ CHR ''/'' # itoa (int k) \<and>
    ecParsedVirtualIP e' = Some (v4_prefix @ vip)"
proof -
  let ?q = "PackProtoVDatagram h bs"
  have a: "await env e1 = Ok (?q, sa)"
    using assms(2-5) by (auto simp: await_def setReadDeadline_def readPacket_def ProtoVHeaderSize_def PackProtoVDatagram_def)
  have r: "NewRawMessage ?q sa = Ok (raw_of h bs sa)" using assms(6) by (simp add: NewRawMessage_Ok raw_of_def)
  have "from_packet env TypeRegisterResponse as_RegisterResponse (?q, sa) = Ok (raw_of h bs sa, acceptance vip k)"
    using r assms(7,8) by (simp add: from_packet_def MessageFromPacket_def ToMessage_def raw_of_def)
  then show ?thesis
    using assms(1) a set_virtual_ip_v4 [OF assms(9), of k e1]
    by (simp add: InitialRegister_def) (simp add: acceptance_def)
qed

lemma generated_mac_proper: "proper_mac (ExtGenerateMac c m)"
proof -
  have l: "length (ExtGenerateMac c m) = 6" and f: "ExtGenerateMac c m ! 0 AND 3 = 2"
    by (simp_all add: ExtGenerateMac_def length_extGenerateMac extGenerateMac_first)
  have "ExtGenerateMac c m ! 0 \<noteq> 0" using f by auto
  then show ?thesis using l by (auto simp: proper_mac_def)
qed

text \<open>The part of the supernode: a request with a valid proof makes the sender a member, and the
  answer is the first thing that leaves.\<close>

lemma registration_processed:
  assumes "sn_wf s" "NewRawMessage packet (UDPAddr u) = Ok r" "PacketType (rHeader r) = TypeRegisterRequest"
    and "decode_msg (enUnmarshal env) TypeRegisterRequest as_RegisterRequest r = Ok msg"
    and "owns_mac env (rqCommunityName msg) (rqEncryptedMachineId msg) (EdgeMACAddr r)"
    and "CommunityHash r = HashCommunity (rqCommunityName msg)" "gget (communities s) (CommunityHash r) = Some c"
    and "cName c = rqCommunityName msg" "vip_for env c (EdgeMACAddr r) s = Some vip"
    and "\<forall>m. enMarshal env m \<noteq> None" "\<forall>p. enUDPWrite env u p" "addr_string (UDPAddr u) \<notin> set (wssConnections s)"
    and "enMarshal env (MRegisterResponse (acceptance vip (mask_for c (EdgeMACAddr r) s))) = Some bs"
  obtains s' a h rest where "ProcessPacket env packet (UDPAddr u) s = (Ok (), s')"
    "EdgeMACAddr r \<in> edges_at s' (CommunityHash r)" "gget (edgesByMAC s') (EdgeMACAddr r) = Some a" "eVirtualIP (edge_of s' a) = vip"
    "eVNetMaskLen (edge_of s' a) = mask_for c (EdgeMACAddr r) s" "Version h = VersionV" "PacketType h = TypeRegisterResponse"
    "snOut s' = snOut s @ OutUDP u (PackProtoVDatagram h bs) # rest"
proof -
  let ?s = "count_processed s"
  have wf: "sn_wf ?s" using assms(1) sn_wf_core [of ?s s] by simp
  have from_r: "rFromAddr r = UDPAddr u" using assms(2) by (simp add: NewRawMessage_Ok)
  have v: "vip_for env c (EdgeMACAddr r) ?s = Some vip" using assms(9) by (simp add: vip_for_def split: option.splits)
  obtain a s1 where s1: "RegisterEdge env r msg ?s = (Ok (a, cName c), s1)" "eVirtualIP (edge_of s1 a) = vip"
      "eVNetMaskLen (edge_of s1 a) = mask_for c (EdgeMACAddr r) ?s" "snOut s1 = snOut s" "wssConnections s1 = wssConnections s"
    by (rule RegisterEdge_succeeds [OF wf assms(5,6) _ assms(8) v]) (use assms(7) in simp_all)
  have mask: "eVNetMaskLen (edge_of s1 a) = mask_for c (EdgeMACAddr r) s"
    using s1(3) by (simp add: mask_for_def split: option.splits)
  obtain h rest s' where s': "handleRegisterMessage env r ?s = (Ok (), s')" "Version h = VersionV" "PacketType h = TypeRegisterResponse"
      "snOut s' = snOut s1 @ OutUDP u (PackProtoVDatagram h bs) # rest"
    using registration_answered [OF assms(4) s1(1) from_r _ assms(10,11)] assms(12,13) s1(2,5) mask by auto
  have "Handle (SnMessageHandlers env) d r ?s = (Ok (), s')" for d
    using s'(1) assms(3) by (simp add: Handle_cases Let_def packet_type_defs)
  then have "ProcessPacket env packet (UDPAddr u) s = (Ok (), s')" by (simp add: ProcessPacket_raw [OF assms(2)])
  moreover have "EdgeMACAddr r \<in> edges_at s' (CommunityHash r)" "gget (edgesByMAC s') (EdgeMACAddr r) = Some a"
      "edge_of s' a = edge_of s1 a"
    using handleRegister_member [OF wf assms(4) s1(1)] s'(1) from_r by (simp_all add: Let_def set_wss_conn_def)
  ultimately show thesis using that s1(2,4) s'(2-4) mask by metis
qed

text \<open>C3. The first registration succeeds across the network: the request of an edge whose hardware
  address its machine id generates is accepted by a supernode that can decrypt the id and has an
  address left, the edge becomes a member, and the answer, once it is read, makes the edge take
  the virtual address and mask that the supernode recorded for it.\<close>

theorem registration_reaches_the_edge:
  assumes "sn_wf s" "link_up enva e" "evDeadline enva"
    and "ecMACAddr e = ExtGenerateMac (ecCommunity e) (ecMachineId e)"
    and "ecSNPubKey e = Some k" "evEncrypt enva k (ecMachineId e) = Some ct" "enDecrypt env ct = Some (ecMachineId e)"
    and "evMarshal enva (MRegisterRequest (register_request e ct)) = Some b"
    and "enUnmarshal env TypeRegisterRequest b = Some (MRegisterRequest (register_request e ct))"
    and "gget (communities s) (HashCommunity (ecCommunity e)) = Some c" "cName c = ecCommunity e"
    and "vip_for env c (mac_string (ecMACAddr e)) s = Some vip" "length vip = 4"
    and "\<forall>m. enMarshal env m \<noteq> None" "\<forall>p. enUDPWrite env u p" "addr_string (UDPAddr u) \<notin> set (wssConnections s)"
    and "enMarshal env (MRegisterResponse (acceptance vip (mask_for c (mac_string (ecMACAddr e)) s))) = Some bs"
    and "evUnmarshal enva TypeRegisterResponse bs = Some (MRegisterResponse (acceptance vip (mask_for c (mac_string (ecMACAddr e)) s)))"
    and "30 + length bs \<le> DefaultBufferSize"
  shows "\<exists>x s' q rest a e'. ecOut (snd (RequestRegister enva e)) = ecOut e @ [x] \<and>
    ProcessPacket env (out_packet x) (UDPAddr u) s = (Ok (), s') \<and>
    mac_string (ecMACAddr e) \<in> edges_at s' (HashCommunity (ecCommunity e)) \<and>
    gget (edgesByMAC s') (mac_string (ecMACAddr e)) = Some a \<and> eVirtualIP (edge_of s' a) = vip \<and>
    snOut s' = snOut s @ OutUDP u q # rest \<and>
    InitialRegister (enva\<lparr>evRead := Some (q, sa)\<rparr>) e = (Ok (), e') \<and> ecRegistered e' \<and>
    ecVirtualIP e' = dotted vip @ CHR ''/'' # itoa (int (eVNetMaskLen (edge_of s' a)))"
proof -
  let ?h = "edge_header enva TypeRegisterRequest None e" and ?m = "ecMACAddr e" and ?msg = "register_request e ct"
  let ?r = "raw_of ?h b (UDPAddr u)"
  have pm: "proper_mac ?m" "6 \<le> length ?m" using generated_mac_proper assms(4) by (simp_all add: proper_mac_def)
  have raw: "NewRawMessage (PackProtoVDatagram ?h b) (UDPAddr u) = Ok ?r" by (simp add: NewRawMessage_Ok raw_of_def edge_header_def)
  have f: "EdgeMACAddr ?r = mac_string ?m" "CommunityHash ?r = HashCommunity (ecCommunity e)" "PacketType (rHeader ?r) = TypeRegisterRequest"
    using proper_mac_bytesToMAC [OF pm(1)] pm(1)
    by (simp_all add: EdgeMACAddr_def GetSrcMACAddr_def CommunityHash_def raw_of_def edge_header_def proper_mac_def)
  have dec: "decode_msg (enUnmarshal env) TypeRegisterRequest as_RegisterRequest ?r = Ok ?msg"
    unfolding decode_msg_Ok using assms(9) by (simp add: raw_of_def edge_header_def)
  have own: "owns_mac env (rqCommunityName ?msg) (rqEncryptedMachineId ?msg) (EdgeMACAddr ?r)"
    using assms(4,7) f(1) by (simp add: owns_mac_def register_request_def)
  have side: "CommunityHash ?r = HashCommunity (rqCommunityName ?msg)" "gget (communities s) (CommunityHash ?r) = Some c"
      "cName c = rqCommunityName ?msg" "vip_for env c (EdgeMACAddr ?r) s = Some vip"
    using assms(10-12) f by (simp_all add: register_request_def)
  have answer: "enMarshal env (MRegisterResponse (acceptance vip (mask_for c (EdgeMACAddr ?r) s))) = Some bs" using assms(17) f by simp
  obtain s' a h rest where s': "ProcessPacket env (PackProtoVDatagram ?h b) (UDPAddr u) s = (Ok (), s')"
      "mac_string ?m \<in> edges_at s' (HashCommunity (ecCommunity e))" "gget (edgesByMAC s') (mac_string ?m) = Some a"
      "eVirtualIP (edge_of s' a) = vip" "eVNetMaskLen (edge_of s' a) = mask_for c (mac_string ?m) s" "Version h = VersionV"
      "PacketType h = TypeRegisterResponse" "snOut s' = snOut s @ OutUDP u (PackProtoVDatagram h bs) # rest"
    by (rule registration_processed [OF assms(1) raw f(3) dec own side assms(14-16) answer, unfolded f(1,2)])
  obtain x e1 where x: "RequestRegister enva e = (Ok (), e1)" "ecOut e1 = ecOut e @ [x]" "out_packet x = PackProtoVDatagram ?h b"
    by (rule RequestRegister_sent [OF pm(2) assms(2,5,6,8)])
  let ?env = "enva\<lparr>evRead := Some (PackProtoVDatagram h bs, sa)\<rparr>"
  have "link_up ?env e" "evEncrypt ?env k (ecMachineId e) = Some ct" "evMarshal ?env (MRegisterRequest ?msg) = Some b"
    using assms(2,6,8) by (simp_all add: link_up_def)
  from RequestRegister_sent [OF pm(2) this(1) assms(5) this(2,3)]
  obtain e2 where e2: "RequestRegister ?env e = (Ok (), e2)" "ed_core e2 = ed_core e" by metis
  then have "ecWSSTransport e2 \<or> ecConn e2" using assms(2) by (auto simp: ed_core_eq link_up_def split: if_splits)
  then obtain e' where "InitialRegister ?env e = (Ok (), e')" "ecRegistered e'"
      "ecVirtualIP e' = dotted vip @ CHR ''/'' # itoa (int (eVNetMaskLen (edge_of s' a)))"
    using InitialRegister_accepted [OF e2(1), of h bs sa vip "eVNetMaskLen (edge_of s' a)"] assms(3,13,18,19) s'(5-7) by auto
  then show ?thesis using x s'(1-4,8) by (intro exI [of _ x]) auto
qed

text \<open>An edge and a supernode that agree on the two messages.\<close>

definition reg_client :: EdgeClient where
  "reg_client = demo_client\<lparr>ecSettings := (ecSettings demo_client)
     \<lparr>esCommunity := ''n2n'', esMachineId := [5], esMACAddr := ExtGenerateMac ''n2n'' [5]\<rparr>\<rparr>"

definition reg_client_env :: ed_env where
  "reg_client_env = demo_ed_env\<lparr>evEncrypt := (\<lambda>_ m. Some m), evMarshal := (\<lambda>_. Some [1]),
     evUnmarshal := (\<lambda>_ _. Some (MRegisterResponse (acceptance [10, 128, 0, 3] 24)))\<rparr>"

definition reg_sn_env :: sn_env where
  "reg_sn_env = demo_env\<lparr>enUnmarshal := (\<lambda>_ _. Some (MRegisterRequest (register_request reg_client [5])))\<rparr>"

theorem registration_reaches_the_edge_witness:
  "\<exists>x s' q rest a e'. ecOut (snd (RequestRegister reg_client_env reg_client)) = ecOut reg_client @ [x] \<and>
    ProcessPacket reg_sn_env (out_packet x) (UDPAddr \<lparr>uIP = [192, 0, 2, 1], uPort = 7000\<rparr>) reg_sn = (Ok (), s') \<and>
    mac_string (ecMACAddr reg_client) \<in> edges_at s' (HashCommunity (ecCommunity reg_client)) \<and>
    gget (edgesByMAC s') (mac_string (ecMACAddr reg_client)) = Some a \<and> eVirtualIP (edge_of s' a) = [10, 128, 0, 3] \<and>
    snOut s' = snOut reg_sn @ OutUDP \<lparr>uIP = [192, 0, 2, 1], uPort = 7000\<rparr> q # rest \<and>
    InitialRegister (reg_client_env\<lparr>evRead := Some (q, demo_addr)\<rparr>) reg_client = (Ok (), e') \<and> ecRegistered e' \<and>
    ecVirtualIP e' = dotted [10, 128, 0, 3] @ CHR ''/'' # itoa (int (eVNetMaskLen (edge_of s' a)))"
proof (rule registration_reaches_the_edge [where c = "demo_community\<lparr>cEdges := []\<rparr>" and k = "[7]" and ct = "[5]" and b = "[1]" and bs = "[]"])
  have "ParseAddr (ip_string [10, 128, 0, 3]) = Some [10, 128, 0, 3]" by code_simp
  then show "vip_for reg_sn_env (demo_community\<lparr>cEdges := []\<rparr>) (mac_string (ecMACAddr reg_client)) reg_sn = Some [10, 128, 0, 3]"
    by (simp add: vip_for_def reg_sn_env_def demo_env_def)
  show "sn_wf reg_sn"
    by (simp add: reg_sn_def sn_wf_def community_wf_def demo_community_def NewSupernodeWithConfig_def gget_def gwf_def)
  show "evUnmarshal reg_client_env TypeRegisterResponse [] =
      Some (MRegisterResponse (acceptance [10, 128, 0, 3] (mask_for (demo_community\<lparr>cEdges := []\<rparr>) (mac_string (ecMACAddr reg_client)) reg_sn)))"
    by (simp add: reg_client_env_def mask_for_def demo_community_def)
qed (simp_all add: reg_client_def reg_client_env_def reg_sn_env_def demo_client_def demo_ed_env_def demo_env_def link_up_def
    reg_sn_def demo_community_def gget_def NewSupernodeWithConfig_def DefaultBufferSize_def)

end
