(* ===== verification/Hosts.thy ===== *)
theory Hosts
  imports Netaddr "HOL-Library.List_Lexorder" "HOL-Library.Char_ord" "HOL-Library.Product_Lexorder"
    "HOL-Library.Multiset"
begin

text \<open>
  The hosts file (\<^verbatim>\<open>pkg/syshosts/hostsfiles.go\<close> and \<^verbatim>\<open>extents.go\<close>): parsing, editing, cleaning,
  sorting and printing. A file is a list of entries, each with the line it came from; reading and
  writing the file system are parameters. Hostnames are lists: the slices that the lines of one
  \<^verbatim>\<open>WrapLinesAtMaxHostsPerLine\<close> share are not, so an \<^verbatim>\<open>Add\<close> to such a line in the same object is
  outside the model. The abstract view is the set of (address, hostname) pairs.
\<close>

section \<open>Entries and lines\<close>

record hostEntry =
  heIP :: string
  heHostnames :: "string list"
  heRaw :: string
  heIsActive :: bool

record Hosts =
  hFilePath :: string
  hEntries :: "hostEntry list"

datatype hosts_error =
    ErrInvalidIP | ErrHostnameNotFound | ErrIPNotFound | ErrHostEntryNotFound
  | ErrNoHostname | ErrNoValidHostname | ErrReadFile | ErrScan | ErrWriteFile

definition getHostsFilePath :: "string \<Rightarrow> string" where
  "getHostsFilePath goos =
     (if goos = ''windows'' then ''C:'' @ [CHR 0x5C] @ ''Windows'' @ [CHR 0x5C] @ ''System32'' @ [CHR 0x5C] @
        ''drivers'' @ [CHR 0x5C] @ ''etc'' @ [CHR 0x5C] @ ''hosts''
      else ''/etc/hosts'')"

definition inactive :: "string \<Rightarrow> hostEntry" where
  "inactive line = \<lparr>heIP = [], heHostnames = [], heRaw = line, heIsActive = False\<rparr>"

definition parseLine :: "string \<Rightarrow> hostEntry" where
  "parseLine line =
     (let trimmedLine = TrimSpace line in
      if trimmedLine = [] \<or> hd trimmedLine = CHR ''#'' then inactive line
      else case Fields trimmedLine of
        ipStr # h # hs \<Rightarrow>
          if ParseIP ipStr = None then inactive line
          else \<lparr>heIP = ipStr, heHostnames = h # hs, heRaw = line, heIsActive = True\<rparr>
      | _ \<Rightarrow> inactive line)"

definition formatEntry :: "string \<Rightarrow> string list \<Rightarrow> string" where
  "formatEntry ip hostnames = ip @ [CHR 0x09] @ join_with (CHR '' '') hostnames"

text \<open>\<^verbatim>\<open>bufio.Scanner\<close> with the default split function: lines without their newline and one
  carriage return, no line after a final newline, and an error for a line of 64 KiB or more.\<close>

definition max_token :: nat where
  "max_token = 65536"

definition drop_cr :: "string \<Rightarrow> string" where
  "drop_cr l = (if l \<noteq> [] \<and> last l = CHR 0x0D then butlast l else l)"

definition scan_lines :: "string \<Rightarrow> string list option" where
  "scan_lines s =
     (let ls = split_at (CHR 0x0A) s;
          ls = (if last ls = [] then butlast ls else ls)
      in if \<exists>l \<in> set ls. length l \<ge> max_token then None else Some (map drop_cr ls))"

definition loadAndParse :: "(string \<Rightarrow> string option) \<Rightarrow> string \<Rightarrow> (hosts_error, hostEntry list) res" where
  "loadAndParse readFile filePath =
     (case readFile filePath of
        None \<Rightarrow> Fail ErrReadFile
      | Some content \<Rightarrow>
          (case scan_lines content of None \<Rightarrow> Fail ErrScan | Some ls \<Rightarrow> Ok (map parseLine ls)))"

definition NewHosts :: "string \<Rightarrow> (string \<Rightarrow> string option) \<Rightarrow> (hosts_error, Hosts) res" where
  "NewHosts goos readFile =
     (let filePath = getHostsFilePath goos in
      res_bind (loadAndParse readFile filePath) (\<lambda>entries. Ok \<lparr>hFilePath = filePath, hEntries = entries\<rparr>))"

definition Reload :: "(string \<Rightarrow> string option) \<Rightarrow> Hosts \<Rightarrow> (hosts_error, unit) res \<times> Hosts" where
  "Reload readFile h =
     (case loadAndParse readFile (hFilePath h) of
        Inl e \<Rightarrow> (Inl e, h) | Inr entries \<Rightarrow> (Ok (), h\<lparr>hEntries := entries\<rparr>))"

definition raw_lines :: "Hosts \<Rightarrow> string" where
  "raw_lines h = join_with (CHR 0x0A) (map heRaw (hEntries h))"

definition ends_with_newline :: "string \<Rightarrow> bool" where
  "ends_with_newline s = (s \<noteq> [] \<and> last s = CHR 0x0A)"

definition Hosts_String :: "Hosts \<Rightarrow> string" where
  "Hosts_String h =
     (let output = raw_lines h in
      if hEntries h \<noteq> [] \<and> \<not> ends_with_newline output then output @ [CHR 0x0A] else output)"

text \<open>\<^verbatim>\<open>Write\<close> returns what it hands to \<^verbatim>\<open>os.WriteFile\<close>, with the path.\<close>

definition Hosts_Write :: "(string \<Rightarrow> string \<Rightarrow> bool) \<Rightarrow> Hosts \<Rightarrow> (hosts_error, string \<times> string) res" where
  "Hosts_Write writeFile h =
     (let output = raw_lines h;
          output = (if \<not> ends_with_newline output then output @ [CHR 0x0A] else output)
      in if writeFile (hFilePath h) output then Ok (hFilePath h, output) else Fail ErrWriteFile)"

section \<open>Editing\<close>

text \<open>The hostnames that are not in \<open>seen\<close>, each once and in order: the loops with a map of the
  names seen so far.\<close>

fun fresh :: "string list \<Rightarrow> string list \<Rightarrow> string list" where
  "fresh seen [] = []"
| "fresh seen (x # xs) = (if x \<in> set seen then fresh seen xs else x # fresh (x # seen) xs)"

definition set_hostnames :: "hostEntry \<Rightarrow> string list \<Rightarrow> hostEntry" where
  "set_hostnames e hs = e\<lparr>heHostnames := hs, heRaw := formatEntry (heIP e) hs\<rparr>"

definition new_entry :: "string \<Rightarrow> string list \<Rightarrow> hostEntry" where
  "new_entry ip hs = \<lparr>heIP = ip, heHostnames = hs, heRaw = formatEntry ip hs, heIsActive = True\<rparr>"

fun add_to :: "string \<Rightarrow> string list \<Rightarrow> hostEntry list \<Rightarrow> hostEntry list option" where
  "add_to ip valid [] = None"
| "add_to ip valid (e # es) =
     (if heIsActive e \<and> heIP e = ip then
        (let new = fresh (heHostnames e) valid in
         Some ((if new \<noteq> [] then set_hostnames e (heHostnames e @ new) else e) # es))
      else map_option (\<lambda>es'. e # es') (add_to ip valid es))"

definition clean_hosts :: "string list \<Rightarrow> string list" where
  "clean_hosts hosts = filter (\<lambda>h. h \<noteq> []) (map TrimSpace hosts)"

definition Add :: "string \<Rightarrow> string list \<Rightarrow> Hosts \<Rightarrow> (hosts_error, unit) res \<times> Hosts" where
  "Add ip hosts h =
     (if ParseIP ip = None then (Fail ErrInvalidIP, h)
      else if hosts = [] then (Fail ErrNoHostname, h)
      else if clean_hosts hosts = [] then (Fail ErrNoValidHostname, h)
      else (Ok (), h\<lparr>hEntries :=
        (case add_to ip (clean_hosts hosts) (hEntries h) of
           Some es \<Rightarrow> es | None \<Rightarrow> hEntries h @ [new_entry ip (clean_hosts hosts)])\<rparr>))"

definition Has :: "string \<Rightarrow> string \<Rightarrow> Hosts \<Rightarrow> bool" where
  "Has ip host h =
     (let host = TrimSpace host in
      if host = [] then False
      else \<exists>e \<in> set (hEntries h). heIsActive e \<and> heIP e = ip \<and> host \<in> set (heHostnames e))"

definition HasHostname :: "string \<Rightarrow> Hosts \<Rightarrow> bool" where
  "HasHostname host h =
     (let host = TrimSpace host in
      if host = [] then False else \<exists>e \<in> set (hEntries h). heIsActive e \<and> host \<in> set (heHostnames e))"

definition HasIP :: "string \<Rightarrow> Hosts \<Rightarrow> bool" where
  "HasIP ip h = (\<exists>e \<in> set (hEntries h). heIsActive e \<and> heIP e = ip)"

text \<open>What a removal makes of the entries it applies to: an entry that loses nothing stays, one
  that loses all its names goes.\<close>

definition strip :: "string set \<Rightarrow> hostEntry \<Rightarrow> hostEntry list" where
  "strip names e =
     (let remaining = filter (\<lambda>x. x \<notin> names) (heHostnames e) in
      if remaining = heHostnames e then [e]
      else if remaining = [] then []
      else [set_hostnames e remaining])"

definition Remove :: "string \<Rightarrow> string list \<Rightarrow> Hosts \<Rightarrow> (hosts_error, unit) res \<times> Hosts" where
  "Remove ip hosts h =
     (if ParseIP ip = None then (Fail ErrInvalidIP, h)
      else if hosts = [] then (Fail ErrNoHostname, h)
      else if clean_hosts hosts = [] then (Fail ErrNoValidHostname, h)
      else
        let names = set (clean_hosts hosts);
            here = filter (\<lambda>e. heIsActive e \<and> heIP e = ip) (hEntries h);
            modified = (\<exists>e \<in> set here. strip names e \<noteq> [e]);
            entryRemoved = (\<exists>e \<in> set here. strip names e = []);
            newEntries = concat (map (\<lambda>e. if heIsActive e \<and> heIP e = ip then strip names e else [e]) (hEntries h))
        in if here = [] then (Fail ErrIPNotFound, h)
           else if \<not> modified then (Fail ErrHostEntryNotFound, h)
           else (Ok (), if entryRemoved then h\<lparr>hEntries := newEntries\<rparr> else h))"

definition RemoveByHostname :: "string \<Rightarrow> Hosts \<Rightarrow> (hosts_error, unit) res \<times> Hosts" where
  "RemoveByHostname host h =
     (let host = TrimSpace host in
      if host = [] then (Fail ErrNoHostname, h)
      else if \<not> (\<exists>e \<in> set (hEntries h). heIsActive e \<and> host \<in> set (heHostnames e)) then (Fail ErrHostnameNotFound, h)
      else (Ok (), h\<lparr>hEntries := concat (map (\<lambda>e. if heIsActive e then strip {host} e else [e]) (hEntries h))\<rparr>))"

definition RemoveByIP :: "string \<Rightarrow> Hosts \<Rightarrow> Hosts" where
  "RemoveByIP ip h = h\<lparr>hEntries := filter (\<lambda>e. \<not> (heIsActive e \<and> heIP e = ip)) (hEntries h)\<rparr>"

definition InsertRaw :: "string list \<Rightarrow> Hosts \<Rightarrow> Hosts" where
  "InsertRaw lines h = h\<lparr>hEntries := hEntries h @ map parseLine lines\<rparr>"

section \<open>Cleaning\<close>

text \<open>The first pass of \<^verbatim>\<open>RemoveDuplicateHosts\<close>, on one entry.\<close>

definition dedup_entry :: "hostEntry \<Rightarrow> hostEntry" where
  "dedup_entry e =
     (if \<not> heIsActive e \<or> length (heHostnames e) \<le> 1 then e
      else let uniqueHosts = fresh [] (heHostnames e) in
        if uniqueHosts \<noteq> heHostnames e then set_hostnames e uniqueHosts else e)"

text \<open>The second pass, with the hostnames seen so far; the result says whether something was
  changed.\<close>

fun dedup_loop :: "string list \<Rightarrow> hostEntry list \<Rightarrow> hostEntry list \<times> bool" where
  "dedup_loop seen [] = ([], False)"
| "dedup_loop seen (e # es) =
     (if \<not> heIsActive e then (let (r, m) = dedup_loop seen es in (e # r, m))
      else if heHostnames e = [] then (fst (dedup_loop seen es), True)
      else
        let uniqueHosts = fresh seen (heHostnames e);
            (r, m) = dedup_loop (seen @ uniqueHosts) es
        in if uniqueHosts = [] then (r, True)
           else if uniqueHosts \<noteq> heHostnames e then (set_hostnames e uniqueHosts # r, True)
           else (e # r, m))"

definition dedup_entries :: "hostEntry list \<Rightarrow> hostEntry list" where
  "dedup_entries es =
     (let es1 = map dedup_entry es; (r, modified) = dedup_loop [] es1 in if modified then r else es1)"

definition RemoveDuplicateHosts :: "Hosts \<Rightarrow> Hosts" where
  "RemoveDuplicateHosts h = h\<lparr>hEntries := dedup_entries (hEntries h)\<rparr>"

text \<open>The loop of \<^verbatim>\<open>WrapLinesAtMaxHostsPerLine\<close> over one line, from position \<open>start\<close>.\<close>

function wrap_chunks :: "nat \<Rightarrow> nat \<Rightarrow> string list \<Rightarrow> string list list" where
  "wrap_chunks n start hs =
     (if start < length hs \<and> 0 < n
      then slice start (min (start + n) (length hs)) hs # wrap_chunks n (start + n) hs
      else [])"
  by pat_completeness auto
termination by (relation "measure (\<lambda>(n, start, hs). length hs - start)") auto

declare wrap_chunks.simps [simp del]

definition wrap_entry :: "nat \<Rightarrow> hostEntry \<Rightarrow> hostEntry list" where
  "wrap_entry n e =
     (if \<not> heIsActive e \<or> length (heHostnames e) \<le> n then [e]
      else map (new_entry (heIP e)) (wrap_chunks n 0 (heHostnames e)))"

definition WrapLinesAtMaxHostsPerLine :: "int \<Rightarrow> Hosts \<Rightarrow> Hosts" where
  "WrapLinesAtMaxHostsPerLine n h =
     (if n \<le> 0 then h else h\<lparr>hEntries := concat (map (wrap_entry (nat n)) (hEntries h))\<rparr>)"

text \<open>The first pass of \<^verbatim>\<open>CombineDuplicateIPs\<close>: the hostnames per address, the entries to keep and
  whether an address came twice.\<close>

fun combine_scan :: "hostEntry list \<Rightarrow> (string, string list) gomap \<Rightarrow> (string, string list) gomap \<times> hostEntry list \<times> bool" where
  "combine_scan [] ipMap = (ipMap, [], False)"
| "combine_scan (e # es) ipMap =
     (if \<not> heIsActive e then (let (m, k, b) = combine_scan es ipMap in (m, e # k, b))
      else case gget ipMap (heIP e) of
        None \<Rightarrow> (let (m, k, b) = combine_scan es (gput ipMap (heIP e) (heHostnames e)) in (m, e # k, b))
      | Some hs \<Rightarrow> (let (m, k, b) = combine_scan es (gput ipMap (heIP e) (hs @ heHostnames e)) in (m, k, True)))"

definition combine_entry :: "(string, string list) gomap \<Rightarrow> hostEntry \<Rightarrow> hostEntry" where
  "combine_entry ipMap e =
     (if \<not> heIsActive e then e
      else new_entry (heIP e) (fresh [] (case gget ipMap (heIP e) of Some hs \<Rightarrow> hs | None \<Rightarrow> [])))"

definition combine_entries :: "hostEntry list \<Rightarrow> hostEntry list" where
  "combine_entries es =
     (let (ipMap, keep, modified) = combine_scan es [] in
      if \<not> modified then es else map (combine_entry ipMap) keep)"

definition CombineDuplicateIPs :: "Hosts \<Rightarrow> Hosts" where
  "CombineDuplicateIPs h = h\<lparr>hEntries := combine_entries (hEntries h)\<rparr>"

text \<open>\<^verbatim>\<open>Clean\<close> uses copies of the two passes that do not lock.\<close>

definition combineDuplicateIPsInternal :: "Hosts \<Rightarrow> Hosts" where
  "combineDuplicateIPsInternal h = h\<lparr>hEntries := combine_entries (hEntries h)\<rparr>"

definition removeDuplicateHostsInternal :: "Hosts \<Rightarrow> Hosts" where
  "removeDuplicateHostsInternal h = h\<lparr>hEntries := dedup_entries (hEntries h)\<rparr>"

definition removeEmptyActiveEntriesInternal :: "Hosts \<Rightarrow> Hosts" where
  "removeEmptyActiveEntriesInternal h =
     h\<lparr>hEntries := filter (\<lambda>e. \<not> (heIsActive e \<and> heHostnames e = [])) (hEntries h)\<rparr>"

definition Clean :: "Hosts \<Rightarrow> Hosts" where
  "Clean h = removeEmptyActiveEntriesInternal (removeDuplicateHostsInternal (combineDuplicateIPsInternal h))"

section \<open>Sorting\<close>

definition sort_entry :: "hostEntry \<Rightarrow> hostEntry" where
  "sort_entry e =
     (if heIsActive e \<and> length (heHostnames e) > 1 \<and> \<not> sorted (heHostnames e)
      then set_hostnames e (sort (heHostnames e)) else e)"

definition SortHosts :: "Hosts \<Rightarrow> bool \<times> Hosts" where
  "SortHosts h =
     (\<exists>e \<in> set (hEntries h). heIsActive e \<and> length (heHostnames e) > 1 \<and> \<not> sorted (heHostnames e),
      h\<lparr>hEntries := map sort_entry (hEntries h)\<rparr>)"

fun bytes_Compare :: "bytes \<Rightarrow> bytes \<Rightarrow> int" where
  "bytes_Compare [] [] = 0"
| "bytes_Compare [] (_ # _) = - 1"
| "bytes_Compare (_ # _) [] = 1"
| "bytes_Compare (x # xs) (y # ys) = (if x < y then - 1 else if y < x then 1 else bytes_Compare xs ys)"

definition compareIPStrings :: "string \<Rightarrow> string \<Rightarrow> int" where
  "compareIPStrings ipStr1 ipStr2 =
     (case (ParseIP ipStr1, ParseIP ipStr2) of
        (None, None) \<Rightarrow> 0
      | (None, Some _) \<Rightarrow> - 1
      | (Some _, None) \<Rightarrow> 1
      | (Some ip1, Some ip2) \<Rightarrow>
          if To4 ip1 \<noteq> None \<and> To4 ip2 = None then - 1
          else if To4 ip1 = None \<and> To4 ip2 \<noteq> None then 1
          else bytes_Compare ip1 ip2)"

text \<open>\<^verbatim>\<open>sort.SliceStable\<close>: the stable arrangement, by insertion.\<close>

fun insert_stable :: "('a \<Rightarrow> 'a \<Rightarrow> bool) \<Rightarrow> 'a \<Rightarrow> 'a list \<Rightarrow> 'a list" where
  "insert_stable lt x [] = [x]"
| "insert_stable lt x (y # ys) = (if lt x y then x # y # ys else y # insert_stable lt x ys)"

definition SliceStable :: "('a \<Rightarrow> 'a \<Rightarrow> bool) \<Rightarrow> 'a list \<Rightarrow> 'a list" where
  "SliceStable lt xs = foldl (\<lambda>acc x. insert_stable lt x acc) [] xs"

definition SortIPs :: "Hosts \<Rightarrow> Hosts" where
  "SortIPs h =
     h\<lparr>hEntries := filter (\<lambda>e. \<not> heIsActive e) (hEntries h) @
        SliceStable (\<lambda>a b. compareIPStrings (heIP a) (heIP b) < 0) (filter heIsActive (hEntries h))\<rparr>"

section \<open>The abstract view\<close>

definition entry_pairs :: "hostEntry \<Rightarrow> (string \<times> string) set" where
  "entry_pairs e = (if heIsActive e then {heIP e} \<times> set (heHostnames e) else {})"

definition pairs :: "Hosts \<Rightarrow> (string \<times> string) set" where
  "pairs h = (\<Union>e \<in> set (hEntries h). entry_pairs e)"

lemma fresh_set: "set (fresh seen xs) = set xs - set seen"
  by (induction seen xs rule: fresh.induct) auto

lemma distinct_fresh: "distinct (fresh seen xs)"
  by (induction seen xs rule: fresh.induct) (auto simp: fresh_set)

lemma fresh_eq: "distinct xs \<Longrightarrow> set xs \<inter> set seen = {} \<Longrightarrow> fresh seen xs = xs"
  by (induction seen xs rule: fresh.induct) auto

lemma set_hostnames_fields [simp]:
  "heIP (set_hostnames e hs) = heIP e" "heHostnames (set_hostnames e hs) = hs" "heIsActive (set_hostnames e hs) = heIsActive e"
  "heRaw (set_hostnames e hs) = formatEntry (heIP e) hs"
  by (simp_all add: set_hostnames_def)

lemma new_entry_fields [simp]:
  "heIP (new_entry ip hs) = ip" "heHostnames (new_entry ip hs) = hs" "heIsActive (new_entry ip hs)"
  "heRaw (new_entry ip hs) = formatEntry ip hs"
  by (simp_all add: new_entry_def)

lemma add_to_pairs:
  "add_to ip valid es = Some es' \<Longrightarrow> (\<Union>e \<in> set es'. entry_pairs e) = (\<Union>e \<in> set es. entry_pairs e) \<union> {ip} \<times> set valid"
proof (induction es arbitrary: es')
  case (Cons e es)
  show ?case
  proof (cases "heIsActive e \<and> heIP e = ip")
    case True
    define e' where "e' = (if fresh (heHostnames e) valid \<noteq> [] then set_hostnames e (heHostnames e @ fresh (heHostnames e) valid) else e)"
    have "entry_pairs e' = entry_pairs e \<union> {ip} \<times> set valid"
    proof (cases "fresh (heHostnames e) valid = []")
      case empty: True
      then have "set valid \<subseteq> set (heHostnames e)" using fresh_set [of "heHostnames e" valid] by auto
      then show ?thesis using True empty by (auto simp: e'_def entry_pairs_def)
    qed (use True in \<open>auto simp: e'_def entry_pairs_def fresh_set\<close>)
    moreover have "es' = e' # es" using Cons.prems True by (auto simp: e'_def Let_def)
    ultimately show ?thesis by auto
  next
    case False
    then obtain es1 where "add_to ip valid es = Some es1" "es' = e # es1" using Cons.prems by auto
    then show ?thesis using Cons.IH by auto
  qed
qed simp

lemma add_to_None: "add_to ip valid es = None \<longleftrightarrow> (\<forall>e \<in> set es. \<not> (heIsActive e \<and> heIP e = ip))"
  by (induction es) (auto simp: Let_def)

lemma Add_pairs:
  assumes "fst (Add ip hosts h) = Ok ()"
  shows "pairs (snd (Add ip hosts h)) = pairs h \<union> {ip} \<times> set (clean_hosts hosts)"
proof (cases "add_to ip (clean_hosts hosts) (hEntries h)")
  case None
  then show ?thesis using assms by (auto simp: Add_def pairs_def entry_pairs_def split: if_splits)
next
  case (Some es)
  then show ?thesis using assms add_to_pairs [OF Some] by (auto simp: Add_def pairs_def split: if_splits)
qed

lemma strip_pairs: "(\<Union>e' \<in> set (strip names e). entry_pairs e') = entry_pairs e - UNIV \<times> names"
proof -
  consider "filter (\<lambda>x. x \<notin> names) (heHostnames e) = heHostnames e"
    | "filter (\<lambda>x. x \<notin> names) (heHostnames e) \<noteq> heHostnames e" "filter (\<lambda>x. x \<notin> names) (heHostnames e) = []"
    | "filter (\<lambda>x. x \<notin> names) (heHostnames e) \<noteq> heHostnames e" "filter (\<lambda>x. x \<notin> names) (heHostnames e) \<noteq> []" by blast
  then show ?thesis
  proof cases
    case 1
    then have "\<forall>x \<in> set (heHostnames e). x \<notin> names" by (simp add: filter_id_conv)
    then show ?thesis using 1 by (auto simp: strip_def entry_pairs_def Let_def)
  next
    case 2
    then have "\<forall>x \<in> set (heHostnames e). x \<in> names" by (simp add: filter_empty_conv)
    then show ?thesis using 2 by (auto simp: strip_def entry_pairs_def Let_def)
  next
    case 3
    then have "strip names e = [set_hostnames e (filter (\<lambda>x. x \<notin> names) (heHostnames e))]" by (simp add: strip_def Let_def)
    then show ?thesis by (auto simp: entry_pairs_def)
  qed
qed

lemma pairs_concat:
  "(\<Union>e \<in> set (concat (map f es)). entry_pairs e) = (\<Union>e \<in> set es. \<Union>e' \<in> set (f e). entry_pairs e')"
  by auto

lemma RemoveByHostname_pairs:
  assumes "fst (RemoveByHostname host h) = Ok ()"
  shows "pairs (snd (RemoveByHostname host h)) = pairs h - UNIV \<times> {TrimSpace host}"
proof -
  have "(\<Union>e' \<in> set (if heIsActive e then strip {TrimSpace host} e else [e]). entry_pairs e') =
      entry_pairs e - UNIV \<times> {TrimSpace host}" for e
    using strip_pairs [of "{TrimSpace host}" e] by (auto simp: entry_pairs_def)
  moreover have "hEntries (snd (RemoveByHostname host h)) =
      concat (map (\<lambda>e. if heIsActive e then strip {TrimSpace host} e else [e]) (hEntries h))"
    using assms by (auto simp: RemoveByHostname_def Let_def split: if_splits)
  ultimately show ?thesis unfolding pairs_def by (simp only: pairs_concat) blast
qed

lemma RemoveByIP_pairs: "pairs (RemoveByIP ip h) = pairs h - {ip} \<times> UNIV"
  by (auto simp: RemoveByIP_def pairs_def entry_pairs_def split: if_splits)

lemma InsertRaw_pairs: "pairs (InsertRaw ls h) = pairs h \<union> (\<Union>l \<in> set ls. entry_pairs (parseLine l))"
  by (auto simp: InsertRaw_def pairs_def)

lemma Has_pairs: "Has ip host h \<longleftrightarrow> TrimSpace host \<noteq> [] \<and> (ip, TrimSpace host) \<in> pairs h"
  by (auto simp: Has_def pairs_def entry_pairs_def Let_def split: if_splits)

lemma HasHostname_pairs: "HasHostname host h \<longleftrightarrow> TrimSpace host \<noteq> [] \<and> TrimSpace host \<in> snd ` pairs h"
  by (force simp: HasHostname_def pairs_def entry_pairs_def Let_def image_iff split: if_splits)

section \<open>Cleaning keeps the names\<close>

definition ips :: "hostEntry list \<Rightarrow> string list" where
  "ips es = map heIP (filter heIsActive es)"

definition names :: "hostEntry list \<Rightarrow> string list" where
  "names es = concat (map heHostnames (filter heIsActive es))"

definition comments :: "hostEntry list \<Rightarrow> hostEntry list" where
  "comments es = filter (\<lambda>e. \<not> heIsActive e) es"

lemma list_views [simp]:
  "ips [] = []" "names [] = []" "comments [] = []"
  "ips (e # es) = (if heIsActive e then heIP e # ips es else ips es)"
  "names (e # es) = (if heIsActive e then heHostnames e @ names es else names es)"
  "comments (e # es) = (if heIsActive e then comments es else e # comments es)"
  by (simp_all add: ips_def names_def comments_def)

lemma names_append: "names (xs @ ys) = names xs @ names ys"
  by (simp add: names_def)

lemma snd_entry_pairs: "snd ` (\<Union>e \<in> set es. entry_pairs e) = set (names es)"
  by (induction es) (auto simp: entry_pairs_def image_Un)

lemma dedup_entry_fields:
  "heIsActive (dedup_entry e) = heIsActive e" "heIP (dedup_entry e) = heIP e"
  "set (heHostnames (dedup_entry e)) = set (heHostnames e)" "\<not> heIsActive e \<Longrightarrow> dedup_entry e = e"
  by (auto simp: dedup_entry_def Let_def fresh_set)

lemma dedup_entry_views:
  "ips (map dedup_entry es) = ips es" "set (names (map dedup_entry es)) = set (names es)"
  "comments (map dedup_entry es) = comments es"
  "(\<Union>e \<in> set (map dedup_entry es). entry_pairs e) = (\<Union>e \<in> set es. entry_pairs e)"
  by (induction es) (auto simp: dedup_entry_fields entry_pairs_def)

lemma dedup_loop_unmodified: "\<not> snd (dedup_loop seen es) \<Longrightarrow> fst (dedup_loop seen es) = es"
proof (induction seen es rule: dedup_loop.induct)
  case (2 seen e es)
  then show ?case by (auto simp: Let_def split: if_splits prod.splits)
qed simp

lemma dedup_entries_eq: "dedup_entries es = fst (dedup_loop [] (map dedup_entry es))"
  using dedup_loop_unmodified [of "[]" "map dedup_entry es"] by (simp add: dedup_entries_def Let_def split_beta)

definition keep_unique :: "string list \<Rightarrow> hostEntry \<Rightarrow> hostEntry" where
  "keep_unique u e = (if u \<noteq> heHostnames e then set_hostnames e u else e)"

lemma keep_unique_fields [simp]:
  "heIsActive (keep_unique u e) = heIsActive e" "heIP (keep_unique u e) = heIP e" "heHostnames (keep_unique u e) = u"
  by (auto simp: keep_unique_def)

lemma dedup_loop_Cons:
  "\<not> heIsActive e \<Longrightarrow> fst (dedup_loop seen (e # es)) = e # fst (dedup_loop seen es)"
  "heIsActive e \<Longrightarrow> fresh seen (heHostnames e) = [] \<Longrightarrow> fst (dedup_loop seen (e # es)) = fst (dedup_loop seen es)"
  "heIsActive e \<Longrightarrow> fresh seen (heHostnames e) \<noteq> [] \<Longrightarrow> fst (dedup_loop seen (e # es)) =
     keep_unique (fresh seen (heHostnames e)) e # fst (dedup_loop (seen @ fresh seen (heHostnames e)) es)"
  by (auto simp: Let_def split_beta keep_unique_def)

lemma dedup_loop_induct [case_names Nil comment drop keep]:
  assumes "\<And>seen. P seen []"
    and "\<And>seen e es. \<not> heIsActive e \<Longrightarrow> P seen es \<Longrightarrow> P seen (e # es)"
    and "\<And>seen e es. heIsActive e \<Longrightarrow> fresh seen (heHostnames e) = [] \<Longrightarrow> P seen es \<Longrightarrow> P seen (e # es)"
    and "\<And>seen e es. heIsActive e \<Longrightarrow> fresh seen (heHostnames e) \<noteq> [] \<Longrightarrow>
      P (seen @ fresh seen (heHostnames e)) es \<Longrightarrow> P seen (e # es)"
  shows "P seen es"
  using assms by (induction es arbitrary: seen) blast+

lemma dedup_loop_names:
  "distinct (names (fst (dedup_loop seen es))) \<and> set (names (fst (dedup_loop seen es))) = set (names es) - set seen"
proof (induction seen es rule: dedup_loop_induct)
  case (drop seen e es)
  then have "set (heHostnames e) \<subseteq> set seen" using fresh_set [of seen "heHostnames e"] by auto
  then show ?case using drop by (auto simp del: dedup_loop.simps simp: dedup_loop_Cons)
next
  case (keep seen e es)
  then show ?case
    using distinct_fresh [of seen "heHostnames e"] fresh_set [of seen "heHostnames e"]
    by (auto simp del: dedup_loop.simps simp: dedup_loop_Cons)
qed (simp_all del: dedup_loop.simps(2) add: dedup_loop_Cons)

lemma dedup_loop_ips:
  "set (ips (fst (dedup_loop seen es))) \<subseteq> set (ips es) \<and> (distinct (ips es) \<longrightarrow> distinct (ips (fst (dedup_loop seen es))))"
  by (induction seen es rule: dedup_loop_induct) (auto simp del: dedup_loop.simps(2) simp: dedup_loop_Cons)

lemma dedup_loop_comments: "comments (fst (dedup_loop seen es)) = comments es"
  by (induction seen es rule: dedup_loop_induct) (auto simp del: dedup_loop.simps(2) simp: dedup_loop_Cons)

lemma dedup_loop_nonempty: "\<forall>e \<in> set (fst (dedup_loop seen es)). heIsActive e \<longrightarrow> heHostnames e \<noteq> []"
  by (induction seen es rule: dedup_loop_induct) (auto simp del: dedup_loop.simps(2) simp: dedup_loop_Cons)

lemma dedup_loop_pairs: "(\<Union>e \<in> set (fst (dedup_loop seen es)). entry_pairs e) \<subseteq> (\<Union>e \<in> set es. entry_pairs e)"
proof (induction seen es rule: dedup_loop_induct)
  case (keep seen e es)
  have "entry_pairs (keep_unique (fresh seen (heHostnames e)) e) \<subseteq> entry_pairs e"
    using fresh_set [of seen "heHostnames e"] by (auto simp: entry_pairs_def)
  then show ?case using keep by (auto simp del: dedup_loop.simps(2) simp: dedup_loop_Cons)
qed (auto simp del: dedup_loop.simps(2) simp: dedup_loop_Cons)

definition hosts_of :: "string \<Rightarrow> hostEntry list \<Rightarrow> string list" where
  "hosts_of ip es = concat (map heHostnames (filter (\<lambda>e. heIsActive e \<and> heIP e = ip) es))"

lemma hosts_of_simps [simp]:
  "hosts_of ip [] = []"
  "hosts_of ip (e # es) = (if heIsActive e \<and> heIP e = ip then heHostnames e @ hosts_of ip es else hosts_of ip es)"
  by (simp_all add: hosts_of_def)

definition found :: "(string, string list) gomap \<Rightarrow> string \<Rightarrow> string list" where
  "found m ip = (case gget m ip of Some hs \<Rightarrow> hs | None \<Rightarrow> [])"

lemma found_gput [simp]: "found (gput m k v) ip = (if ip = k then v else found m ip)"
  by (simp add: found_def)

lemma combine_scan_Cons:
  "\<not> heIsActive e \<Longrightarrow> combine_scan (e # es) m = (case combine_scan es m of (m', k, b) \<Rightarrow> (m', e # k, b))"
  "heIsActive e \<Longrightarrow> gget m (heIP e) = None \<Longrightarrow> combine_scan (e # es) m =
     (case combine_scan es (gput m (heIP e) (found m (heIP e) @ heHostnames e)) of (m', k, b) \<Rightarrow> (m', e # k, b))"
  "heIsActive e \<Longrightarrow> gget m (heIP e) \<noteq> None \<Longrightarrow> combine_scan (e # es) m =
     (case combine_scan es (gput m (heIP e) (found m (heIP e) @ heHostnames e)) of (m', k, b) \<Rightarrow> (m', k, True))"
  by (auto simp: found_def split: prod.splits option.splits)

lemma combine_scan_induct [case_names Nil comment new again]:
  assumes "\<And>m. P m []"
    and "\<And>m e es. \<not> heIsActive e \<Longrightarrow> P m es \<Longrightarrow> P m (e # es)"
    and "\<And>m e es. heIsActive e \<Longrightarrow> gget m (heIP e) = None \<Longrightarrow>
      P (gput m (heIP e) (found m (heIP e) @ heHostnames e)) es \<Longrightarrow> P m (e # es)"
    and "\<And>m e es. heIsActive e \<Longrightarrow> gget m (heIP e) \<noteq> None \<Longrightarrow>
      P (gput m (heIP e) (found m (heIP e) @ heHostnames e)) es \<Longrightarrow> P m (e # es)"
  shows "P m es"
  using assms by (induction es arbitrary: m) blast+

lemma combine_scan_found: "found (fst (combine_scan es m)) ip = found m ip @ hosts_of ip es"
  by (induction m es rule: combine_scan_induct)
     (auto simp del: combine_scan.simps(2) simp: combine_scan_Cons split: prod.splits)

lemma combine_scan_unmodified: "\<not> snd (snd (combine_scan es m)) \<Longrightarrow> fst (snd (combine_scan es m)) = es"
  by (induction m es rule: combine_scan_induct)
     (auto simp del: combine_scan.simps(2) simp: combine_scan_Cons split: prod.splits)

lemma combine_scan_comments: "comments (fst (snd (combine_scan es m))) = comments es"
  by (induction m es rule: combine_scan_induct)
     (auto simp del: combine_scan.simps(2) simp: combine_scan_Cons split: prod.splits)

lemma combine_scan_ips:
  "distinct (ips (fst (snd (combine_scan es m)))) \<and> set (ips (fst (snd (combine_scan es m)))) = set (ips es) - gkeys m"
proof (induction m es rule: combine_scan_induct)
  case (comment m e es)
  then show ?case by (simp del: combine_scan.simps(2) add: combine_scan_Cons split_beta)
next
  case (new m e es)
  let ?r = "fst (snd (combine_scan es (gput m (heIP e) (found m (heIP e) @ heHostnames e))))"
  have "fst (snd (combine_scan (e # es) m)) = e # ?r"
    by (subst combine_scan_Cons(2) [OF new.hyps]) (simp only: split_beta fst_conv snd_conv)
  moreover have "heIP e \<notin> gkeys m" using new by (simp add: gget_None_iff)
  moreover have "distinct (ips ?r)" "set (ips ?r) = set (ips es) - insert (heIP e) (gkeys m)" using new.IH by simp_all
  ultimately show ?case using new.hyps by auto
next
  case (again m e es)
  let ?r = "fst (snd (combine_scan es (gput m (heIP e) (found m (heIP e) @ heHostnames e))))"
  have "fst (snd (combine_scan (e # es) m)) = ?r"
    by (subst combine_scan_Cons(3) [OF again.hyps]) (simp only: split_beta fst_conv snd_conv)
  moreover have "heIP e \<in> gkeys m" using again by (auto simp: gkeys_iff)
  moreover have "distinct (ips ?r)" "set (ips ?r) = set (ips es) - insert (heIP e) (gkeys m)" using again.IH by simp_all
  ultimately show ?case using again.hyps by auto
qed (simp add: gkeys_def)

lemma pairs_hosts_of: "(ip, x) \<in> (\<Union>e \<in> set es. entry_pairs e) \<longleftrightarrow> ip \<in> set (ips es) \<and> x \<in> set (hosts_of ip es)"
proof -
  have "x \<in> set (hosts_of ip es) \<longleftrightarrow> (\<exists>e \<in> set es. heIsActive e \<and> heIP e = ip \<and> x \<in> set (heHostnames e))"
    by (auto simp: hosts_of_def)
  moreover have "(ip, x) \<in> (\<Union>e \<in> set es. entry_pairs e) \<longleftrightarrow> (\<exists>e \<in> set es. heIsActive e \<and> heIP e = ip \<and> x \<in> set (heHostnames e))"
    by (auto simp: entry_pairs_def split: if_splits)
  moreover have "ip \<in> set (ips es) \<longleftrightarrow> (\<exists>e \<in> set es. heIsActive e \<and> heIP e = ip)" by (auto simp: ips_def)
  ultimately show ?thesis by blast
qed

lemma combine_entry_views:
  "ips (map (combine_entry m) es) = ips es" "comments (map (combine_entry m) es) = comments es"
  by (induction es) (auto simp: combine_entry_def)

lemma combine_entry_pairs:
  "(\<Union>e \<in> set (map (combine_entry m) es). entry_pairs e) = {(ip, x). ip \<in> set (ips es) \<and> x \<in> set (found m ip)}"
  by (induction es) (auto simp: combine_entry_def entry_pairs_def fresh_set found_def)

lemma combine_entries_views:
  "distinct (ips (combine_entries es))" "comments (combine_entries es) = comments es"
  "(\<Union>e \<in> set (combine_entries es). entry_pairs e) = (\<Union>e \<in> set es. entry_pairs e)"
proof -
  obtain m k b where c: "combine_scan es [] = (m, k, b)" by (metis prod_cases3)
  have i: "distinct (ips k)" "set (ips k) = set (ips es)" "comments k = comments es"
    using combine_scan_ips [of es "[]"] combine_scan_comments [of es "[]"] c by (simp_all add: gkeys_def)
  have f: "found m ip = hosts_of ip es" for ip
    using combine_scan_found [of es "[]" ip] c by (simp add: found_def)
  have e: "combine_entries es = (if b then map (combine_entry m) k else es)" "\<not> b \<Longrightarrow> k = es"
    using c combine_scan_unmodified [of es "[]"] by (auto simp: combine_entries_def)
  then show "distinct (ips (combine_entries es))" "comments (combine_entries es) = comments es"
    using i by (auto simp: combine_entry_views)
  have "(\<Union>e \<in> set (map (combine_entry m) k). entry_pairs e) = (\<Union>e \<in> set es. entry_pairs e)"
    unfolding combine_entry_pairs using pairs_hosts_of [of _ _ es] i(2) f by auto
  then show "(\<Union>e \<in> set (combine_entries es). entry_pairs e) = (\<Union>e \<in> set es. entry_pairs e)" using e by simp
qed

section \<open>Wrapping and sorting\<close>

lemma concat_wrap_chunks: "0 < n \<Longrightarrow> concat (wrap_chunks n i hs) = drop i hs"
proof (induction n i hs rule: wrap_chunks.induct)
  case (1 n i hs)
  show ?case
  proof (cases "i < length hs")
    case True
    have "slice i (min (i + n) (length hs)) hs = take n (drop i hs)"
      by (simp add: slice_def min_def)
    moreover have "take n (drop i hs) @ drop (i + n) hs = drop i hs"
      by (metis add.commute append_take_drop_id drop_drop)
    ultimately show ?thesis using 1 True by (simp add: wrap_chunks.simps [of n i hs])
  qed (simp add: wrap_chunks.simps)
qed

lemma wrap_chunks_length: "\<forall>c \<in> set (wrap_chunks n i hs). c \<noteq> [] \<and> length c \<le> n"
proof (induction n i hs rule: wrap_chunks.induct)
  case (1 n i hs)
  then show ?case by (subst wrap_chunks.simps) (auto simp: slice_def)
qed

lemma wrap_entry_pairs: "0 < n \<Longrightarrow> (\<Union>e' \<in> set (wrap_entry n e). entry_pairs e') = entry_pairs e"
proof -
  assume n: "0 < n"
  have "set (heHostnames e) = (\<Union>c \<in> set (wrap_chunks n 0 (heHostnames e)). set c)"
    using arg_cong [OF concat_wrap_chunks [OF n, of 0 "heHostnames e"], of set] by simp
  then show ?thesis by (auto simp: wrap_entry_def entry_pairs_def)
qed

lemma Wrap_pairs: "pairs (WrapLinesAtMaxHostsPerLine n h) = pairs h"
  unfolding WrapLinesAtMaxHostsPerLine_def pairs_def
  by (simp add: pairs_concat [simplified] wrap_entry_pairs)

lemma sort_entry_pairs: "entry_pairs (sort_entry e) = entry_pairs e"
  by (simp add: sort_entry_def entry_pairs_def)

lemma SortHosts_pairs: "pairs (snd (SortHosts h)) = pairs h"
  by (simp add: SortHosts_def pairs_def sort_entry_pairs)

lemma mset_insert_stable [simp]: "mset (insert_stable lt x ys) = add_mset x (mset ys)"
  by (induction ys) auto

lemma mset_SliceStable_acc: "mset (foldl (\<lambda>acc x. insert_stable lt x acc) a xs) = mset a + mset xs"
  by (induction xs arbitrary: a) auto

lemma mset_SliceStable [simp]: "mset (SliceStable lt xs) = mset xs"
  by (simp add: SliceStable_def mset_SliceStable_acc)

lemma mset_SortIPs: "mset (hEntries (SortIPs h)) = mset (hEntries h)"
  by (simp add: SortIPs_def)

lemma SortIPs_pairs: "pairs (SortIPs h) = pairs h"
  using mset_SortIPs [of h] by (simp add: pairs_def) (metis set_mset_mset)

lemma CombineDuplicateIPs_pairs: "pairs (CombineDuplicateIPs h) = pairs h"
  by (simp add: CombineDuplicateIPs_def pairs_def combine_entries_views)

text \<open>The operations that only rearrange: whatever is repeated in whatever order, the pairs stay.\<close>

locale rearranging =
  fixes op :: "Hosts \<Rightarrow> Hosts"
  assumes keeps: "pairs (op h) = pairs h"
begin

lemma keeps_lookup: "Has ip host (op h) = Has ip host h" "HasHostname host (op h) = HasHostname host h"
  by (simp_all add: Has_pairs HasHostname_pairs keeps)

lemma keeps_repeated: "pairs ((op ^^ n) h) = pairs h"
  by (induction n) (simp_all add: keeps)

end

interpretation combine: rearranging CombineDuplicateIPs
  by unfold_locales (rule CombineDuplicateIPs_pairs)

interpretation wrap: rearranging "WrapLinesAtMaxHostsPerLine n"
  by unfold_locales (rule Wrap_pairs)

interpretation sort_hosts: rearranging "\<lambda>h. snd (SortHosts h)"
  by unfold_locales (rule SortHosts_pairs)

interpretation sort_ips: rearranging SortIPs
  by unfold_locales (rule SortIPs_pairs)

section \<open>Writing and reading back\<close>

text \<open>An entry whose line is what the scanner and the parser make of it.\<close>

definition raw_ok :: "hostEntry \<Rightarrow> bool" where
  "raw_ok e \<longleftrightarrow> parseLine (heRaw e) = e \<and> CHR 0x0A \<notin> set (heRaw e) \<and> drop_cr (heRaw e) = heRaw e \<and>
     length (heRaw e) < max_token"

lemma join_with_newline: "xs \<noteq> [] \<Longrightarrow> join_with e xs @ [e] = join_with e (xs @ [[]])"
  by (induction e xs rule: join_with.induct) simp_all

lemma last_join_with: "xs \<noteq> [] \<Longrightarrow> last xs \<noteq> [] \<Longrightarrow> join_with e xs \<noteq> [] \<and> last (join_with e xs) = last (last xs)"
  by (induction e xs rule: join_with.induct) auto

lemma written_lines:
  assumes "hEntries h \<noteq> []" "heRaw (last (hEntries h)) \<noteq> []" "\<forall>e \<in> set (hEntries h). raw_ok e"
    and "Hosts_Write writeFile h = Ok (path, output)"
  shows "scan_lines output = Some (map heRaw (hEntries h)) \<and> path = hFilePath h"
proof -
  let ?ls = "map heRaw (hEntries h)"
  have l: "?ls \<noteq> []" "last ?ls \<noteq> []" using assms(1,2) by (simp_all add: last_map)
  have no_nl: "\<forall>x \<in> set ?ls. CHR 0x0A \<notin> set x" using assms(3) by (auto simp: raw_ok_def)
  have "last (last ?ls) \<noteq> CHR 0x0A" using no_nl l by (metis last_in_set)
  then have "\<not> ends_with_newline (raw_lines h)"
    using last_join_with [OF l, of "CHR 0x0A"] by (simp add: ends_with_newline_def raw_lines_def)
  then have o: "output = raw_lines h @ [CHR 0x0A]" "path = hFilePath h"
    using assms(4) by (auto simp: Hosts_Write_def Let_def split: if_splits)
  then have "split_at (CHR 0x0A) output = ?ls @ [[]]"
    using split_at_join [of "?ls @ [[]]" "CHR 0x0A"] no_nl join_with_newline [OF l(1)] by (auto simp: raw_lines_def)
  moreover have "map drop_cr ?ls = ?ls" "\<forall>x \<in> set ?ls. length x < max_token"
    using assms(3) by (auto simp: raw_ok_def map_idI)
  ultimately show ?thesis using o(2) by (auto simp: scan_lines_def Let_def not_le)
qed

lemma parse_written: "\<forall>e \<in> set es. raw_ok e \<Longrightarrow> map (parseLine \<circ> heRaw) es = es"
  by (simp add: raw_ok_def map_idI)

text \<open>The line that is formatted for an address and its hostnames is parsed back.\<close>

lemma Fields_join:
  "ws \<noteq> [] \<Longrightarrow> \<forall>w \<in> set ws. nospace w \<and> w \<noteq> [] \<Longrightarrow> Fields (join_with (CHR '' '') ws) = ws"
proof (induction "CHR '' ''" ws rule: join_with.induct)
  case (3 x y xs)
  have "Fields (x @ CHR '' '' # join_with (CHR '' '') (y # xs)) = x # Fields (join_with (CHR '' '') (y # xs))"
    using 3 by (intro Fields_word_sep) (simp_all add: is_space_def)
  then show ?case using 3 by simp
qed (simp_all add: Fields_word)

lemma nospace_runes:
  assumes "nospace w" "w \<noteq> []"
  shows "runes w \<noteq> []" "\<not> is_space (fst (hd (runes w)))" "\<not> is_space (fst (last (runes w)))"
proof -
  show "runes w \<noteq> []" using assms(2) by simp
  then have "hd (runes w) \<in> set (runes w)" "last (runes w) \<in> set (runes w)" by simp_all
  then show "\<not> is_space (fst (hd (runes w)))" "\<not> is_space (fst (last (runes w)))"
    using assms(1) unfolding nospace_def by (metis case_prod_beta)+
qed

lemma last_runes_join:
  "ws \<noteq> [] \<Longrightarrow> \<forall>w \<in> set ws. w \<noteq> [] \<Longrightarrow>
     join_with (CHR '' '') ws \<noteq> [] \<and> last (runes (join_with (CHR '' '') ws)) = last (runes (last ws))"
proof (induction "CHR '' ''" ws rule: join_with.induct)
  case (3 x y xs)
  have "runes (x @ CHR '' '' # join_with (CHR '' '') (y # xs)) = runes x @ runes (CHR '' '' # join_with (CHR '' '') (y # xs))"
    by (rule runes_append_ascii) simp
  then show ?case using 3 by simp
qed simp_all

lemma parseLine_formatEntry:
  assumes "ParseIP ip \<noteq> None" "nospace ip" "ip \<noteq> []" "hd ip \<noteq> CHR ''#''"
    and "hs \<noteq> []" "\<forall>h \<in> set hs. nospace h \<and> h \<noteq> []"
  shows "parseLine (formatEntry ip hs) = new_entry ip hs"
proof -
  let ?j = "join_with (CHR '' '') hs" and ?l = "formatEntry ip hs"
  have r: "runes ?l = runes ip @ runes (CHR 0x09 # ?j)"
    unfolding formatEntry_def using runes_append_ascii [of "CHR 0x09" ip ?j] by simp
  have j: "?j \<noteq> []" "last (runes ?j) = last (runes (last hs))" using last_runes_join [OF assms(5)] assms(6) by auto
  have t: "runes (CHR 0x09 # ?j) = (9, [CHR 0x09]) # runes ?j" by simp
  have l: "nospace (last hs)" "last hs \<noteq> []" using assms(5,6) by auto
  have "\<not> is_space (fst (hd (runes ?l)))" "\<not> is_space (fst (last (runes ?l)))"
    using nospace_runes [OF assms(2,3)] nospace_runes [OF l] r t j by simp_all
  then have "trim_runes (runes ?l) = runes ?l" using r nospace_runes(1) [OF assms(2,3)] by (intro trim_runes_id) auto
  then have "TrimSpace ?l = ?l" by (simp add: TrimSpace_def concat_runes)
  moreover have "Fields ?l = ip # hs"
    unfolding formatEntry_def using Fields_word_sep [OF assms(2,3), of "CHR 0x09" ?j] Fields_join [OF assms(5,6)]
    by (simp add: is_space_def)
  moreover have "?l \<noteq> []" "hd ?l = hd ip" using assms(3) by (simp_all add: formatEntry_def)
  moreover obtain h hs' where "hs = h # hs'" using assms(5) by (cases hs) auto
  ultimately show ?thesis using assms(1,4) by (auto simp: parseLine_def new_entry_def Let_def)
qed

text \<open>The order of the addresses: unparsable ones first, then IPv4, then IPv6, each by bytes.\<close>

definition ip_rank :: "string \<Rightarrow> nat \<times> bytes" where
  "ip_rank s = (case ParseIP s of None \<Rightarrow> (0, []) | Some ip \<Rightarrow> (if To4 ip \<noteq> None then 1 else 2, ip))"

lemma bytes_Compare_less: "bytes_Compare xs ys < 0 \<longleftrightarrow> xs < ys"
  by (induction xs ys rule: bytes_Compare.induct) auto

lemma compare_rank: "compareIPStrings a b < 0 \<longleftrightarrow> ip_rank a < ip_rank b"
  by (auto simp: compareIPStrings_def ip_rank_def bytes_Compare_less less_prod_def' split: option.splits)

lemma insert_stable_sorted:
  fixes key :: "'a \<Rightarrow> 'k :: linorder"
  shows "sorted (map key ys) \<Longrightarrow> sorted (map key (insert_stable (\<lambda>a b. key a < key b) x ys))"
proof (induction ys)
  case (Cons y ys)
  have "set (insert_stable (\<lambda>a b. key a < key b) x ys) = insert x (set ys)"
    by (metis mset_insert_stable set_mset_add_mset_insert set_mset_mset)
  then show ?case using Cons by (auto simp: not_less)
qed simp

lemma insert_stable_filter:
  fixes key :: "'a \<Rightarrow> 'k :: linorder"
  shows "sorted (map key ys) \<Longrightarrow>
    filter (\<lambda>a. key a = k) (insert_stable (\<lambda>a b. key a < key b) x ys) = filter (\<lambda>a. key a = k) ys @ (if key x = k then [x] else [])"
proof (induction ys)
  case (Cons y ys)
  show ?case
  proof (cases "key x < key y")
    case True
    then have "filter (\<lambda>a. key a = k) (y # ys) = []" if "key x = k"
      using Cons.prems that by (auto simp: filter_empty_conv)
    then show ?thesis using True by simp
  qed (use Cons in auto)
qed simp

lemma SliceStable_acc:
  fixes key :: "'a \<Rightarrow> 'k :: linorder"
  assumes "sorted (map key a)"
  shows "sorted (map key (foldl (\<lambda>acc x. insert_stable (\<lambda>a b. key a < key b) x acc) a xs)) \<and>
    filter (\<lambda>e. key e = k) (foldl (\<lambda>acc x. insert_stable (\<lambda>a b. key a < key b) x acc) a xs) =
      filter (\<lambda>e. key e = k) a @ filter (\<lambda>e. key e = k) xs"
  using assms
proof (induction xs arbitrary: a)
  case (Cons x xs)
  show ?case
    using Cons.IH [OF insert_stable_sorted [OF Cons.prems]] insert_stable_filter [OF Cons.prems] by simp
qed simp

lemma SliceStable_correct:
  fixes key :: "'a \<Rightarrow> 'k :: linorder"
  shows "sorted (map key (SliceStable (\<lambda>a b. key a < key b) xs))"
    "filter (\<lambda>e. key e = k) (SliceStable (\<lambda>a b. key a < key b) xs) = filter (\<lambda>e. key e = k) xs"
  using SliceStable_acc [of key "[]" xs k] by (simp_all add: SliceStable_def)

section \<open>Properties\<close>

text \<open>C19. The hosts file refines a set of (address, hostname) pairs: adding inserts the pairs of the
  address with the given names, removing a hostname or an address deletes exactly its pairs,
  combining, wrapping and sorting lines change nothing, and a lookup is membership of the pair.\<close>

theorem hosts_refine_pairs:
  "(fst (Add ip hosts h) = Ok () \<longrightarrow> pairs (snd (Add ip hosts h)) = pairs h \<union> {ip} \<times> set (clean_hosts hosts)) \<and>
   (fst (RemoveByHostname host h) = Ok () \<longrightarrow>
      pairs (snd (RemoveByHostname host h)) = pairs h - UNIV \<times> {TrimSpace host}) \<and>
   pairs (RemoveByIP ip h) = pairs h - {ip} \<times> UNIV \<and>
   pairs (CombineDuplicateIPs h) = pairs h \<and> pairs (WrapLinesAtMaxHostsPerLine n h) = pairs h \<and>
   pairs (snd (SortHosts h)) = pairs h \<and> pairs (SortIPs h) = pairs h \<and>
   (Has ip host h \<longleftrightarrow> TrimSpace host \<noteq> [] \<and> (ip, TrimSpace host) \<in> pairs h)"
  by (intro conjI impI Add_pairs RemoveByHostname_pairs RemoveByIP_pairs combine.keeps wrap.keeps sort_hosts.keeps
      sort_ips.keeps Has_pairs)

definition demo_hosts :: Hosts where
  "demo_hosts = \<lparr>hFilePath = ''/etc/hosts'', hEntries = [inactive ''# local'', new_entry ''127.0.0.1'' [''localhost'', ''me'']]\<rparr>"

lemma parse_localhost: "ParseIP ''127.0.0.1'' \<noteq> None"
  by code_simp

lemma trim_short: "TrimSpace ''you'' = ''you''" "TrimSpace ''me'' = ''me''"
  by (simp_all add: TrimSpace_def runes_ascii ascii_def trim_runes_def is_space_def)

theorem hosts_refine_pairs_witness:
  "fst (Add ''127.0.0.1'' [''you''] demo_hosts) = Ok () \<and> fst (RemoveByHostname ''me'' demo_hosts) = Ok () \<and>
   pairs (snd (Add ''127.0.0.1'' [''you''] demo_hosts)) = pairs demo_hosts \<union> {''127.0.0.1''} \<times> set (clean_hosts [''you'']) \<and>
   pairs (snd (RemoveByHostname ''me'' demo_hosts)) = pairs demo_hosts - UNIV \<times> {TrimSpace ''me''}"
proof -
  have a: "fst (Add ''127.0.0.1'' [''you''] demo_hosts) = Ok ()"
    using parse_localhost by (simp add: Add_def clean_hosts_def trim_short)
  have r: "fst (RemoveByHostname ''me'' demo_hosts) = Ok ()"
    by (simp add: RemoveByHostname_def trim_short Let_def demo_hosts_def inactive_def)
  note p = hosts_refine_pairs [of "''127.0.0.1''" "[''you'']" demo_hosts "''me''" 1]
  show ?thesis
    using a r p [THEN conjunct1, THEN mp, OF a] p [THEN conjunct2, THEN conjunct1, THEN mp, OF r] by (intro conjI)
qed

text \<open>Cleaning brings the file into a normal form: every address is on one line, every hostname
  is on one line, no line is without hostnames. No hostname is lost, no pair is invented, and the
  comments stay as they were.\<close>

theorem clean_normal_form:
  "distinct (ips (hEntries (Clean h))) \<and> distinct (names (hEntries (Clean h))) \<and>
   filter (\<lambda>e. heIsActive e \<and> heHostnames e = []) (hEntries (Clean h)) = [] \<and>
   snd ` pairs (Clean h) = snd ` pairs h \<and> pairs (Clean h) \<subseteq> pairs h \<and>
   comments (hEntries (Clean h)) = comments (hEntries h)"
proof -
  let ?c = "combine_entries (hEntries h)" and ?d = "dedup_entries (combine_entries (hEntries h))"
  have n: "\<forall>e \<in> set ?d. heIsActive e \<longrightarrow> heHostnames e \<noteq> []" using dedup_loop_nonempty by (simp add: dedup_entries_eq)
  then have "hEntries (Clean h) = ?d"
    by (simp add: Clean_def removeEmptyActiveEntriesInternal_def removeDuplicateHostsInternal_def combineDuplicateIPsInternal_def
        filter_id_conv)
  moreover have "distinct (ips ?d)"
    using combine_entries_views(1) dedup_loop_ips [of "[]" "map dedup_entry ?c"] by (simp add: dedup_entries_eq dedup_entry_views)
  moreover have "distinct (names ?d) \<and> set (names ?d) = set (names ?c)"
    using dedup_loop_names [of "[]" "map dedup_entry ?c"] by (simp add: dedup_entries_eq dedup_entry_views)
  moreover have "set (names ?c) = set (names (hEntries h))"
    using snd_entry_pairs [of ?c] snd_entry_pairs [of "hEntries h"] combine_entries_views(3) [of "hEntries h"] by simp
  moreover have "comments ?d = comments (hEntries h)"
    using dedup_loop_comments [of "[]" "map dedup_entry ?c"] combine_entries_views(2) by (simp add: dedup_entries_eq dedup_entry_views)
  moreover have "(\<Union>e \<in> set ?d. entry_pairs e) \<subseteq> (\<Union>e \<in> set (hEntries h). entry_pairs e)"
    using dedup_loop_pairs [of "[]" "map dedup_entry ?c"] dedup_entry_views(4) [of ?c] combine_entries_views(3) [of "hEntries h"]
    by (simp add: dedup_entries_eq)
  moreover have "filter (\<lambda>e. heIsActive e \<and> heHostnames e = []) ?d = []" using n by (auto simp: filter_empty_conv)
  ultimately show ?thesis using snd_entry_pairs by (simp add: pairs_def)
qed

text \<open>C20. Wrapping lines at \<open>n\<close> hostnames ends with at most \<open>n\<close> names on every line and keeps all
  names in their order.\<close>

theorem wrapped_lines_are_short:
  assumes "0 < n"
  shows "filter (\<lambda>e. heIsActive e \<and> length (heHostnames e) > nat n) (hEntries (WrapLinesAtMaxHostsPerLine n h)) = [] \<and>
    names (hEntries (WrapLinesAtMaxHostsPerLine n h)) = names (hEntries h)"
proof
  have "\<forall>e \<in> set (hEntries (WrapLinesAtMaxHostsPerLine n h)). heIsActive e \<longrightarrow> length (heHostnames e) \<le> nat n"
    using assms wrap_chunks_length [of "nat n" 0]
    by (fastforce simp: WrapLinesAtMaxHostsPerLine_def wrap_entry_def split: if_splits)
  then show "filter (\<lambda>e. heIsActive e \<and> length (heHostnames e) > nat n) (hEntries (WrapLinesAtMaxHostsPerLine n h)) = []"
    by (simp add: filter_empty_conv linorder_not_less)
  have c: "names (map (new_entry ip) cs) = concat cs" for ip cs by (induction cs) simp_all
  have "names (wrap_entry (nat n) e @ es) = names (e # es)" for e es
    using assms c concat_wrap_chunks [of "nat n" 0 "heHostnames e"]
    by (simp add: wrap_entry_def names_append)
  then have "names (concat (map (wrap_entry (nat n)) es)) = names es" for es
    by (induction es) (simp_all add: names_append)
  then show "names (hEntries (WrapLinesAtMaxHostsPerLine n h)) = names (hEntries h)"
    using assms by (simp add: WrapLinesAtMaxHostsPerLine_def)
qed

theorem wrapped_lines_are_short_witness:
  "filter (\<lambda>e. heIsActive e \<and> length (heHostnames e) > nat 1) (hEntries (WrapLinesAtMaxHostsPerLine 1 demo_hosts)) = [] \<and>
    names (hEntries (WrapLinesAtMaxHostsPerLine 1 demo_hosts)) = names (hEntries demo_hosts)"
  by (rule wrapped_lines_are_short) simp


lemma nospace_ascii: "ascii s \<Longrightarrow> nospace s \<longleftrightarrow> (\<forall>c \<in> set s. \<not> is_space (of_char c))"
  by (simp add: nospace_def runes_ascii)

lemma demo_words:
  "nospace ''127.0.0.1''" "nospace ''localhost''" "nospace ''me''"
  by (simp_all add: nospace_ascii ascii_def is_space_def)

lemma demo_raw_ok: "\<forall>e \<in> set (hEntries demo_hosts). raw_ok e"
proof -
  have "parseLine ''# local'' = inactive ''# local''"
    by (simp add: parseLine_def TrimSpace_def runes_ascii ascii_def trim_runes_def is_space_def)
  moreover have "parseLine (formatEntry ''127.0.0.1'' [''localhost'', ''me'']) = new_entry ''127.0.0.1'' [''localhost'', ''me'']"
    by (rule parseLine_formatEntry) (simp_all add: parse_localhost demo_words)
  ultimately show ?thesis
    by (simp add: demo_hosts_def raw_ok_def, simp add: inactive_def formatEntry_def drop_cr_def max_token_def)
qed


text \<open>\<^verbatim>\<open>Remove\<close> reports success but keeps every pair when it takes names off lines without
  emptying one: the change is computed and then dropped.\<close>

theorem partial_removal_is_lost:
  assumes "fst (Remove ip hosts h) = Ok ()"
    and "\<forall>e \<in> set (hEntries h). heIsActive e \<and> heIP e = ip \<longrightarrow> \<not> set (heHostnames e) \<subseteq> set (clean_hosts hosts)"
  shows "snd (Remove ip hosts h) = h"
proof -
  have "strip (set (clean_hosts hosts)) e \<noteq> []" if "e \<in> set (hEntries h)" "heIsActive e" "heIP e = ip" for e
    using assms(2) that by (auto simp: strip_def Let_def filter_empty_conv)
  then show ?thesis using assms(1) by (auto simp: Remove_def Let_def split: if_splits)
qed

theorem partial_removal_is_lost_witness:
  "fst (Remove ''127.0.0.1'' [''me''] demo_hosts) = Ok () \<and> snd (Remove ''127.0.0.1'' [''me''] demo_hosts) = demo_hosts"
proof -
  have "fst (Remove ''127.0.0.1'' [''me''] demo_hosts) = Ok ()"
    using parse_localhost
    by (simp add: Remove_def clean_hosts_def trim_short Let_def demo_hosts_def inactive_def strip_def set_hostnames_def new_entry_def)
  moreover from this have "snd (Remove ''127.0.0.1'' [''me''] demo_hosts) = demo_hosts"
    by (rule partial_removal_is_lost) (simp add: demo_hosts_def inactive_def clean_hosts_def trim_short)
  ultimately show ?thesis by simp
qed

text \<open>Sorting by address is a stable sort: the result is a permutation with the comments first,
  the active lines are in the order of their addresses, and lines whose addresses rank equal keep
  their order.\<close>

theorem sort_ips_is_a_stable_sort:
  "mset (hEntries (SortIPs h)) = mset (hEntries h) \<and>
   (\<exists>active. hEntries (SortIPs h) = comments (hEntries h) @ active \<and> sorted (map (ip_rank \<circ> heIP) active) \<and>
      (\<forall>k. filter (\<lambda>e. ip_rank (heIP e) = k) active = filter (\<lambda>e. ip_rank (heIP e) = k) (filter heIsActive (hEntries h))))"
proof -
  let ?a = "SliceStable (\<lambda>a b. compareIPStrings (heIP a) (heIP b) < 0) (filter heIsActive (hEntries h))"
  have e: "?a = SliceStable (\<lambda>a b. (ip_rank \<circ> heIP) a < (ip_rank \<circ> heIP) b) (filter heIsActive (hEntries h))"
    by (simp add: compare_rank)
  have s: "sorted (map (ip_rank \<circ> heIP) ?a)"
    "filter (\<lambda>x. ip_rank (heIP x) = k) ?a = filter (\<lambda>x. ip_rank (heIP x) = k) (filter heIsActive (hEntries h))" for k
    using SliceStable_correct(1) [of "ip_rank \<circ> heIP" "filter heIsActive (hEntries h)"]
      SliceStable_correct(2) [of "ip_rank \<circ> heIP" k "filter heIsActive (hEntries h)"] unfolding e by simp_all
  have "hEntries (SortIPs h) = comments (hEntries h) @ ?a" by (simp add: SortIPs_def comments_def)
  then show ?thesis using mset_SortIPs [of h] s by blast
qed

end
