(* ===== verification/Management.thy ===== *)
theory Management
  imports Machine "HOL-Library.List_Lexorder" "HOL-Library.Char_ord"
begin

text \<open>
  The management interface (\<^verbatim>\<open>pkg/management\<close>): the server that authenticates a client on a
  Unix socket and runs its commands, the framing of the answers, and the client behind
  \<^verbatim>\<open>edge ctl\<close>. A connection is the text the client sends and the way it ends; a run records the
  commands that were executed and what was flushed to the client.

  The record \<open>mg_env\<close> is what lies outside: the clock, the log store and its pretty printer,
  the Unicode tables of \<^verbatim>\<open>strings.ToLower\<close> for text that is not ASCII, and whether a write to the
  socket succeeds. A buffered writer that has failed once fails from then on; here every flush may succeed
  or fail on its own, which covers these runs and more. Creating, accepting on and removing the socket file is input and output of the
  operating system and is not modelled.
\<close>

section \<open>Strings and durations\<close>

definition newline :: char where "newline = CHR 0x0A"

definition quoted :: "string \<Rightarrow> string" where
  "quoted s = CHR 0x27 # s @ [CHR 0x27]"

definition ToLower :: "(string \<Rightarrow> string) \<Rightarrow> string \<Rightarrow> string" where
  "ToLower unicode s = (if ascii s then map lower_ascii s else unicode s)"

definition TrimRight_newlines :: "string \<Rightarrow> string" where
  "TrimRight_newlines s = rev (dropWhile (\<lambda>c. c = newline) (rev s))"

text \<open>\<^verbatim>\<open>Duration.Round(time.Second)\<close> and the format of whole seconds.\<close>

definition round_seconds :: "int \<Rightarrow> int" where
  "round_seconds d =
     (let r = \<bar>d\<bar> mod 1000000000; q = \<bar>d\<bar> div 1000000000 in
      (if 2 * r < 1000000000 then q else q + 1) * sgn d)"

definition seconds_string :: "int \<Rightarrow> string" where
  "seconds_string n =
     (let a = \<bar>n\<bar>;
          h = (if a \<ge> 3600 then itoa (a div 3600) @ ''h'' else []);
          m = (if a \<ge> 60 then itoa (a div 60 mod 60) @ ''m'' else [])
      in (if n < 0 then ''-'' else []) @ h @ m @ itoa (a mod 60) @ ''s'')"

section \<open>State\<close>

definition okAuthString :: string where "okAuthString = ''OK:AUTHENTICATED''"
definition nokAuthString :: string where "nokAuthString = ''NOK:UNAUTHENTICATED''"
definition pongString :: string where "pongString = ''OK: pong''"

text \<open>The handlers the server registers itself, and those of others: a response or an error text.\<close>

datatype CommandHandler = HStatus | HPing | HLogs | HHelp | HOther "string list \<Rightarrow> string + string"

record CommandInfo =
  ciHandler :: CommandHandler
  ciDescription :: string

record ManagementServer =
  msSocketPath :: string
  msHandlers :: "(string, CommandInfo) gomap"
  msStartTime :: int
  msPassword :: string

record mg_env =
  mgNow :: int
  mgLower :: "string \<Rightarrow> string"
  mgLogs :: "string + string list"
  mgPretty :: "string \<Rightarrow> string"
  mgFlush :: "bytes \<Rightarrow> bool"

definition GetDefaultSocketPath :: "string \<Rightarrow> string \<Rightarrow> string" where
  "GetDefaultSocketPath dir app = dir @ CHR ''/'' # app"

definition RegisterHandler :: "(string \<Rightarrow> string) \<Rightarrow> string \<Rightarrow> string \<Rightarrow> CommandHandler \<Rightarrow> ManagementServer \<Rightarrow> ManagementServer" where
  "RegisterHandler unicode command description handler s =
     s\<lparr>msHandlers := gput (msHandlers s) (ToLower unicode command) \<lparr>ciHandler = handler, ciDescription = description\<rparr>\<rparr>"

definition NewManagementServer :: "mg_env \<Rightarrow> string \<Rightarrow> string \<Rightarrow> string \<Rightarrow> ManagementServer" where
  "NewManagementServer env dir app password =
     (let reg = RegisterHandler (mgLower env) in
      reg ''list'' (''Alias for '' @ quoted ''help'') HHelp
        (reg ''help'' ''Show help for commands. Usage: help [command]'' HHelp
          (reg ''logs'' ''Get last logs from edge'' HLogs
            (reg ''ping'' (''Check if the daemon'' @ CHR 0x27 # ''s management interface is responsive'') HPing
              (reg ''status'' ''Show daemon status and uptime'' HStatus
                \<lparr>msSocketPath = GetDefaultSocketPath dir app, msHandlers = [], msStartTime = mgNow env, msPassword = password\<rparr>)))))"

section \<open>Handlers\<close>

definition handleStatusCommand :: "mg_env \<Rightarrow> ManagementServer \<Rightarrow> string" where
  "handleStatusCommand env s =
     ''OK: Daemon running. Uptime: '' @ seconds_string (round_seconds (mgNow env - msStartTime s))"

definition handleLogsCommand :: "mg_env \<Rightarrow> string list \<Rightarrow> string + string" where
  "handleLogsCommand env args =
     (case mgLogs env of
        Inl e \<Rightarrow> Inl e
      | Inr entries \<Rightarrow>
          let res = TrimRight_newlines (concat entries) in
          Inr (if args \<noteq> [] \<and> hd args = ''pretty'' then mgPretty env res else res))"

text \<open>The list of commands: sorted names, descriptions aligned in one column.\<close>

definition help_line :: "nat \<Rightarrow> ManagementServer \<Rightarrow> string \<Rightarrow> string" where
  "help_line maxLen s cmd =
     ''  '' @ cmd @ replicate (maxLen - length cmd + 2) CHR '' '' @
     (case gget (msHandlers s) cmd of Some i \<Rightarrow> ciDescription i | None \<Rightarrow> []) @ [newline]"

definition handleHelpCommand :: "mg_env \<Rightarrow> ManagementServer \<Rightarrow> string list \<Rightarrow> string" where
  "handleHelpCommand env s args =
     TrimRight_newlines
       (case args of
          a # _ \<Rightarrow>
            let cmdName = ToLower (mgLower env) a in
            (case gget (msHandlers s) cmdName of
               None \<Rightarrow> ''Error: Unknown command '' @ quoted cmdName @ ''. Try '' @ quoted ''help'' @ '' for a list.''
             | Some i \<Rightarrow> ''OK: Help for '' @ quoted cmdName @ '':'' @ [newline] @ ''  Usage: '' @ cmdName @ '' [args...]'' @ [newline] @
                 ''  Description: '' @ ciDescription i)
        | [] \<Rightarrow>
            let cmds = sort (map fst (msHandlers s));
                maxLen = fold max (map length cmds) 0
            in ''OK: Available commands:'' @ [newline] @ concat (map (help_line maxLen s) cmds) @ [newline] @
               ''Use '' @ quoted ''help <command>'' @ '' for more details on a specific command.'')"

definition run_handler :: "mg_env \<Rightarrow> ManagementServer \<Rightarrow> CommandHandler \<Rightarrow> string list \<Rightarrow> string + string" where
  "run_handler env s h args =
     (case h of
        HStatus \<Rightarrow> Inr (handleStatusCommand env s)
      | HPing \<Rightarrow> Inr pongString
      | HLogs \<Rightarrow> handleLogsCommand env args
      | HHelp \<Rightarrow> Inr (handleHelpCommand env s args)
      | HOther f \<Rightarrow> f args)"

section \<open>Framing\<close>

text \<open>How a stream ends when all of its data has been read.\<close>

datatype read_end = EndEOF | EndTimeout | EndError

datatype mg_error =
    ShortWrite | FlushFailed
  | ClosedBeforeLength | ClosedInLength | LengthReadFailed | ZeroLength | ClosedInBody | BodyReadFailed
  | SocketUnreachable | DeadlineNotSet | PasswordNotSent | AuthReadFailed | AuthRefused | CommandNotSent

record mg_log =
  lgExec :: "(string \<times> string list) list"
  lgOut :: "bytes list"

type_synonym 'a mgm = "(mg_log, mg_error, 'a) op"

definition flush_bytes :: "mg_env \<Rightarrow> bytes \<Rightarrow> mg_log \<Rightarrow> mg_log" where
  "flush_bytes env b lg = (if mgFlush env b then lg\<lparr>lgOut := lgOut lg @ [b]\<rparr> else lg)"

definition say :: "mg_env \<Rightarrow> string \<Rightarrow> mg_log \<Rightarrow> mg_log" where
  "say env line = flush_bytes env (str_bytes (line @ [newline]))"

definition message_frame :: "string \<Rightarrow> bytes" where
  "message_frame message = put32 (of_nat (length message)) @ str_bytes message"

text \<open>A message whose length does not fit into the prefix is reported as a short write; what the
  buffer has passed on by then is not recorded.\<close>

definition sendMessage :: "mg_env \<Rightarrow> string \<Rightarrow> unit mgm" where
  "sendMessage env message lg =
     (let messageLen = (of_nat (length message) :: u32) in
      if length message \<noteq> unat messageLen then (Fail ShortWrite, lg)
      else if mgFlush env (message_frame message) then (Ok (), lg\<lparr>lgOut := lgOut lg @ [message_frame message]\<rparr>)
      else (Fail FlushFailed, lg))"

text \<open>\<^verbatim>\<open>io.ReadFull\<close>: the error says whether nothing or only a part could be read.\<close>

definition ReadFull :: "nat \<Rightarrow> bytes \<times> read_end \<Rightarrow> mg_error \<Rightarrow> mg_error \<Rightarrow> mg_error \<Rightarrow> (mg_error, bytes \<times> bytes) res" where
  "ReadFull n stream eof unexpected other =
     (let (b, fin) = stream in
      if n \<le> length b then Ok (take n b, drop n b)
      else if fin \<noteq> EndEOF then Fail other
      else if b = [] then Fail eof else Fail unexpected)"

definition bytes_str :: "bytes \<Rightarrow> string" where
  "bytes_str b = map (\<lambda>x. char_of (unat x)) b"

definition recvMessage :: "bytes \<times> read_end \<Rightarrow> (mg_error, string) res" where
  "recvMessage stream =
     res_bind (ReadFull 4 stream ClosedBeforeLength ClosedInLength LengthReadFailed) (\<lambda>(lenBytes, rest).
       let messageLen = get32 lenBytes in
       if messageLen = 0 then Fail ZeroLength
       else res_bind (ReadFull (unat messageLen) (rest, snd stream) ClosedInBody ClosedInBody BodyReadFailed) (\<lambda>(messageBytes, _).
         Ok (bytes_str messageBytes)))"

section \<open>Connections\<close>

text \<open>\<^verbatim>\<open>ReadString\<close> up to a newline: the line with its newline and the rest, if there is one.\<close>

definition ReadLine :: "string \<Rightarrow> (string \<times> string) option" where
  "ReadLine s =
     (if newline \<in> set s then Some (takeWhile (\<lambda>c. c \<noteq> newline) s @ [newline], tl (dropWhile (\<lambda>c. c \<noteq> newline) s)) else None)"

lemma ReadLine_shorter: "ReadLine s = Some (line, rest) \<Longrightarrow> length rest < length s"
proof -
  assume "ReadLine s = Some (line, rest)"
  then have r: "newline \<in> set s" "rest = tl (dropWhile (\<lambda>c. c \<noteq> newline) s)" by (auto simp: ReadLine_def split: if_splits)
  then have "dropWhile (\<lambda>c. c \<noteq> newline) s \<noteq> []" by (auto simp: dropWhile_eq_Nil_conv)
  moreover have "length (dropWhile (\<lambda>c. c \<noteq> newline) s) \<le> length s" by (rule length_dropWhile_le)
  ultimately show ?thesis using r(2) by (cases "dropWhile (\<lambda>c. c \<noteq> newline) s") auto
qed

definition execute :: "mg_env \<Rightarrow> ManagementServer \<Rightarrow> string \<Rightarrow> string list \<Rightarrow> unit mgm" where
  "execute env s command args lg =
     (case gget (msHandlers s) command of
        Some i \<Rightarrow>
          sendMessage env
            (case run_handler env s (ciHandler i) args of
               Inr response \<Rightarrow> response
             | Inl e \<Rightarrow> ''mgmt: error executing '' @ command @ '': '' @ e)
            (lg\<lparr>lgExec := lgExec lg @ [(command, args)]\<rparr>)
      | None \<Rightarrow> sendMessage env (''Error: Unknown command '' @ quoted command @ ''. Try '' @ quoted ''help'' @ ''.'') lg)"

text \<open>The loop ends with the stream, with \<^verbatim>\<open>quit\<close>, or when an answer cannot be written.\<close>

function command_loop :: "mg_env \<Rightarrow> ManagementServer \<Rightarrow> read_end \<Rightarrow> string \<Rightarrow> unit mgm" where
  "command_loop env s fin input lg =
     (case ReadLine input of
        None \<Rightarrow> (Ok (), if fin = EndTimeout then say env ''error: Read timeout'' lg else lg)
      | Some (line, rest) \<Rightarrow>
          let cmdLine = TrimSpace line in
          if cmdLine = [] then command_loop env s fin rest lg
          else if cmdLine = ''quit'' then (Ok (), say env ''OK: Bye!'' lg)
          else case Fields cmdLine of
            [] \<Rightarrow> (Panic IndexOutOfRange, lg)
          | c # args \<Rightarrow>
              (case execute env s (ToLower (mgLower env) c) args lg of
                 (Inr _, lg1) \<Rightarrow> command_loop env s fin rest lg1
               | (Inl (Err _), lg1) \<Rightarrow> (Ok (), lg1)
               | (Inl (Crash p), lg1) \<Rightarrow> (Panic p, lg1)))"
  by pat_completeness auto
termination by (relation "measure (\<lambda>(_, _, _, input, _). length input)") (auto simp: ReadLine_shorter)

declare command_loop.simps [simp del]

definition handleConnection :: "mg_env \<Rightarrow> ManagementServer \<Rightarrow> string \<times> read_end \<Rightarrow> unit mgm" where
  "handleConnection env s conn lg =
     (if msPassword s = [] then command_loop env s (snd conn) (fst conn) lg
      else case ReadLine (fst conn) of
        None \<Rightarrow> (Ok (), say env nokAuthString lg)
      | Some (clientPass, rest) \<Rightarrow>
          if TrimSpace clientPass \<noteq> msPassword s then (Ok (), say env nokAuthString lg)
          else command_loop env s (snd conn) rest (say env okAuthString lg))"

section \<open>The client\<close>

record ManagementClient =
  mcSocketPath :: string
  mcPassword :: string

definition NewManagementClient :: "string \<Rightarrow> string \<Rightarrow> string \<Rightarrow> ManagementClient" where
  "NewManagementClient dir app password = \<lparr>mcSocketPath = GetDefaultSocketPath dir app, mcPassword = password\<rparr>"

text \<open>What the client meets: whether it reaches the socket, can set deadlines and write, and what it
  can read after the password and after the command.\<close>

record mc_env =
  ceDial :: bool
  ceDeadline :: bool
  ceWrite :: "string \<Rightarrow> bool"
  ceAuth :: "string"
  ceReply :: "bytes \<times> read_end"

definition authenticate :: "mc_env \<Rightarrow> ManagementClient \<Rightarrow> (mg_error, unit) res" where
  "authenticate env c =
     (if mcPassword c = [] then Ok ()
      else if \<not> ceDeadline env then Fail DeadlineNotSet
      else if \<not> ceWrite env (mcPassword c @ [newline]) then Fail PasswordNotSent
      else case ReadLine (ceAuth env) of
        None \<Rightarrow> Fail AuthReadFailed
      | Some (response, _) \<Rightarrow> if Contains response nokAuthString then Fail AuthRefused else Ok ())"

definition SendCommand :: "mc_env \<Rightarrow> ManagementClient \<Rightarrow> string \<Rightarrow> (mg_error, string) res" where
  "SendCommand env c command0 =
     (let command = (if command0 = [] then ''help'' else command0) in
      if \<not> ceDial env then Fail SocketUnreachable
      else res_bind (authenticate env c) (\<lambda>_.
        if \<not> ceDeadline env then Fail DeadlineNotSet
        else if \<not> ceWrite env (command @ [newline]) then Fail CommandNotSent
        else res_bind (recvMessage (ceReply env)) (\<lambda>response. Ok (TrimSpace response))))"

definition IsManagementServerStarted :: "mc_env \<Rightarrow> ManagementClient \<Rightarrow> bool" where
  "IsManagementServerStarted env c = (case SendCommand env c ''ping'' of Inr res \<Rightarrow> res = pongString | Inl _ \<Rightarrow> False)"

section \<open>Lines\<close>

lemma of_newline: "(of_char newline :: nat) = 10"
  by (simp add: newline_def)

lemma TrimSpace_newline: "TrimSpace (s @ [newline]) = TrimSpace s"
proof -
  let ?p = "is_space \<circ> fst" and ?n = "(10 :: nat, [newline])"
  have "runes (s @ [newline]) = runes s @ [?n]" using runes_append_ascii [of newline s "[]"] by (simp add: of_newline)
  moreover have "trim_runes (rs @ [?n]) = trim_runes rs" for rs
  proof (cases "\<forall>x \<in> set rs. ?p x")
    case True
    then have "dropWhile ?p rs = []" "dropWhile ?p (rs @ [?n]) = []" by (auto simp: dropWhile_eq_Nil_conv is_space_def)
    then show ?thesis by (simp only: trim_runes_def)
  next
    case False
    then have "dropWhile ?p (rs @ [?n]) = dropWhile ?p rs @ [?n]" by (auto simp: dropWhile_append)
    then show ?thesis by (simp add: trim_runes_def is_space_def)
  qed
  ultimately show ?thesis by (simp add: TrimSpace_def)
qed

lemma bytes_str_str_bytes [simp]: "bytes_str (str_bytes s) = s"
  by (simp add: bytes_str_def str_bytes_def map_idI)

lemma ReadLine_line: "newline \<notin> set l \<Longrightarrow> ReadLine (l @ newline # r) = Some (l @ [newline], r)"
  by (simp add: ReadLine_def takeWhile_append dropWhile_append)

section \<open>Frames\<close>

lemma recvMessage_frame:
  assumes "m \<noteq> []" "length m < 2 ^ 32"
  shows "recvMessage (message_frame m @ rest, fin) = Ok m"
proof -
  let ?n = "of_nat (length m) :: u32"
  have n: "unat ?n = length m" using assms(2) by (simp add: unsigned_of_nat take_bit_nat_eq_self)
  have z: "?n \<noteq> 0" using n assms(1) by (metis length_0_conv unat_0)
  have l: "length (put32 ?n) = 4" by (rule f32.length_put)
  have "ReadFull 4 (message_frame m @ rest, fin) a b c = Ok (put32 ?n, str_bytes m @ rest)" for a b c
    using l by (simp add: ReadFull_def message_frame_def)
  moreover have "ReadFull (length m) (str_bytes m @ rest, fin) a b c = Ok (str_bytes m, rest)" for a b c
    by (simp add: ReadFull_def str_bytes_def)
  ultimately show ?thesis using n z by (simp add: recvMessage_def get32_put32)
qed

lemma recvMessage_empty: "recvMessage (message_frame [], fin) = Fail ZeroLength"
  using f32.length_put [of 0] by (simp add: recvMessage_def ReadFull_def message_frame_def str_bytes_def get32_put32)

lemma recvMessage_text:
  assumes "length b < 2 ^ 16" "0x01000000 \<le> get32 (take 4 b)" "4 \<le> length b"
  shows "recvMessage (b, EndEOF) = Fail ClosedInBody"
proof -
  have u: "16777216 \<le> unat (get32 (take 4 b))" using assms(2) by (simp add: word_le_nat_alt)
  then have "get32 (take 4 b) \<noteq> 0" by (intro notI) simp
  moreover have "ReadFull 4 (b, EndEOF) x y z = Ok (take 4 b, drop 4 b)" for x y z using assms(3) by (simp add: ReadFull_def)
  moreover have "ReadFull (unat (get32 (take 4 b))) (drop 4 b, EndEOF) ClosedInBody ClosedInBody BodyReadFailed = Fail ClosedInBody"
    using assms(1,3) u by (simp add: ReadFull_def)
  ultimately show ?thesis by (simp add: recvMessage_def Let_def)
qed

section \<open>Connections\<close>

text \<open>What a round of the loop can do to the record of the connection.\<close>

definition only_known :: "ManagementServer \<Rightarrow> mg_log \<Rightarrow> bool" where
  "only_known s lg \<longleftrightarrow> (\<forall>(c, _) \<in> set (lgExec lg). c \<in> gkeys (msHandlers s))"

lemma execute_fine:
  "\<not> panics (fst (execute env s c args lg))" "only_known s lg \<Longrightarrow> only_known s (snd (execute env s c args lg))"
  by (auto simp: execute_def sendMessage_def Let_def only_known_def gkeys_iff split: option.splits)

lemma only_known_say [simp]: "only_known s (say env x lg) = only_known s lg" "lgExec (say env x lg) = lgExec lg"
  by (simp_all add: only_known_def say_def flush_bytes_def)

lemma command_loop_fine:
  "only_known s lg \<Longrightarrow>
     \<not> panics (fst (command_loop env s fin input lg)) \<and> only_known s (snd (command_loop env s fin input lg))"
proof (induction env s fin input lg rule: command_loop.induct)
  case (1 env s fin input lg)
  show ?case
  proof (cases "ReadLine input")
    case None
    then show ?thesis using "1.prems" by (simp add: command_loop.simps [of env s fin input])
  next
    case (Some lr)
    obtain line rest where lr: "ReadLine input = Some (line, rest)" using Some by (cases lr) simp
    let ?l = "TrimSpace line"
    consider "?l = []" | "?l = ''quit''" | c args where "?l \<noteq> []" "?l \<noteq> ''quit''" "Fields ?l = c # args"
      using Fields_TrimSpace_not_Nil [of line] by (cases "Fields ?l") auto
    then show ?thesis
    proof cases
      case 1
      then show ?thesis using "1.IH"(1) [OF lr refl refl 1 "1.prems"] lr by (simp add: command_loop.simps [of env s fin input])
    next
      case 2
      then show ?thesis using lr "1.prems" by (simp add: command_loop.simps [of env s fin input])
    next
      case 3
      let ?x = "execute env s (ToLower (mgLower env) c) args lg"
      have x: "\<not> panics (fst ?x)" "only_known s (snd ?x)" using execute_fine "1.prems" by blast+
      obtain res lg1 where e: "?x = (res, lg1)" by fastforce
      show ?thesis
      proof (cases res)
        case (Inr u)
        then have e1: "?x = (Ok u, lg1)" using e by simp
        show ?thesis
          using "1.IH"(2) [OF lr refl refl 3(1,2,3) e1 [symmetric] refl] x(2) 3 lr e1 by (simp add: command_loop.simps [of env s fin input])
      next
        case (Inl f)
        then show ?thesis using x e 3 lr by (cases f) (simp_all add: command_loop.simps [of env s fin input])
      qed
    qed
  qed
qed

lemma handleConnection_fine:
  "only_known s lg \<Longrightarrow> \<not> panics (fst (handleConnection env s conn lg)) \<and> only_known s (snd (handleConnection env s conn lg))"
  using command_loop_fine [of s _ env "snd conn"] by (auto simp: handleConnection_def split: option.splits)

lemma handleConnection_locked:
  assumes "msPassword s \<noteq> []" "\<nexists>line rest. ReadLine (fst conn) = Some (line, rest) \<and> TrimSpace line = msPassword s"
  shows "handleConnection env s conn lg = (Ok (), say env nokAuthString lg)"
  using assms by (auto simp: handleConnection_def split: option.splits)

text \<open>C28. A connection never makes the server panic. A command is executed only after the first line of
  the connection was the password, up to surrounding white space, and only if it is registered.
  So a server whose password begins or ends with white space executes nothing at all.\<close>

theorem only_the_password_opens_the_server:
  assumes "handleConnection env s (input, fin) \<lparr>lgExec = [], lgOut = []\<rparr> = (r, lg)"
  shows "\<not> panics r \<and> (\<forall>(c, _) \<in> set (lgExec lg). c \<in> gkeys (msHandlers s)) \<and>
    (lgExec lg \<noteq> [] \<and> msPassword s \<noteq> [] \<longrightarrow>
      (\<exists>line rest. ReadLine input = Some (line, rest) \<and> TrimSpace line = msPassword s) \<and> TrimSpace (msPassword s) = msPassword s)"
proof -
  let ?l0 = "\<lparr>lgExec = [], lgOut = []\<rparr>"
  have "only_known s ?l0" by (simp add: only_known_def)
  from handleConnection_fine [OF this, of env "(input, fin)"] assms
  have f: "\<not> panics r" "\<forall>(c, _) \<in> set (lgExec lg). c \<in> gkeys (msHandlers s)" by (simp_all add: only_known_def)
  have "\<exists>line rest. ReadLine input = Some (line, rest) \<and> TrimSpace line = msPassword s"
    if "lgExec lg \<noteq> []" "msPassword s \<noteq> []"
  proof (rule ccontr)
    assume "\<not> ?thesis"
    then have "handleConnection env s (input, fin) ?l0 = (Ok (), say env nokAuthString ?l0)"
      by (intro handleConnection_locked that(2)) simp
    then show False using assms that(1) by (metis only_known_say(2) prod.inject mg_log.select_convs(1))
  qed
  then show ?thesis using f TrimSpace_idem by metis
qed

definition demo_mg_env :: mg_env where
  "demo_mg_env = \<lparr>mgNow = 90000000000, mgLower = (\<lambda>s. s), mgLogs = Inr [], mgPretty = (\<lambda>s. s), mgFlush = (\<lambda>_. True)\<rparr>"

definition demo_server :: ManagementServer where
  "demo_server = \<lparr>msSocketPath = ''/run/n2n-go/edge'', msHandlers = [(''ping'', \<lparr>ciHandler = HPing, ciDescription = []\<rparr>)],
     msStartTime = 0, msPassword = ''n2n''\<rparr>"

text \<open>A connection with the right password and one command.\<close>

lemma connection_run:
  assumes "msPassword s = p" "p \<noteq> []" "newline \<notin> set p" "TrimSpace p = p"
    and "newline \<notin> set cmd" "TrimSpace cmd \<noteq> []" "TrimSpace cmd \<noteq> ''quit''" "Fields (TrimSpace cmd) = w # args"
    and "gget (msHandlers s) (ToLower (mgLower env) w) = Some i" "run_handler env s (ciHandler i) args = Inr resp"
    and "length resp < 2 ^ 32" "\<forall>b. mgFlush env b"
  shows "handleConnection env s (p @ newline # cmd @ [newline], EndEOF) \<lparr>lgExec = [], lgOut = []\<rparr> =
    (Ok (), \<lparr>lgExec = [(ToLower (mgLower env) w, args)], lgOut = [str_bytes (okAuthString @ [newline]), message_frame resp]\<rparr>)"
proof -
  let ?w = "ToLower (mgLower env) w" and ?a = "str_bytes (okAuthString @ [newline])"
  have n: "length resp = unat (of_nat (length resp) :: u32)" using assms(11) by (simp add: unsigned_of_nat take_bit_nat_eq_self)
  have s: "say env okAuthString \<lparr>lgExec = [], lgOut = []\<rparr> = \<lparr>lgExec = [], lgOut = [?a]\<rparr>"
    using assms(12) by (simp add: say_def flush_bytes_def)
  have x: "execute env s ?w args \<lparr>lgExec = [], lgOut = [?a]\<rparr> =
      (Ok (), \<lparr>lgExec = [(?w, args)], lgOut = [?a, message_frame resp]\<rparr>)"
    using assms(9,10,12) n by (simp add: execute_def sendMessage_def)
  have "command_loop env s EndEOF [] lg = (Ok (), lg)" for lg by (simp add: command_loop.simps ReadLine_def)
  then have "command_loop env s EndEOF (cmd @ [newline]) \<lparr>lgExec = [], lgOut = [?a]\<rparr> =
      (Ok (), \<lparr>lgExec = [(?w, args)], lgOut = [?a, message_frame resp]\<rparr>)"
    using ReadLine_line [OF assms(5), of "[]"] assms(6-8) x
    by (simp add: command_loop.simps [of _ _ _ "cmd @ [newline]"] TrimSpace_newline)
  then show ?thesis
    using ReadLine_line [OF assms(3), of "cmd @ [newline]"] assms(1,2,4) s by (simp add: handleConnection_def TrimSpace_newline)
qed

text \<open>A client that reaches the server reads \<open>auth\<close> after the password and \<open>q\<close> after the command.\<close>

definition meets :: "string \<Rightarrow> bytes \<Rightarrow> mc_env" where
  "meets auth q = \<lparr>ceDial = True, ceDeadline = True, ceWrite = (\<lambda>_. True), ceAuth = auth, ceReply = (q, EndEOF)\<rparr>"

lemma authenticate_ok:
  "ceDeadline ce \<Longrightarrow> \<forall>l. ceWrite ce l \<Longrightarrow> ceAuth ce = okAuthString @ [newline] \<Longrightarrow> authenticate ce c = Ok ()"
proof -
  assume a: "ceDeadline ce" "\<forall>l. ceWrite ce l" "ceAuth ce = okAuthString @ [newline]"
  have "newline \<notin> set okAuthString" "\<not> Contains (okAuthString @ [newline]) nokAuthString" by code_simp+
  then show ?thesis using a ReadLine_line [of okAuthString "[]"] by (simp add: authenticate_def)
qed

lemma TrimSpace_Nil [simp]: "TrimSpace [] = []"
  by (simp add: TrimSpace_def trim_runes_def)

text \<open>C29. With the right password a command reaches its handler and its answer comes back: the server
  acknowledges the password, executes exactly this command and sends its response as one frame, and
  the client returns the response without surrounding white space.\<close>

theorem command_is_answered:
  assumes "msPassword s = p" "mcPassword c = p" "p \<noteq> []" "newline \<notin> set p" "TrimSpace p = p"
    and "newline \<notin> set cmd" "TrimSpace cmd \<noteq> []" "TrimSpace cmd \<noteq> ''quit''" "Fields (TrimSpace cmd) = w # args"
    and "gget (msHandlers s) (ToLower (mgLower env) w) = Some i" "run_handler env s (ciHandler i) args = Inr resp"
    and "resp \<noteq> []" "length resp < 2 ^ 32" "\<forall>b. mgFlush env b"
  shows "\<exists>a q. handleConnection env s (p @ newline # cmd @ [newline], EndEOF) \<lparr>lgExec = [], lgOut = []\<rparr> =
      (Ok (), \<lparr>lgExec = [(ToLower (mgLower env) w, args)], lgOut = [a, q]\<rparr>) \<and>
    SendCommand (meets (bytes_str a) q) c cmd =
      Ok (TrimSpace resp)"
proof -
  let ?a = "str_bytes (okAuthString @ [newline])"
  have "cmd \<noteq> []" using assms(7) by auto
  then have "SendCommand (meets (bytes_str ?a) (message_frame resp)) c cmd = Ok (TrimSpace resp)"
    using recvMessage_frame [OF assms(12,13), of "[]" EndEOF] by (simp add: SendCommand_def meets_def authenticate_ok)
  then show ?thesis using connection_run [OF assms(1,3-11,13,14)] by blast
qed

lemma demo_lines: "TrimSpace ''n2n'' = ''n2n''" "TrimSpace ''ping'' = ''ping''" "TrimSpace pongString = pongString"
  "Fields (TrimSpace ''ping'') = [''ping'']" "newline \<notin> set ''n2n''" "newline \<notin> set ''ping''"
  by (simp_all add: TrimSpace_def trim_runes_def Fields_def runes_ascii ascii_def is_space_def newline_def pongString_def)

lemma demo_ping:
  "gget (msHandlers demo_server) (ToLower (mgLower demo_mg_env) ''ping'') = Some \<lparr>ciHandler = HPing, ciDescription = []\<rparr>"
  "ToLower (mgLower demo_mg_env) ''ping'' = ''ping''"
  by (simp_all add: demo_server_def ToLower_def ascii_def lower_ascii_def gget_def)

lemma demo_run:
  "handleConnection demo_mg_env demo_server (''n2n'' @ newline # ''ping'' @ [newline], EndEOF) \<lparr>lgExec = [], lgOut = []\<rparr> =
    (Ok (), \<lparr>lgExec = [(''ping'', [])], lgOut = [str_bytes (okAuthString @ [newline]), message_frame pongString]\<rparr>)"
  using connection_run [of demo_server "''n2n''" "''ping''" "''ping''" "[]" demo_mg_env "\<lparr>ciHandler = HPing, ciDescription = []\<rparr>" pongString]
    demo_ping demo_lines
  by (simp add: run_handler_def demo_mg_env_def) (simp add: demo_server_def pongString_def)

theorem only_the_password_opens_the_server_witness:
  "''ping'' \<in> gkeys (msHandlers demo_server) \<and>
    (\<exists>line rest. ReadLine (''n2n'' @ newline # ''ping'' @ [newline]) = Some (line, rest) \<and> TrimSpace line = msPassword demo_server)"
  using only_the_password_opens_the_server [OF demo_run] by (simp add: demo_server_def)

theorem command_is_answered_witness:
  "\<exists>a q. handleConnection demo_mg_env demo_server (''n2n'' @ newline # ''ping'' @ [newline], EndEOF) \<lparr>lgExec = [], lgOut = []\<rparr> =
      (Ok (), \<lparr>lgExec = [(''ping'', [])], lgOut = [a, q]\<rparr>) \<and>
    SendCommand (meets (bytes_str a) q)
      (NewManagementClient ''/run/n2n-go'' ''edge'' ''n2n'') ''ping'' = Ok pongString"
  using command_is_answered [of demo_server "''n2n''" "NewManagementClient ''/run/n2n-go'' ''edge'' ''n2n''" "''ping''" "''ping''" "[]"
      demo_mg_env "\<lparr>ciHandler = HPing, ciDescription = []\<rparr>" pongString] demo_ping demo_lines
  by (simp add: run_handler_def demo_mg_env_def NewManagementClient_def) (simp add: demo_server_def pongString_def)

lemma recvMessage_refusal: "recvMessage (str_bytes (nokAuthString @ [newline]), EndEOF) = Fail ClosedInBody"
  by (rule recvMessage_text) (simp_all add: str_bytes_def nokAuthString_def get32_def newline_def)

lemma recvMessage_bye: "recvMessage (str_bytes (''OK: Bye!'' @ [newline]), EndEOF) = Fail ClosedInBody"
  by (rule recvMessage_text) (simp_all add: str_bytes_def get32_def newline_def)

text \<open>C30. Some answers are lines and not frames, and the client does not understand them. The farewell
  after \<^verbatim>\<open>quit\<close> and the refusal of a client without password are read as the length of a
  message of more than a gigabyte that never comes; an empty response is an error too.\<close>

theorem line_answers_are_not_understood:
  assumes "msPassword s = p" "p \<noteq> []" "newline \<notin> set p" "TrimSpace p = p" "\<forall>b. mgFlush env b"
    and "mcPassword c = p" "mcPassword c0 = []" "newline \<notin> set cmd" "TrimSpace cmd \<noteq> p" "cmd \<noteq> []"
  shows "(\<exists>a q. handleConnection env s (p @ newline # ''quit'' @ [newline], EndEOF) \<lparr>lgExec = [], lgOut = []\<rparr> =
        (Ok (), \<lparr>lgExec = [], lgOut = [a, q]\<rparr>) \<and>
      SendCommand (meets (bytes_str a) q) c ''quit'' =
        Fail ClosedInBody) \<and>
    (\<exists>q. handleConnection env s (cmd @ [newline], EndEOF) \<lparr>lgExec = [], lgOut = []\<rparr> = (Ok (), \<lparr>lgExec = [], lgOut = [q]\<rparr>) \<and>
      SendCommand (meets [] q) c0 cmd =
        Fail ClosedInBody) \<and>
    recvMessage (message_frame [], EndEOF) = Fail ZeroLength"
proof (intro conjI)
  let ?a = "str_bytes (okAuthString @ [newline])" and ?q = "str_bytes (''OK: Bye!'' @ [newline])"
  have q: "newline \<notin> set ''quit''" "TrimSpace ''quit'' = ''quit''"
    by (simp_all add: TrimSpace_def trim_runes_def runes_ascii ascii_def is_space_def newline_def)
  have "command_loop env s EndEOF (''quit'' @ [newline]) \<lparr>lgExec = [], lgOut = [?a]\<rparr> = (Ok (), \<lparr>lgExec = [], lgOut = [?a, ?q]\<rparr>)"
    using ReadLine_line [OF q(1), of "[]"] TrimSpace_newline [of "''quit''"] q(2) assms(5)
    by (simp add: command_loop.simps [of _ _ _ "''quit'' @ [newline]", simplified] say_def flush_bytes_def)
  then have "handleConnection env s (p @ newline # ''quit'' @ [newline], EndEOF) \<lparr>lgExec = [], lgOut = []\<rparr> =
      (Ok (), \<lparr>lgExec = [], lgOut = [?a, ?q]\<rparr>)"
    using ReadLine_line [OF assms(3), of "''quit'' @ [newline]"] assms(1,2,4,5)
    by (simp add: handleConnection_def TrimSpace_newline say_def flush_bytes_def)
  moreover have "SendCommand (meets (bytes_str ?a) ?q) c ''quit'' =
        Fail ClosedInBody" using recvMessage_bye by (simp add: SendCommand_def meets_def authenticate_ok)
  ultimately show "\<exists>a q. handleConnection env s (p @ newline # ''quit'' @ [newline], EndEOF) \<lparr>lgExec = [], lgOut = []\<rparr> =
        (Ok (), \<lparr>lgExec = [], lgOut = [a, q]\<rparr>) \<and>
      SendCommand (meets (bytes_str a) q) c ''quit'' =
        Fail ClosedInBody" by blast
  have "handleConnection env s (cmd @ [newline], EndEOF) \<lparr>lgExec = [], lgOut = []\<rparr> =
      (Ok (), \<lparr>lgExec = [], lgOut = [str_bytes (nokAuthString @ [newline])]\<rparr>)"
    using ReadLine_line [OF assms(8), of "[]"] assms(1,2,5,9) by (simp add: handleConnection_def TrimSpace_newline say_def flush_bytes_def)
  moreover have "SendCommand (meets [] (str_bytes (nokAuthString @ [newline]))) c0 cmd = Fail ClosedInBody"
    using recvMessage_refusal assms(7,10) by (simp add: SendCommand_def meets_def authenticate_def)
  ultimately show "\<exists>q. handleConnection env s (cmd @ [newline], EndEOF) \<lparr>lgExec = [], lgOut = []\<rparr> = (Ok (), \<lparr>lgExec = [], lgOut = [q]\<rparr>) \<and>
      SendCommand (meets [] q) c0 cmd =
        Fail ClosedInBody" by blast
qed (rule recvMessage_empty)

theorem line_answers_are_not_understood_witness:
  "(\<exists>a q. handleConnection demo_mg_env demo_server (''n2n'' @ newline # ''quit'' @ [newline], EndEOF) \<lparr>lgExec = [], lgOut = []\<rparr> =
        (Ok (), \<lparr>lgExec = [], lgOut = [a, q]\<rparr>) \<and>
      SendCommand (meets (bytes_str a) q) (NewManagementClient ''/run/n2n-go'' ''edge'' ''n2n'') ''quit'' = Fail ClosedInBody) \<and>
    (\<exists>q. handleConnection demo_mg_env demo_server (''ping'' @ [newline], EndEOF) \<lparr>lgExec = [], lgOut = []\<rparr> =
        (Ok (), \<lparr>lgExec = [], lgOut = [q]\<rparr>) \<and>
      SendCommand (meets [] q) (NewManagementClient ''/run/n2n-go'' ''edge'' []) ''ping'' = Fail ClosedInBody) \<and>
    recvMessage (message_frame [], EndEOF) = Fail ZeroLength"
  by (rule line_answers_are_not_understood)
     (use demo_lines in \<open>simp_all add: demo_server_def demo_mg_env_def NewManagementClient_def\<close>)

end
