(* ===== verification/Natclient.thy ===== *)
theory Natclient
  imports Netaddr
begin

text \<open>
  The NAT client (\<^verbatim>\<open>pkg/natclient\<close>): the choice of the local address, the UPnP and the
  NAT-PMP client with their tables of port mappings, the setup that tries one after the other, and
  the cleanup. The gateway, reached through the libraries goupnp, gateway and go-nat-pmp, is the
  record \<open>nat_env\<close>: what it answers to each request. What was asked of it is kept in the clients as
  a list of requests.
\<close>

section \<open>The outside\<close>

datatype igd = IGDv2_IP2 | IGDv2_PPP1 | IGDv1_IP1 | IGDv1_PPP1

datatype nat_request =
    MapRequest u16 string u16 string string u32
  | UnmapRequest u16 string
  | PmpRequest string int int int

text \<open>A UPnP request is answered with the text of the error, if there is one; a NAT-PMP request with the
  external port, if it is granted.\<close>

record nat_env =
  naInterfaces :: "ip_addr list option"
  naDial :: "string \<Rightarrow> udp_addr option"
  naProbe :: "igd \<Rightarrow> bool"
  naExternal :: "igd \<Rightarrow> string option"
  naSoap :: "igd \<Rightarrow> nat_request \<Rightarrow> string option"
  naGateway :: "ip_addr option"
  naPmpExternal :: "ip_addr \<Rightarrow> ip_addr option"
  naPmp :: "ip_addr \<Rightarrow> nat_request \<Rightarrow> u16 option"

datatype nat_error =
    NoLocalIP | NoInterfaces | NoIGD | NoGateway | MappingConflict | MappingFailed | UnmappingFailed | InvalidProtocol

section \<open>The local address\<close>

definition IsLoopback :: "ip_addr \<Rightarrow> bool" where
  "IsLoopback ip = (case To4 ip of Some v \<Rightarrow> v ! 0 = 127 | None \<Rightarrow> ip = replicate 15 0 @ [1])"

definition IsLinkLocal4 :: "ip_addr \<Rightarrow> bool" where
  "IsLinkLocal4 v = (v ! 0 = 169 \<and> v ! 1 = 254)"

definition IsPrivate :: "ip_addr \<Rightarrow> bool" where
  "IsPrivate ip =
     (case To4 ip of
        Some v \<Rightarrow> v ! 0 = 10 \<or> (v ! 0 = 172 \<and> v ! 1 AND 0xf0 = 16) \<or> (v ! 0 = 192 \<and> v ! 1 = 168)
      | None \<Rightarrow> length ip = 16 \<and> ip ! 0 AND 0xfe = 0xfc)"

fun first_interface :: "ip_addr list \<Rightarrow> string option" where
  "first_interface [] = None"
| "first_interface (ip # ips) =
     (if IsLoopback ip then first_interface ips
      else case To4 ip of
        None \<Rightarrow> first_interface ips
      | Some v \<Rightarrow> if IsLinkLocal4 v then first_interface ips else Some (ip_string v))"

definition dialed_ip :: "nat_env \<Rightarrow> string \<Rightarrow> (nat_error, string) res" where
  "dialed_ip env dialto =
     (case naDial env dialto of
        None \<Rightarrow> Fail NoLocalIP
      | Some a \<Rightarrow>
          (case To4 (uIP a) of
             None \<Rightarrow> Fail NoLocalIP
           | Some v \<Rightarrow> if \<not> IsLoopback v \<and> \<not> IsLinkLocal4 v then Ok (ip_string v) else Fail NoLocalIP))"

definition getLocalIP :: "nat_env \<Rightarrow> string \<Rightarrow> (nat_error, string) res" where
  "getLocalIP env dialAddr =
     (if dialAddr = [] then
        (case naInterfaces env of
           None \<Rightarrow> Fail NoInterfaces
         | Some addrs \<Rightarrow>
             (case first_interface addrs of Some ip \<Rightarrow> Ok ip | None \<Rightarrow> dialed_ip env ''8.8.8.8:53''))
      else dialed_ip env dialAddr)"

section \<open>UPnP\<close>

text \<open>The letters of \<^verbatim>\<open>udp\<close> and \<^verbatim>\<open>tcp\<close> are the other case of ASCII letters only.\<close>

definition standardizeProtocol :: "string \<Rightarrow> string" where
  "standardizeProtocol protocol = (if map upper_ascii protocol = ''UDP'' then ''UDP'' else ''TCP'')"

record UPnPClient =
  upGateway :: igd
  upGatewayType :: string
  upLocalIP :: string
  upExternalIP :: string
  upMapped :: "(u16, string) gomap"
  upAsked :: "nat_request list"

definition discoverIGD :: "nat_env \<Rightarrow> (nat_error, igd \<times> string) res" where
  "discoverIGD env =
     (if naProbe env IGDv2_IP2 then Ok (IGDv2_IP2, ''IGDv2-IP2'')
      else if naProbe env IGDv2_PPP1 then Ok (IGDv2_PPP1, ''IGDv2-PPP1'')
      else if naProbe env IGDv1_IP1 then Ok (IGDv1_IP1, ''IGDv1-IP1'')
      else if naProbe env IGDv1_PPP1 then Ok (IGDv1_PPP1, ''IGDv1-PPP1'')
      else Fail NoIGD)"

definition newUPnPClient :: "nat_env \<Rightarrow> string \<Rightarrow> (nat_error, UPnPClient) res" where
  "newUPnPClient env dialAddr =
     res_bind (getLocalIP env dialAddr) (\<lambda>localIP.
     res_bind (discoverIGD env) (\<lambda>(gw, gwType).
       Ok \<lparr>upGateway = gw, upGatewayType = gwType, upLocalIP = localIP,
           upExternalIP = (case naExternal env gw of Some ip \<Rightarrow> ip | None \<Rightarrow> []), upMapped = [], upAsked = []\<rparr>))"

text \<open>A gateway that only knows permanent leases is asked again without a limit, once.\<close>

function AddPortMapping_upnp :: "nat_env \<Rightarrow> string \<Rightarrow> u16 \<Rightarrow> u16 \<Rightarrow> string \<Rightarrow> u32 \<Rightarrow> (UPnPClient, nat_error, unit) op" where
  "AddPortMapping_upnp env protocol externalPort internalPort description leaseDuration c =
     (let proto = standardizeProtocol protocol;
          req = MapRequest externalPort proto internalPort (upLocalIP c) description leaseDuration;
          c1 = c\<lparr>upAsked := upAsked c @ [req]\<rparr>
      in case naSoap env (upGateway c) req of
           None \<Rightarrow> (Ok (), c1\<lparr>upMapped := gput (upMapped c1) externalPort proto\<rparr>)
         | Some err \<Rightarrow>
             if Contains err ''ConflictInMappingEntry'' then (Fail MappingConflict, c1)
             else if Contains err ''OnlyPermanentLeasesSupported'' \<and> leaseDuration \<noteq> 0
             then AddPortMapping_upnp env protocol externalPort internalPort description 0 c1
             else (Fail MappingFailed, c1))"
  by pat_completeness auto
termination by (relation "measure (\<lambda>(_, _, _, _, _, lease, _). if lease = 0 then 0 else 1)") auto

declare AddPortMapping_upnp.simps [simp del]

definition DeletePortMapping_upnp :: "nat_env \<Rightarrow> string \<Rightarrow> u16 \<Rightarrow> (UPnPClient, nat_error, unit) op" where
  "DeletePortMapping_upnp env protocol externalPort c =
     (let req = UnmapRequest externalPort (standardizeProtocol protocol);
          c1 = c\<lparr>upAsked := upAsked c @ [req]\<rparr>;
          c2 = c1\<lparr>upMapped := gdel (upMapped c1) externalPort\<rparr>
      in case naSoap env (upGateway c) req of
           Some err \<Rightarrow> if Contains err ''NoSuchEntryInArray'' then (Ok (), c2) else (Fail UnmappingFailed, c1)
         | None \<Rightarrow> (Ok (), c2))"

definition CleanupAllMappings_upnp :: "nat_env \<Rightarrow> UPnPClient \<Rightarrow> UPnPClient" where
  "CleanupAllMappings_upnp env c = fold (\<lambda>(port, protocol) c. snd (DeletePortMapping_upnp env protocol port c)) (upMapped c) c"

section \<open>NAT-PMP\<close>

record natPMPPortMappingInfo =
  piProtocol :: string
  piInternalPort :: u16
  piExternalPort :: u16

record NATPMPClient =
  pmGatewayIP :: ip_addr
  pmLocalIP :: string
  pmExternalIP :: string
  pmMapped :: "(u16, natPMPPortMappingInfo) gomap"
  pmAsked :: "nat_request list"

definition guess_gateway :: "string \<Rightarrow> ip_addr option" where
  "guess_gateway localIP =
     Option.bind (Option.bind (ParseIP localIP) To4) (\<lambda>v. Some (v4_prefix @ [v ! 0, v ! 1, v ! 2, 1]))"

definition newNATPMPClient :: "nat_env \<Rightarrow> string \<Rightarrow> (nat_error, NATPMPClient) res" where
  "newNATPMPClient env dialAddr =
     res_bind (getLocalIP env dialAddr) (\<lambda>localIP.
       case (case naGateway env of Some gw \<Rightarrow> Some gw | None \<Rightarrow> guess_gateway localIP) of
         None \<Rightarrow> Fail NoGateway
       | Some gw \<Rightarrow>
           Ok \<lparr>pmGatewayIP = gw, pmLocalIP = localIP,
               pmExternalIP = (case naPmpExternal env gw of Some ip \<Rightarrow> ip_string ip | None \<Rightarrow> []), pmMapped = [], pmAsked = []\<rparr>)"

definition AddPortMapping_pmp :: "nat_env \<Rightarrow> string \<Rightarrow> u16 \<Rightarrow> u16 \<Rightarrow> string \<Rightarrow> u32 \<Rightarrow> (NATPMPClient, nat_error, unit) op" where
  "AddPortMapping_pmp env protocol externalPort internalPort description leaseDuration c =
     (let proto = map lower_ascii protocol in
      if proto \<noteq> ''udp'' \<and> proto \<noteq> ''tcp'' then (Fail InvalidProtocol, c)
      else
        let lifetime = (if leaseDuration = 0 then 3600 else int (unat leaseDuration));
            req = PmpRequest proto (int (unat internalPort)) (int (unat externalPort)) lifetime;
            c1 = c\<lparr>pmAsked := pmAsked c @ [req]\<rparr>
        in case naPmp env (pmGatewayIP c) req of
             None \<Rightarrow> (Fail MappingFailed, c1)
           | Some actual \<Rightarrow>
               (Ok (), c1\<lparr>pmMapped := gput (pmMapped c1) actual
                  \<lparr>piProtocol = proto, piInternalPort = internalPort, piExternalPort = actual\<rparr>\<rparr>))"

text \<open>A mapping is deleted by asking for its internal port with lifetime 0, with the protocol it was
  made for.\<close>

definition DeletePortMapping_pmp :: "nat_env \<Rightarrow> string \<Rightarrow> u16 \<Rightarrow> (NATPMPClient, nat_error, unit) op" where
  "DeletePortMapping_pmp env protocol externalPort c =
     (case gget (pmMapped c) externalPort of
        None \<Rightarrow> (Ok (), c)
      | Some i \<Rightarrow>
          let req = PmpRequest (piProtocol i) (int (unat (piInternalPort i))) 0 0;
              c1 = c\<lparr>pmAsked := pmAsked c @ [req]\<rparr>
          in if naPmp env (pmGatewayIP c) req = None then (Fail UnmappingFailed, c1)
             else (Ok (), c1\<lparr>pmMapped := gdel (pmMapped c1) externalPort\<rparr>))"

definition CleanupAllMappings_pmp :: "nat_env \<Rightarrow> NATPMPClient \<Rightarrow> NATPMPClient" where
  "CleanupAllMappings_pmp env c = fold (\<lambda>(port, i) c. snd (DeletePortMapping_pmp env (piProtocol i) port c)) (pmMapped c) c"

section \<open>Setup and cleanup\<close>

datatype NATClient = NatUPnP UPnPClient | NatPMP NATPMPClient

definition try_upnp :: "nat_env \<Rightarrow> u16 \<Rightarrow> string \<Rightarrow> string \<Rightarrow> NATClient option" where
  "try_upnp env udpPort edgeID dialAddr =
     (case newUPnPClient env dialAddr of
        Inl _ \<Rightarrow> None
      | Inr c \<Rightarrow>
          (case AddPortMapping_upnp env ''udp'' udpPort udpPort (''n2n-go/'' @ edgeID @ ''/'' @ upGatewayType c) 0 c of
             (Inr _, c1) \<Rightarrow> Some (NatUPnP c1)
           | _ \<Rightarrow> None))"

definition try_pmp :: "nat_env \<Rightarrow> u16 \<Rightarrow> string \<Rightarrow> string \<Rightarrow> NATClient option" where
  "try_pmp env udpPort edgeID dialAddr =
     (case newNATPMPClient env dialAddr of
        Inl _ \<Rightarrow> None
      | Inr c \<Rightarrow>
          (case AddPortMapping_pmp env ''udp'' udpPort udpPort (''n2n-go/'' @ edgeID @ ''/NAT-PMP/PCP'') (3600 * 24) c of
             (Inr _, c1) \<Rightarrow> Some (NatPMP c1)
           | _ \<Rightarrow> None))"

text \<open>The UDP port of the connection, if there is one.\<close>

definition SetupNAT :: "nat_env \<Rightarrow> u16 option \<Rightarrow> string \<Rightarrow> string \<Rightarrow> NATClient option" where
  "SetupNAT env conn edgeID dialAddr =
     (case conn of
        None \<Rightarrow> None
      | Some udpPort \<Rightarrow>
          (case getLocalIP env dialAddr of
             Inl _ \<Rightarrow> None
           | Inr localIP \<Rightarrow>
               if \<not> (case ParseIP localIP of Some ip \<Rightarrow> IsPrivate ip | None \<Rightarrow> False) then None
               else case try_upnp env udpPort edgeID dialAddr of
                 Some c \<Rightarrow> Some c
               | None \<Rightarrow> try_pmp env udpPort edgeID dialAddr))"

definition Cleanup :: "nat_env \<Rightarrow> NATClient option \<Rightarrow> NATClient option" where
  "Cleanup env client =
     map_option (\<lambda>c. case c of NatUPnP u \<Rightarrow> NatUPnP (CleanupAllMappings_upnp env u) | NatPMP p \<Rightarrow> NatPMP (CleanupAllMappings_pmp env p)) client"

section \<open>The table of mappings\<close>

text \<open>
  What both clients promise about their table: deleting an entry that is there takes it out when
  the gateway lets go of it, leaves the table alone otherwise, and makes one request. The cleanup
  deletes the entries of a snapshot one by one.
\<close>

locale mapping_table =
  fixes tbl :: "'s \<Rightarrow> (u16, 'i) gomap"
    and asked :: "'s \<Rightarrow> nat_request list"
    and del :: "u16 \<times> 'i \<Rightarrow> 's \<Rightarrow> 's"
    and req :: "u16 \<times> 'i \<Rightarrow> nat_request"
    and good :: "'s \<Rightarrow> bool"
    and released :: "u16 \<times> 'i \<Rightarrow> bool"
  assumes del_tbl: "good s \<Longrightarrow> gget (tbl s) (fst x) = Some (snd x) \<Longrightarrow>
      tbl (del x s) = (if released x then gdel (tbl s) (fst x) else tbl s)"
    and del_asked: "good s \<Longrightarrow> gget (tbl s) (fst x) = Some (snd x) \<Longrightarrow> asked (del x s) = asked s @ [req x]"
    and del_good: "good s \<Longrightarrow> good (del x s)"
begin

lemma fold_del:
  assumes "good s" "distinct (map fst xs)" "list_all (\<lambda>x. gget (tbl s) (fst x) = Some (snd x)) xs"
  shows "asked (fold del xs s) = asked s @ map req xs \<and>
    gget (tbl (fold del xs s)) k =
      (if list_ex (\<lambda>x. fst x = k \<and> released x) xs then None else gget (tbl s) k)"
  using assms
proof (induction xs arbitrary: s)
  case (Cons x xs)
  have "list_all (\<lambda>y. gget (tbl (del x s)) (fst y) = Some (snd y)) xs"
    using Cons.prems by (auto simp: list_all_iff del_tbl rev_image_eqI)
  with Cons.IH [of "del x s"] Cons.prems show ?case
    by (auto simp: del_good del_asked del_tbl list_ex_iff)
qed simp

lemma cleanup:
  assumes "good s" "gwf (tbl s)"
  shows "asked (fold del (tbl s) s) = asked s @ map req (tbl s)"
    and "gget (tbl (fold del (tbl s) s)) k = Option.bind (gget (tbl s) k) (\<lambda>i. if released (k, i) then None else Some i)"
proof -
  have all: "list_all (\<lambda>x. gget (tbl s) (fst x) = Some (snd x)) (tbl s)"
    using assms(2) by (auto simp: list_all_iff gget_def gwf_def)
  note f = fold_del [OF assms(1) _ all] assms(2)
  show "asked (fold del (tbl s) s) = asked s @ map req (tbl s)"
    using f by (simp add: gwf_def)
  show "gget (tbl (fold del (tbl s) s)) k = Option.bind (gget (tbl s) k) (\<lambda>i. if released (k, i) then None else Some i)"
    using f all by (cases "gget (tbl s) k")
      (auto simp: gwf_def list_ex_iff list_all_iff gget_def dest: map_of_SomeD eq_key_imp_eq_value)
qed

end

definition upnp_released :: "nat_env \<Rightarrow> igd \<Rightarrow> u16 \<times> string \<Rightarrow> bool" where
  "upnp_released env gw x =
     (case naSoap env gw (UnmapRequest (fst x) (standardizeProtocol (snd x))) of
        None \<Rightarrow> True | Some err \<Rightarrow> Contains err ''NoSuchEntryInArray'')"

definition pmp_unmap :: "u16 \<times> natPMPPortMappingInfo \<Rightarrow> nat_request" where
  "pmp_unmap x = PmpRequest (piProtocol (snd x)) (int (unat (piInternalPort (snd x)))) 0 0"

interpretation upnp_table: mapping_table upMapped upAsked
    "\<lambda>(port, protocol) c. snd (DeletePortMapping_upnp env protocol port c)"
    "\<lambda>(port, protocol). UnmapRequest port (standardizeProtocol protocol)"
    "\<lambda>c. upGateway c = gw" "upnp_released env gw" for env gw
  by unfold_locales
    (auto simp: DeletePortMapping_upnp_def upnp_released_def Let_def split: option.splits)

interpretation pmp_table: mapping_table pmMapped pmAsked
    "\<lambda>(port, i) c. snd (DeletePortMapping_pmp env (piProtocol i) port c)"
    pmp_unmap "\<lambda>c. pmGatewayIP c = gw" "\<lambda>x. naPmp env gw (pmp_unmap x) \<noteq> None" for env gw
  by unfold_locales
    (auto simp: DeletePortMapping_pmp_def pmp_unmap_def Let_def split: option.splits)

section \<open>What the setup maps and the cleanup unmaps\<close>

lemma protocol_names [simp]:
  "standardizeProtocol ''udp'' = ''UDP''" "standardizeProtocol ''UDP'' = ''UDP''" "standardizeProtocol ''TCP'' = ''TCP''"
  "standardizeProtocol ''tcp'' = ''TCP''"
  "lower_ascii CHR ''u'' = CHR ''u''" "lower_ascii CHR ''d'' = CHR ''d''" "lower_ascii CHR ''p'' = CHR ''p''"
  by code_simp+

lemma try_upnp_SomeD:
  "try_upnp env port edge dial = Some cl \<Longrightarrow>
   \<exists>c. cl = NatUPnP c \<and> upMapped c = [(port, ''UDP'')] \<and>
     upAsked c = [MapRequest port ''UDP'' port (upLocalIP c) (''n2n-go/'' @ edge @ ''/'' @ upGatewayType c) 0] \<and>
     naSoap env (upGateway c) (hd (upAsked c)) = None \<and> getLocalIP env dial = Ok (upLocalIP c)"
  by (auto simp: try_upnp_def newUPnPClient_def res_bind_def AddPortMapping_upnp.simps Let_def gput_def
      split: sum.splits option.splits if_splits prod.splits)

lemma try_pmp_SomeD:
  "try_pmp env port edge dial = Some cl \<Longrightarrow>
   \<exists>c ext. cl = NatPMP c \<and>
     pmMapped c = [(ext, \<lparr>piProtocol = ''udp'', piInternalPort = port, piExternalPort = ext\<rparr>)] \<and>
     pmAsked c = [PmpRequest ''udp'' (int (unat port)) (int (unat port)) 86400] \<and>
     naPmp env (pmGatewayIP c) (hd (pmAsked c)) = Some ext \<and> getLocalIP env dial = Ok (pmLocalIP c)"
  by (auto simp: try_pmp_def newNATPMPClient_def res_bind_def AddPortMapping_pmp_def Let_def gput_def
      split: sum.splits option.splits if_splits prod.splits)

lemma SetupNAT_SomeD:
  assumes "SetupNAT env conn edge dial = Some cl"
  obtains port ip a where "conn = Some port" "getLocalIP env dial = Ok ip" "ParseIP ip = Some a" "IsPrivate a"
    "try_upnp env port edge dial = Some cl \<or> (try_upnp env port edge dial = None \<and> try_pmp env port edge dial = Some cl)"
  using assms by (auto simp: SetupNAT_def split: option.splits sum.splits if_splits)

text \<open>The setup returns a client only behind a private address, and what the client holds is the one
  mapping that the gateway granted: by UPnP the UDP port of the connection itself, without a time
  limit; by NAT-PMP, tried only after UPnP has failed, the external port that the gateway chose, for
  a day.
\<close>

theorem setup_holds_the_granted_port:
  assumes "SetupNAT env conn edge dial = Some cl"
  shows "\<exists>port ip a. conn = Some port \<and> getLocalIP env dial = Ok ip \<and> ParseIP ip = Some a \<and> IsPrivate a \<and>
    (case cl of
       NatUPnP c \<Rightarrow> upLocalIP c = ip \<and> upMapped c = [(port, ''UDP'')] \<and>
         upAsked c = [MapRequest port ''UDP'' port ip (''n2n-go/'' @ edge @ ''/'' @ upGatewayType c) 0] \<and>
         naSoap env (upGateway c) (hd (upAsked c)) = None
     | NatPMP c \<Rightarrow> pmLocalIP c = ip \<and> try_upnp env port edge dial = None \<and>
         pmAsked c = [PmpRequest ''udp'' (int (unat port)) (int (unat port)) 86400] \<and>
         (\<exists>ext. naPmp env (pmGatewayIP c) (hd (pmAsked c)) = Some ext \<and>
            pmMapped c = [(ext, \<lparr>piProtocol = ''udp'', piInternalPort = port, piExternalPort = ext\<rparr>)]))"
  using assms by (elim SetupNAT_SomeD disjE conjE) (auto dest!: try_upnp_SomeD try_pmp_SomeD)

text \<open>C31. The cleanup asks the gateway once for every mapping in the table, and what stays in the table is
  exactly what the gateway refused to let go of; for UPnP a mapping that the gateway no longer knows
  counts as released.
\<close>

theorem cleanup_keeps_only_refused:
  assumes "gwf (upMapped u)" "gwf (pmMapped p)"
  shows "upAsked (CleanupAllMappings_upnp env u) =
      upAsked u @ map (\<lambda>(port, protocol). UnmapRequest port (standardizeProtocol protocol)) (upMapped u) \<and>
    gget (upMapped (CleanupAllMappings_upnp env u)) k =
      Option.bind (gget (upMapped u) k) (\<lambda>i. if upnp_released env (upGateway u) (k, i) then None else Some i) \<and>
    pmAsked (CleanupAllMappings_pmp env p) = pmAsked p @ map pmp_unmap (pmMapped p) \<and>
    gget (pmMapped (CleanupAllMappings_pmp env p)) k =
      Option.bind (gget (pmMapped p) k) (\<lambda>i. if naPmp env (pmGatewayIP p) (pmp_unmap (k, i)) \<noteq> None then None else Some i)"
  using assms
  by (simp only: CleanupAllMappings_upnp_def CleanupAllMappings_pmp_def
      upnp_table.cleanup [OF refl] pmp_table.cleanup [OF refl])

text \<open>The table has one entry per external port. When a port is mapped for UDP and then for TCP, the
  second mapping takes the place of the first, and the cleanup never asks the gateway to remove the
  UDP mapping.
\<close>

theorem second_protocol_is_forgotten:
  assumes "upMapped c = []" "upAsked c = []" "\<And>req. naSoap env (upGateway c) req = None"
    and "AddPortMapping_upnp env ''udp'' port inner d1 0 c = (r1, c1)"
    and "AddPortMapping_upnp env ''tcp'' port inner d2 0 c1 = (r2, c2)"
  shows "r1 = Ok () \<and> r2 = Ok () \<and> upMapped c2 = [(port, ''TCP'')] \<and>
    UnmapRequest port ''UDP'' \<notin> set (upAsked (CleanupAllMappings_upnp env c2)) \<and>
    upMapped (CleanupAllMappings_upnp env c2) = []"
  using assms
  by (auto simp: AddPortMapping_upnp.simps Let_def gput_def gdel_def CleanupAllMappings_upnp_def DeletePortMapping_upnp_def)

section \<open>Examples\<close>

definition demo_nat :: nat_env where
  "demo_nat = \<lparr>naInterfaces = Some [[127,0,0,1], [192,168,1,7]], naDial = (\<lambda>_. None), naProbe = (\<lambda>g. g = IGDv1_IP1),
     naExternal = (\<lambda>_. Some ''203.0.113.5''), naSoap = (\<lambda>_ _. None), naGateway = None, naPmpExternal = (\<lambda>_. None),
     naPmp = (\<lambda>_ _. None)\<rparr>"

definition demo_upnp :: UPnPClient where
  "demo_upnp = \<lparr>upGateway = IGDv1_IP1, upGatewayType = ''IGDv1-IP1'', upLocalIP = ''192.168.1.7'', upExternalIP = ''203.0.113.5'',
     upMapped = [], upAsked = []\<rparr>"

lemma demo_nat_setup:
  "SetupNAT demo_nat (Some 5000) ''e1'' [] =
   Some (NatUPnP (demo_upnp\<lparr>upMapped := [(5000, ''UDP'')],
     upAsked := [MapRequest 5000 ''UDP'' 5000 ''192.168.1.7'' ''n2n-go/e1/IGDv1-IP1'' 0]\<rparr>))"
  by code_simp

theorem setup_holds_the_granted_port_witness:
  "\<exists>c. SetupNAT demo_nat (Some 5000) ''e1'' [] = Some (NatUPnP c) \<and> upLocalIP c = ''192.168.1.7'' \<and>
     upMapped c = [(5000, ''UDP'')] \<and> naSoap demo_nat (upGateway c) (hd (upAsked c)) = None"
  using setup_holds_the_granted_port [OF demo_nat_setup] demo_nat_setup by (auto simp: demo_upnp_def)

text \<open>A gateway that refuses to release port 7.\<close>

definition demo_stubborn :: nat_env where
  "demo_stubborn = demo_nat\<lparr>naSoap := (\<lambda>_ req. if req = UnmapRequest 7 ''TCP'' then Some ''ActionFailed'' else None)\<rparr>"

theorem cleanup_keeps_only_refused_witness:
  "(let u = CleanupAllMappings_upnp demo_stubborn (demo_upnp\<lparr>upMapped := [(5000, ''UDP''), (7, ''TCP'')]\<rparr>) in
    upAsked u = [UnmapRequest 5000 ''UDP'', UnmapRequest 7 ''TCP''] \<and>
    gget (upMapped u) 5000 = None \<and> gget (upMapped u) 7 = Some ''TCP'')"
  using cleanup_keeps_only_refused [of "demo_upnp\<lparr>upMapped := [(5000, ''UDP''), (7, ''TCP'')]\<rparr>"
      "\<lparr>pmGatewayIP = [10,0,0,1], pmLocalIP = ''10.0.0.2'', pmExternalIP = [], pmMapped = [], pmAsked = []\<rparr>" demo_stubborn 5000]
    cleanup_keeps_only_refused [of "demo_upnp\<lparr>upMapped := [(5000, ''UDP''), (7, ''TCP'')]\<rparr>"
      "\<lparr>pmGatewayIP = [10,0,0,1], pmLocalIP = ''10.0.0.2'', pmExternalIP = [], pmMapped = [], pmAsked = []\<rparr>" demo_stubborn 7]
  by (simp add: demo_upnp_def demo_stubborn_def demo_nat_def gwf_def gget_def upnp_released_def HasPrefix_def)

theorem second_protocol_is_forgotten_witness:
  "(let c2 = snd (AddPortMapping_upnp demo_nat ''tcp'' 5000 5000 ''b'' 0
      (snd (AddPortMapping_upnp demo_nat ''udp'' 5000 5000 ''a'' 0 demo_upnp))) in
    upMapped c2 = [(5000, ''TCP'')] \<and>
    UnmapRequest 5000 ''UDP'' \<notin> set (upAsked (CleanupAllMappings_upnp demo_nat c2)))"
  using second_protocol_is_forgotten [where c = demo_upnp and env = demo_nat and port = 5000 and inner = 5000
      and ?d1.0 = "''a''" and ?d2.0 = "''b''", OF _ _ _ prod.collapse [symmetric] prod.collapse [symmetric]]
  by (simp add: demo_upnp_def demo_nat_def Let_def)

end
