(* ===== verification/P2viz.thy ===== *)
theory P2viz
  imports P2P "HOL-Library.List_Lexorder" "HOL-Library.Char_ord" "HOL-Library.Multiset"
begin

text \<open>
  The graph of a community (\<^verbatim>\<open>pkg/p2p/p2viz.go\<close>, the templates it fills in and the functions of
  the peer registry that print it): the connections between peers as maps keyed by strings, the
  kind of link of each pair of peers, and the text in the language of graphviz. Rendering the text
  as an image is the graphviz library's and is not modelled; the Unicode part of
  \<^verbatim>\<open>strings.ToTitle\<close> is the parameter \<open>title\<close>.
\<close>

section \<open>Text\<close>

text \<open>In the literals below \<^verbatim>\<open>~\<close> stands for a double and \<^verbatim>\<open>^\<close> for a single quote.\<close>

definition dot_text :: "string \<Rightarrow> string" where
  "dot_text s = map (\<lambda>c. if c = CHR ''~'' then CHR 0x22 else if c = CHR ''^'' then CHR 0x27 else c) s"

definition dot_quote :: "string \<Rightarrow> string" where
  "dot_quote s = CHR 0x22 # s @ [CHR 0x22]"

definition nl :: string where "nl = [CHR 0x0A]"

definition dot_lines :: "string list \<Rightarrow> string" where
  "dot_lines ls = concat (map (\<lambda>l. dot_text l @ nl) ls)"

text \<open>\<^verbatim>\<open>strings.Split\<close> with a separator that is not empty.\<close>

function split_on :: "string \<Rightarrow> string \<Rightarrow> string \<Rightarrow> string list" where
  "split_on sep acc [] = [acc]"
| "split_on sep acc (c # s) =
     (if sep \<noteq> [] \<and> HasPrefix (c # s) sep then acc # split_on sep [] (drop (length sep) (c # s))
      else split_on sep (acc @ [c]) s)"
  by pat_completeness auto
termination by (relation "measure (\<lambda>(_, _, s). length s)") (auto simp: neq_Nil_conv)

definition Split :: "string \<Rightarrow> string \<Rightarrow> string list" where
  "Split s sep = split_on sep [] s"

section \<open>Templates\<close>

definition header :: "string \<Rightarrow> string" where
  "header title =
     nl @ dot_lines [''digraph G {'', ''    graph [fontname = ~courier new~ inputscale=0];''] @
     dot_text ''    label=<<font point-size=~22~><b>'' @ title @
     dot_lines [''</b>^s Network<br align=~center~/></font>>'', ''    labelloc=~t~'', ''    fontsize=28'', ''    center=true'',
       ''    node [fontname = ~courier new~ fontsize=11 shape=underline];'', ''    edge [fontname = ~courier new~ len=4.5]'', '''',
       ''   bgcolor=transparent;'', ''   splines=true'', ''   layout=neato'', ''  normalize=-90''] @ '' ''"

definition offlinegraph :: "string \<Rightarrow> string" where
  "offlinegraph nodes =
     nl @ dot_lines [''digraph G {'', ''label=<<br/><font point-size=~22~>Offline Peers<br align=~center~/></font>>'', ''    rankdir=LR'',
       ''    graph [fontname = ~courier new~ inputscale=0];'', ''    labelloc=~t~'', ''    fontsize=16'', ''    center=true'',
       ''    node [fontname = ~courier new~ fontsize=11 shape=plain];'', ''    edge [fontname = ~courier new~ len=4.5]'',
       ''   bgcolor=transparent;'', '' fontsize=9'', '' fontname = ~courier new~'', '' '', '' rank = same {''] @
     '' '' @ nodes @ nl @ dot_lines ['' }'', ''}'']"

definition legend :: string where
  "legend =
     nl @ dot_lines [''digraph G {'', ''    rankdir=LR''] @
     CHR 0x09 # dot_lines [''label=<<font point-size=~22~>Legend<br align=~center~/></font>>''] @
     CHR 0x09 # dot_lines [''labelloc=~t~'', ''    fontsize=16'', ''    center=true'', ''    node [fontname = ~courier new~];'',
       ''    edge [fontsize=11 fontname=~courier new~];'', '' '', '''', ''    fontsize=11'', ''    fontname = ~courier new~'', ''    node [shape=plain];'',
       ''    A -> B [label=~Supernode I/O (no P2P)~ style=~dashed~  arrowhead=none, color=grey len=3.0]'',
       ''    C -> D [label=~Half Direct Connection~ color=orange,style=bold len=3.0]'',
       ''    E -> F [label=~Full Duplex P2P~ dir=both,style=bold, color=green]'', '''',
       ''  A [label=~ ~]'', ''  B [label=~ ~]'', ''  C [label=~ ~]'', ''  D [label=~ ~]'', ''  E [label=~ ~]'', ''  F [label=~ ~]'', ''}'']"

section \<open>Keys\<close>

type_synonym PeerDirectedPairKey = string
type_synonym PeerPairKey = string

datatype key_error = BogusKey

definition newPeerDirectedPairKey :: "string \<Rightarrow> string \<Rightarrow> PeerDirectedPairKey" where
  "newPeerDirectedPairKey from to = from @ ''->'' @ to"

definition two_parts :: "string list \<Rightarrow> (key_error, string \<times> string) res" where
  "two_parts peers = (case peers of a # b # _ \<Rightarrow> Ok (a, b) | _ \<Rightarrow> Fail BogusKey)"

definition GetDirectedPeers :: "PeerDirectedPairKey \<Rightarrow> (key_error, string \<times> string) res" where
  "GetDirectedPeers k = two_parts (Split k ''->'')"

definition newPeerPairKey :: "string \<Rightarrow> string \<Rightarrow> PeerPairKey" where
  "newPeerPairKey peerA peerB = (if peerA < peerB then peerA @ '','' @ peerB else peerB @ '','' @ peerA)"

definition ToPeerPairKey :: "PeerDirectedPairKey \<Rightarrow> (key_error, PeerPairKey) res" where
  "ToPeerPairKey k = res_bind (GetDirectedPeers k) (\<lambda>(from, to). Ok (newPeerPairKey from to))"

definition getPeers :: "PeerPairKey \<Rightarrow> (key_error, string \<times> string) res" where
  "getPeers k = two_parts (Split k '','')"

section \<open>Connections\<close>

datatype ConnectionType = FullP2P | PartialP2P_AtoB | PartialP2P_BtoA | NoP2P

record ConnectionInfo =
  cnStatus :: P2PCapacity
  cnFromPeer :: string
  cnToPeer :: string

record CommunityP2PVizDatas =
  vzCommunityName :: string
  vzPeersDescToVIP :: "(string, string) gomap"
  vzP2PAvailabilityInfos :: "(string, PeerP2PInfos) gomap"
  vzConnectionData :: "(PeerDirectedPairKey, ConnectionInfo) gomap"
  vzPeerPairs :: "(PeerPairKey, bool) gomap"
  vzP2PStates :: "(PeerPairKey, ConnectionType) gomap"

text \<open>The getters of a message that is nil give the zero value.\<close>

definition from_desc :: "PeerP2PInfos \<Rightarrow> string" where
  "from_desc i = (case ppFrom i of None \<Rightarrow> [] | Some p \<Rightarrow> piDesc p)"

definition from_vip :: "PeerP2PInfos \<Rightarrow> string" where
  "from_vip i = (case ppFrom i of None \<Rightarrow> [] | Some p \<Rightarrow> piVirtualIp p)"

definition add_connection :: "string \<Rightarrow> PeerInfo \<Rightarrow> (PeerDirectedPairKey, ConnectionInfo) gomap \<Rightarrow> (PeerDirectedPairKey, ConnectionInfo) gomap" where
  "add_connection fromID toPeer cd =
     gput cd (newPeerDirectedPairKey fromID (piDesc toPeer)) \<lparr>cnStatus = P2PUnknown, cnFromPeer = fromID, cnToPeer = piDesc toPeer\<rparr>"

definition add_peer :: "PeerP2PInfos \<Rightarrow>
    (string, string) gomap \<times> (PeerDirectedPairKey, ConnectionInfo) gomap \<Rightarrow>
    (string, string) gomap \<times> (PeerDirectedPairKey, ConnectionInfo) gomap" where
  "add_peer i = (\<lambda>(vips, cd). (gput vips (from_desc i) (from_vip i), fold (add_connection (from_desc i)) (ppTo i) cd))"

definition getConnectionType :: "string \<Rightarrow> string \<Rightarrow> (PeerDirectedPairKey, ConnectionInfo) gomap \<Rightarrow> ConnectionType" where
  "getConnectionType peerA peerB cd =
     (let available = (\<lambda>k. case gget cd k of Some i \<Rightarrow> cnStatus i = P2PAvailable | None \<Rightarrow> False);
          aToB = available (newPeerDirectedPairKey peerA peerB);
          bToA = available (newPeerDirectedPairKey peerB peerA)
      in if aToB \<and> bToA then FullP2P
         else if aToB \<and> \<not> bToA then PartialP2P_AtoB
         else if \<not> aToB \<and> bToA then PartialP2P_BtoA
         else NoP2P)"

fun collect_pairs :: "PeerDirectedPairKey list \<Rightarrow> (PeerPairKey, bool) gomap \<Rightarrow> (key_error, (PeerPairKey, bool) gomap) res" where
  "collect_pairs [] pairs = Ok pairs"
| "collect_pairs (k # ks) pairs = res_bind (ToPeerPairKey k) (\<lambda>p. collect_pairs ks (gput pairs p True))"

fun collect_states :: "(PeerDirectedPairKey, ConnectionInfo) gomap \<Rightarrow> PeerPairKey list \<Rightarrow> (PeerPairKey, ConnectionType) gomap \<Rightarrow>
    (key_error, (PeerPairKey, ConnectionType) gomap) res" where
  "collect_states cd [] states = Ok states"
| "collect_states cd (k # ks) states =
     res_bind (getPeers k) (\<lambda>(a, b). collect_states cd ks (gput states k (getConnectionType a b cd)))"

definition NewCommunityP2PVizDatas :: "string \<Rightarrow> (string, PeerP2PInfos) gomap \<Rightarrow> (key_error, CommunityP2PVizDatas) res" where
  "NewCommunityP2PVizDatas community peerInfos =
     (let (vips, cd) = fold add_peer (map snd peerInfos) ([], []) in
      res_bind (collect_pairs (map fst cd) []) (\<lambda>pairs.
      res_bind (collect_states cd (map fst pairs) []) (\<lambda>states.
        Ok \<lparr>vzCommunityName = community, vzPeersDescToVIP = vips, vzP2PAvailabilityInfos = peerInfos,
            vzConnectionData = cd, vzPeerPairs = pairs, vzP2PStates = states\<rparr>)))"

section \<open>Graphs\<close>

definition sn_edge :: "bool \<Rightarrow> string \<Rightarrow> string" where
  "sn_edge reverse k =
     (let (a, b) = (if reverse then (''sn'', k) else (k, ''sn'')) in
      nl @ dot_quote a @ '' -> '' @ dot_quote b @ dot_text '' [style=~dashed~  arrowhead=none, color=grey]'')"

fun sn_edges :: "bool \<Rightarrow> string list \<Rightarrow> string" where
  "sn_edges reverse [] = []"
| "sn_edges reverse (k # ks) = sn_edge reverse k @ sn_edges (\<not> reverse) ks"

definition snPeerEdges :: "(string, string) gomap \<Rightarrow> string" where
  "snPeerEdges ids = ''# to supernodes'' @ sn_edges False (sort (map fst ids)) @ nl"

definition peer_edge :: "(PeerPairKey, ConnectionType) gomap \<Rightarrow> PeerPairKey \<Rightarrow> string" where
  "peer_edge connections k =
     (let (a, b) = (case getPeers k of Inr p \<Rightarrow> p | Inl _ \<Rightarrow> ([], []));
          arrow = (\<lambda>x y. nl @ dot_quote x @ '' -> '' @ dot_quote y)
      in case gget connections k of
           Some FullP2P \<Rightarrow> arrow a b @ ''[dir=both,style=bold, color=green]''
         | Some PartialP2P_AtoB \<Rightarrow> arrow a b @ ''[color=orange,style=bold]''
         | Some PartialP2P_BtoA \<Rightarrow> arrow b a @ ''[color=orange,style=bold]''
         | _ \<Rightarrow> [])"

definition peerEdges :: "(PeerPairKey, ConnectionType) gomap \<Rightarrow> string" where
  "peerEdges connections = concat (map (peer_edge connections) (sort (map fst connections))) @ nl"

definition laptop :: string where "laptop = [CHR 0xF0, CHR 0x9F, CHR 0x92, CHR 0xBB]"

definition peer_node :: "(string, string) gomap \<Rightarrow> string \<Rightarrow> string" where
  "peer_node labels k =
     nl @ '' '' @ dot_quote k @ dot_text '' [color=grey label=~'' @ laptop @
     (case gget labels k of Some v \<Rightarrow> v | None \<Rightarrow> []) @ [CHR 0x5C, CHR ''n''] @ k @ dot_text ''~]''"

definition peerNodes :: "(string, string) gomap \<Rightarrow> string" where
  "peerNodes labels =
     ''# supernode def'' @ nl @
     dot_text ''~sn~ [shape=rectangle,style=~rounded,bold~ color=~#FFB0B0~ label=~SUPER'' @ [CHR 0x5C] @ dot_text ''nNODE~ pos=~60,0!~]'' @ nl @ nl @
     '' # nodedefs'' @ concat (map (peer_node labels) (sort (map fst labels))) @ nl @ ''}'' @ nl"

definition genHeader :: "(string \<Rightarrow> string) \<Rightarrow> string \<Rightarrow> string" where
  "genHeader title community = header (title community)"

definition GenerateP2PGraphviz :: "(string \<Rightarrow> string) \<Rightarrow> CommunityP2PVizDatas \<Rightarrow> string" where
  "GenerateP2PGraphviz title cs =
     genHeader title (vzCommunityName cs) @ nl @ snPeerEdges (vzPeersDescToVIP cs) @ nl @
     peerEdges (vzP2PStates cs) @ nl @ peerNodes (vzPeersDescToVIP cs) @ nl"

definition add_offline :: "string \<Rightarrow> string \<Rightarrow> string \<Rightarrow> string" where
  "add_offline s desc ip =
     s @ nl @ dot_quote desc @
     dot_text '' [color=grey label=<<table BORDER=~0~ CELLBORDER=~0~><tr><TD ROWSPAN=~3~><img src=~/static/cloud.png~/></TD><td align=~left~>'' @
     desc @ dot_text ''</td></tr><tr><TD align=~left~>'' @ ip @ ''</TD></tr></table>>]''"

definition P2VizGenOfflinesDot :: "(string, PeerCachedInfo) gomap \<Rightarrow> string" where
  "P2VizGenOfflinesDot offlines =
     offlinegraph (fold (\<lambda>k s. case gget offlines k of
                            Some i \<Rightarrow> add_offline s (pcDesc i) (pcVirtualIp i)
                          | None \<Rightarrow> add_offline s [] []) (sort (map fst offlines)) [])"

definition GenPeersDot :: "(string \<Rightarrow> string) \<Rightarrow> PeerRegistry \<Rightarrow> string" where
  "GenPeersDot title reg =
     (case rgReachables reg of
        None \<Rightarrow> []
      | Some infos \<Rightarrow>
          (case NewCommunityP2PVizDatas (rgCommunityName reg) infos of
             Inl _ \<Rightarrow> []
           | Inr cp2p \<Rightarrow> GenerateP2PGraphviz title cp2p))"

definition GenOfflinesDot :: "PeerRegistry \<Rightarrow> string" where
  "GenOfflinesDot reg = (case rgUnReachables reg of None \<Rightarrow> [] | Some u \<Rightarrow> P2VizGenOfflinesDot u)"

section \<open>Keys can be taken apart\<close>

lemma split_on_not_Nil [simp]: "split_on sep acc s \<noteq> []"
  by (induction sep acc s rule: split_on.induct) simp_all

lemma split_on_two:
  "sep \<noteq> [] \<Longrightarrow> Contains s sep \<Longrightarrow> \<exists>a b r. split_on sep acc s = a # b # r"
proof (induction sep acc s rule: split_on.induct)
  case (2 sep acc c s)
  show ?case
  proof (cases "HasPrefix (c # s) sep")
    case True
    obtain b r where "split_on sep [] (drop (length sep) (c # s)) = b # r"
      using split_on_not_Nil by (cases "split_on sep [] (drop (length sep) (c # s))") blast+
    then show ?thesis using True "2.prems"(1) by simp
  qed (use 2 in simp)
qed simp

lemma HasPrefix_Contains: "HasPrefix s p \<Longrightarrow> Contains s p"
  by (cases s) (auto simp: HasPrefix_def)

lemma Contains_middle: "Contains (a @ sep @ b) sep"
proof (induction a)
  case Nil
  show ?case using HasPrefix_Contains [of "sep @ b" sep] by (simp add: HasPrefix_def)
qed simp

lemma two_parts_Split:
  assumes "sep \<noteq> []" "Contains s sep"
  obtains p where "two_parts (Split s sep) = Ok p"
  using split_on_two [OF assms, of "[]"] by (auto simp: two_parts_def Split_def)

lemma split_on_first:
  assumes "sep \<noteq> []" "\<And>u v. a = u @ v \<Longrightarrow> v \<noteq> [] \<Longrightarrow> \<not> HasPrefix (v @ sep @ b) sep"
  shows "split_on sep acc (a @ sep @ b) = (acc @ a) # split_on sep [] b"
  using assms(2)
proof (induction a arbitrary: acc)
  case Nil
  then show ?case using assms(1) by (cases sep) (simp_all add: HasPrefix_def)
next
  case (Cons c a)
  have "\<not> HasPrefix (c # a @ sep @ b) sep" using Cons.prems [of "[]" "c # a"] by simp
  moreover have "\<not> HasPrefix (v @ sep @ b) sep" if "a = u @ v" "v \<noteq> []" for u v
    using Cons.prems [of "c # u" v] that by simp
  ultimately show ?case using Cons.IH by simp
qed

lemma split_on_none: "sep \<noteq> [] \<Longrightarrow> \<not> Contains b sep \<Longrightarrow> split_on sep acc b = [acc @ b]"
  by (induction sep acc b rule: split_on.induct) (auto split: if_splits)

lemma Contains_suffix: "Contains v sep \<Longrightarrow> Contains (u @ v) sep"
  by (induction u) simp_all

lemma directed_key_parts:
  assumes "\<not> Contains a ''->''" "\<not> Contains b ''->''"
  shows "GetDirectedPeers (newPeerDirectedPairKey a b) = Ok (a, b)"
proof -
  have "\<not> HasPrefix (v @ ''->'' @ b) ''->''" if "a = u @ v" "v \<noteq> []" for u v
  proof
    assume h: "HasPrefix (v @ ''->'' @ b) ''->''"
    then have "HasPrefix v ''->''" using that(2) by (cases v; cases "tl v") (auto simp: HasPrefix_def)
    then show False using assms(1) that(1) Contains_suffix HasPrefix_Contains by metis
  qed
  then show ?thesis using split_on_first [of "''->''" a b "[]"] split_on_none [OF _ assms(2), of "[]"]
    by (simp add: GetDirectedPeers_def newPeerDirectedPairKey_def Split_def two_parts_def)
qed

lemma pair_key_parts:
  assumes "CHR '','' \<notin> set a" "CHR '','' \<notin> set b"
  shows "getPeers (newPeerPairKey a b) = Ok (min a b, max a b)"
proof -
  have c: "Contains x '','' \<longleftrightarrow> CHR '','' \<in> set x" for x by (induction x) (auto simp: HasPrefix_def)
  have "getPeers (x @ '','' @ y) = Ok (x, y)" if "CHR '','' \<notin> set x" "CHR '','' \<notin> set y" for x y
    using split_on_first [of "'',''" x y "[]"] split_on_none [of "'',''" y "[]"] that c [of y]
    by (fastforce simp: getPeers_def Split_def two_parts_def HasPrefix_def neq_Nil_conv)
  then show ?thesis using assms by (auto simp: newPeerPairKey_def min_def max_def)
qed

section \<open>What the graph shows\<close>

lemma set_gput: "set (gput m k v) \<subseteq> insert (k, v) (set m)"
  by (induction m) (auto simp: gput_def)

definition unknown_connections :: "(PeerDirectedPairKey, ConnectionInfo) gomap \<Rightarrow> bool" where
  "unknown_connections cd = list_all (\<lambda>(k, i). Contains k ''->'' \<and> cnStatus i = P2PUnknown) cd"

lemma unknown_connections_add: "unknown_connections cd \<Longrightarrow> unknown_connections (add_connection a p cd)"
  using set_gput Contains_middle [of a "''->''"]
  by (fastforce simp: unknown_connections_def add_connection_def newPeerDirectedPairKey_def list_all_iff)

lemma unknown_connections_fold: "unknown_connections cd \<Longrightarrow> unknown_connections (fold (add_connection a) ps cd)"
  by (induction ps arbitrary: cd) (simp_all add: unknown_connections_add)

lemma unknown_connections_peers: "unknown_connections (snd vc) \<Longrightarrow> unknown_connections (snd (fold add_peer is vc))"
proof (induction "is" arbitrary: vc)
  case (Cons i "is")
  have "unknown_connections (snd (add_peer i vc))"
    using Cons.prems by (cases vc) (simp add: add_peer_def unknown_connections_fold)
  then show ?case using Cons.IH by simp
qed simp

lemma unknown_is_NoP2P: "unknown_connections cd \<Longrightarrow> getConnectionType a b cd = NoP2P"
  by (fastforce simp: getConnectionType_def unknown_connections_def list_all_iff gget_def Let_def
      dest: map_of_SomeD split: option.splits)

lemma collect_pairs_Ok:
  assumes "list_all (\<lambda>k. Contains k ''->'') ks" "list_all (\<lambda>(k, _). Contains k '','') pairs"
  shows "\<exists>r. collect_pairs ks pairs = Ok r \<and> list_all (\<lambda>(k, _). Contains k '','') r"
  using assms
proof (induction ks arbitrary: pairs)
  case (Cons k ks)
  obtain a b where g: "GetDirectedPeers k = Ok (a, b)"
    using Cons.prems(1) two_parts_Split [of "''->''" k] by (fastforce simp: GetDirectedPeers_def)
  have "Contains (newPeerPairKey a b) '',''"
    using Contains_middle [of _ "'',''"] by (simp add: newPeerPairKey_def)
  then have "list_all (\<lambda>(k, _). Contains k '','') (gput pairs (newPeerPairKey a b) True)"
    using Cons.prems(2) set_gput by (fastforce simp: list_all_iff)
  then show ?case using Cons g by (simp add: ToPeerPairKey_def)
qed simp

lemma collect_states_Ok:
  assumes "unknown_connections cd" "list_all (\<lambda>k. Contains k '','') ks" "list_all (\<lambda>(_, t). t = NoP2P) st"
  shows "\<exists>r. collect_states cd ks st = Ok r \<and> list_all (\<lambda>(_, t). t = NoP2P) r"
  using assms(2,3)
proof (induction ks arbitrary: st)
  case (Cons k ks)
  obtain a b where "getPeers k = Ok (a, b)"
    using Cons.prems(1) two_parts_Split [of "'',''" k] by (fastforce simp: getPeers_def)
  moreover have "list_all (\<lambda>(_, t). t = NoP2P) (gput st k NoP2P)"
    using Cons.prems(2) set_gput by (fastforce simp: list_all_iff)
  ultimately show ?case using Cons by (simp add: unknown_is_NoP2P [OF assms(1)])
qed simp

lemma peerEdges_none: "list_all (\<lambda>(_, t). t = NoP2P) st \<Longrightarrow> peerEdges st = nl"
proof -
  assume "list_all (\<lambda>(_, t). t = NoP2P) st"
  then have n: "gget st k = None \<or> gget st k = Some NoP2P" for k
    by (cases "gget st k") (auto simp: gget_def list_all_iff dest: map_of_SomeD)
  have "peer_edge st k = []" for k using n [of k] by (auto simp: peer_edge_def Let_def split: prod.splits)
  then have "peer_edge st = (\<lambda>_. [])" by (intro ext)
  then show ?thesis by (simp add: peerEdges_def)
qed

text \<open>C32. The graph never shows a direct link. Whatever the peers have reported, the construction
  succeeds, but it records every connection with the status unknown, so every pair of peers is
  classified as not connected and the section with the links is an empty line.\<close>

theorem graph_shows_no_direct_link:
  "\<exists>d. NewCommunityP2PVizDatas community infos = Ok d \<and>
     list_all (\<lambda>(_, t). t = NoP2P) (vzP2PStates d) \<and>
     GenerateP2PGraphviz title d =
       header (title community) @ nl @ snPeerEdges (vzPeersDescToVIP d) @ nl @ nl @ nl @ peerNodes (vzPeersDescToVIP d) @ nl"
proof -
  obtain vips cd where f: "fold add_peer (map snd infos) ([], []) = (vips, cd)" by fastforce
  have u: "unknown_connections cd"
    using unknown_connections_peers [of "([], [])" "map snd infos"] f by (simp add: unknown_connections_def)
  then have "list_all (\<lambda>k. Contains k ''->'') (map fst cd)" by (auto simp: unknown_connections_def list_all_iff)
  from collect_pairs_Ok [OF this, of "[]"] obtain pairs where
    p: "collect_pairs (map fst cd) [] = Ok pairs" "list_all (\<lambda>(k, _). Contains k '','') pairs" by auto
  then have "list_all (\<lambda>k. Contains k '','') (map fst pairs)" by (auto simp: list_all_iff)
  from collect_states_Ok [OF u this, of "[]"] obtain states where
    s: "collect_states cd (map fst pairs) [] = Ok states" "list_all (\<lambda>(_, t). t = NoP2P) states" by auto
  show ?thesis using f p s by (simp add: NewCommunityP2PVizDatas_def GenerateP2PGraphviz_def genHeader_def peerEdges_none)
qed

text \<open>Two iteration orders of the same map give the same text.\<close>

lemma same_map:
  assumes "gwf m" "mset m = mset m'"
  shows "sort (map fst m) = sort (map fst m')" "gget m = gget m'"
proof -
  have "mset (map fst m) = mset (map fst m')" using assms(2) by (metis mset_map)
  then show "sort (map fst m) = sort (map fst m')" by (metis sorted_list_of_multiset_mset)
  have "distinct (map fst m')" using assms \<open>mset (map fst m) = mset (map fst m')\<close>
    by (metis gwf_def mset_eq_imp_distinct_iff)
  moreover have "distinct (map fst m)" using assms(1) by (simp add: gwf_def)
  ultimately have "map_of m = map_of m'" using map_of_inject_set mset_eq_setD [OF assms(2)] by blast
  then show "gget m = gget m'" by (intro ext) (simp add: gget_def)
qed


definition demo_graph :: "bool \<Rightarrow> CommunityP2PVizDatas" where
  "demo_graph swap =
     \<lparr>vzCommunityName = ''lan'', vzPeersDescToVIP = (if swap then rev else id) [(''a'', ''10.0.0.2''), (''b'', ''10.0.0.3'')],
      vzP2PAvailabilityInfos = [], vzConnectionData = [], vzPeerPairs = [], vzP2PStates = [(''a,b'', FullP2P)]\<rparr>"


end
