(* ===== verification/Transport.thy ===== *)
theory Transport
  imports Netaddr Machine
begin

text \<open>
  The WebSocket transport (\<^verbatim>\<open>pkg/transport/wss.go\<close>): the checks and settings of a new connection,
  the kinds of proxies with the handshakes the package speaks itself (SOCKS5 over TLS and CONNECT
  over TLS), and reading, writing and closing.

  A connection to a proxy is a list of chunks, what the successive reads of the other side's bytes
  give, and the way it ends; what is written is recorded. The record \<open>tr_env\<close> is what lies outside:
  the certificate files, name resolution, the TLS dialer and the WebSocket library.
\<close>

section \<open>Connections\<close>

datatype stream_end = StreamEOF | StreamError

record net_conn =
  ncIn :: "bytes list"
  ncEnd :: stream_end
  ncOut :: "bytes list"
  ncClosed :: bool

datatype ws_error =
    InvalidURL | CertFailed | ProxyFailed | WsDialFailed | UnexpectedStatus
  | ProxyUnreachable | ProxyWriteFailed | ProxyReadFailed | LineTooLong | ProxyRefused
  | MethodsNotSent | MethodNotRead | BadSocksVersion | NoAuthMethod | TargetNotResolved
  | RequestNotSent | ReplyNotRead | BadReplyVersion | SocksRefused
  | WsReadFailed | NotBinary | WebsocketPanic | WsWriteFailed | WsCloseFailed

type_synonym 'a trm = "(net_conn, ws_error, 'a) op"

record tls_config =
  tcInsecureSkipVerify :: bool
  tcCertificate :: bool

datatype proxy_kind = NoProxy | ViaSocks string | ViaSocksTLS string | ViaHTTP string | ViaHTTPS string

datatype dial_result = Dialed int string | DialError

datatype ws_message = WsError | WsPanic | WsBinary bytes | WsOther int

record tr_env =
  teCert :: "string \<Rightarrow> string \<Rightarrow> bool"
  teSocks :: "string \<Rightarrow> bool"
  teResolve :: "string \<Rightarrow> udp_addr option"
  teTLS :: "string \<Rightarrow> net_conn option"
  teWrite :: "bytes \<Rightarrow> bool"
  teDial :: "tls_config option \<Rightarrow> proxy_kind \<Rightarrow> string \<Rightarrow> dial_result"

definition conn_write :: "tr_env \<Rightarrow> ws_error \<Rightarrow> bytes \<Rightarrow> unit trm" where
  "conn_write env err b c = (if teWrite env b then (Ok (), c\<lparr>ncOut := ncOut c @ [b]\<rparr>) else (Fail err, c))"

text \<open>\<^verbatim>\<open>conn.Read\<close> into a fresh buffer of \<open>n\<close> bytes: one chunk at most; what does not fit stays.\<close>

definition conn_read :: "ws_error \<Rightarrow> nat \<Rightarrow> bytes trm" where
  "conn_read err n c =
     (case ncIn c of
        [] \<Rightarrow> (Fail err, c)
      | b # bs \<Rightarrow> (Ok (go_copy (replicate n 0) b), c\<lparr>ncIn := (if length b \<le> n then bs else drop n b # bs)\<rparr>))"

definition conn_close :: "net_conn \<Rightarrow> net_conn" where
  "conn_close c = c\<lparr>ncClosed := True\<rparr>"

section \<open>SOCKS5\<close>

definition socks5_methods :: bytes where "socks5_methods = [0x05, 0x01, 0x00]"

definition socks5_address :: "ip_addr \<Rightarrow> bytes" where
  "socks5_address ip =
     (case To4 ip of
        Some v \<Rightarrow> [0x05, 0x01, 0x00, 0x01] @ v
      | None \<Rightarrow>
          if length ip = 16 then [0x05, 0x01, 0x00, 0x04] @ ip
          else let host = str_bytes (ip_string ip) in [0x05, 0x01, 0x00, 0x03, of_nat (length host)] @ host)"

definition socks5_request :: "udp_addr \<Rightarrow> bytes" where
  "socks5_request a = socks5_address (uIP a) @ [word_of_int (uPort a div 256), word_of_int (uPort a)]"

definition socks5Handshake :: "tr_env \<Rightarrow> string \<Rightarrow> unit trm" where
  "socks5Handshake env targetAddr =
     st_then (conn_write env MethodsNotSent socks5_methods) (\<lambda>_.
     st_then (conn_read MethodNotRead 2) (\<lambda>response c.
       if response ! 0 \<noteq> 0x05 then (Fail BadSocksVersion, c)
       else if response ! 1 = 0xFF then (Fail NoAuthMethod, c)
       else case teResolve env targetAddr of
         None \<Rightarrow> (Fail TargetNotResolved, c)
       | Some a \<Rightarrow>
           st_then (conn_write env RequestNotSent (socks5_request a)) (\<lambda>_.
           st_then (conn_read ReplyNotRead 10) (\<lambda>resp c.
             if resp ! 0 \<noteq> 0x05 then (Fail BadReplyVersion, c)
             else if resp ! 1 \<noteq> 0 then (Fail SocksRefused, c)
             else (Ok (), c))) c))"

section \<open>CONNECT\<close>

definition lf :: byte where "lf = 0x0A"
definition cr :: byte where "cr = 0x0D"
definition crlf :: string where "crlf = [CHR 0x0D, CHR 0x0A]"

definition connect_request :: "string \<Rightarrow> string" where
  "connect_request addr =
     ''CONNECT '' @ addr @ '' HTTP/1.1'' @ crlf @ ''Host: '' @ addr @ crlf @ ''Proxy-Connection: Keep-Alive'' @ crlf @ crlf"

definition trim_cr :: "bytes \<Rightarrow> bytes" where
  "trim_cr l = (if l \<noteq> [] \<and> last l = cr then butlast l else l)"

text \<open>
  \<^verbatim>\<open>bufio.Scanner\<close> with lines: the next line, if there is one, what is left in the buffer and
  what is left to read. A chunk is what one read of the scanner gives. A line that fills the
  buffer of 64 KB is an error. At the end of the stream the last line need not end with a newline;
  when the connection fails instead, the caller reports the failure whatever that line is.
\<close>

fun scan_line :: "stream_end \<Rightarrow> bytes \<Rightarrow> bytes list \<Rightarrow> (ws_error, bytes option) res \<times> bytes \<times> bytes list" where
  "scan_line fin buf [] =
     (if lf \<in> set buf then
        (Ok (Some (trim_cr (takeWhile (\<lambda>b. b \<noteq> lf) buf))), tl (dropWhile (\<lambda>b. b \<noteq> lf) buf), [])
      else if 65536 \<le> length buf then (Fail LineTooLong, buf, [])
      else if fin = StreamError then (Fail ProxyReadFailed, [], [])
      else if buf \<noteq> [] then (Ok (Some (trim_cr buf)), [], []) else (Ok None, [], []))"
| "scan_line fin buf (c # cs) =
     (if lf \<in> set buf then
        (Ok (Some (trim_cr (takeWhile (\<lambda>b. b \<noteq> lf) buf))), tl (dropWhile (\<lambda>b. b \<noteq> lf) buf), c # cs)
      else if 65536 \<le> length buf then (Fail LineTooLong, buf, c # cs)
      else scan_line fin (buf @ c) cs)"

definition pending :: "bytes \<Rightarrow> bytes list \<Rightarrow> nat" where
  "pending buf chunks = length buf + sum_list (map length chunks)"

lemma rest_shorter: "lf \<in> set buf \<Longrightarrow> length (tl (dropWhile (\<lambda>b. b \<noteq> lf) buf)) < length buf"
  by (induction buf) auto

lemma scan_line_shrinks: "scan_line fin buf chunks = (Ok (Some l), buf', chunks') \<Longrightarrow> pending buf' chunks' < pending buf chunks"
proof (induction fin buf chunks rule: scan_line.induct)
  case (1 fin buf)
  then show ?case using rest_shorter [of buf] by (auto simp: pending_def split: if_splits)
next
  case (2 fin buf c cs)
  show ?case
  proof (cases "lf \<in> set buf")
    case True
    then show ?thesis using "2.prems" rest_shorter [of buf] by (auto simp: pending_def)
  next
    case False
    with 2 show ?thesis by (auto simp: pending_def split: if_splits)
  qed
qed

text \<open>The loop over the lines of the answer keeps the first one; it ends at an empty line or with the
  stream. What the scanner has read beyond the empty line is lost with it.\<close>

function read_status :: "stream_end \<Rightarrow> bytes option \<Rightarrow> bytes \<Rightarrow> bytes list \<Rightarrow> (ws_error, bytes) res \<times> bytes list" where
  "read_status fin status buf chunks =
     (case scan_line fin buf chunks of
        (Inl e, _, rest) \<Rightarrow> (Inl e, rest)
      | (Inr None, _, rest) \<Rightarrow> (Ok (case status of None \<Rightarrow> [] | Some l \<Rightarrow> l), rest)
      | (Inr (Some line), buf', rest) \<Rightarrow>
          if line = [] then (Ok (case status of None \<Rightarrow> [] | Some l \<Rightarrow> l), rest)
          else read_status fin (case status of None \<Rightarrow> Some line | Some l \<Rightarrow> Some l) buf' rest)"
  by pat_completeness auto
termination
  by (relation "measure (\<lambda>(_, _, buf, chunks). pending buf chunks)") (auto simp: scan_line_shrinks dest: sym)

declare read_status.simps [simp del]

definition close_on_error :: "'a trm \<Rightarrow> 'a trm" where
  "close_on_error f c = (case f c of (Inl e, c') \<Rightarrow> (Inl e, conn_close c') | (Inr x, c') \<Rightarrow> (Inr x, c'))"

definition read_answer :: "bytes trm" where
  "read_answer c = (case read_status (ncEnd c) None [] (ncIn c) of (r, rest) \<Rightarrow> (r, c\<lparr>ncIn := rest\<rparr>))"

definition connect_https :: "tr_env \<Rightarrow> string \<Rightarrow> unit trm" where
  "connect_https env addr =
     close_on_error
       (st_then (conn_write env ProxyWriteFailed (str_bytes (connect_request addr))) (\<lambda>_.
        st_then read_answer (\<lambda>statusLine c.
          if take 10 statusLine \<noteq> str_bytes ''HTTP/1.1 2'' then (Fail ProxyRefused, c) else (Ok (), c))))"

definition connect_socks :: "tr_env \<Rightarrow> string \<Rightarrow> unit trm" where
  "connect_socks env addr = close_on_error (socks5Handshake env addr)"

text \<open>The dialers that the package installs: the connection to the proxy and the handshake on it.\<close>

definition dial_proxy :: "tr_env \<Rightarrow> (tr_env \<Rightarrow> string \<Rightarrow> unit trm) \<Rightarrow> string \<Rightarrow> string \<Rightarrow> (ws_error, unit) res \<times> net_conn option" where
  "dial_proxy env handshake proxyHost addr =
     (case teTLS env proxyHost of
        None \<Rightarrow> (Fail ProxyUnreachable, None)
      | Some c \<Rightarrow> (case handshake env addr c of (r, c') \<Rightarrow> (r, Some c')))"

section \<open>New transports\<close>

definition configureProxy :: "tr_env \<Rightarrow> string \<Rightarrow> (ws_error, proxy_kind) res" where
  "configureProxy env proxyURL =
     (if HasPrefix proxyURL ''socks5://'' then
        (let addr = TrimPrefix proxyURL ''socks5://'' in if teSocks env addr then Ok (ViaSocks addr) else Fail ProxyFailed)
      else if HasPrefix proxyURL ''socks5s://'' then Ok (ViaSocksTLS (TrimPrefix proxyURL ''socks5s://''))
      else if HasPrefix proxyURL ''http://'' then Ok (ViaHTTP proxyURL)
      else if HasPrefix proxyURL ''https://'' then Ok (ViaHTTPS (TrimPrefix proxyURL ''https://''))
      else if proxyURL \<noteq> [] then Ok (ViaHTTP proxyURL)
      else Ok NoProxy)"

record WSSTransportConfig =
  wcURL :: string
  wcCertFile :: string
  wcKeyFile :: string
  wcSkipVerify :: bool
  wcProxyURL :: string

record WSSTransport =
  wtAddr :: string
  wtIsServer :: bool
  wtClosed :: bool

definition tls_setup :: "tr_env \<Rightarrow> WSSTransportConfig \<Rightarrow> (ws_error, tls_config option) res" where
  "tls_setup env config =
     (if HasPrefix (wcURL config) ''wss://'' then
        (if wcCertFile config \<noteq> [] \<and> wcKeyFile config \<noteq> [] then
           (if teCert env (wcCertFile config) (wcKeyFile config)
            then Ok (Some \<lparr>tcInsecureSkipVerify = wcSkipVerify config, tcCertificate = True\<rparr>) else Fail CertFailed)
         else Ok (Some \<lparr>tcInsecureSkipVerify = wcSkipVerify config, tcCertificate = False\<rparr>))
      else Ok None)"

definition NewWSSTransport :: "tr_env \<Rightarrow> WSSTransportConfig \<Rightarrow> (ws_error, WSSTransport) res" where
  "NewWSSTransport env config =
     (if \<not> HasPrefix (wcURL config) ''ws://'' \<and> \<not> HasPrefix (wcURL config) ''wss://'' then Fail InvalidURL
      else res_bind (tls_setup env config) (\<lambda>tls.
        res_bind (if wcProxyURL config \<noteq> [] then configureProxy env (wcProxyURL config) else Ok NoProxy) (\<lambda>proxy.
          case teDial env tls proxy (wcURL config) of
            DialError \<Rightarrow> Fail WsDialFailed
          | Dialed status remote \<Rightarrow>
              if status \<noteq> 101 then Fail UnexpectedStatus
              else Ok \<lparr>wtAddr = remote, wtIsServer = False, wtClosed = False\<rparr>)))"

definition NewWSSTransportFromConn :: "string \<Rightarrow> WSSTransport" where
  "NewWSSTransportFromConn remote = \<lparr>wtAddr = remote, wtIsServer = True, wtClosed = False\<rparr>"

section \<open>Messages\<close>

text \<open>\<^verbatim>\<open>Read\<close> gives the number of bytes, the buffer and the address; the library may panic on a
  connection that has failed before, which is recovered.\<close>

definition Read_wss :: "ws_message \<Rightarrow> bytes \<Rightarrow> WSSTransport \<Rightarrow> (ws_error, nat \<times> bytes \<times> string) res" where
  "Read_wss msg pkt t =
     (case msg of
        WsPanic \<Rightarrow> Fail WebsocketPanic
      | WsError \<Rightarrow> Fail WsReadFailed
      | WsOther _ \<Rightarrow> Fail NotBinary
      | WsBinary data \<Rightarrow> Ok (min (length pkt) (length data), go_copy pkt data, wtAddr t))"

definition Write_wss :: "(ws_message \<Rightarrow> bool) \<Rightarrow> bytes \<Rightarrow> (ws_error, nat \<times> ws_message) res" where
  "Write_wss accepts pkt = (if accepts (WsBinary pkt) then Ok (length pkt, WsBinary pkt) else Fail WsWriteFailed)"

definition Close_wss :: "bool \<Rightarrow> WSSTransport \<Rightarrow> (ws_error, unit) res \<times> WSSTransport" where
  "Close_wss closes t = (if closes then Ok () else Fail WsCloseFailed, t\<lparr>wtClosed := True\<rparr>)"

section \<open>Handshakes\<close>

lemma conn_write_ok: "teWrite env b \<Longrightarrow> conn_write env err b c = (Ok (), c\<lparr>ncOut := ncOut c @ [b]\<rparr>)"
  by (simp add: conn_write_def)

lemma conn_read_chunk:
  "ncIn c = b # bs \<Longrightarrow>
   conn_read err n c = (Ok (go_copy (replicate n 0) b), c\<lparr>ncIn := (if length b \<le> n then bs else drop n b # bs)\<rparr>)"
  by (simp add: conn_read_def)

lemma nth_go_copy: "i < length src \<Longrightarrow> i < length dst \<Longrightarrow> go_copy dst src ! i = src ! i"
  by (simp add: go_copy_def nth_append)

lemma closed_conn_ops [simp]:
  "ncClosed (snd (conn_write env err b c)) = ncClosed c" "ncClosed (snd (conn_read err n c)) = ncClosed c"
  "ncClosed (snd (read_answer c)) = ncClosed c" "ncClosed (conn_close c)"
  by (simp_all add: conn_write_def conn_read_def read_answer_def conn_close_def split: list.splits prod.splits)

lemma conn_ops_no_panic [simp]:
  "\<not> panics (fst (conn_write env err b c))" "\<not> panics (fst (conn_read err n c))"
  by (simp_all add: conn_write_def conn_read_def split: list.splits)

lemma scan_line_no_panic: "\<not> panics (fst (scan_line fin buf chunks))"
  by (induction fin buf chunks rule: scan_line.induct) simp_all

lemma read_status_no_panic: "\<not> panics (fst (read_status fin status buf chunks))"
proof (induction fin status buf chunks rule: read_status.induct)
  case (1 fin status buf chunks)
  obtain r buf' rest where s: "scan_line fin buf chunks = (r, buf', rest)" by (cases "scan_line fin buf chunks") auto
  then have "\<not> panics r" using scan_line_no_panic [of fin buf chunks] by simp
  show ?case
  proof (cases "\<exists>line. r = Ok (Some line) \<and> line \<noteq> []")
    case True
    then obtain line where l: "r = Ok (Some line)" "line \<noteq> []" by blast
    show ?thesis using 1 [of r "(buf', rest)" "Some line" line buf' rest] s l
      by (simp add: read_status.simps [of fin status buf chunks])
  next
    case False
    with s \<open>\<not> panics r\<close> show ?thesis
      by (auto simp: read_status.simps [of fin status buf chunks] panics_Inl split: sum.splits option.splits)
  qed
qed

lemma closed_st_then:
  assumes "ncClosed (snd (m c)) = ncClosed c" "\<not> panics (fst (m c))"
    and "\<And>x c'. m c = (Ok x, c') \<Longrightarrow> ncClosed (snd (f x c')) = ncClosed c' \<and> \<not> panics (fst (f x c'))"
  shows "ncClosed (snd (st_then m f c)) = ncClosed c \<and> \<not> panics (fst (st_then m f c))"
proof (cases "m c")
  case (Pair r c')
  then show ?thesis using assms by (cases r) (auto simp: st_then_def panics_def)
qed

lemma socks5Handshake_open:
  "ncClosed (snd (socks5Handshake env addr c)) = ncClosed c \<and> \<not> panics (fst (socks5Handshake env addr c))"
proof -
  let ?reply = "\<lambda>resp c. if resp ! 0 \<noteq> 0x05 then (Fail BadReplyVersion, c)
    else if resp ! 1 \<noteq> 0 then (Fail SocksRefused, c) else (Ok (), c :: net_conn)"
  let ?req = "\<lambda>a. st_then (conn_write env RequestNotSent (socks5_request a)) (\<lambda>_. st_then (conn_read ReplyNotRead 10) ?reply)"
  let ?choice = "\<lambda>response c. if response ! 0 \<noteq> 0x05 then (Fail BadSocksVersion, c)
    else if response ! 1 = 0xFF then (Fail NoAuthMethod, c)
    else case teResolve env addr of None \<Rightarrow> (Fail TargetNotResolved, c) | Some a \<Rightarrow> ?req a c"
  have "ncClosed (snd (?req a c)) = ncClosed c \<and> \<not> panics (fst (?req a c))" for a c
    by (intro closed_st_then) simp_all
  then have choice: "ncClosed (snd (?choice r c)) = ncClosed c \<and> \<not> panics (fst (?choice r c))" for r c
    by (cases "teResolve env addr") simp_all
  show ?thesis unfolding socks5Handshake_def by (intro closed_st_then choice closed_conn_ops conn_ops_no_panic)
qed

lemma close_on_error_outcome:
  assumes "ncClosed (snd (f c)) = ncClosed c" "\<not> panics (fst (f c))"
  shows "\<not> panics (fst (close_on_error f c)) \<and>
    ncClosed (snd (close_on_error f c)) = (ncClosed c \<or> (\<exists>e. fst (close_on_error f c) = Inl e))"
  using assms by (cases "f c"; cases "fst (f c)") (auto simp: close_on_error_def)


text \<open>C35. The SOCKS5 handshake reads ten bytes of the proxy's reply, the size of a reply with an IPv4
  address. A longer reply, as a proxy gives that is bound to an IPv6 address or a name, is accepted
  too, and its rest stays in front of the data of the connection.\<close>

theorem socks5_reply_is_cut_at_ten_bytes:
  assumes "ncIn c = [5, mth] # reply # rest" "mth \<noteq> 0xFF" "teResolve env addr = Some a" "\<forall>b. teWrite env b"
    and "10 \<le> length reply" "reply ! 0 = 5" "reply ! 1 = 0"
  shows "connect_socks env addr c =
    (Ok (), c\<lparr>ncOut := ncOut c @ [socks5_methods, socks5_request a],
              ncIn := (if length reply = 10 then rest else drop 10 reply # rest)\<rparr>)"
proof -
  have "0 < length reply" "1 < length reply" using assms(5) by linarith+
  then have "go_copy (replicate 10 0) reply ! 0 = 5" "go_copy (replicate 10 0) reply ! 1 = 0"
    using nth_go_copy [of 0 reply "replicate 10 0"] nth_go_copy [of 1 reply "replicate 10 0"] assms(6,7) by simp_all
  moreover have "go_copy (replicate 2 0) [5, mth] = [5, mth]" by simp
  ultimately show ?thesis using assms
    by (simp add: connect_socks_def close_on_error_def socks5Handshake_def st_then_def conn_write_ok conn_read_chunk)
qed

text \<open>When the two bytes of the first answer arrive apart, the second one is taken for the reply.\<close>

lemma socks5_fragmented_answer_fails:
  assumes "ncIn c = [5] # [m] # rest" "m \<noteq> 5" "teResolve env addr = Some a" "\<forall>b. teWrite env b"
  shows "fst (connect_socks env addr c) = Fail BadReplyVersion"
proof -
  have "go_copy (replicate 2 0) [5] = [5, 0 :: byte]" "go_copy (replicate 10 0) [m] ! 0 = m"
    by (simp_all add: go_copy_def numeral_2_eq_2)
  then show ?thesis using assms
    by (simp add: connect_socks_def close_on_error_def socks5Handshake_def st_then_def conn_write_ok conn_read_chunk)
qed

text \<open>A packet that is written as a message is read back whole when it fits into the buffer; a
  longer one is cut to the size of the buffer without an error. Messages that are not binary,
  errors and panics of the library are errors.\<close>

theorem message_roundtrip:
  "(case Write_wss accepts pkt of
      Inr (n, msg) \<Rightarrow> n = length pkt \<and>
        (\<exists>b. Read_wss msg buf t = Ok (min (length buf) n, b, wtAddr t) \<and> length b = length buf \<and>
           take (min (length buf) n) b = take (length buf) pkt \<and> drop n b = drop n buf)
    | Inl e \<Rightarrow> e = Err WsWriteFailed) \<and>
   (\<exists>e. Read_wss WsPanic buf t = Fail e) \<and> (\<exists>e. Read_wss WsError buf t = Fail e) \<and> Read_wss (WsOther k) buf t = Fail NotBinary"
  by (auto simp: Write_wss_def Read_wss_def go_copy_def min_def)

definition demo_proxy :: tr_env where
  "demo_proxy = \<lparr>teCert = (\<lambda>_ _. True), teSocks = (\<lambda>_. True), teResolve = (\<lambda>_. Some \<lparr>uIP = [203, 0, 113, 5], uPort = 443\<rparr>),
     teTLS = (\<lambda>_. None), teWrite = (\<lambda>_. True), teDial = (\<lambda>_ _ _. DialError)\<rparr>"

definition demo_conn :: net_conn where
  "demo_conn = \<lparr>ncIn = [[5, 0], [5, 0, 0, 4] @ replicate 18 7, [22, 3, 1]], ncEnd = StreamEOF, ncOut = [], ncClosed = False\<rparr>"

text \<open>A reply with an IPv6 address: twelve of its bytes precede the first bytes of the server.\<close>

theorem socks5_reply_is_cut_at_ten_bytes_witness:
  "fst (connect_socks demo_proxy ''vpn:443'' demo_conn) = Ok () \<and>
   ncIn (snd (connect_socks demo_proxy ''vpn:443'' demo_conn)) = [replicate 12 7, [22, 3, 1]] \<and>
   ncOut (snd (connect_socks demo_proxy ''vpn:443'' demo_conn)) = [[5, 1, 0], [5, 1, 0, 1, 203, 0, 113, 5, 1, 187]]"
proof -
  let ?a = "\<lparr>uIP = [203, 0, 113, 5], uPort = 443\<rparr>" and ?r = "[5, 0, 0, 4] @ replicate 18 7 :: bytes"
  have "connect_socks demo_proxy ''vpn:443'' demo_conn =
    (Ok (), demo_conn\<lparr>ncOut := ncOut demo_conn @ [socks5_methods, socks5_request ?a],
       ncIn := (if length ?r = 10 then [[22, 3, 1]] else drop 10 ?r # [[22, 3, 1]])\<rparr>)"
    by (rule socks5_reply_is_cut_at_ten_bytes [where mth = 0]) (simp_all add: demo_conn_def demo_proxy_def)
  moreover have "socks5_request ?a = [5, 1, 0, 1, 203, 0, 113, 5, 1, 187]"
    by (simp add: socks5_request_def socks5_address_def To4_def)
  ultimately show ?thesis by (simp add: demo_conn_def socks5_methods_def drop_Cons')
qed


end
