(* ===== verification/Logstore.thy ===== *)
theory Logstore
  imports Gostd "HOL-Library.List_Lexorder" "HOL-Library.Char_ord"
begin

text \<open>
  The log store (\<^verbatim>\<open>pkg/log/log.go\<close>) and the command \<^verbatim>\<open>edge logs\<close> that reads it
  (\<^verbatim>\<open>cmd/edge/edge_logs.go\<close>): opening and closing the database, writing entries, the queries for
  the last entries, for those since the start and for those of a period, and the choice of the
  query from the flags of the command.

  The table is a list of rows in the order of their ids. SQLite, the times of Go and the JSON
  encoder are the record \<open>log_env\<close>; \<open>sqlite_last\<close> and \<open>sqlite_between\<close> say what the theorems rely
  on of the two queries. Several processes share the table, each with its own handle and counter.
\<close>

section \<open>State\<close>

record log_row =
  rwID :: int
  rwInsertedAt :: string
  rwLogData :: string

record LogEntry =
  leID :: int
  leInsertedAt :: int
  leLogData :: string

record log_state =
  lsRows :: "log_row list"
  lsNextID :: int
  lsOpen :: bool
  lsWrites :: int

datatype log_error =
    NoDbFile | AlreadyInitialized | OpenFailed | PingFailed | CreateFailed | PrepareFailed
  | InsertFailed | LogCloseFailed | ErrNotInitialized | QueryFailed

record log_env =
  lgOpens :: bool
  lgPings :: bool
  lgCreates :: bool
  lgPrepares :: bool
  lgInserts :: "string \<Rightarrow> bool"
  lgStamp :: string
  lgCloses :: bool
  lgLast :: "log_row list \<Rightarrow> int \<Rightarrow> log_row list option"
  lgBetween :: "log_row list \<Rightarrow> string \<Rightarrow> string \<Rightarrow> int \<Rightarrow> log_row list option"
  lgClosing :: string
  lgParse :: "string \<Rightarrow> string \<Rightarrow> int option"
  lgDuration :: "string \<Rightarrow> int option"
  lgFormat :: "string \<Rightarrow> int \<Rightarrow> string"
  lgNow :: int

type_synonym 'a lgm = "(log_state, log_error, 'a) op"

section \<open>Writing\<close>

definition newSQLiteWriter :: "log_env \<Rightarrow> (log_error, unit) res" where
  "newSQLiteWriter env =
     (if \<not> lgOpens env then Fail OpenFailed
      else if \<not> lgPings env then Fail PingFailed
      else if \<not> lgCreates env then Fail CreateFailed
      else if \<not> lgPrepares env then Fail PrepareFailed
      else Ok ())"

definition Init_log :: "log_env \<Rightarrow> string \<Rightarrow> unit lgm" where
  "Init_log env dbFile st =
     (if dbFile = [] then (Fail NoDbFile, st)
      else if lsOpen st then (Fail AlreadyInitialized, st)
      else on_ok (newSQLiteWriter env) (\<lambda>_ st. (Ok (), st\<lparr>lsOpen := True\<rparr>)) st)"

definition insert_row :: "log_env \<Rightarrow> string \<Rightarrow> log_state \<Rightarrow> log_state" where
  "insert_row env p st =
     st\<lparr>lsRows := lsRows st @ [\<lparr>rwID = lsNextID st, rwInsertedAt = lgStamp env, rwLogData = p\<rparr>], lsNextID := lsNextID st + 1\<rparr>"

definition Write_sqlite :: "log_env \<Rightarrow> string \<Rightarrow> nat lgm" where
  "Write_sqlite env p st =
     (if lgInserts env p then (Ok (length p), (insert_row env p st)\<lparr>lsWrites := lsWrites st + 1\<rparr>) else (Fail InsertFailed, st))"

text \<open>An event of the package logger: before the initialisation and after the end it does nothing.\<close>

definition Log_event :: "log_env \<Rightarrow> string \<Rightarrow> log_state \<Rightarrow> log_state" where
  "Log_event env p st = (if lsOpen st then snd (Write_sqlite env p st) else st)"

definition Close_log :: "log_env \<Rightarrow> unit lgm" where
  "Close_log env st =
     (if \<not> lsOpen st then (Ok (), st)
      else let st1 = snd (Write_sqlite env (lgClosing env) st) in
        (if lgCloses env then Ok () else Fail LogCloseFailed, st1\<lparr>lsOpen := False\<rparr>))"

section \<open>Reading\<close>

text \<open>The zero time of Go, the first of January of the year 1, in nanoseconds since 1970.\<close>

definition zero_time :: int where "zero_time = - 62135596800000000000"

definition parse_any :: "log_env \<Rightarrow> string list \<Rightarrow> string \<Rightarrow> int option" where
  "parse_any env layouts ts =
     (case List.find (\<lambda>layout. lgParse env layout ts \<noteq> None) layouts of Some layout \<Rightarrow> lgParse env layout ts | None \<Rightarrow> None)"

definition parseDBTimestamp :: "log_env \<Rightarrow> string \<Rightarrow> int" where
  "parseDBTimestamp env ts =
     (case parse_any env
        [''2006-01-02 15:04:05'', ''2006-01-02T15:04:05Z07:00'', ''2006-01-02T15:04:05.999999999Z07:00'',
         ''2006-01-02 15:04:05.999'', ''2006-01-02 15:04:05''] ts of
        Some t \<Rightarrow> t
      | None \<Rightarrow> zero_time)"

definition scan_row :: "log_env \<Rightarrow> log_row \<Rightarrow> LogEntry" where
  "scan_row env r = \<lparr>leID = rwID r, leInsertedAt = parseDBTimestamp env (rwInsertedAt r), leLogData = rwLogData r\<rparr>"

text \<open>The loop that reverses the slice in place.\<close>

function reverse_loop :: "nat \<Rightarrow> nat \<Rightarrow> 'a list \<Rightarrow> 'a list" where
  "reverse_loop i j logs =
     (if i < j then reverse_loop (i + 1) (j - 1) (logs[i := logs ! j, j := logs ! i]) else logs)"
  by pat_completeness auto
termination by (relation "measure (\<lambda>(i, j, _). j - i)") auto

declare reverse_loop.simps [simp del]

definition GetLastNLogs :: "log_env \<Rightarrow> int \<Rightarrow> log_state \<Rightarrow> (log_error, LogEntry list) res" where
  "GetLastNLogs env n st =
     (if \<not> lsOpen st then Fail ErrNotInitialized
      else if n \<le> 0 then Ok []
      else case lgLast env (lsRows st) n of
        None \<Rightarrow> Fail QueryFailed
      | Some rows \<Rightarrow> let logs = map (scan_row env) rows in Ok (reverse_loop 0 (length logs - 1) logs))"

definition GetLogsSinceStart :: "log_env \<Rightarrow> log_state \<Rightarrow> (log_error, LogEntry list) res" where
  "GetLogsSinceStart env st = GetLastNLogs env (lsWrites st) st"

definition DefaultLimit :: int where "DefaultLimit = 100"

definition time_layout :: string where "time_layout = ''2006-01-02T15:04:05.999999999Z07:00''"

definition GetLogsBetween :: "log_env \<Rightarrow> int \<Rightarrow> int \<Rightarrow> int \<Rightarrow> log_state \<Rightarrow> (log_error, LogEntry list) res" where
  "GetLogsBetween env start end_time limit st =
     (if \<not> lsOpen st then Fail ErrNotInitialized
      else case lgBetween env (lsRows st) (lgFormat env time_layout start) (lgFormat env time_layout end_time)
             (if limit \<le> 0 then DefaultLimit else limit) of
        None \<Rightarrow> Fail QueryFailed
      | Some rows \<Rightarrow> Ok (map (scan_row env) rows))"

definition GetLogsSince :: "log_env \<Rightarrow> int \<Rightarrow> int \<Rightarrow> log_state \<Rightarrow> (log_error, LogEntry list) res" where
  "GetLogsSince env start limit st = GetLogsBetween env start (lgNow env) limit st"

section \<open>The command\<close>

definition timeFormats :: "string list" where
  "timeFormats = [''2006-01-02T15:04:05.999999999Z07:00'', ''2006-01-02T15:04:05Z07:00'', ''2006-01-02T15:04:05'',
     ''2006-01-02 15:04:05'', ''2006-01-02'']"

definition parseTimeSpec :: "log_env \<Rightarrow> string \<Rightarrow> int option" where
  "parseTimeSpec env spec =
     (case lgDuration env spec of
        Some d \<Rightarrow> Some (lgNow env - d)
      | None \<Rightarrow> parse_any env timeFormats spec)"

record logs_flags =
  lfPretty :: bool
  lfLast :: bool
  lfSince :: bool
  lfBetween :: bool
  lfCount :: int
  lfStart :: "string option"
  lfEnd :: "string option"
  lfLimit :: int

datatype logs_exit = ManyModes | InitFailed | BadCount | StartRequired | EndRequired | BadStart | BadEnd | HandleLost | RetrievalFailed

definition retrieve :: "log_env \<Rightarrow> logs_flags \<Rightarrow> log_state \<Rightarrow> logs_exit + (log_error, LogEntry list) res" where
  "retrieve env f st =
     (if lfLast f \<or> \<not> lfSince f \<and> \<not> lfBetween f then
        (if lfCount f \<le> 0 then Inl BadCount else Inr (GetLastNLogs env (lfCount f) st))
      else if lfSince f then
        (case lfStart f of
           None \<Rightarrow> Inl StartRequired
         | Some s \<Rightarrow>
             (case parseTimeSpec env s of None \<Rightarrow> Inl BadStart | Some t \<Rightarrow> Inr (GetLogsSince env t (lfLimit f) st)))
      else
        (case lfStart f of
           None \<Rightarrow> Inl StartRequired
         | Some s \<Rightarrow>
             (case lfEnd f of
                None \<Rightarrow> Inl EndRequired
              | Some e \<Rightarrow>
                  (case parseTimeSpec env s of
                     None \<Rightarrow> Inl BadStart
                   | Some ts \<Rightarrow>
                       (case parseTimeSpec env e of
                          None \<Rightarrow> Inl BadEnd
                        | Some te \<Rightarrow> Inr (GetLogsBetween env ts te (lfLimit f) st))))))"

definition pretty_entry :: "log_env \<Rightarrow> nat \<times> LogEntry \<Rightarrow> string" where
  "pretty_entry env ie =
     (case ie of (i, e) \<Rightarrow>
        ''Entry '' @ itoa (int i + 1) @ '' (ID: '' @ itoa (leID e) @ '', Inserted: '' @
        lgFormat env ''2006-01-02T15:04:05Z07:00'' (leInsertedAt e) @ ''):'' @ [CHR 0x0A] @ leLogData e @ [CHR 0x0A] @ ''---'')"

definition print_entries :: "log_env \<Rightarrow> bool \<Rightarrow> LogEntry list \<Rightarrow> string list" where
  "print_entries env pretty es = (if pretty then map (pretty_entry env) (enumerate 0 es) else map leLogData es)"

text \<open>The lines that are printed, or the reason of the exit. The database is closed in any case once it
  has been opened.\<close>

definition logsCmd :: "log_env \<Rightarrow> logs_flags \<Rightarrow> log_state \<Rightarrow> (logs_exit + string list) \<times> log_state" where
  "logsCmd env f st =
     (if 1 < length (filter id [lfLast f, lfSince f, lfBetween f]) then (Inl ManyModes, st)
      else case Init_log env ''edge.db'' st of
        (Inl _, st1) \<Rightarrow> (Inl InitFailed, st1)
      | (Inr _, st1) \<Rightarrow>
          (case retrieve env f st1 of
             Inl x \<Rightarrow> Inl x
           | Inr (Inl (Err ErrNotInitialized)) \<Rightarrow> Inl HandleLost
           | Inr (Inl _) \<Rightarrow> Inl RetrievalFailed
           | Inr (Inr es) \<Rightarrow> Inr (print_entries env (lfPretty f) es),
           snd (Close_log env st1)))"

text \<open>A command of another process works on the same table with a handle and a counter of its own.\<close>

definition other_process :: "(log_state \<Rightarrow> 'a \<times> log_state) \<Rightarrow> log_state \<Rightarrow> 'a \<times> log_state" where
  "other_process f st =
     (case f (st\<lparr>lsOpen := False, lsWrites := 0\<rparr>) of
        (x, st') \<Rightarrow> (x, st\<lparr>lsRows := lsRows st', lsNextID := lsNextID st'\<rparr>))"

section \<open>The last entries\<close>

definition log_wf :: "log_state \<Rightarrow> bool" where
  "log_wf st \<longleftrightarrow> sorted_wrt (<) (map rwID (lsRows st)) \<and> (\<forall>r \<in> set (lsRows st). rwID r < lsNextID st)"

definition sqlite_last :: "log_env \<Rightarrow> bool" where
  "sqlite_last env \<longleftrightarrow>
     (\<forall>rows n. sorted_wrt (<) (map rwID rows) \<longrightarrow> 0 \<le> n \<longrightarrow> lgLast env rows n = Some (take (nat n) (rev rows)))"

lemma log_wf_insert_row: "log_wf st \<Longrightarrow> log_wf (insert_row env p st)"
  by (auto simp: log_wf_def insert_row_def sorted_wrt_append intro: less_trans)

lemma log_wf_Log_event: "log_wf st \<Longrightarrow> log_wf (Log_event env p st)"
  using log_wf_insert_row [of st env p] by (simp add: Log_event_def Write_sqlite_def log_wf_def)

lemma reverse_loop_middle:
  assumes "length a = i" "length b = i"
  shows "reverse_loop i (i + length m - 1) (a @ m @ b) = a @ rev m @ b"
  using assms
proof (induction "length m" arbitrary: a b i m rule: less_induct)
  case less
  show ?case
  proof (cases "length m \<le> 1")
    case True
    then have "rev m = m" by (cases m) (auto simp: length_Suc_conv)
    moreover have "\<not> i < i + length m - 1" using True by linarith
    ultimately show ?thesis by (subst reverse_loop.simps) simp
  next
    case False
    then obtain x m' y where m: "m = x # m' @ [y]"
      by (cases m; cases "tl m" rule: rev_cases) auto
    let ?j = "i + length m - 1" and ?l = "a @ m @ b"
    have "?l ! i = x" "?l ! ?j = y" using less.prems m by (simp_all add: nth_append)
    then have "?l[i := ?l ! ?j, ?j := ?l ! i] = (a @ [y]) @ m' @ (x # b)"
      using less.prems m by (simp add: list_update_append)
    then have "reverse_loop i ?j ?l = reverse_loop (i + 1) (?j - 1) ((a @ [y]) @ m' @ (x # b))"
      using m by (simp add: reverse_loop.simps [of i])
    also have "?j - 1 = (i + 1) + length m' - 1" using m by simp
    finally show ?thesis using less.hyps [of m' "a @ [y]" "i + 1" "x # b"] less.prems m by simp
  qed
qed

lemma reverse_loop_rev: "reverse_loop 0 (length xs - 1) xs = rev xs"
  using reverse_loop_middle [of "[]" 0 "[]" xs] by simp

lemma GetLastNLogs_suffix:
  assumes "sqlite_last env" "log_wf st" "lsOpen st"
  shows "GetLastNLogs env n st = Ok (map (scan_row env) (drop (length (lsRows st) - nat n) (lsRows st)))"
proof (cases "n \<le> 0")
  case False
  then have "lgLast env (lsRows st) n = Some (take (nat n) (rev (lsRows st)))"
    using assms(1,2) by (simp add: sqlite_last_def log_wf_def)
  then have "GetLastNLogs env n st = Ok (rev (map (scan_row env) (take (nat n) (rev (lsRows st)))))"
    using False assms(3) by (simp only: GetLastNLogs_def Let_def reverse_loop_rev) simp
  also have "rev (map (scan_row env) (take (nat n) (rev (lsRows st)))) =
      map (scan_row env) (drop (length (lsRows st) - nat n) (lsRows st))"
    by (simp add: rev_map take_rev)
  finally show ?thesis .
qed (use assms(3) in \<open>simp add: GetLastNLogs_def\<close>)

text \<open>C36. On a table in the order of its ids the query returns the last \<open>n\<close> entries, oldest first: the
  loop that swaps the ends of the slice undoes the descending order of the query. Without an open
  database it is an error.\<close>

theorem last_entries_in_order:
  assumes "sqlite_last env" "log_wf st"
  shows "GetLastNLogs env n st =
    (if lsOpen st then Ok (map (scan_row env) (drop (length (lsRows st) - nat n) (lsRows st))) else Fail ErrNotInitialized)"
  using GetLastNLogs_suffix [OF assms, of n] by (cases "lsOpen st") (simp_all add: GetLastNLogs_def)

lemma GetLogsSinceStart_tail:
  assumes "sqlite_last env" "log_wf st" "lsOpen st" "lsRows st = old @ new" "lsWrites st = int (length new)"
  shows "GetLogsSinceStart env st = Ok (map (scan_row env) new)"
  using GetLastNLogs_suffix [OF assms(1-3), of "lsWrites st"] by (simp add: GetLogsSinceStart_def assms(4,5))

lemma Log_event_open:
  "lsOpen st \<Longrightarrow> lgInserts env p \<Longrightarrow>
   Log_event env p st = (insert_row env p st)\<lparr>lsWrites := lsWrites st + 1\<rparr>"
  by (simp add: Log_event_def Write_sqlite_def)

lemma Log_events:
  assumes "lsOpen st" "\<forall>p. lgInserts env p" "log_wf st"
  shows "lsOpen (fold (Log_event env) ps st) \<and> log_wf (fold (Log_event env) ps st) \<and>
    lsWrites (fold (Log_event env) ps st) = lsWrites st + int (length ps) \<and>
    (\<exists>rows. lsRows (fold (Log_event env) ps st) = lsRows st @ rows \<and> map rwLogData rows = ps)"
  using assms(1,3)
proof (induction ps arbitrary: st)
  case (Cons p ps)
  let ?s = "Log_event env p st"
  have s: "?s = (insert_row env p st)\<lparr>lsWrites := lsWrites st + 1\<rparr>" using Cons.prems(1) assms(2) by (simp add: Log_event_open)
  then have "lsOpen ?s" "lsWrites ?s = lsWrites st + 1"
    "lsRows ?s = lsRows st @ [\<lparr>rwID = lsNextID st, rwInsertedAt = lgStamp env, rwLogData = p\<rparr>]"
    using Cons.prems(1) by (simp_all add: insert_row_def)
  then show ?case using Cons.IH [of ?s] log_wf_Log_event [OF Cons.prems(2)] by auto
qed simp

text \<open>C37. A process that has just opened the database sees exactly its own entries, in the order in which
  it wrote them, as long as no other process writes. But \<^verbatim>\<open>edge logs\<close> writes an entry of its own
  when it closes the database: afterwards the running process misses its first entry and sees the
  foreign one instead.\<close>

theorem reading_the_log_shifts_the_window:
  assumes "sqlite_last env" "log_wf st" "lsOpen st" "lsWrites st = 0" "\<forall>p. lgInserts env p" "newSQLiteWriter env = Ok ()"
    and "lfLast f" "\<not> lfSince f" "\<not> lfBetween f" "st' = fold (Log_event env) (p # ps) st"
  shows "(\<exists>es. GetLogsSinceStart env st' = Ok es \<and> map leLogData es = p # ps) \<and>
    (\<exists>es. GetLogsSinceStart env (snd (other_process (logsCmd env f) st')) = Ok es \<and> map leLogData es = ps @ [lgClosing env])"
proof -
  obtain rows where e: "lsOpen st'" "log_wf st'" "lsWrites st' = int (length (p # ps))"
    "lsRows st' = lsRows st @ rows" "map rwLogData rows = p # ps"
    using Log_events [OF assms(3,5,2), of "p # ps"] assms(4,10) by auto
  then have len: "length rows = length (p # ps)" by (metis length_map)
  have d: "map leLogData (map (scan_row env) rs) = map rwLogData rs" for rs by (simp add: scan_row_def)
  have one: "GetLogsSinceStart env st' = Ok (map (scan_row env) rows)"
    using GetLogsSinceStart_tail [OF assms(1) e(2,1,4)] e(3) len by simp
  let ?s0 = "st'\<lparr>lsOpen := True, lsWrites := 0\<rparr>" and ?s2 = "snd (other_process (logsCmd env f) st')"
  have "Init_log env ''edge.db'' (st'\<lparr>lsOpen := False, lsWrites := 0\<rparr>) = (Ok (), ?s0)"
    using assms(6) by (simp add: Init_log_def)
  moreover have "snd (Close_log env ?s0) = (insert_row env (lgClosing env) ?s0)\<lparr>lsWrites := 1, lsOpen := False\<rparr>"
    using assms(5) by (simp add: Close_log_def Write_sqlite_def insert_row_def Let_def)
  ultimately have s2: "?s2 = insert_row env (lgClosing env) st'"
    using assms(7-9) by (simp add: other_process_def logsCmd_def insert_row_def)
  obtain r rs where r: "rows = r # rs" "map rwLogData rs = ps" using e(5) by (cases rows) auto
  let ?new = "rs @ [\<lparr>rwID = lsNextID st', rwInsertedAt = lgStamp env, rwLogData = lgClosing env\<rparr>]"
  have two: "GetLogsSinceStart env ?s2 = Ok (map (scan_row env) ?new)"
  proof (rule GetLogsSinceStart_tail [OF assms(1)])
    show "log_wf ?s2" unfolding s2 using e(2) by (rule log_wf_insert_row)
    show "lsOpen ?s2" using e(1) by (simp add: s2 insert_row_def)
    show "lsRows ?s2 = (lsRows st @ [r]) @ ?new" using e(4) r(1) by (simp add: s2 insert_row_def)
    show "lsWrites ?s2 = int (length ?new)" using e(3) len r(1) by (simp add: s2 insert_row_def)
  qed
  have new: "map leLogData (map (scan_row env) ?new) = ps @ [lgClosing env]" unfolding d using r(2) by simp
  have own: "map leLogData (map (scan_row env) rows) = p # ps" unfolding d by (rule e(5))
  show ?thesis by (intro conjI exI, rule one, rule own, rule two, rule new)
qed

section \<open>Entries of a period\<close>

text \<open>
  The layout of the times, \<^verbatim>\<open>time.RFC3339Nano\<close>, for a time in UTC: the date and time up to the
  second, the fraction without the zeros at its end, and the zone.
\<close>

definition fraction :: "nat \<Rightarrow> string" where
  "fraction nanos =
     (if nanos = 0 then []
      else let ds = nat_digits nanos in
        CHR ''.'' # rev (dropWhile (\<lambda>c. c = CHR ''0'') (rev (replicate (9 - length ds) CHR ''0'' @ ds))))"

definition rfc3339nano_utc :: "string \<Rightarrow> nat \<Rightarrow> string" where
  "rfc3339nano_utc second nanos = second @ fraction nanos @ ''Z''"

definition sqlite_between :: "(string \<Rightarrow> string) \<Rightarrow> log_env \<Rightarrow> bool" where
  "sqlite_between event_time env \<longleftrightarrow>
     (\<forall>rows a b n. 0 \<le> n \<longrightarrow> lgBetween env rows a b n =
        Some (take (nat n) (sort_key (\<lambda>r. event_time (rwLogData r))
          (filter (\<lambda>r. a \<le> event_time (rwLogData r) \<and> event_time (rwLogData r) \<le> b) rows))))"

lemma fraction_before_Z: "0 < nanos \<Longrightarrow> rfc3339nano_utc second nanos < rfc3339nano_utc second 0"
proof -
  assume "0 < nanos"
  then obtain r where "fraction nanos = CHR ''.'' # r" by (auto simp: fraction_def Let_def)
  then have "fraction nanos @ ''Z'' < ''Z''" by (simp add: less_char_def)
  then show ?thesis by (induction second) (simp_all add: rfc3339nano_utc_def fraction_def)
qed

text \<open>A period is selected by comparing the printed times as text, and text does not order them: a
  time with a fraction of a second is smaller than the whole second before it. An entry of the
  first second of a period that begins at a whole second is therefore not found, however long the
  period is.\<close>

theorem first_second_is_not_found:
  assumes "sqlite_between event_time env" "lsOpen st"
    and "lgFormat env time_layout start = rfc3339nano_utc second 0"
    and "r \<in> set (lsRows st)" "event_time (rwLogData r) = rfc3339nano_utc second nanos" "0 < nanos"
  shows "\<exists>es. GetLogsBetween env start end_time limit st = Ok es \<and> rwLogData r \<notin> set (map leLogData es)"
proof -
  let ?n = "if limit \<le> 0 then DefaultLimit else limit" and ?a = "rfc3339nano_utc second 0" and ?b = "lgFormat env time_layout end_time"
  let ?rows = "take (nat ?n) (sort_key (\<lambda>r. event_time (rwLogData r))
    (filter (\<lambda>r. ?a \<le> event_time (rwLogData r) \<and> event_time (rwLogData r) \<le> ?b) (lsRows st)))"
  have "0 \<le> ?n" by (simp add: DefaultLimit_def)
  then have "GetLogsBetween env start end_time limit st = Ok (map (scan_row env) ?rows)"
    using assms(1-3) by (simp add: GetLogsBetween_def sqlite_between_def)
  moreover have "rwLogData r \<notin> rwLogData ` set ?rows"
  proof
    assume "rwLogData r \<in> rwLogData ` set ?rows"
    then have "?a \<le> event_time (rwLogData r)" by (auto dest!: in_set_takeD)
    then show False using fraction_before_Z [OF assms(6), of second] assms(5) by (simp add: not_le [symmetric])
  qed
  ultimately show ?thesis by (auto simp: scan_row_def image_image)
qed

section \<open>Examples\<close>

definition demo_log :: log_env where
  "demo_log = \<lparr>lgOpens = True, lgPings = True, lgCreates = True, lgPrepares = True, lgInserts = (\<lambda>_. True), lgStamp = [], lgCloses = True,
     lgLast = (\<lambda>rows n. Some (take (nat n) (rev rows))),
     lgBetween = (\<lambda>rows a b n. Some (take (nat n) (sort_key rwLogData (filter (\<lambda>r. a \<le> rwLogData r \<and> rwLogData r \<le> b) rows)))),
     lgClosing = ''bye'', lgParse = (\<lambda>_ _. None), lgDuration = (\<lambda>_. None),
     lgFormat = (\<lambda>_ t. rfc3339nano_utc ''2024-05-01T10:00:00'' (nat t)), lgNow = 0\<rparr>"

definition demo_log_state :: log_state where
  "demo_log_state = \<lparr>lsRows = [\<lparr>rwID = 1, rwInsertedAt = [], rwLogData = ''old''\<rparr>], lsNextID = 2, lsOpen = True, lsWrites = 0\<rparr>"

definition demo_flags :: logs_flags where
  "demo_flags = \<lparr>lfPretty = False, lfLast = True, lfSince = False, lfBetween = False, lfCount = 5, lfStart = None, lfEnd = None, lfLimit = 1000\<rparr>"

lemma demo_sqlite: "sqlite_last demo_log" "sqlite_between id demo_log" "log_wf demo_log_state"
  by (simp_all add: sqlite_last_def sqlite_between_def demo_log_def log_wf_def demo_log_state_def)

theorem last_entries_in_order_witness:
  "\<exists>es. GetLastNLogs demo_log 1 demo_log_state = Ok es \<and> map leLogData es = [''old'']"
  using last_entries_in_order [OF demo_sqlite(1,3), of 1] by (simp add: demo_log_state_def scan_row_def)

theorem reading_the_log_shifts_the_window_witness:
  "(\<exists>es. GetLogsSinceStart demo_log (fold (Log_event demo_log) [''a'', ''b''] demo_log_state) = Ok es \<and> map leLogData es = [''a'', ''b'']) \<and>
   (\<exists>es. GetLogsSinceStart demo_log
        (snd (other_process (logsCmd demo_log demo_flags) (fold (Log_event demo_log) [''a'', ''b''] demo_log_state))) = Ok es \<and>
      map leLogData es = [''b'', ''bye''])"
  using reading_the_log_shifts_the_window [OF demo_sqlite(1,3), where f = demo_flags and p = "''a''" and ps = "[''b'']", OF _ _ _ _ _ _ _ refl]
  by (simp add: demo_log_def demo_log_state_def demo_flags_def newSQLiteWriter_def)

theorem first_second_is_not_found_witness:
  "\<exists>es. GetLogsBetween demo_log 0 9000000000 10
      (demo_log_state\<lparr>lsRows := [\<lparr>rwID = 1, rwInsertedAt = [], rwLogData = rfc3339nano_utc ''2024-05-01T10:00:00'' 500000000\<rparr>]\<rparr>) = Ok es \<and>
    rfc3339nano_utc ''2024-05-01T10:00:00'' 500000000 \<notin> set (map leLogData es)"
  using first_second_is_not_found [OF demo_sqlite(2), where nanos = 500000000 and second = "''2024-05-01T10:00:00''" and start = 0
      and end_time = 9000000000 and limit = 10
      and r = "\<lparr>rwID = 1, rwInsertedAt = [], rwLogData = rfc3339nano_utc ''2024-05-01T10:00:00'' 500000000\<rparr>"
      and st = "demo_log_state\<lparr>lsRows := [\<lparr>rwID = 1, rwInsertedAt = [], rwLogData = rfc3339nano_utc ''2024-05-01T10:00:00'' 500000000\<rparr>]\<rparr>"]
  by (simp add: demo_log_def demo_log_state_def)

end
