(* ===== verification/Tapdev.thy ===== *)
theory Tapdev
  imports Prelude "HOL-Library.Multiset"
begin

text \<open>
  The TAP device on Windows: a handle with overlapped input and output and its pool of events
  (\<^verbatim>\<open>pkg/tuntap/overlapped_windows.go\<close>), the device that owns it (\<^verbatim>\<open>types.go\<close>) and the interface
  that the edge uses (\<^verbatim>\<open>tuntap.go\<close>).

  The record \<open>ov_env\<close> is the kernel during one call. Waiting and fetching a result can take forever;
  that is the value \<open>None\<close>, and the operations built on them return \<open>None\<close> when they do not return.
  The bytes of a read are put into the buffer by the kernel; the model follows the counts, the
  errors, the events and the buffers that are handed to a write, each with the two halves of its offset.
\<close>

section \<open>State\<close>

type_synonym event = nat

record OvHandle =
  hHandle :: nat
  hEvents :: "event list"
  hDefaultTimeout :: int
  hReadDeadline :: "int option"
  hWriteDeadline :: "int option"
  hWritten :: "(u32 \<times> u32 \<times> bytes) list"
  hClosedEvents :: "event list"

datatype io_start = StartDone nat | StartPending | StartEOF nat | StartFailed

datatype wait_result = WaitObject | WaitTimeout | WaitAbandoned | WaitFailed | WaitOther | WaitError

datatype io_result = ResultDone nat | ResultEOF nat | ResultAborted | ResultFailed

datatype ov_error =
    CreateEventFailed | ResetEventFailed | DeadlineExceeded | EOF | SyncFailed
  | WaitErr | AbandonedErr | WaitFailedErr | UnexpectedWait | ResultErr | CloseHandleFailed | ErrInvalid

record ov_env =
  ovCreate :: "event option"
  ovReset :: bool
  ovStart :: io_start
  ovWait :: "u32 \<Rightarrow> wait_result option"
  ovResult :: "io_result option"
  ovNow :: int
  ovCloses :: bool

text \<open>The count and the error of a call, as Go returns them.\<close>

type_synonym io_count = "nat \<times> ov_error option"

section \<open>Events\<close>

definition getEvent :: "ov_env \<Rightarrow> (OvHandle, ov_error, event) op" where
  "getEvent env f =
     (if hEvents f = [] then
        (case ovCreate env of
           None \<Rightarrow> (Fail CreateEventFailed, f)
         | Some e \<Rightarrow> if ovReset env then (Ok e, f) else (Fail ResetEventFailed, f))
      else (Ok (last (hEvents f)), f\<lparr>hEvents := butlast (hEvents f)\<rparr>))"

definition putEvent :: "event \<Rightarrow> OvHandle \<Rightarrow> OvHandle" where
  "putEvent e f = f\<lparr>hEvents := hEvents f @ [e]\<rparr>"

section \<open>Input and output\<close>

definition INFINITE :: u32 where "INFINITE = 0xFFFFFFFF"

definition finish :: "ov_env \<Rightarrow> io_count option" where
  "finish env =
     (case ovResult env of
        None \<Rightarrow> None
      | Some (ResultDone n) \<Rightarrow> Some (n, None)
      | Some (ResultEOF n) \<Rightarrow> Some (n, Some EOF)
      | Some ResultAborted \<Rightarrow> Some (0, Some DeadlineExceeded)
      | Some ResultFailed \<Rightarrow> Some (0, Some ResultErr))"

definition asyncIo :: "ov_env \<Rightarrow> int \<Rightarrow> io_count option" where
  "asyncIo env milliseconds =
     (case ovStart env of
        StartDone n \<Rightarrow> Some (n, None)
      | StartEOF n \<Rightarrow> Some (n, Some EOF)
      | StartFailed \<Rightarrow> Some (0, Some SyncFailed)
      | StartPending \<Rightarrow>
          (case ovWait env (if milliseconds < 0 then INFINITE else word_of_int milliseconds) of
             None \<Rightarrow> None
           | Some WaitError \<Rightarrow> Some (0, Some WaitErr)
           | Some WaitObject \<Rightarrow> finish env
           | Some WaitTimeout \<Rightarrow> if milliseconds = 0 then finish env else Some (0, Some DeadlineExceeded)
           | Some WaitAbandoned \<Rightarrow> Some (0, Some AbandonedErr)
           | Some WaitFailed \<Rightarrow> Some (0, Some WaitFailedErr)
           | Some WaitOther \<Rightarrow> Some (0, Some UnexpectedWait)))"

text \<open>Times are nanoseconds; \<open>None\<close> is the zero time, no deadline.\<close>

definition maxInt32 :: int where "maxInt32 = 2 ^ 31 - 1"

definition calculateTimeoutMillis :: "ov_env \<Rightarrow> int option \<Rightarrow> int \<Rightarrow> (ov_error, int) res" where
  "calculateTimeoutMillis env deadline defaultTimeout =
     (case deadline of
        None \<Rightarrow> Ok defaultTimeout
      | Some d \<Rightarrow>
          let timeoutDuration = d - ovNow env in
          if timeoutDuration \<le> 0 then Fail DeadlineExceeded
          else let millis = timeoutDuration div 1000000 in
            if millis \<le> 0 then Ok 0 else if millis > maxInt32 then Ok maxInt32 else Ok millis)"

definition SetReadDeadline :: "int option \<Rightarrow> OvHandle \<Rightarrow> OvHandle" where
  "SetReadDeadline t f = f\<lparr>hReadDeadline := t\<rparr>"

definition SetWriteDeadline :: "int option \<Rightarrow> OvHandle \<Rightarrow> OvHandle" where
  "SetWriteDeadline t f = f\<lparr>hWriteDeadline := t\<rparr>"

text \<open>A call with an event of the pool, which goes back to the pool when the call returns.\<close>

definition with_event :: "ov_env \<Rightarrow> (OvHandle \<Rightarrow> OvHandle) \<Rightarrow> io_count option \<Rightarrow> OvHandle \<Rightarrow> (io_count \<times> OvHandle) option" where
  "with_event env start io f =
     (case getEvent env f of
        (Inl (Err e), f1) \<Rightarrow> Some ((0, Some e), f1)
      | (Inl (Crash _), f1) \<Rightarrow> None
      | (Inr e, f1) \<Rightarrow> map_option (\<lambda>r. (r, putEvent e (start f1))) io)"

text \<open>The errors are wrapped, which keeps what they are; a read of nothing into a buffer is the end of
  the file.\<close>

definition read_result :: "nat \<Rightarrow> io_count \<Rightarrow> io_count" where
  "read_result len r = (case r of (n, None) \<Rightarrow> if n = 0 \<and> 0 < len then (n, Some EOF) else (n, None) | (n, Some e) \<Rightarrow> (n, Some e))"

definition ReadTimeout :: "ov_env \<Rightarrow> nat \<Rightarrow> int \<Rightarrow> OvHandle \<Rightarrow> (io_count \<times> OvHandle) option" where
  "ReadTimeout env len milliseconds f =
     (case calculateTimeoutMillis env (hReadDeadline f) milliseconds of
        Inl _ \<Rightarrow> Some ((0, Some DeadlineExceeded), f)
      | Inr ms \<Rightarrow> map_option (\<lambda>(r, f). (read_result len r, f)) (with_event env id (asyncIo env ms) f))"

definition WriteTimeout :: "ov_env \<Rightarrow> bytes \<Rightarrow> int \<Rightarrow> OvHandle \<Rightarrow> (io_count \<times> OvHandle) option" where
  "WriteTimeout env b milliseconds f =
     (case calculateTimeoutMillis env (hWriteDeadline f) milliseconds of
        Inl _ \<Rightarrow> Some ((0, Some DeadlineExceeded), f)
      | Inr ms \<Rightarrow> with_event env (\<lambda>f. f\<lparr>hWritten := hWritten f @ [(0, 0, b)]\<rparr>) (asyncIo env ms) f)"

definition Read_handle :: "ov_env \<Rightarrow> nat \<Rightarrow> OvHandle \<Rightarrow> (io_count \<times> OvHandle) option" where
  "Read_handle env len f = ReadTimeout env len (hDefaultTimeout f) f"

definition Write_handle :: "ov_env \<Rightarrow> bytes \<Rightarrow> OvHandle \<Rightarrow> (io_count \<times> OvHandle) option" where
  "Write_handle env b f = WriteTimeout env b (hDefaultTimeout f) f"

text \<open>A handle that is 0 or invalid is closed already.\<close>

definition InvalidHandle :: nat where "InvalidHandle = 2 ^ 64 - 1"

definition Close_handle :: "ov_env \<Rightarrow> OvHandle \<Rightarrow> (ov_error, unit) res \<times> OvHandle" where
  "Close_handle env f =
     (if hHandle f = 0 \<or> hHandle f = InvalidHandle then (Ok (), f)
      else (if ovCloses env then Ok () else Fail CloseHandleFailed,
            f\<lparr>hHandle := 0, hEvents := [], hClosedEvents := hClosedEvents f @ hEvents f\<rparr>))"

definition NewOverlapped :: "nat \<Rightarrow> int \<Rightarrow> OvHandle" where
  "NewOverlapped h defaultTimeout =
     \<lparr>hHandle = h, hEvents = [], hDefaultTimeout = defaultTimeout, hReadDeadline = None, hWriteDeadline = None,
      hWritten = [], hClosedEvents = []\<rparr>"

section \<open>Offsets and positions\<close>

text \<open>An offset is given to the kernel in two halves; what the kernel does can depend on them.\<close>

type_synonym kernel = "u32 \<Rightarrow> u32 \<Rightarrow> ov_env"

definition Offset :: "64 word \<Rightarrow> u32" where "Offset off = ucast (off AND 0xFFFFFFFF)"

definition OffsetHigh :: "64 word \<Rightarrow> u32" where "OffsetHigh off = ucast (signed_drop_bit 32 off)"

definition ReadAt :: "kernel \<Rightarrow> nat \<Rightarrow> 64 word \<Rightarrow> OvHandle \<Rightarrow> (io_count \<times> OvHandle) option" where
  "ReadAt k len off f =
     (let env = k (Offset off) (OffsetHigh off) in
      case calculateTimeoutMillis env (hReadDeadline f) (hDefaultTimeout f) of
        Inl _ \<Rightarrow> Some ((0, Some DeadlineExceeded), f)
      | Inr ms \<Rightarrow> map_option (\<lambda>(r, f). (read_result len r, f)) (with_event env id (asyncIo env ms) f))"

definition WriteAt :: "kernel \<Rightarrow> bytes \<Rightarrow> 64 word \<Rightarrow> OvHandle \<Rightarrow> (io_count \<times> OvHandle) option" where
  "WriteAt k b off f =
     (let env = k (Offset off) (OffsetHigh off) in
      case calculateTimeoutMillis env (hWriteDeadline f) (hDefaultTimeout f) of
        Inl _ \<Rightarrow> Some ((0, Some DeadlineExceeded), f)
      | Inr ms \<Rightarrow>
          with_event env (\<lambda>f. f\<lparr>hWritten := hWritten f @ [(Offset off, OffsetHigh off, b)]\<rparr>) (asyncIo env ms) f)"

text \<open>A call of any function of the kernel; the deadlines are not looked at.\<close>

definition Custom :: "ov_env \<Rightarrow> int \<Rightarrow> OvHandle \<Rightarrow> (io_count \<times> OvHandle) option" where
  "Custom env milliseconds f = with_event env id (asyncIo env milliseconds) f"

record PositionHandle =
  phHandle :: OvHandle
  phPosition :: "64 word"

definition NewPositionHandle :: "nat \<Rightarrow> int \<Rightarrow> PositionHandle" where
  "NewPositionHandle h defaultTimeout = \<lparr>phHandle = NewOverlapped h defaultTimeout, phPosition = 0\<rparr>"

definition advance :: "io_count \<times> OvHandle \<Rightarrow> PositionHandle \<Rightarrow> io_count \<times> PositionHandle" where
  "advance r p =
     (fst r, p\<lparr>phHandle := snd r, phPosition := if 0 < fst (fst r) then phPosition p + of_nat (fst (fst r)) else phPosition p\<rparr>)"

definition Read_position :: "kernel \<Rightarrow> nat \<Rightarrow> PositionHandle \<Rightarrow> (io_count \<times> PositionHandle) option" where
  "Read_position k len p = map_option (\<lambda>r. advance r p) (ReadAt k len (phPosition p) (phHandle p))"

definition Write_position :: "kernel \<Rightarrow> bytes \<Rightarrow> PositionHandle \<Rightarrow> (io_count \<times> PositionHandle) option" where
  "Write_position k b p = map_option (\<lambda>r. advance r p) (WriteAt k b (phPosition p) (phHandle p))"

definition Close_position :: "ov_env \<Rightarrow> PositionHandle \<Rightarrow> (ov_error, unit) res \<times> PositionHandle" where
  "Close_position env p = (case Close_handle env (phHandle p) of (r, h) \<Rightarrow> (r, p\<lparr>phHandle := h\<rparr>))"

section \<open>Device and interface\<close>

datatype DeviceType = TUN | TAP

record TapConfig =
  tcName :: string
  tcDevType :: DeviceType
  tcMACAddress :: string
  tcPersist :: bool
  tcOwner :: int
  tcGroup :: int
  tcPermissions :: u32

record Device =
  dvName :: string
  dvDevType :: DeviceType
  dvConfig :: TapConfig
  dvHandle :: nat
  dvIo :: "OvHandle option"
  dvIfIndex :: u32
  dvMacAddr :: "hwaddr option"

record Interface =
  ifIface :: "Device option"
  ifConfiguredIP :: string

definition on_device :: "(OvHandle \<Rightarrow> (io_count \<times> OvHandle) option) \<Rightarrow> Device \<Rightarrow> (io_count \<times> Device) option" where
  "on_device io d =
     (case dvIo d of
        None \<Rightarrow> Some ((0, Some ErrInvalid), d)
      | Some h \<Rightarrow> map_option (\<lambda>(r, h'). (r, d\<lparr>dvIo := Some h'\<rparr>)) (io h))"

definition Read_device :: "ov_env \<Rightarrow> nat \<Rightarrow> Device \<Rightarrow> (io_count \<times> Device) option" where
  "Read_device env len = on_device (Read_handle env len)"

definition Write_device :: "ov_env \<Rightarrow> bytes \<Rightarrow> Device \<Rightarrow> (io_count \<times> Device) option" where
  "Write_device env b = on_device (Write_handle env b)"

definition Close_device :: "ov_env \<Rightarrow> Device \<Rightarrow> (ov_error, unit) res \<times> Device" where
  "Close_device env d =
     (case dvIo d of None \<Rightarrow> (Ok (), d) | Some h \<Rightarrow> (fst (Close_handle env h), d\<lparr>dvIo := None\<rparr>))"

definition SetReadDeadline_device :: "int option \<Rightarrow> Device \<Rightarrow> (ov_error, unit) res \<times> Device" where
  "SetReadDeadline_device t d =
     (case dvIo d of None \<Rightarrow> (Fail ErrInvalid, d) | Some h \<Rightarrow> (Ok (), d\<lparr>dvIo := Some (SetReadDeadline t h)\<rparr>))"

definition SetWriteDeadline_device :: "int option \<Rightarrow> Device \<Rightarrow> (ov_error, unit) res \<times> Device" where
  "SetWriteDeadline_device t d =
     (case dvIo d of None \<Rightarrow> (Fail ErrInvalid, d) | Some h \<Rightarrow> (Ok (), d\<lparr>dvIo := Some (SetWriteDeadline t h)\<rparr>))"

definition SetDeadline_device :: "int option \<Rightarrow> Device \<Rightarrow> (ov_error, unit) res \<times> Device" where
  "SetDeadline_device t d =
     (if dvIo d = None then (Fail ErrInvalid, d)
      else case SetReadDeadline_device t d of (Inl e, d1) \<Rightarrow> (Inl e, d1) | (Inr _, d1) \<Rightarrow> SetWriteDeadline_device t d1)"

definition on_iface :: "(Device \<Rightarrow> (io_count \<times> Device) option) \<Rightarrow> Interface \<Rightarrow> (io_count \<times> Interface) option" where
  "on_iface io i =
     (case ifIface i of
        None \<Rightarrow> Some ((0, Some ErrInvalid), i)
      | Some d \<Rightarrow> map_option (\<lambda>(r, d'). (r, i\<lparr>ifIface := Some d'\<rparr>)) (io d))"

definition Read_iface :: "ov_env \<Rightarrow> nat \<Rightarrow> Interface \<Rightarrow> (io_count \<times> Interface) option" where
  "Read_iface env len = on_iface (Read_device env len)"

definition ethernetHeaderSize :: nat where "ethernetHeaderSize = 6 + 6 + 2"

text \<open>On Windows the destination of a frame is replaced by the address of the adapter.\<close>

definition to_adapter :: "bool \<Rightarrow> Device \<Rightarrow> bytes \<Rightarrow> bytes" where
  "to_adapter windows d b =
     (if windows \<and> ethernetHeaderSize \<le> length b then
        (case dvMacAddr d of
           Some mac \<Rightarrow> if length mac = 6 then mac @ drop 6 b else b
         | None \<Rightarrow> b)
      else b)"

definition Write_iface :: "ov_env \<Rightarrow> bool \<Rightarrow> bytes \<Rightarrow> Interface \<Rightarrow> (io_count \<times> Interface) option" where
  "Write_iface env windows b = on_iface (\<lambda>d. Write_device env (to_adapter windows d b) d)"

section \<open>Events belong to one call at a time\<close>

text \<open>
  The calls of several goroutines interleave between taking an event and giving it back. A state is
  the handle with the events in use; a new event of the kernel differs from those in use.
\<close>

inductive pool_step :: "OvHandle \<times> event list \<Rightarrow> OvHandle \<times> event list \<Rightarrow> bool" where
  pool_get: "getEvent env f = (Ok e, f') \<Longrightarrow> hEvents f \<noteq> [] \<or> e \<notin> set used \<Longrightarrow> pool_step (f, used) (f', e # used)"
| pool_put: "e \<in> set used \<Longrightarrow> pool_step (f, used) (putEvent e f, remove1 e used)"
| pool_close: "pool_step (f, used) (snd (Close_handle env f), used)"

inductive_cases pool_stepE: "pool_step (f, used) s"

definition events_apart :: "OvHandle \<times> event list \<Rightarrow> bool" where
  "events_apart s = distinct (hEvents (fst s) @ snd s)"

lemma getEvent_pool:
  assumes "getEvent env f = (Ok e, f')"
  shows "if hEvents f = [] then hEvents f' = [] else hEvents f = hEvents f' @ [e]"
  using assms by (auto simp: getEvent_def split: option.splits if_splits)

lemma pool_step_apart: "pool_step s s' \<Longrightarrow> events_apart s \<Longrightarrow> events_apart s'"
proof (induction s s' rule: pool_step.induct)
  case (pool_get env f e f' used)
  then show ?case using getEvent_pool [OF pool_get.hyps(1)] by (auto simp: events_apart_def split: if_splits)
next
  case (pool_put e used f)
  then show ?case by (auto simp: events_apart_def putEvent_def distinct_remove1)
next
  case (pool_close f used env)
  then show ?case by (auto simp: events_apart_def Close_handle_def)
qed

text \<open>C38. However the calls of several goroutines interleave, with each other and with closing the
  handle, no event is ever used by two calls or is in the pool while a call uses it.\<close>

theorem event_serves_one_call:
  assumes "pool_step\<^sup>*\<^sup>* (NewOverlapped h t, []) (f, used)"
  shows "distinct (hEvents f @ used)"
proof -
  have "events_apart (NewOverlapped h t, [])" by (simp add: events_apart_def NewOverlapped_def)
  with assms have "events_apart (f, used)" by (induction rule: rtranclp_induct) (auto intro: pool_step_apart)
  then show ?thesis by (simp add: events_apart_def)
qed

section \<open>Deadlines\<close>

lemma calculateTimeoutMillis_bounds:
  assumes "calculateTimeoutMillis env (Some d) t = Ok ms"
  shows "0 \<le> ms" "ms \<le> maxInt32" "ms * 1000000 \<le> d - ovNow env" "ms = 0 \<longleftrightarrow> d - ovNow env < 1000000"
proof -
  have "0 \<le> ms \<and> ms \<le> maxInt32 \<and> ms * 1000000 \<le> d - ovNow env \<and> (ms = 0 \<longleftrightarrow> d - ovNow env < 1000000)"
    using assms by (auto simp: calculateTimeoutMillis_def Let_def maxInt32_def split: if_splits)
  then show "0 \<le> ms" "ms \<le> maxInt32" "ms * 1000000 \<le> d - ovNow env" "ms = 0 \<longleftrightarrow> d - ovNow env < 1000000" by auto
qed

lemma timeout_not_INFINITE:
  assumes "0 \<le> ms" "ms \<le> maxInt32"
  shows "word_of_int ms \<noteq> INFINITE"
proof -
  have "uint (word_of_int ms :: u32) = ms"
    using assms by (simp add: uint_word_of_int_eq take_bit_int_eq_self maxInt32_def)
  moreover have "uint INFINITE > maxInt32" by (simp add: INFINITE_def maxInt32_def)
  ultimately show ?thesis using assms(2) by auto
qed

lemma with_event_returns: "io \<noteq> None \<Longrightarrow> with_event env start io f \<noteq> None"
  by (auto simp: with_event_def getEvent_def split: option.splits if_splits)

text \<open>C39. A read with a deadline that is at least a millisecond away returns, and when nothing arrives it
  reports the deadline: it waits for a bounded time, at most until the deadline and never without
  limit. What is assumed of the kernel is that a wait with a limit ends and that the result of an
  operation that has been signalled is there.\<close>

theorem read_ends_at_its_deadline:
  assumes "hReadDeadline f = Some d" "1000000 \<le> d - ovNow env"
    and "\<forall>t. t \<noteq> INFINITE \<longrightarrow> ovWait env t \<noteq> None"
    and "\<forall>t. ovWait env t = Some WaitObject \<longrightarrow> ovResult env \<noteq> None"
  shows "\<exists>ms r f'. calculateTimeoutMillis env (Some d) (hDefaultTimeout f) = Ok ms \<and> 0 < ms \<and> ms * 1000000 \<le> d - ovNow env \<and>
    Read_handle env len f = Some (r, f') \<and>
    (ovStart env = StartPending \<and> ovWait env (word_of_int ms) = Some WaitTimeout \<and> hEvents f \<noteq> [] \<longrightarrow>
       r = (0, Some DeadlineExceeded) \<and> f' = f)"
proof -
  have "\<exists>ms. calculateTimeoutMillis env (Some d) (hDefaultTimeout f) = Ok ms"
    using assms(2) by (simp add: calculateTimeoutMillis_def Let_def)
  then obtain ms where c: "calculateTimeoutMillis env (Some d) (hDefaultTimeout f) = Ok ms" by blast
  note b = calculateTimeoutMillis_bounds [OF c]
  have pos: "0 < ms" using b(1,4) assms(2) by auto
  have w: "ovWait env (word_of_int ms) \<noteq> None" using assms(3) timeout_not_INFINITE [OF b(1,2)] by blast
  then have io: "asyncIo env ms \<noteq> None"
    using assms(4) pos by (auto simp: asyncIo_def finish_def split: io_start.splits option.splits wait_result.splits io_result.splits)
  obtain r f' where e: "with_event env id (asyncIo env ms) f = Some (r, f')"
    using with_event_returns [OF io, of env id f] by auto
  then have "Read_handle env len f = Some (read_result len r, f')"
    using assms(1) c by (simp add: Read_handle_def ReadTimeout_def)
  moreover have "read_result len r = (0, Some DeadlineExceeded) \<and> f' = f"
    if "ovStart env = StartPending" "ovWait env (word_of_int ms) = Some WaitTimeout" "hEvents f \<noteq> []"
    using e that pos by (auto simp: with_event_def getEvent_def asyncIo_def putEvent_def read_result_def)
  ultimately show ?thesis using c pos b(3) by blast
qed

text \<open>C40. A read that should not block can block forever: with the timeout 0, which the TAP device is
  opened with, and also with a deadline less than a millisecond away, the code goes on after the
  wait and fetches the result, and that waits without limit when nothing arrives.\<close>

theorem nonblocking_read_blocks:
  assumes "case hReadDeadline f of None \<Rightarrow> hDefaultTimeout f = 0 | Some d \<Rightarrow> 0 < d - ovNow env \<and> d - ovNow env < 1000000"
    and "hEvents f \<noteq> []" "ovStart env = StartPending" "ovWait env 0 = Some WaitTimeout" "ovResult env = None"
  shows "Read_handle env len f = None"
proof -
  have "calculateTimeoutMillis env (hReadDeadline f) (hDefaultTimeout f) = Ok 0"
    using assms(1) by (auto simp: calculateTimeoutMillis_def Let_def split: option.splits)
  moreover have "asyncIo env 0 = None" using assms(3-5) by (simp add: asyncIo_def finish_def)
  ultimately show ?thesis using assms(2) by (simp add: Read_handle_def ReadTimeout_def with_event_def getEvent_def)
qed

section \<open>Positions\<close>

text \<open>The two halves make up the offset.\<close>

lemma Offset_mask: "Offset off = ucast (off AND mask 32)"
  by (simp add: Offset_def mask_eq_exp_minus_1)

lemma offset_halves: "word_cat (OffsetHigh off) (Offset off) = off"
  by (rule bit_word_eqI)
    (auto simp: Offset_mask OffsetHigh_def bit_word_cat_iff bit_unsigned_iff bit_signed_drop_bit_iff bit_and_iff bit_mask_iff)

text \<open>The kernel of a file of \<open>sz\<close> bytes: a read gives what is left of the file from the offset on, at
  most the length of the buffer, and a write takes all of its buffer.\<close>

definition file_kernel :: "ov_env \<Rightarrow> nat \<Rightarrow> nat \<Rightarrow> kernel" where
  "file_kernel env len sz lo hi =
     env\<lparr>ovStart := (let off = unat (word_cat hi lo :: 64 word) in
       if sz \<le> off then StartEOF 0 else StartDone (min len (sz - off)))\<rparr>"

text \<open>Reading a file from a position gives the bytes up to the end of the buffer or of the file and moves
  the position behind them; at the end of the file it gives the end of the file and stays.\<close>

lemma position_follows_the_file:
  assumes "unat (phPosition p) \<le> sz" "sz < 2 ^ 64" "0 < len" "hEvents (phHandle p) \<noteq> []" "hReadDeadline (phHandle p) = None"
  shows "\<exists>p'. Read_position (file_kernel env len sz) len p =
       Some ((min len (sz - unat (phPosition p)), if unat (phPosition p) = sz then Some EOF else None), p') \<and>
     unat (phPosition p') = min (unat (phPosition p) + len) sz \<and> phHandle p' = phHandle p"
proof -
  let ?pos = "unat (phPosition p)" let ?n = "min len (sz - unat (phPosition p))"
  have "ReadAt (file_kernel env len sz) len (phPosition p) (phHandle p) =
      Some ((?n, if ?pos = sz then Some EOF else None), phHandle p)"
    using assms by (auto simp: ReadAt_def file_kernel_def offset_halves calculateTimeoutMillis_def with_event_def getEvent_def
        putEvent_def asyncIo_def read_result_def Let_def)
  moreover have "unat (phPosition p + of_nat ?n) = ?pos + ?n"
    using assms(1,2) by (simp add: unat_word_ariths(1) unat_of_nat mod_add_right_eq)
  ultimately show ?thesis using assms(1) by (auto simp: Read_position_def advance_def)
qed

section \<open>Frames\<close>

text \<open>A frame that is written to the interface reaches the handle with the address of the adapter as
  its destination and is otherwise unchanged.\<close>

lemma written_frame:
  assumes "ifIface i = Some d" "dvIo d = Some h" "dvMacAddr d = Some mac" "length mac = 6" "14 \<le> length b"
    and "Write_iface env True b i = Some ((n, None), i')"
  shows "\<exists>d' h'. ifIface i' = Some d' \<and> dvIo d' = Some h' \<and> hWritten h' = hWritten h @ [(0, 0, mac @ drop 6 b)]"
  using assms
  by (auto simp: Write_iface_def on_iface_def Write_device_def on_device_def Write_handle_def WriteTimeout_def to_adapter_def
      ethernetHeaderSize_def with_event_def getEvent_def putEvent_def split: sum.splits option.splits if_splits)

section \<open>Examples\<close>

definition demo_kernel :: ov_env where
  "demo_kernel = \<lparr>ovCreate = Some 5, ovReset = True, ovStart = StartPending, ovWait = (\<lambda>t. if t = INFINITE then None else Some WaitTimeout),
     ovResult = None, ovNow = 0, ovCloses = True\<rparr>"

definition demo_handle :: OvHandle where
  "demo_handle = (NewOverlapped 7 0)\<lparr>hEvents := [5]\<rparr>"

theorem event_serves_one_call_witness:
  "\<exists>f. pool_step\<^sup>*\<^sup>* (NewOverlapped 7 0, []) (f, [5]) \<and> distinct (hEvents f @ [5])"
proof -
  have "pool_step (NewOverlapped 7 0, []) (NewOverlapped 7 0, [5])"
    by (rule pool_get [of demo_kernel]) (simp_all add: getEvent_def NewOverlapped_def demo_kernel_def)
  then have "pool_step\<^sup>*\<^sup>* (NewOverlapped 7 0, []) (NewOverlapped 7 0, [5])" by (rule r_into_rtranclp)
  with event_serves_one_call [OF this] show ?thesis by blast
qed

theorem read_ends_at_its_deadline_witness:
  "Read_handle demo_kernel 1500 (demo_handle\<lparr>hReadDeadline := Some 3000000\<rparr>) =
     Some ((0, Some DeadlineExceeded), demo_handle\<lparr>hReadDeadline := Some 3000000\<rparr>)"
proof -
  let ?f = "demo_handle\<lparr>hReadDeadline := Some 3000000\<rparr>"
  have h: "hReadDeadline ?f = Some 3000000" "1000000 \<le> 3000000 - ovNow demo_kernel"
    "\<forall>t. t \<noteq> INFINITE \<longrightarrow> ovWait demo_kernel t \<noteq> None" "\<forall>t. ovWait demo_kernel t = Some WaitObject \<longrightarrow> ovResult demo_kernel \<noteq> None"
    by (simp_all add: demo_kernel_def)
  obtain ms r f' where "calculateTimeoutMillis demo_kernel (Some 3000000) (hDefaultTimeout ?f) = Ok ms"
    "Read_handle demo_kernel 1500 ?f = Some (r, f')"
    "ovStart demo_kernel = StartPending \<and> ovWait demo_kernel (word_of_int ms) = Some WaitTimeout \<and> hEvents ?f \<noteq> [] \<longrightarrow>
       r = (0, Some DeadlineExceeded) \<and> f' = ?f"
    using read_ends_at_its_deadline [OF h, of 1500] by blast
  moreover from this(1) have "ms = 3" by (simp add: calculateTimeoutMillis_def demo_kernel_def maxInt32_def)
  ultimately show ?thesis by (simp add: demo_kernel_def demo_handle_def INFINITE_def)
qed

theorem nonblocking_read_blocks_witness: "Read_handle demo_kernel 1500 demo_handle = None"
  by (rule nonblocking_read_blocks) (simp_all add: demo_kernel_def demo_handle_def NewOverlapped_def INFINITE_def)

end
