(* ===== verification/Tapsetup.thy ===== *)
theory Tapsetup
  imports Tapdev Netaddr
begin

text \<open>
  Finding, opening and configuring the TAP adapter on Windows: \<^verbatim>\<open>pkg/tuntap/device_windows.go\<close> with
  the registry and the restart of the adapter, \<^verbatim>\<open>link_windows.go\<close> with the addresses and the MTU, and
  closing the interface (\<^verbatim>\<open>tuntap.go\<close>, \<^verbatim>\<open>close_windows.go\<close>).

  The record \<open>win\<close> is what the program changes of the system: values in the registry, open handles,
  addresses and MTUs of the adapters, the commands it runs and the times it sleeps. The record
  \<open>win_env\<close> is how the system answers.
\<close>

section \<open>The system\<close>

text \<open>A key below the class of network adapters: the ways it can be opened (for reading, for reading
  and writing, for writing), its values, and whether a value can be set.\<close>

record reg_key =
  rkName :: string
  rkQuery :: bool
  rkQuerySet :: bool
  rkSet :: bool
  rkSetsValue :: bool
  rkComponentId :: "string option"
  rkInstanceId :: "string option"
  rkNetworkAddress :: "string option"

record adapter =
  adName :: "string option"
  adIfIndex :: u32
  adPhysAddr :: bytes
  adPhysLen :: nat

datatype adapters_call = Adapters "adapter list" | BufferOverflow | AdaptersError

datatype create_file = Opened nat | FileNotFound | FileAccessDenied | FileError

type_synonym sock_bytes = bytes

text \<open>A call of a procedure gives its return value and the last error of the thread.\<close>

type_synonym proc_result = "nat \<times> nat"

record win =
  wnKeys :: "reg_key list"
  wnHandles :: "nat list"
  wnAddrs :: "(u32 \<times> sock_bytes \<times> byte) list"
  wnMtu :: "(u32 \<times> u16, u32) gomap"
  wnCommands :: "string list list"
  wnSleeps :: "int list"

record win_env =
  weOpenKey :: bool
  weSubKeyNames :: bool
  weAdapters :: "nat \<Rightarrow> nat \<Rightarrow> adapters_call"
  weRun :: "string list \<Rightarrow> string option"
  weCreateFile :: create_file
  weIoControl :: "nat \<Rightarrow> u32 \<Rightarrow> bytes \<Rightarrow> nat option"
  weCreateAddr :: "u32 \<Rightarrow> sock_bytes \<Rightarrow> byte \<Rightarrow> proc_result"
  weDeleteAddr :: "u32 \<Rightarrow> sock_bytes \<Rightarrow> proc_result"
  weGetIf :: "u32 \<Rightarrow> u16 \<Rightarrow> proc_result"
  weSetIf :: "u32 \<Rightarrow> u16 \<Rightarrow> u32 \<Rightarrow> proc_result"

datatype win_error =
    NilDevice | BadHandle | IoControlFailed | InvalidMAC | MACNotSixBytes
  | AdaptersFailed | AdaptersRetried | GUIDNotFound | IfIndexZero
  | AdaptersKeyFailed | SubKeysFailed | NoTapAdapter | LookupFailed | OpenForWriteFailed | SetValueFailed | FinalizeFailed
  | ListFailed | NothingListed | DisableFailed | EnableFailed
  | OnlyTAP | PathFailed | TapNotFound | TapAccessDenied | TapOpenFailed | MediaStatusFailed
  | CIDRFailed | BadIP | Errno nat | CreateAddrFailed | DeleteAddrFailed | NoInterfaceEntry | GetIfFailed | SetIfFailed
  | SetIPFailed | CommandFailed | DeviceFailed ov_error

definition run :: "win_env \<Rightarrow> string list \<Rightarrow> win \<Rightarrow> string option \<times> win" where
  "run env cmd w = (weRun env cmd, w\<lparr>wnCommands := wnCommands w @ [cmd]\<rparr>)"

definition sleep :: "int \<Rightarrow> win \<Rightarrow> win" where
  "sleep ns w = w\<lparr>wnSleeps := wnSleeps w @ [ns]\<rparr>"

text \<open>Text with a tilde for a double quote and a caret for a backslash.\<close>

definition ps_text :: "string \<Rightarrow> string" where
  "ps_text s = map (\<lambda>c. if c = CHR ''~'' then CHR 0x22 else if c = CHR ''^'' then CHR 0x5C else c) s"

section \<open>Device\<close>

definition GetIfIndex_device :: "Device option \<Rightarrow> u32" where
  "GetIfIndex_device d = (case d of None \<Rightarrow> 0 | Some d \<Rightarrow> dvIfIndex d)"

definition GetMACAddress :: "Device option \<Rightarrow> hwaddr option" where
  "GetMACAddress d = (case d of None \<Rightarrow> None | Some d \<Rightarrow> dvMacAddr d)"

definition GetHandle :: "Device option \<Rightarrow> nat" where
  "GetHandle d = (case d of None \<Rightarrow> InvalidHandle | Some d \<Rightarrow> dvHandle d)"

definition TAP_IOCTL_SET_MEDIA_STATUS :: u32 where
  "TAP_IOCTL_SET_MEDIA_STATUS = push_bit 16 0x22 OR push_bit 14 0 OR push_bit 2 6 OR 0"

definition deviceIoControl :: "win_env \<Rightarrow> Device option \<Rightarrow> u32 \<Rightarrow> bytes \<Rightarrow> (win_error, nat) res" where
  "deviceIoControl env dev code inBuffer =
     (if dev = None then Fail NilDevice
      else if GetHandle dev = InvalidHandle then Fail BadHandle
      else case weIoControl env (GetHandle dev) code inBuffer of None \<Rightarrow> Fail IoControlFailed | Some n \<Rightarrow> Ok n)"

section \<open>Finding the adapter\<close>

definition formatMACForRegistry :: "string \<Rightarrow> (win_error, string) res" where
  "formatMACForRegistry macStr =
     (case ParseMAC macStr of
        None \<Rightarrow>
          if length macStr = 12 \<and> (\<forall>c \<in> set macStr. hexval c \<noteq> None) then Ok (map upper_ascii macStr) else Fail InvalidMAC
      | Some hwAddr \<Rightarrow>
          if length hwAddr < 6 then Panic IndexOutOfRange
          else Ok (join_with (CHR ''-'') (map (\<lambda>b. map upper_ascii (hex2 b)) (take 6 hwAddr))))"

text \<open>At most three calls, each after the first because the buffer was too small.\<close>

fun get_adapters :: "(nat \<Rightarrow> adapters_call) \<Rightarrow> nat \<Rightarrow> nat \<Rightarrow> (win_error, adapter list) res" where
  "get_adapters call attempt 0 = Fail AdaptersRetried"
| "get_adapters call attempt (Suc k) =
     (case call attempt of
        Adapters as \<Rightarrow> Ok as
      | BufferOverflow \<Rightarrow> get_adapters call (Suc attempt) k
      | AdaptersError \<Rightarrow> Fail AdaptersFailed)"

definition adapter_name :: "adapter \<Rightarrow> string" where
  "adapter_name a = (case adName a of None \<Rightarrow> [] | Some p \<Rightarrow> takeWhile (\<lambda>c. c \<noteq> CHR 0x00) (take 256 p))"

definition adapter_mac :: "adapter \<Rightarrow> hwaddr option" where
  "adapter_mac a =
     (if 0 < adPhysLen a \<and> adPhysLen a \<le> length (adPhysAddr a) then Some (take 6 (take (adPhysLen a) (adPhysAddr a))) else None)"

definition findInterfaceIndexAndInfoByGUID :: "(nat \<Rightarrow> adapters_call) \<Rightarrow> string \<Rightarrow> (win_error, u32 \<times> hwaddr option) res" where
  "findInterfaceIndexAndInfoByGUID call guid =
     res_bind (get_adapters call 0 3) (\<lambda>as.
       case find (\<lambda>a. adapter_name a = guid) as of
         None \<Rightarrow> Fail GUIDNotFound
       | Some a \<Rightarrow> if adIfIndex a = 0 then Fail IfIndexZero else Ok (adIfIndex a, adapter_mac a))"

definition target_mac :: "string \<Rightarrow> (win_error, (hwaddr \<times> string) option) res" where
  "target_mac s =
     (if s = [] then Ok None
      else case ParseMAC s of
        None \<Rightarrow> Fail InvalidMAC
      | Some m \<Rightarrow>
          if length m \<noteq> 6 then Fail MACNotSixBytes
          else res_bind (formatMACForRegistry s) (\<lambda>t. Ok (Some (m, t))))"

definition tap_component :: "string \<Rightarrow> bool" where
  "tap_component c = (c = ''tap0901'' \<or> c = ps_text ''root^tap0901'')"

text \<open>The first key of a TAP adapter that can be opened and has an identifier. A key that is opened
  for writing too is opened for reading when that fails.\<close>

fun find_tap :: "bool \<Rightarrow> reg_key list \<Rightarrow> (string \<times> string) option" where
  "find_tap write [] = None"
| "find_tap write (k # ks) =
     (if \<not> (if write then rkQuerySet k \<or> rkQuery k else rkQuery k) then find_tap write ks
      else case rkComponentId k of
        None \<Rightarrow> find_tap write ks
      | Some c \<Rightarrow>
          if tap_component c then
            (case rkInstanceId k of None \<Rightarrow> find_tap write ks | Some guid \<Rightarrow> Some (rkName k, guid))
          else find_tap write ks)"

definition write_mac :: "string \<Rightarrow> string \<Rightarrow> (win, win_error, unit) op" where
  "write_mac name val w =
     (case find (\<lambda>k. rkName k = name) (wnKeys w) of
        None \<Rightarrow> (Fail OpenForWriteFailed, w)
      | Some k \<Rightarrow>
          if \<not> rkSet k then (Fail OpenForWriteFailed, w)
          else if \<not> rkSetsValue k then (Fail SetValueFailed, w)
          else (Ok (), w\<lparr>wnKeys := map (\<lambda>k. if rkName k = name then k\<lparr>rkNetworkAddress := Some val\<rparr> else k) (wnKeys w)\<rparr>))"

definition list_command :: "string list" where
  "list_command = [''powershell'', ''-Command'',
     ps_text ''Get-NetAdapter | Where-Object {$_.InterfaceDescription -like ~*TAP-Windows*~} | Select-Object -ExpandProperty ifIndex'']"

definition admin_command :: "string \<Rightarrow> string \<Rightarrow> string list" where
  "admin_command ifIndexStr st = [''netsh'', ''interface'', ''set'', ''interface'', ''index='' @ ifIndexStr, ''admin='' @ st]"

definition restartTapWindows :: "win_env \<Rightarrow> (win, win_error, unit) op" where
  "restartTapWindows env w =
     (case run env list_command w of
        (None, w1) \<Rightarrow> (Fail ListFailed, w1)
      | (Some out, w1) \<Rightarrow>
          let ifIndexStr = TrimSpace out in
          if ifIndexStr = [] then (Fail NothingListed, w1)
          else case run env (admin_command ifIndexStr ''disabled'') w1 of
            (None, w2) \<Rightarrow> (Fail DisableFailed, w2)
          | (Some _, w2) \<Rightarrow>
              (case run env (admin_command ifIndexStr ''enabled'') (sleep 5000 w2) of
                 (None, w3) \<Rightarrow> (Fail EnableFailed, w3)
               | (Some _, w3) \<Rightarrow> (Ok (), sleep 10000 w3)))"

text \<open>Waiting until the adapter reports the wanted address, ten times at most.\<close>

fun refresh :: "win_env \<Rightarrow> string \<Rightarrow> hwaddr \<Rightarrow> nat \<Rightarrow> nat \<Rightarrow> win \<Rightarrow> (u32 \<times> hwaddr) option \<times> win" where
  "refresh env guid desired attempt 0 w = (None, w)"
| "refresh env guid desired attempt (Suc k) w =
     (case findInterfaceIndexAndInfoByGUID (weAdapters env (Suc attempt)) guid of
        Inl _ \<Rightarrow> refresh env guid desired (Suc attempt) k (sleep 600000000 w)
      | Inr (i, mac) \<Rightarrow>
          (case mac of
             None \<Rightarrow> refresh env guid desired (Suc attempt) k (sleep 600000000 w)
           | Some m \<Rightarrow>
               if m = [] \<or> m \<noteq> desired then refresh env guid desired (Suc attempt) k (sleep 600000000 w)
               else (Some (i, m), sleep 600000000 w)))"

type_synonym tap_found = "string \<times> string \<times> u32 \<times> hwaddr option"

definition finalize :: "string \<Rightarrow> u32 \<Rightarrow> hwaddr option \<Rightarrow> (win_error, tap_found) res" where
  "finalize instanceID ifIdx currentMAC =
     (if instanceID = [] \<or> ifIdx = 0 then Fail FinalizeFailed
      else Ok (ps_text ''^^.^Global^'' @ instanceID @ ''.tap'', instanceID, ifIdx, currentMAC))"

definition apply_mac :: "win_env \<Rightarrow> string \<Rightarrow> string \<Rightarrow> hwaddr \<Rightarrow> string \<Rightarrow> u32 \<times> hwaddr option \<Rightarrow> (win, win_error, u32 \<times> hwaddr option) op" where
  "apply_mac env name guid desired txt cur =
     st_then (write_mac name txt) (\<lambda>_ w.
       case restartTapWindows env w of
         (Inl _, w1) \<Rightarrow> (Ok cur, w1)
       | (Inr _, w1) \<Rightarrow>
           (case refresh env guid desired 0 10 w1 of
              (None, w2) \<Rightarrow> (Ok (fst cur, Some desired), w2)
            | (Some (i, m), w2) \<Rightarrow> (Ok (i, Some m), w2)))"

definition findAndConfigureTapDevice :: "win_env \<Rightarrow> TapConfig \<Rightarrow> (win, win_error, tap_found) op" where
  "findAndConfigureTapDevice env config w =
     on_ok (target_mac (tcMACAddress config)) (\<lambda>target w.
       if \<not> weOpenKey env then (Fail AdaptersKeyFailed, w)
       else if \<not> weSubKeyNames env then (Fail SubKeysFailed, w)
       else case find_tap (target \<noteq> None) (wnKeys w) of
         None \<Rightarrow> (Fail NoTapAdapter, w)
       | Some (name, guid) \<Rightarrow>
           (case findInterfaceIndexAndInfoByGUID (weAdapters env 0) guid of
              Inl _ \<Rightarrow> (Fail LookupFailed, w)
            | Inr cur \<Rightarrow>
                st_then (case target of None \<Rightarrow> (\<lambda>w. (Ok cur, w)) | Some (desired, txt) \<Rightarrow> apply_mac env name guid desired txt cur)
                  (\<lambda>(ifIdx, mac) w. (finalize guid ifIdx mac, w)) w)) w"

section \<open>Opening the device\<close>

definition new_device :: "TapConfig \<Rightarrow> tap_found \<Rightarrow> nat \<Rightarrow> Device" where
  "new_device config f h =
     (case f of (devPath, instanceID, ifIndex, initialMAC) \<Rightarrow>
        \<lparr>dvName = instanceID, dvDevType = tcDevType config, dvConfig = config, dvHandle = h,
         dvIo = Some (NewOverlapped h 0), dvIfIndex = ifIndex, dvMacAddr = initialMAC\<rparr>)"

definition Create :: "win_env \<Rightarrow> TapConfig \<Rightarrow> (win, win_error, Device) op" where
  "Create env config w =
     (if tcDevType config \<noteq> TAP then (Fail OnlyTAP, w)
      else st_then (findAndConfigureTapDevice env config) (\<lambda>f w.
        if CHR 0x00 \<in> set (fst f) then (Fail PathFailed, w)
        else case weCreateFile env of
          FileNotFound \<Rightarrow> (Fail TapNotFound, w)
        | FileAccessDenied \<Rightarrow> (Fail TapAccessDenied, w)
        | FileError \<Rightarrow> (Fail TapOpenFailed, w)
        | Opened h \<Rightarrow>
            let w1 = w\<lparr>wnHandles := h # wnHandles w\<rparr>; dev = new_device config f h in
            (case deviceIoControl env (Some dev) TAP_IOCTL_SET_MEDIA_STATUS [1, 0, 0, 0] of
               Inl _ \<Rightarrow> (Fail MediaStatusFailed, w1\<lparr>wnHandles := remove1 h (wnHandles w1)\<rparr>)
             | Inr _ \<Rightarrow> (Ok dev, w1))) w)"

definition NewInterface :: "win_env \<Rightarrow> TapConfig \<Rightarrow> (win, win_error, Interface) op" where
  "NewInterface env config w =
     (if tcDevType config \<noteq> TAP then (Fail OnlyTAP, w)
      else st_then (Create env config) (\<lambda>dev w. (Ok \<lparr>ifIface = Some dev, ifConfiguredIP = []\<rparr>, w)) w)"

section \<open>Addresses\<close>

text \<open>A socket address has 28 bytes, as one of IPv6 has; one of IPv4 uses the first 16 of them.\<close>

definition sockaddr :: "ip_addr \<Rightarrow> sock_bytes option" where
  "sockaddr ip =
     (case To4 ip of
        Some ip4 \<Rightarrow> Some ([2, 0, 0, 0] @ ip4 @ replicate 8 0 @ replicate 12 0)
      | None \<Rightarrow> if length ip = 16 then Some ([23, 0, 0, 0, 0, 0, 0, 0] @ ip @ replicate 4 0) else None)"

definition callProcErr :: "proc_result \<Rightarrow> (win_error, unit) res" where
  "callProcErr r = (case r of (r1, errno) \<Rightarrow> if errno \<noteq> 0 then Fail (Errno errno) else Ok ())"

definition ERROR_OBJECT_ALREADY_EXISTS :: nat where "ERROR_OBJECT_ALREADY_EXISTS = 5010"
definition ERROR_NOT_FOUND :: nat where "ERROR_NOT_FOUND = 1168"

text \<open>The procedures themselves: they change the system when they return 0.\<close>

definition create_addr :: "win_env \<Rightarrow> u32 \<Rightarrow> sock_bytes \<Rightarrow> byte \<Rightarrow> win \<Rightarrow> proc_result \<times> win" where
  "create_addr env i a p w =
     (let r = weCreateAddr env i a p in (r, if fst r = 0 then w\<lparr>wnAddrs := List.insert (i, a, p) (wnAddrs w)\<rparr> else w))"

definition delete_addr :: "win_env \<Rightarrow> u32 \<Rightarrow> sock_bytes \<Rightarrow> win \<Rightarrow> proc_result \<times> win" where
  "delete_addr env i a w =
     (let r = weDeleteAddr env i a
      in (r, if fst r = 0 then w\<lparr>wnAddrs := filter (\<lambda>(j, b, _). \<not> (j = i \<and> b = a)) (wnAddrs w)\<rparr> else w))"

definition setIPAddress :: "win_env \<Rightarrow> u32 \<Rightarrow> string \<Rightarrow> (win, win_error, unit) op" where
  "setIPAddress env ifIndex ipCIDR w =
     (case ParseCIDR ipCIDR of
        None \<Rightarrow> (Fail CIDRFailed, w)
      | Some (ip, prefixLen, _) \<Rightarrow>
          (case sockaddr ip of
             None \<Rightarrow> (Fail BadIP, w)
           | Some a \<Rightarrow>
               (case create_addr env ifIndex a (of_nat prefixLen) w of
                  (r, w1) \<Rightarrow>
                    (case callProcErr r of
                       Inr _ \<Rightarrow> (Ok (), w1)
                     | Inl (Err (Errno e)) \<Rightarrow> if e = ERROR_OBJECT_ALREADY_EXISTS then (Ok (), w1) else (Fail CreateAddrFailed, w1)
                     | Inl _ \<Rightarrow> (Fail CreateAddrFailed, w1)))))"

definition deleteIPAddress :: "win_env \<Rightarrow> u32 \<Rightarrow> string \<Rightarrow> (win, win_error, unit) op" where
  "deleteIPAddress env ifIndex ipCIDR w =
     (case ParseCIDR ipCIDR of
        None \<Rightarrow> (Fail CIDRFailed, w)
      | Some (ip, _, _) \<Rightarrow>
          (case sockaddr ip of
             None \<Rightarrow> (Fail BadIP, w)
           | Some a \<Rightarrow>
               (case delete_addr env ifIndex a w of
                  (r, w1) \<Rightarrow>
                    (case callProcErr r of
                       Inr _ \<Rightarrow> (Ok (), w1)
                     | Inl (Err (Errno e)) \<Rightarrow> if e = ERROR_NOT_FOUND then (Ok (), w1) else (Fail DeleteAddrFailed, w1)
                     | Inl _ \<Rightarrow> (Fail DeleteAddrFailed, w1)))))"

text \<open>The row that was asked for is filled in by a call that returns 0.\<close>

definition setMTUAndEnable :: "win_env \<Rightarrow> u32 \<Rightarrow> u16 \<Rightarrow> int \<Rightarrow> (win, win_error, unit) op" where
  "setMTUAndEnable env ifIndex family mtu w =
     (case callProcErr (weGetIf env ifIndex family) of
        Inl (Err (Errno e)) \<Rightarrow> (Fail (if e = ERROR_NOT_FOUND then NoInterfaceEntry else GetIfFailed), w)
      | Inl _ \<Rightarrow> (Fail GetIfFailed, w)
      | Inr _ \<Rightarrow>
          let currentMtu = (if fst (weGetIf env ifIndex family) = 0
            then (case gget (wnMtu w) (ifIndex, family) of Some m \<Rightarrow> m | None \<Rightarrow> 0) else 0) in
          if mtu > 0 \<and> currentMtu \<noteq> word_of_int mtu then
            let r = weSetIf env ifIndex family (word_of_int mtu);
                w1 = (if fst r = 0 then w\<lparr>wnMtu := gput (wnMtu w) (ifIndex, family) (word_of_int mtu)\<rparr> else w)
            in (case callProcErr r of Inl _ \<Rightarrow> (Fail SetIfFailed, w1) | Inr _ \<Rightarrow> (Ok (), w1))
          else (Ok (), w))"

section \<open>Interface\<close>

definition AF_INET :: u16 where "AF_INET = 2"
definition AF_INET6 :: u16 where "AF_INET6 = 23"
definition DefaultMTU :: int where "DefaultMTU = 1420"

definition GetIfIndex :: "Interface \<Rightarrow> u32" where
  "GetIfIndex i = (case ifIface i of None \<Rightarrow> 0 | Some d \<Rightarrow> GetIfIndex_device (Some d))"

definition HardwareAddr :: "Interface \<Rightarrow> hwaddr option" where
  "HardwareAddr i = (case ifIface i of None \<Rightarrow> None | Some d \<Rightarrow> GetMACAddress (Some d))"

definition Name_iface :: "Interface \<Rightarrow> string" where
  "Name_iface i = (case ifIface i of None \<Rightarrow> [] | Some d \<Rightarrow> dvName d)"

definition drop_previous :: "win_env \<Rightarrow> string \<Rightarrow> Interface \<Rightarrow> win \<Rightarrow> win" where
  "drop_previous env ipCIDR i w =
     (if ifConfiguredIP i \<noteq> [] \<and> ifConfiguredIP i \<noteq> ipCIDR
      then snd (deleteIPAddress env (GetIfIndex i) (ifConfiguredIP i) w) else w)"

text \<open>The hardware address is set in the registry; here it is only logged.\<close>

definition ConfigureInterface :: "win_env \<Rightarrow> string \<Rightarrow> string \<Rightarrow> int \<Rightarrow> (Interface \<times> win, win_error, unit) op" where
  "ConfigureInterface env macAddr ipCIDR mtu s =
     (case s of (i, w) \<Rightarrow>
        if ifIface i = None then (Fail NilDevice, s)
        else if GetIfIndex i = 0 then (Fail IfIndexZero, s)
        else case setIPAddress env (GetIfIndex i) ipCIDR (drop_previous env ipCIDR i w) of
          (Inl _, w1) \<Rightarrow> (Fail SetIPFailed, (i, w1))
        | (Inr _, w1) \<Rightarrow>
            let i1 = i\<lparr>ifConfiguredIP := ipCIDR\<rparr> in
            (case ParseCIDR ipCIDR of
               None \<Rightarrow> (Fail CIDRFailed, (i1, w1))
             | Some (ip, _, _) \<Rightarrow>
                 (Ok (), (i1, snd (setMTUAndEnable env (GetIfIndex i1)
                    (if To4 ip = None \<and> length ip = 16 then AF_INET6 else AF_INET) (if mtu \<le> 0 then DefaultMTU else mtu) w1)))))"

definition IfUp :: "win_env \<Rightarrow> string \<Rightarrow> (Interface \<times> win, win_error, unit) op" where
  "IfUp env ipCIDR = ConfigureInterface env [] ipCIDR DefaultMTU"

definition no_colons :: "string \<Rightarrow> string" where
  "no_colons s = filter (\<lambda>c. c \<noteq> CHR '':'') s"

definition registry_script :: "string \<Rightarrow> string" where
  "registry_script macNoColons = ps_text (''Get-ChildItem ~HKLM:^SYSTEM^CurrentControlSet^Control^Class^{4d36e972-e325-11ce-bfc1-08002be10318}~ '' @
     ''| Get-ItemProperty | Where-Object { $_.DriverDesc -like ~*TAP*~ } | ForEach-Object { Set-ItemProperty -Path $_.PSPath -Name ~MacAddress~ -Value ~'') @
     macNoColons @ ps_text ''~ }''"

definition setMacViaRegistry :: "win_env \<Rightarrow> string \<Rightarrow> (win, win_error, unit) op" where
  "setMacViaRegistry env macAddr w =
     (case run env [''powershell'', ''-Command'', registry_script (no_colons macAddr)] w of
        (None, w1) \<Rightarrow> (Fail CommandFailed, w1) | (Some _, w1) \<Rightarrow> (Ok (), w1))"

definition setMacViaRegistryByIndex :: "win_env \<Rightarrow> u32 \<Rightarrow> string \<Rightarrow> (win, win_error, unit) op" where
  "setMacViaRegistryByIndex env ifIndex macAddr w =
     (case run env [''powershell'', ''-Command'',
             ''$ifIndex = '' @ itoa (uint ifIndex) @ ''; '' @ registry_script (no_colons macAddr)] w of
        (None, w1) \<Rightarrow> (Fail CommandFailed, w1) | (Some _, w1) \<Rightarrow> (Ok (), w1))"

definition IfMac :: "win_env \<Rightarrow> string \<Rightarrow> (Interface \<times> win, win_error, unit) op" where
  "IfMac env macAddr s =
     (case s of (i, w) \<Rightarrow>
        if ifIface i = None then (Fail NilDevice, s)
        else case run env [''powershell'', ''-Command'',
              ''Set-NetAdapter -InterfaceIndex '' @ itoa (uint (GetIfIndex i)) @ '' -MacAddress '' @ [CHR 0x27] @ no_colons macAddr @
              [CHR 0x27] @ '' -Confirm:$false''] w of
          (None, w1) \<Rightarrow> (Ok (), (i, snd (setMacViaRegistryByIndex env (GetIfIndex i) macAddr w1)))
        | (Some _, w1) \<Rightarrow> (Ok (), (i, w1)))"

definition closePlatform :: "win_env \<Rightarrow> Interface \<times> win \<Rightarrow> Interface \<times> win" where
  "closePlatform env s =
     (case s of (i, w) \<Rightarrow>
        if ifConfiguredIP i = [] then s
        else (i\<lparr>ifConfiguredIP := []\<rparr>,
              if ifIface i = None \<or> GetIfIndex i = 0 then w
              else snd (deleteIPAddress env (GetIfIndex i) (ifConfiguredIP i) w)))"

text \<open>Closing the device closes its handle.\<close>

definition release :: "ov_env \<Rightarrow> Device \<Rightarrow> win \<Rightarrow> win" where
  "release ov d w =
     (case dvIo d of
        None \<Rightarrow> w
      | Some h \<Rightarrow>
          if hHandle h = 0 \<or> hHandle h = InvalidHandle \<or> \<not> ovCloses ov then w
          else w\<lparr>wnHandles := remove1 (hHandle h) (wnHandles w)\<rparr>)"

definition Close_iface :: "win_env \<Rightarrow> ov_env \<Rightarrow> (Interface \<times> win, win_error, unit) op" where
  "Close_iface env ov s =
     (case ifIface (fst s) of
        None \<Rightarrow> (Ok (), s)
      | Some d \<Rightarrow>
          (case closePlatform env s of
             (i1, w1) \<Rightarrow> (err_map DeviceFailed (fst (Close_device ov d)), (i1\<lparr>ifIface := None\<rparr>, release ov d w1))))"

section \<open>Handles\<close>

lemma run_handles [simp]: "wnHandles (snd (run env c w)) = wnHandles w"
  by (simp add: run_def)

lemma sleep_handles [simp]: "wnHandles (sleep n w) = wnHandles w"
  by (simp add: sleep_def)

lemma write_mac_handles: "write_mac name v w = (r, w') \<Longrightarrow> wnHandles w' = wnHandles w \<and> \<not> panics r"
  by (auto simp: write_mac_def split: option.splits if_splits)

lemma restart_handles: "restartTapWindows env w = (r, w') \<Longrightarrow> wnHandles w' = wnHandles w \<and> \<not> panics r"
  by (auto simp: restartTapWindows_def run_def Let_def split: option.splits if_splits)

lemma refresh_handles: "refresh env guid m a k w = (r, w') \<Longrightarrow> wnHandles w' = wnHandles w"
  by (induction env guid m a k w rule: refresh.induct) (auto split: sum.splits option.splits prod.splits if_splits)

lemma target_mac_Some:
  "target_mac s = Ok (Some (m, t)) \<Longrightarrow> ParseMAC s = Some m \<and> length m = 6"
  by (auto simp: target_mac_def res_bind_eq_Inr split: if_splits option.splits)

lemma target_mac_valid:
  assumes "ParseMAC s = Some m" "length m = 6"
  shows "target_mac s = Ok (Some (m, join_with (CHR ''-'') (map (\<lambda>b. map upper_ascii (hex2 b)) m)))"
proof -
  have "s \<noteq> []" using assms(1) by (auto simp: ParseMAC_def)
  then show ?thesis using assms by (simp add: target_mac_def formatMACForRegistry_def)
qed

lemma target_mac_fine: "\<not> panics (target_mac s)"
  by (auto simp: target_mac_def formatMACForRegistry_def split: option.splits)

lemma apply_mac_handles:
  "apply_mac env name guid m t cur w = (r, w') \<Longrightarrow> wnHandles w' = wnHandles w \<and> \<not> panics r"
  by (auto simp: apply_mac_def st_then_def on_ok_def panics_Inl dest!: write_mac_handles restart_handles refresh_handles
      split: prod.splits sum.splits option.splits)

lemma find_handles:
  assumes "findAndConfigureTapDevice env config w = (r, w')"
  shows "wnHandles w' = wnHandles w \<and> \<not> panics r"
  using assms target_mac_fine [of "tcMACAddress config"]
  by (auto simp: findAndConfigureTapDevice_def st_then_def on_ok_def finalize_def panics_Inl dest!: apply_mac_handles
      split: prod.splits sum.splits option.splits if_splits)

lemma find_found:
  assumes "findAndConfigureTapDevice env config w = (Ok (p, guid, i, m), w')"
  shows "i \<noteq> 0 \<and> guid \<noteq> []"
  using assms
  by (auto simp: findAndConfigureTapDevice_def st_then_def on_ok_def finalize_def
      split: prod.splits sum.splits option.splits if_splits)

text \<open>C0. Opening the adapter leaks no handle: it returns a device whose handle is the only one that
  has been opened, with the index of an interface, or it fails with every handle closed that was
  opened on the way; it never panics.\<close>

theorem create_leaks_no_handle:
  "(\<exists>d h. fst (Create env config w) = Ok d \<and> wnHandles (snd (Create env config w)) = h # wnHandles w \<and>
      dvHandle d = h \<and> dvIo d = Some (NewOverlapped h 0) \<and> dvIfIndex d \<noteq> 0 \<and> dvDevType d = TAP) \<or>
   (\<exists>e. fst (Create env config w) = Fail e) \<and> wnHandles (snd (Create env config w)) = wnHandles w"
proof (cases "findAndConfigureTapDevice env config w")
  case (Pair r w1)
  note h = find_handles [OF Pair]
  show ?thesis
  proof (cases r)
    case (Inl f)
    then show ?thesis using Pair h by (cases f) (simp_all add: Create_def)
  next
    case (Inr f)
    obtain p guid i m where f: "f = (p, guid, i, m)" by (cases f)
    have "i \<noteq> 0" using find_found Pair Inr f by blast
    then show ?thesis using Pair Inr f h
      by (auto simp: Create_def new_device_def Let_def split: create_file.splits sum.splits)
  qed
qed

section \<open>The hardware address\<close>

lemma refresh_other:
  assumes "\<forall>k. findInterfaceIndexAndInfoByGUID (weAdapters env k) guid = Ok (i, Some real)" "real \<noteq> m"
  shows "fst (refresh env guid m a n w) = None"
proof (induction n arbitrary: a w)
  case (Suc n)
  then show ?case using assms by simp
qed simp

lemma restart_Ok:
  assumes "\<forall>c. \<exists>out. weRun env c = Some out \<and> TrimSpace out \<noteq> []"
  shows "\<exists>w'. restartTapWindows env w = (Ok (), w')"
proof -
  obtain out where "weRun env list_command = Some out" "TrimSpace out \<noteq> []" using assms by blast
  moreover obtain a where "weRun env (admin_command (TrimSpace out) ''disabled'') = Some a" using assms by blast
  moreover obtain b where "weRun env (admin_command (TrimSpace out) ''enabled'') = Some b" using assms by blast
  ultimately show ?thesis by (simp add: restartTapWindows_def run_def Let_def)
qed

lemma apply_mac_other:
  assumes "\<forall>k. findInterfaceIndexAndInfoByGUID (weAdapters env k) guid = Ok (i, Some real)" "real \<noteq> m"
    and "\<forall>c. \<exists>out. weRun env c = Some out \<and> TrimSpace out \<noteq> []"
    and "apply_mac env name guid m t cur w = (Ok (j, mac), w')"
  shows "mac = Some m"
proof -
  obtain w1 where "write_mac name t w = (Ok (), w1)"
    using assms(4) by (auto simp: apply_mac_def st_then_def on_ok_def split: prod.splits sum.splits)
  moreover obtain w2 where "restartTapWindows env w1 = (Ok (), w2)" using restart_Ok [OF assms(3)] by blast
  moreover obtain w3 where "refresh env guid m 0 10 w2 = (None, w3)"
    using refresh_other [OF assms(1,2)] by (metis prod.collapse)
  ultimately show ?thesis using assms(4) by (simp add: apply_mac_def)
qed

lemma find_other:
  assumes "findAndConfigureTapDevice env config w = (Ok (p, guid, j, mac), w')"
    and "target_mac (tcMACAddress config) = Ok (Some (m, t))"
    and "\<forall>k. findInterfaceIndexAndInfoByGUID (weAdapters env k) guid = Ok (i, Some real)" "real \<noteq> m"
    and "\<forall>c. \<exists>out. weRun env c = Some out \<and> TrimSpace out \<noteq> []"
  shows "mac = Some m"
proof -
  obtain name cur w1 j' where "apply_mac env name guid m t cur w = (Ok (j', mac), w1)"
    using assms(1,2)
    by (auto simp: findAndConfigureTapDevice_def st_then_def on_ok_def finalize_def
        split: prod.splits sum.splits option.splits if_splits)
  then show ?thesis by (rule apply_mac_other [OF assms(3-5)])
qed

text \<open>C0. An address that the adapter does not take is believed: when the adapter has been restarted
  and goes on reporting another address than the wanted one, the device carries the wanted one all
  the same, and the interface sends every frame to it, so the system drops the frames that the
  replacement of the destination is made for.\<close>

theorem unconfirmed_mac_is_believed:
  assumes "NewInterface env config w = (Ok i, w')" "ifIface i = Some d"
    and "target_mac (tcMACAddress config) = Ok (Some (m, t))"
    and "\<forall>k. findInterfaceIndexAndInfoByGUID (weAdapters env k) (dvName d) = Ok (idx, Some real)" "real \<noteq> m"
    and "\<forall>c. \<exists>out. weRun env c = Some out \<and> TrimSpace out \<noteq> []"
    and "14 \<le> length b" "Write_iface ov True b i = Some ((n, None), i')"
  shows "HardwareAddr i = Some m \<and>
    (\<exists>d' h'. ifIface i' = Some d' \<and> dvIo d' = Some h' \<and> hWritten h' = [(0, 0, m @ drop 6 b)])"
proof -
  obtain w1 where c: "Create env config w = (Ok d, w1)"
    using assms(1,2) by (auto simp: NewInterface_def st_then_def on_ok_def split: if_splits prod.splits sum.splits)
  then obtain p guid j mac w2 h where f: "findAndConfigureTapDevice env config w = (Ok (p, guid, j, mac), w2)"
    and d: "d = new_device config (p, guid, j, mac) h"
    by (auto simp: Create_def st_then_def on_ok_def Let_def split: if_splits prod.splits sum.splits create_file.splits)
  have "mac = Some m"
    using find_other [OF f assms(3) _ assms(5,6)] assms(4) d by (simp add: new_device_def)
  then have m: "dvMacAddr d = Some m" "dvIo d = Some (NewOverlapped h 0)" using d by (simp_all add: new_device_def)
  then have "HardwareAddr i = Some m" using assms(2) by (simp add: HardwareAddr_def GetMACAddress_def)
  moreover have "length m = 6" using target_mac_Some assms(3) by blast
  ultimately show ?thesis
    using written_frame [OF assms(2) m(2,1) _ assms(7,8)] by (simp add: NewOverlapped_def)
qed

section \<open>Addresses of the adapter\<close>

lemma sockaddr_Some: "length ip = 16 \<Longrightarrow> \<exists>a. sockaddr ip = Some a"
  by (auto simp: sockaddr_def split: option.splits)

lemma length_sockaddr: "sockaddr ip = Some a \<Longrightarrow> length a = 28"
  by (auto simp: sockaddr_def To4_def split: if_splits option.splits)

definition own :: "u32 \<Rightarrow> win \<Rightarrow> (u32 \<times> sock_bytes \<times> byte) set" where
  "own idx w = {x \<in> set (wnAddrs w). fst x = idx}"

definition addr_of :: "string \<Rightarrow> (sock_bytes \<times> byte) option" where
  "addr_of c = (case ParseCIDR c of None \<Rightarrow> None | Some (ip, n, _) \<Rightarrow> map_option (\<lambda>a. (a, of_nat n)) (sockaddr ip))"

lemma addr_of_Some:
  assumes "ParseCIDR c = Some (ip, n, m)"
  obtains a where "sockaddr ip = Some a" "addr_of c = Some (a, of_nat n)"
  using sockaddr_Some [OF length_ParseCIDR [OF assms]] assms by (auto simp: addr_of_def)

lemma setMTUAndEnable_addrs: "wnAddrs (snd (setMTUAndEnable env i f m w)) = wnAddrs w"
  by (auto simp: setMTUAndEnable_def callProcErr_def Let_def split: prod.splits)

lemma deleteIPAddress_subset: "set (wnAddrs (snd (deleteIPAddress env i c w))) \<subseteq> set (wnAddrs w)"
  by (auto simp: deleteIPAddress_def delete_addr_def callProcErr_def Let_def split: option.splits prod.splits)

lemma drop_previous_subset: "set (wnAddrs (drop_previous env c i w)) \<subseteq> set (wnAddrs w)"
  using deleteIPAddress_subset by (auto simp: drop_previous_def)

text \<open>C0. An address that the system refuses counts as configured: the procedures report an error in
  their return value, and the code looks only at the last error of the thread. When the address is
  refused and the last error is 0, the configuration succeeds, the interface records the address and
  the adapter does not have it.\<close>

theorem refused_address_counts_as_configured:
  assumes "ifIface i = Some d" "dvIfIndex d \<noteq> 0" "ParseCIDR ipCIDR = Some (ip, n, msk)"
    and "\<forall>a p. \<exists>r1. weCreateAddr env (dvIfIndex d) a p = (r1, 0) \<and> r1 \<noteq> 0"
  shows "\<exists>i' w'. IfUp env ipCIDR (i, w) = (Ok (), (i', w')) \<and> ifConfiguredIP i' = ipCIDR \<and> set (wnAddrs w') \<subseteq> set (wnAddrs w)"
proof -
  obtain a where a: "sockaddr ip = Some a" using addr_of_Some [OF assms(3)] by blast
  obtain r1 where r: "weCreateAddr env (dvIfIndex d) a (of_nat n) = (r1, 0)" "r1 \<noteq> 0" using assms(4) by blast
  have "setIPAddress env (GetIfIndex i) ipCIDR (drop_previous env ipCIDR i w) = (Ok (), drop_previous env ipCIDR i w)"
    using assms(1,3) a r by (simp add: setIPAddress_def create_addr_def callProcErr_def GetIfIndex_def GetIfIndex_device_def)
  then show ?thesis
    using assms(1-3) drop_previous_subset [of env ipCIDR i w]
    by (simp add: IfUp_def ConfigureInterface_def setMTUAndEnable_addrs GetIfIndex_def GetIfIndex_device_def)
qed

text \<open>What is kept while the system does what it is asked to do: the adapter has no address or the one
  that the interface has recorded.\<close>

definition addr_inv :: "u32 \<Rightarrow> Interface \<times> win \<Rightarrow> bool" where
  "addr_inv idx s =
     (case s of (i, w) \<Rightarrow> GetIfIndex i = idx \<and> ifIface i \<noteq> None \<and>
        (if ifConfiguredIP i = [] then own idx w = {}
         else case addr_of (ifConfiguredIP i) of None \<Rightarrow> False | Some (a, p) \<Rightarrow> own idx w \<subseteq> {(idx, a, p)}))"

lemma deleteIPAddress_own:
  assumes "fst (weDeleteAddr env idx a) = 0" "addr_of c = Some (a, p)" "own idx w \<subseteq> {(idx, a, p)}"
  shows "own idx (snd (deleteIPAddress env idx c w)) = {}"
  using assms
  by (auto simp: own_def addr_of_def deleteIPAddress_def delete_addr_def callProcErr_def Let_def split: option.splits prod.splits)

lemma drop_previous_own:
  assumes "\<forall>a. weDeleteAddr env idx a = (0, 0)" "addr_inv idx (i, w)" "addr_of c = Some (a, p)"
  shows "own idx (drop_previous env c i w) \<subseteq> {(idx, a, p)}"
  using assms deleteIPAddress_own [of env idx _ "ifConfiguredIP i" _ w]
  by (auto simp: addr_inv_def drop_previous_def split: if_splits option.splits)

lemma IfUp_valid:
  assumes "\<forall>a p. weCreateAddr env idx a p = (0, 0)" "\<forall>a. weDeleteAddr env idx a = (0, 0)" "idx \<noteq> 0"
    and "addr_inv idx (i, w)" "ParseCIDR c = Some (ip, n, m)" "addr_of c = Some (a, p)"
  shows "\<exists>w'. IfUp env c (i, w) = (Ok (), (i\<lparr>ifConfiguredIP := c\<rparr>, w')) \<and> own idx w' = {(idx, a, p)}"
  using assms drop_previous_own [OF assms(2,4,6)]
  by (auto simp: IfUp_def ConfigureInterface_def addr_inv_def setIPAddress_def create_addr_def callProcErr_def addr_of_def own_def
      setMTUAndEnable_addrs Let_def)

lemma IfUp_inv:
  assumes "\<forall>a p. weCreateAddr env idx a p = (0, 0)" "\<forall>a. weDeleteAddr env idx a = (0, 0)" "idx \<noteq> 0" "addr_inv idx s"
  shows "addr_inv idx (snd (IfUp env c s))"
proof (cases "ParseCIDR c")
  case None
  obtain i w where s: "s = (i, w)" by (cases s)
  have "own idx (drop_previous env c i w) \<subseteq> own idx w" using drop_previous_subset [of env c i w] by (auto simp: own_def)
  then show ?thesis using None assms(3,4) s
    by (auto simp: IfUp_def ConfigureInterface_def setIPAddress_def addr_inv_def split: if_splits option.splits)
next
  case (Some x)
  obtain i w ip n m where s: "s = (i, w)" "x = (ip, n, m)" by (cases s; cases x)
  obtain a where a: "addr_of c = Some (a, of_nat n)" using addr_of_Some Some s(2) by blast
  have "c \<noteq> []" using Some by (auto simp: ParseCIDR_def)
  moreover obtain w' where "IfUp env c s = (Ok (), (i\<lparr>ifConfiguredIP := c\<rparr>, w'))" "own idx w' = {(idx, a, of_nat n)}"
    using IfUp_valid [OF assms(1-3) assms(4) [unfolded s(1)] Some [unfolded s(2)] a] s(1) by auto
  moreover have "GetIfIndex (i\<lparr>ifConfiguredIP := c\<rparr>) = GetIfIndex i" by (simp add: GetIfIndex_def)
  ultimately show ?thesis using assms(4) a s(1) by (simp add: addr_inv_def)
qed

lemma IfUps_inv:
  assumes "\<forall>a p. weCreateAddr env idx a p = (0, 0)" "\<forall>a. weDeleteAddr env idx a = (0, 0)" "idx \<noteq> 0" "addr_inv idx s"
  shows "addr_inv idx (foldl (\<lambda>s c. snd (IfUp env c s)) s cs)"
  using assms(4)
proof (induction cs arbitrary: s)
  case (Cons c cs)
  show ?case using Cons.IH [OF IfUp_inv [OF assms(1-3) Cons.prems]] by simp
qed simp

lemma Close_own:
  assumes "\<forall>a. weDeleteAddr env idx a = (0, 0)" "idx \<noteq> 0" "addr_inv idx s"
  shows "own idx (snd (snd (Close_iface env ov s))) = {}"
proof -
  obtain i w d where s: "s = (i, w)" "ifIface i = Some d" using assms(3) by (cases s) (auto simp: addr_inv_def)
  have r: "own idx (release ov d w') = own idx w'" for w' by (auto simp: release_def own_def split: option.splits)
  show ?thesis
    using s assms deleteIPAddress_own [of env idx _ "ifConfiguredIP i" _ w]
    by (auto simp: Close_iface_def closePlatform_def addr_inv_def r split: if_splits option.splits)
qed

text \<open>C0. On a system that does what it is asked to do the adapter has one address at a time and none at
  the end: after any sequence of configurations, with valid addresses or not, one more with a valid
  address leaves the adapter with exactly that address, and closing the interface leaves it with
  none.\<close>

theorem only_the_last_address_stays:
  assumes "\<forall>a p. weCreateAddr env idx a p = (0, 0)" "\<forall>a. weDeleteAddr env idx a = (0, 0)"
    and "ifIface i = Some d" "dvIfIndex d = idx" "idx \<noteq> 0" "ifConfiguredIP i = []" "\<forall>x \<in> set (wnAddrs w). fst x \<noteq> idx"
    and "s = foldl (\<lambda>s c. snd (IfUp env c s)) (i, w) cs" "ParseCIDR c = Some (ip, n, m)"
  shows "(\<exists>a. sockaddr ip = Some a \<and> {x \<in> set (wnAddrs (snd (snd (IfUp env c s)))). fst x = idx} = {(idx, a, of_nat n)}) \<and>
    (\<forall>x \<in> set (wnAddrs (snd (snd (Close_iface env ov s)))). fst x \<noteq> idx)"
proof -
  have "addr_inv idx (i, w)"
    using assms(3-7) by (auto simp: addr_inv_def GetIfIndex_def GetIfIndex_device_def own_def)
  from IfUps_inv [OF assms(1,2,5) this] have inv: "addr_inv idx s" using assms(8) by simp
  obtain a where a: "sockaddr ip = Some a" "addr_of c = Some (a, of_nat n)" using addr_of_Some [OF assms(9)] by blast
  obtain i' w' where s: "s = (i', w')" by (cases s)
  have "own idx (snd (snd (IfUp env c s))) = {(idx, a, of_nat n)}"
    using IfUp_valid [OF assms(1,2,5) inv [unfolded s] assms(9) a(2)] s by auto
  moreover have "\<forall>x \<in> set (wnAddrs (snd (snd (Close_iface env ov s)))). fst x \<noteq> idx"
    using Close_own [OF assms(2,5) inv, of ov] unfolding own_def by blast
  ultimately show ?thesis using a(1) by (simp add: own_def)
qed

section \<open>Examples\<close>

definition demo_tap_key :: reg_key where
  "demo_tap_key = \<lparr>rkName = ''0007'', rkQuery = True, rkQuerySet = True, rkSet = True, rkSetsValue = True,
     rkComponentId = Some ''tap0901'', rkInstanceId = Some ''{A1}'', rkNetworkAddress = None\<rparr>"

definition demo_win :: win where
  "demo_win = \<lparr>wnKeys = [demo_tap_key], wnHandles = [], wnAddrs = [], wnMtu = [], wnCommands = [], wnSleeps = []\<rparr>"

definition demo_adapter :: adapter where
  "demo_adapter = \<lparr>adName = Some (''{A1}'' @ [CHR 0x00]), adIfIndex = 7, adPhysAddr = [0, 0xFF, 1, 2, 3, 4, 0, 0], adPhysLen = 6\<rparr>"

definition demo_win_env :: win_env where
  "demo_win_env = \<lparr>weOpenKey = True, weSubKeyNames = True, weAdapters = (\<lambda>_ _. Adapters [demo_adapter]), weRun = (\<lambda>_. Some ''7''),
     weCreateFile = Opened 44, weIoControl = (\<lambda>_ _ _. Some 4), weCreateAddr = (\<lambda>_ _ _. (0, 0)), weDeleteAddr = (\<lambda>_ _. (0, 0)),
     weGetIf = (\<lambda>_ _. (0, 0)), weSetIf = (\<lambda>_ _ _. (0, 0))\<rparr>"

definition demo_tap_config :: TapConfig where
  "demo_tap_config = \<lparr>tcName = ''n2n0'', tcDevType = TAP, tcMACAddress = ''02:00:00:00:00:01'', tcPersist = False, tcOwner = 0,
     tcGroup = 0, tcPermissions = 0\<rparr>"

definition demo_iface :: Interface where
  "demo_iface = \<lparr>ifIface = Some (new_device demo_tap_config ([], ''{A1}'', 7, Some [2, 0, 0, 0, 0, 1]) 44), ifConfiguredIP = []\<rparr>"

theorem only_the_last_address_stays_witness:
  "\<exists>a. sockaddr (v4_prefix @ [10, 0, 0, 2]) = Some a \<and>
     {x \<in> set (wnAddrs (snd (snd (IfUp demo_win_env ''10.0.0.2/24''
        (foldl (\<lambda>s c. snd (IfUp demo_win_env c s)) (demo_iface, demo_win) [''10.0.0.1/24'', ''nothing'']))))). fst x = 7} = {(7, a, 24)}"
proof -
  have p: "ParseCIDR ''10.0.0.2/24'' = Some (v4_prefix @ [10, 0, 0, 2], 24, [255, 255, 255, 0])" by code_simp
  have h: "\<forall>a p. weCreateAddr demo_win_env 7 a p = (0, 0)" "\<forall>a. weDeleteAddr demo_win_env 7 a = (0, 0)"
    "ifIface demo_iface = Some (new_device demo_tap_config ([], ''{A1}'', 7, Some [2, 0, 0, 0, 0, 1]) 44)"
    "dvIfIndex (new_device demo_tap_config ([], ''{A1}'', 7, Some [2, 0, 0, 0, 0, 1]) 44) = 7" "(7 :: u32) \<noteq> 0"
    "ifConfiguredIP demo_iface = []" "\<forall>x \<in> set (wnAddrs demo_win). fst x \<noteq> (7 :: u32)"
    by (simp_all add: demo_win_env_def demo_iface_def demo_win_def new_device_def)
  show ?thesis
    using only_the_last_address_stays [OF h refl p, of "[''10.0.0.1/24'', ''nothing'']" undefined, THEN conjunct1]
    by (simp only: of_nat_numeral)
qed

theorem refused_address_counts_as_configured_witness:
  "\<exists>i' w'. IfUp (demo_win_env\<lparr>weCreateAddr := \<lambda>_ _ _. (87, 0)\<rparr>) ''10.0.0.2/24'' (demo_iface, demo_win) = (Ok (), (i', w')) \<and>
     ifConfiguredIP i' = ''10.0.0.2/24'' \<and> wnAddrs w' = []"
proof -
  have p: "ParseCIDR ''10.0.0.2/24'' = Some (v4_prefix @ [10, 0, 0, 2], 24, [255, 255, 255, 0])" by code_simp
  let ?d = "new_device demo_tap_config ([], ''{A1}'', 7, Some [2, 0, 0, 0, 0, 1]) 44"
  let ?env = "demo_win_env\<lparr>weCreateAddr := \<lambda>_ _ _. (87, 0)\<rparr>"
  have "ifIface demo_iface = Some ?d" "dvIfIndex ?d \<noteq> 0" by (simp_all add: demo_iface_def new_device_def)
  from refused_address_counts_as_configured [OF this p, of ?env demo_win]
  obtain i' w' where "IfUp ?env ''10.0.0.2/24'' (demo_iface, demo_win) = (Ok (), (i', w'))" "ifConfiguredIP i' = ''10.0.0.2/24''"
    "set (wnAddrs w') \<subseteq> set (wnAddrs demo_win)" by auto
  then show ?thesis by (auto simp: demo_win_def)
qed

definition demo_written :: ov_env where
  "demo_written = demo_kernel\<lparr>ovStart := StartDone 20\<rparr>"

definition demo_txt :: string where
  "demo_txt = join_with (CHR ''-'') (map (\<lambda>b. map upper_ascii (hex2 b)) [2, 0, 0, 0, 0, 1])"

lemma demo_target: "target_mac (tcMACAddress demo_tap_config) = Ok (Some ([2, 0, 0, 0, 0, 1], demo_txt))"
proof -
  have h: "hexdigit 0 = CHR ''0''" "hexdigit 1 = CHR ''1''" "hexdigit 2 = CHR ''2''" by code_simp+
  have "''02:00:00:00:00:01'' = mac_string [2, 0, 0, 0, 0, 1]" by (simp add: hex2_def h h [simplified])
  then have "ParseMAC ''02:00:00:00:00:01'' = Some [2, 0, 0, 0, 0, 1]" using ParseMAC_mac_string [of "[2, 0, 0, 0, 0, 1]"]
    by (simp add: mac_size_def)
  then show ?thesis by (simp add: target_mac_valid demo_tap_config_def demo_txt_def)
qed

lemma demo_adapter_lookup: "findInterfaceIndexAndInfoByGUID (weAdapters demo_win_env k) ''{A1}'' = Ok (7, Some [0, 0xFF, 1, 2, 3, 4])"
proof -
  have "weAdapters demo_win_env k = (\<lambda>_. Adapters [demo_adapter])" by (simp add: demo_win_env_def)
  moreover have "findInterfaceIndexAndInfoByGUID (\<lambda>_. Adapters [demo_adapter]) ''{A1}'' = Ok (7, Some [0, 0xFF, 1, 2, 3, 4])" by code_simp
  ultimately show ?thesis by simp
qed

lemma demo_commands: "\<forall>c. \<exists>out. weRun demo_win_env c = Some out \<and> TrimSpace out \<noteq> []"
proof -
  have "TrimSpace ''7'' = ''7''" by (simp add: TrimSpace_def runes_ascii ascii_def trim_runes_def is_space_def)
  then show ?thesis by (simp add: demo_win_env_def)
qed

lemma demo_apply:
  "\<exists>w'. apply_mac demo_win_env ''0007'' ''{A1}'' [2, 0, 0, 0, 0, 1] t (7, m) demo_win = (Ok (7, Some [2, 0, 0, 0, 0, 1]), w')"
proof -
  obtain w1 where "write_mac ''0007'' t demo_win = (Ok (), w1)" by (simp add: write_mac_def demo_win_def demo_tap_key_def)
  moreover obtain w2 where "restartTapWindows demo_win_env w1 = (Ok (), w2)" using restart_Ok [OF demo_commands] by blast
  moreover obtain w3 where "refresh demo_win_env ''{A1}'' [2, 0, 0, 0, 0, 1] 0 10 w2 = (None, w3)"
    using refresh_other [of demo_win_env "''{A1}''" 7 "[0, 0xFF, 1, 2, 3, 4]" "[2, 0, 0, 0, 0, 1]" 0 10 w2] demo_adapter_lookup
    by (cases "refresh demo_win_env ''{A1}'' [2, 0, 0, 0, 0, 1] 0 10 w2") simp
  ultimately show ?thesis by (simp add: apply_mac_def)
qed

lemma demo_find:
  "\<exists>w'. findAndConfigureTapDevice demo_win_env demo_tap_config demo_win =
     (Ok (ps_text ''^^.^Global^'' @ ''{A1}'' @ ''.tap'', ''{A1}'', 7, Some [2, 0, 0, 0, 0, 1]), w')"
proof -
  have "find_tap True (wnKeys demo_win) = Some (''0007'', ''{A1}'')" by code_simp
  moreover have "weOpenKey demo_win_env" "weSubKeyNames demo_win_env" by (simp_all add: demo_win_env_def)
  moreover obtain w' where "apply_mac demo_win_env ''0007'' ''{A1}'' [2, 0, 0, 0, 0, 1] demo_txt (7, Some [0, 0xFF, 1, 2, 3, 4]) demo_win =
      (Ok (7, Some [2, 0, 0, 0, 0, 1]), w')" using demo_apply by blast
  ultimately show ?thesis
    unfolding findAndConfigureTapDevice_def demo_target on_ok_simps by (simp add: demo_adapter_lookup finalize_def)
qed

lemma demo_open: "\<exists>w'. NewInterface demo_win_env demo_tap_config demo_win = (Ok demo_iface, w')"
proof -
  obtain w1 where f: "findAndConfigureTapDevice demo_win_env demo_tap_config demo_win =
      (Ok (ps_text ''^^.^Global^'' @ ''{A1}'' @ ''.tap'', ''{A1}'', 7, Some [2, 0, 0, 0, 0, 1]), w1)"
    using demo_find by blast
  moreover have "CHR 0x00 \<notin> set (ps_text ''^^.^Global^'' @ ''{A1}'' @ ''.tap'')" by code_simp
  ultimately have "\<exists>w'. Create demo_win_env demo_tap_config demo_win =
      (Ok (new_device demo_tap_config ([], ''{A1}'', 7, Some [2, 0, 0, 0, 0, 1]) 44), w')"
    by (simp add: Create_def demo_win_env_def demo_tap_config_def new_device_def deviceIoControl_def GetHandle_def InvalidHandle_def Let_def)
  then show ?thesis by (auto simp: NewInterface_def demo_iface_def demo_tap_config_def)
qed

theorem unconfirmed_mac_is_believed_witness:
  "\<exists>w' i' n. NewInterface demo_win_env demo_tap_config demo_win = (Ok demo_iface, w') \<and> HardwareAddr demo_iface = Some [2, 0, 0, 0, 0, 1] \<and>
     Write_iface demo_written True (replicate 20 7) demo_iface = Some ((n, None), i') \<and>
     (\<exists>d' h'. ifIface i' = Some d' \<and> dvIo d' = Some h' \<and> hWritten h' = [(0, 0, [2, 0, 0, 0, 0, 1] @ drop 6 (replicate 20 7))])"
proof -
  let ?d = "new_device demo_tap_config ([], ''{A1}'', 7, Some [2, 0, 0, 0, 0, 1]) 44"
  have d: "ifIface demo_iface = Some ?d" by (simp add: demo_iface_def)
  have k: "\<forall>k. findInterfaceIndexAndInfoByGUID (weAdapters demo_win_env k) (dvName ?d) = Ok (7, Some [0, 0xFF, 1, 2, 3, 4])"
    using demo_adapter_lookup by (simp add: new_device_def)
  have ne: "[0, 0xFF, 1, 2, 3, 4] \<noteq> ([2, 0, 0, 0, 0, 1] :: hwaddr)" by simp
  have l: "14 \<le> length (replicate 20 (7 :: byte))" by simp
  obtain i' n where w: "Write_iface demo_written True (replicate 20 7) demo_iface = Some ((n, None), i')"
    by (simp add: Write_iface_def on_iface_def d Write_device_def on_device_def new_device_def Write_handle_def WriteTimeout_def NewOverlapped_def
        with_event_def getEvent_def asyncIo_def demo_written_def demo_kernel_def calculateTimeoutMillis_def)
  obtain w' where o: "NewInterface demo_win_env demo_tap_config demo_win = (Ok demo_iface, w')" using demo_open by blast
  show ?thesis using unconfirmed_mac_is_believed [OF o d demo_target k ne demo_commands l w] o w by blast
qed

end
