(* ===== verification/Spec2Isabelle.thy ===== *)
theory Spec2Isabelle
  imports Overlay Hosts Management Natclient P2viz Transport Logstore Tapsetup
begin

text \<open>
  A verification development for n2n-go, a peer-to-peer layer 2 VPN.
\<close>

end
